(* ===== verification/Gateway_Prelude.thy ===== *)
theory Gateway_Prelude
  imports Main "HOL-Library.Word"
begin

text \<open>
  Shared vocabulary of the gateway model: how a C function can end, the fact
  collections the component proofs use, and the lemmas on lists and words that
  several components need.

  A C function that runs to its \<open>return\<close> gives \<open>Ret v\<close>. Two other endings
  leave every caller at once: the process stops (\<open>Halt\<close>, by \<open>exit\<close> or by a
  successful \<open>execl\<close>), or the C standard gives the execution no meaning
  (\<open>Undef\<close>: an access outside an object, a read of a variable that was never
  written, a dereference of a null pointer).
\<close>

named_theorems sys_defs \<open>definitions of the calls into the kernel and into libssh\<close>
named_theorems op_defs \<open>definitions of the gateway's own operations\<close>
named_theorems code_defs \<open>numeric codes and flags\<close>

datatype halt = Exited int | Execed string "string list"

datatype ub = OutOfBounds | UninitRead | NullDeref

datatype 'a outcome = Ret 'a | Halt halt | Undef ub

text \<open>\<open>chain r k\<close> continues after a C call: only a normal return runs \<open>k\<close>.\<close>

fun chain :: "'a outcome \<times> 's \<Rightarrow> ('a \<Rightarrow> 's \<Rightarrow> 'b outcome \<times> 's) \<Rightarrow> 'b outcome \<times> 's" where
  "chain (Ret a, s) k = k a s"
| "chain (Halt h, s) k = (Halt h, s)"
| "chain (Undef u, s) k = (Undef u, s)"

lemma chain_snd_inv:
  assumes "P (snd r)" and "\<And>a s. r = (Ret a, s) \<Longrightarrow> P s \<Longrightarrow> P (snd (k a s))"
  shows "P (snd (chain r k))"
  using assms by (cases "(r, k)" rule: chain.cases) auto

lemma chain_eq_Ret [simp]:
  "chain r k = (Ret b, t) \<longleftrightarrow> (\<exists>a s. r = (Ret a, s) \<and> k a s = (Ret b, t))"
  by (cases "(r, k)" rule: chain.cases) auto

lemma chain_eq_Halt:
  "chain r k = (Halt h, t) \<longleftrightarrow>
     r = (Halt h, t) \<or> (\<exists>a s. r = (Ret a, s) \<and> k a s = (Halt h, t))"
  by (cases "(r, k)" rule: chain.cases) auto

lemma chain_eq_Undef:
  "chain r k = (Undef u, t) \<longleftrightarrow>
     r = (Undef u, t) \<or> (\<exists>a s. r = (Ret a, s) \<and> k a s = (Undef u, t))"
  by (cases "(r, k)" rule: chain.cases) auto

text \<open>Conversions between C integer types: to \<open>int\<close>, and to \<open>unsigned short\<close>.\<close>

definition c_int :: "int \<Rightarrow> int" where
  "c_int x = sint (word_of_int x :: 32 word)"

definition c_ushort :: "int \<Rightarrow> 16 word" where
  "c_ushort x = word_of_int x"

lemma c_int_id: "- (2 ^ 31) \<le> x \<Longrightarrow> x < 2 ^ 31 \<Longrightarrow> c_int x = x"
  by (simp add: c_int_def sint_sbintrunc' signed_take_bit_int_eq_self)

lemma uint_c_ushort: "uint (c_ushort x) = x mod 65536"
  by (simp add: c_ushort_def uint_word_of_int)

text \<open>Lists: a prefix of a list that has enough elements.\<close>

lemma take_append_drop_length [simp]:
  "n \<le> length d \<Longrightarrow> length s = n \<Longrightarrow> length (s @ drop n d) = length d"
  by simp

lemma takeWhile_all: "\<forall>c \<in> set s. P c \<Longrightarrow> takeWhile P s = s"
  by (simp add: takeWhile_eq_all_conv)

lemma takeWhile_stop: "\<forall>c \<in> set s. P c \<Longrightarrow> \<not> P q \<Longrightarrow> takeWhile P (s @ q # r) = s"
  by (simp add: takeWhile_tail takeWhile_eq_all_conv)

lemma takeWhile_idem [simp]: "takeWhile P (takeWhile P s) = takeWhile P s"
  by (rule takeWhile_all) (auto dest: set_takeWhileD)

end
