(* ===== verification/C_Runtime.thy ===== *)
theory C_Runtime
  imports Gateway_Prelude
begin

unbundle bit_operations_syntax

text \<open>
  What \<open>gateway.c\<close> uses of the C library: character arrays as lists of cells,
  each written (\<open>Some c\<close>) or not yet written (\<open>None\<close>), the \<open>mem\<close> and \<open>str\<close>
  functions on them with their bounds, \<open>snprintf\<close> for formats made of text and
  \<open>%s\<close>, \<open>strtol\<close> in base 10 and the macros that take a wait status apart.
  An operation that would leave its object is \<open>None\<close>.
\<close>

type_synonym cell = "char option"
type_synonym buffer = "cell list"

abbreviation NUL :: char where
  "NUL \<equiv> CHR 0x00"

abbreviation TAB :: char where
  "TAB \<equiv> CHR 0x09"

abbreviation DQ :: char where
  "DQ \<equiv> CHR 0x22"

text \<open>The C string at the start of a list of bytes, and its length.\<close>

definition cstr :: "string \<Rightarrow> string" where
  "cstr s = takeWhile (\<lambda>c. c \<noteq> NUL) s"

definition strlen :: "string \<Rightarrow> nat" where
  "strlen s = length (cstr s)"

definition uninit :: "nat \<Rightarrow> buffer" where
  "uninit n = replicate n None"

definition memset :: "buffer \<Rightarrow> char \<Rightarrow> nat \<Rightarrow> buffer option" where
  "memset b c n = (if n \<le> length b then Some (replicate n (Some c) @ drop n b) else None)"

definition memcpy :: "buffer \<Rightarrow> buffer \<Rightarrow> nat \<Rightarrow> buffer option" where
  "memcpy d s n = (if n \<le> length d \<and> n \<le> length s then Some (take n s @ drop n d) else None)"

definition store :: "buffer \<Rightarrow> nat \<Rightarrow> char \<Rightarrow> buffer option" where
  "store b i c = (if i < length b then Some (b[i := Some c]) else None)"

text \<open>\<open>strncpy\<close> writes exactly \<open>n\<close> bytes: the string, cut at \<open>n\<close>, then NULs.\<close>

definition strncpy :: "buffer \<Rightarrow> string \<Rightarrow> nat \<Rightarrow> buffer option" where
  "strncpy d s n = (if n \<le> length d
     then Some (map Some (take n (cstr s) @ replicate (n - strlen s) NUL) @ drop n d)
     else None)"

text \<open>Reading a buffer as a C string fails on a cell never written and when no NUL is in it.\<close>

fun buf_cstr :: "buffer \<Rightarrow> string option" where
  "buf_cstr [] = None"
| "buf_cstr (None # b) = None"
| "buf_cstr (Some c # b) = (if c = NUL then Some [] else map_option (Cons c) (buf_cstr b))"

text \<open>The text a format of plain characters and \<open>%s\<close> directives stands for.\<close>

fun format_s :: "string \<Rightarrow> string list \<Rightarrow> string" where
  "format_s (c # d # f) (a # args) =
     (if c = CHR ''%'' \<and> d = CHR ''s'' then cstr a @ format_s f args
      else c # format_s (d # f) (a # args))"
| "format_s f args = f"

text \<open>
  \<open>snprintf\<close> stores at most \<open>size - 1\<close> characters and a NUL, and returns the
  length of the whole text.
\<close>

definition snprintf :: "buffer \<Rightarrow> nat \<Rightarrow> string \<Rightarrow> string list \<Rightarrow> (int \<times> buffer) option" where
  "snprintf b n f args =
     (let t = format_s f args; out = take (n - 1) t @ [NUL]
      in if 0 < n \<and> n \<le> length b
         then Some (int (length t), map Some out @ drop (length out) b)
         else None)"

subsection \<open>Decimal numbers\<close>

definition isspace :: "char \<Rightarrow> bool" where
  "isspace c \<longleftrightarrow> c \<in> {CHR '' '', CHR 0x09, CHR 0x0A, CHR 0x0B, CHR 0x0C, CHR 0x0D}"

definition is_digit :: "char \<Rightarrow> bool" where
  "is_digit c \<longleftrightarrow> 48 \<le> (of_char c :: nat) \<and> (of_char c :: nat) \<le> 57"

fun dec_value :: "nat \<Rightarrow> string \<Rightarrow> nat" where
  "dec_value acc [] = acc"
| "dec_value acc (c # s) =
     (if is_digit c then dec_value (10 * acc + (of_char c - 48)) s else acc)"

definition LONG_MAX :: int where
  "LONG_MAX = 2 ^ 63 - 1"

definition LONG_MIN :: int where
  "LONG_MIN = - (2 ^ 63)"

definition clamp_long :: "int \<Rightarrow> int" where
  "clamp_long v = max LONG_MIN (min LONG_MAX v)"

definition strtol10 :: "string \<Rightarrow> int" where
  "strtol10 s =
     (case dropWhile isspace (cstr s) of
        [] \<Rightarrow> 0
      | c # r \<Rightarrow>
          if c = CHR ''-'' then clamp_long (- int (dec_value 0 r))
          else if c = CHR ''+'' then clamp_long (int (dec_value 0 r))
          else clamp_long (int (dec_value 0 (c # r))))"

subsection \<open>Wait status\<close>

definition WIFEXITED :: "int \<Rightarrow> bool" where
  "WIFEXITED st \<longleftrightarrow> st AND 0x7f = 0"

definition WEXITSTATUS :: "int \<Rightarrow> int" where
  "WEXITSTATUS st = drop_bit 8 (st AND 0xff00)"

subsection \<open>Lemmas on strings and buffers\<close>

lemma cstr_no_nul [simp]: "NUL \<notin> set (cstr s)"
  by (auto simp: cstr_def dest: set_takeWhileD)

lemma cstr_id: "NUL \<notin> set s \<Longrightarrow> cstr s = s"
  unfolding cstr_def by (rule takeWhile_all) auto

lemma cstr_cstr [simp]: "cstr (cstr s) = cstr s"
  by (simp add: cstr_def)

lemma strlen_cstr [simp]: "strlen (cstr s) = strlen s"
  by (simp add: strlen_def)

lemma buf_cstr_text: "NUL \<notin> set s \<Longrightarrow> buf_cstr (map Some s @ Some NUL # r) = Some s"
  by (induction s) auto

lemma buf_cstr_no_nul: "buf_cstr b = Some s \<Longrightarrow> NUL \<notin> set s"
  by (induction b arbitrary: s rule: buf_cstr.induct) (auto split: if_splits)

lemma buf_cstr_length: "buf_cstr b = Some s \<Longrightarrow> length s < length b"
  by (induction b arbitrary: s rule: buf_cstr.induct) (auto split: if_splits)

lemma buf_cstr_prefix: "buf_cstr (map Some s @ Some NUL # r) = Some (cstr s)"
  by (induction s) (auto simp: cstr_def)

lemma WEXITSTATUS_exit: "0 \<le> c \<Longrightarrow> c < 256 \<Longrightarrow> WIFEXITED (c * 256) \<and> WEXITSTATUS (c * 256) = c"
proof -
  assume c: "0 \<le> c" "c < 256"
  have s: "c * 256 = push_bit 8 c" by (simp add: push_bit_eq_mult)
  have "push_bit 8 c AND mask 7 = take_bit 7 (push_bit 8 c)"
    by (simp add: take_bit_eq_mask)
  then have e: "push_bit 8 c AND 0x7f = 0"
    by (simp add: mask_eq_exp_minus_1 take_bit_push_bit)
  have "drop_bit 8 (push_bit 8 c AND 0xff00) = c AND drop_bit 8 0xff00"
    by (simp add: drop_bit_push_bit)
  also have "\<dots> = c AND mask 8" by (simp add: mask_eq_exp_minus_1)
  also have "\<dots> = take_bit 8 c" by (simp add: take_bit_eq_mask)
  also have "\<dots> = c" using c by (simp add: take_bit_int_eq_self)
  finally show ?thesis using e by (simp add: s WIFEXITED_def WEXITSTATUS_def)
qed

subsection \<open>The contract of checked memory\<close>

text \<open>
  The auth component clears its key buffer with one operation and fills it with
  another; what it relies on is that both stay inside the buffer, keep its size
  and say which bytes are there afterwards.
\<close>

locale checked_memory =
  fixes fill :: "'b \<Rightarrow> char \<Rightarrow> nat \<Rightarrow> 'b option"
    and copy :: "'b \<Rightarrow> 'b \<Rightarrow> nat \<Rightarrow> 'b option"
    and cells :: "'b \<Rightarrow> char option list"
  assumes fill_ok: "n \<le> length (cells b) \<Longrightarrow>
      \<exists>b'. fill b c n = Some b' \<and> cells b' = replicate n (Some c) @ drop n (cells b)"
    and fill_bad: "length (cells b) < n \<Longrightarrow> fill b c n = None"
    and copy_ok: "n \<le> length (cells d) \<Longrightarrow> n \<le> length (cells s) \<Longrightarrow>
      \<exists>d'. copy d s n = Some d' \<and> cells d' = take n (cells s) @ drop n (cells d)"
    and copy_bad: "length (cells d) < n \<or> length (cells s) < n \<Longrightarrow> copy d s n = None"
begin

lemmas memory_laws = fill_ok fill_bad copy_ok copy_bad

lemma fill_iff: "(\<exists>b'. fill b c n = Some b') \<longleftrightarrow> n \<le> length (cells b)"
  using fill_ok [of n b c] fill_bad [of b n c] by (cases "n \<le> length (cells b)") auto

lemma fill_all: "length (cells b) = n \<Longrightarrow> \<exists>b'. fill b c n = Some b' \<and> cells b' = replicate n (Some c)"
  using fill_ok [of n b c] by simp

lemma fill_keeps_size: "fill b c n = Some b' \<Longrightarrow> length (cells b') = length (cells b)"
  using fill_ok [of n b c] fill_bad [of b n c] by (cases "n \<le> length (cells b)") auto

lemma copy_keeps_size: "copy d s n = Some d' \<Longrightarrow> length (cells d') = length (cells d)"
  using copy_ok [of n d s] copy_bad [of d n s]
  by (cases "n \<le> length (cells d) \<and> n \<le> length (cells s)") auto

lemma copy_whole:
  assumes "length (cells d) = n" and "n \<le> length (cells s)"
  shows "\<exists>d'. copy d s n = Some d' \<and> cells d' = take n (cells s)"
  using copy_ok [of n d s] assms by simp

end

interpretation mem: checked_memory memset memcpy "\<lambda>b. b"
  by unfold_locales (auto simp: memset_def memcpy_def)

end
