(* ===== verification/Libssh_Codes.thy ===== *)
theory Libssh_Codes
  imports Gateway_Prelude
begin

unbundle bit_operations_syntax

text \<open>
  The numeric codes of \<open>include/libssh/libssh.h\<close> and \<open>include/libssh/poll.h\<close>
  that pass between the gateway and libssh: return codes, authentication
  results, authentication methods, session status flags and poll events. An
  \<open>enum\<close> is a datatype with the function that gives each constant its value.
\<close>

subsection \<open>Return codes\<close>

definition SSH_OK :: int where [code_defs]: "SSH_OK = 0"
definition SSH_ERROR :: int where [code_defs]: "SSH_ERROR = - 1"
definition SSH_AGAIN :: int where [code_defs]: "SSH_AGAIN = - 2"
definition SSH_EOF :: int where [code_defs]: "SSH_EOF = - 127"

subsection \<open>Authentication\<close>

datatype ssh_auth_e =
    SSH_AUTH_SUCCESS
  | SSH_AUTH_DENIED
  | SSH_AUTH_PARTIAL
  | SSH_AUTH_INFO
  | SSH_AUTH_AGAIN
  | SSH_AUTH_ERROR

primrec ssh_auth_code :: "ssh_auth_e \<Rightarrow> int" where
  "ssh_auth_code SSH_AUTH_SUCCESS = 0"
| "ssh_auth_code SSH_AUTH_DENIED = 1"
| "ssh_auth_code SSH_AUTH_PARTIAL = 2"
| "ssh_auth_code SSH_AUTH_INFO = 3"
| "ssh_auth_code SSH_AUTH_AGAIN = 4"
| "ssh_auth_code SSH_AUTH_ERROR = - 1"

lemma ssh_auth_code_inject [simp]: "ssh_auth_code a = ssh_auth_code b \<longleftrightarrow> a = b"
  by (cases a; cases b) simp_all

definition SSH_AUTH_METHOD_PASSWORD :: int where
  [code_defs]: "SSH_AUTH_METHOD_PASSWORD = 0x0002"

subsection \<open>Options of a listening socket\<close>

datatype ssh_bind_options_e =
    SSH_BIND_OPTIONS_BINDADDR
  | SSH_BIND_OPTIONS_BINDPORT
  | SSH_BIND_OPTIONS_BINDPORT_STR
  | SSH_BIND_OPTIONS_HOSTKEY
  | SSH_BIND_OPTIONS_DSAKEY
  | SSH_BIND_OPTIONS_RSAKEY
  | SSH_BIND_OPTIONS_BANNER
  | SSH_BIND_OPTIONS_LOG_VERBOSITY
  | SSH_BIND_OPTIONS_LOG_VERBOSITY_STR
  | SSH_BIND_OPTIONS_ECDSAKEY

subsection \<open>Session status flags\<close>

definition SSH_CLOSED :: int where [code_defs]: "SSH_CLOSED = 0x01"
definition SSH_READ_PENDING :: int where [code_defs]: "SSH_READ_PENDING = 0x02"
definition SSH_CLOSED_ERROR :: int where [code_defs]: "SSH_CLOSED_ERROR = 0x04"
definition SSH_WRITE_PENDING :: int where [code_defs]: "SSH_WRITE_PENDING = 0x08"

definition POLLIN :: int where [code_defs]: "POLLIN = 0x001"

text \<open>\<open>gateway.c\<close> waits for either way a session can be closed.\<close>

definition SESSION_END :: int where
  "SESSION_END = SSH_CLOSED OR SSH_CLOSED_ERROR"

lemma SESSION_END_value: "SESSION_END = 5"
  by (simp add: SESSION_END_def code_defs)

lemma pending_flags_not_end:
  "SSH_READ_PENDING AND SESSION_END = 0" "SSH_WRITE_PENDING AND SESSION_END = 0"
  "(SSH_READ_PENDING OR SSH_WRITE_PENDING) AND SESSION_END = 0"
  by (simp_all add: SESSION_END_def code_defs)

lemma end_flags:
  "SSH_CLOSED AND SESSION_END \<noteq> 0" "SSH_CLOSED_ERROR AND SESSION_END \<noteq> 0"
  by (simp_all add: SESSION_END_def code_defs)

end
