(* ===== verification/Gateway_World.thy ===== *)
theory Gateway_World
  imports C_Runtime Libssh_Codes
begin

text \<open>
  The state of one gateway process and its calls into the kernel and libssh.

  \<^item> \<open>channel_data\<close>, \<open>session_data\<close> and \<open>winsize\<close> are the structs of
    \<open>gateway.c\<close>. The pointers \<open>cdata->winsize\<close> and \<open>cdata->sdata\<close> have one
    possible target each; \<open>cd_sdata\<close> says whether the second has been set.
  \<^item> \<open>world\<close> holds them together with what the process has registered with
    libssh and the history of every call it made, newest first.
  \<^item> \<open>env\<close> is the environment: for every call, what the kernel, libssh, the
    client or the backend answer, as a function of the history so far and the
    arguments. All of it is a parameter of the model; no theorem fixes it, and
    where a theorem relies on documented behaviour, a named law says so.
\<close>

subsection \<open>The structs\<close>

record winsize =
  ws_row :: "16 word"
  ws_col :: "16 word"
  ws_xpixel :: "16 word"
  ws_ypixel :: "16 word"

record channel_data =
  cd_pid :: int
  cd_pty_master :: int
  cd_pty_slave :: int
  cd_child_stdin :: int
  cd_child_stdout :: int
  cd_child_stderr :: int
  cd_event :: "nat option"
  cd_sdata :: bool

record session_data =
  sd_channel :: "nat option"
  sd_auth_attempts :: int
  sd_authenticated :: int
  sd_key :: buffer

subsection \<open>What libssh calls back\<close>

text \<open>
  The callbacks a poll can run, with the arguments libssh passes. The pixel
  arguments are in libssh's order: width first, then height.
\<close>

datatype (plugins only: code size) callback =
    CbAuthPassword string string
  | CbChannelOpen
  | CbPtyRequest string int int int int
  | CbWindowChange int int int int
  | CbShellRequest
  | CbData string bool
  | CbFd int int

datatype fd_callback = Process_stdout | Process_stderr

text \<open>What \<open>SIGCHLD\<close> can be set to, and the values a bind option can take.\<close>

datatype sig_action = Sigchld_handler | Sig_dfl

datatype bind_value = VText string | VUint "32 word"

subsection \<open>The history\<close>

datatype (plugins only: code size) event =
    ESocket int
  | EConnect int string nat int
  | ESendto int string int
  | ERecvfrom int nat int string
  | EOpenpty winsize "(int \<times> int) option"
  | EIoctlWinsz int winsize int
  | EFork int
  | EClose int int
  | ELoginTty int int
  | EExecl string "string list" bool
  | EKill int int int
  | EWaitpid int int
  | EWrite int string int
  | ERead int nat int string
  | EChannelNew "nat option"
  | EChannelWrite nat string
  | EChannelWriteStderr nat string
  | EChannelClose "nat option"
  | EChannelSendEof "nat option"
  | EChannelExitStatus "nat option" int
  | EChannelIsOpen "nat option" bool
  | ESetServerCallbacks nat
  | ESetChannelCallbacks "nat option"
  | EKeyExchange nat int
  | ESetAuthMethods nat int
  | EAddSession nat nat
  | EAddFd nat int int fd_callback "nat option" int
  | ERemoveFd nat int
  | EGetStatus nat int
  | EPoll nat int "callback list"
  | EPollDone nat int
  | ECallback callback int
  | EStderr string
  | EStdout string
  | EAnnounce string int
  | ESigaction sig_action int
  | ESshInit
  | EBindNew nat
  | EBindOption nat ssh_bind_options_e bind_value
  | EBindListen nat int
  | EBindFree nat
  | ESshNew "nat option"
  | EAccept nat nat int
  | EEventNew "nat option"
  | EEventFree nat
  | EDisconnect nat
  | ESshFree nat

type_synonym history = "event list"

record env =
  e_socket :: "history \<Rightarrow> int"
  e_connect :: "history \<Rightarrow> int \<Rightarrow> int"
  e_sendto :: "history \<Rightarrow> int \<Rightarrow> string \<Rightarrow> int"
  e_recvfrom :: "history \<Rightarrow> int \<Rightarrow> nat \<Rightarrow> int \<times> string"
  e_openpty :: "history \<Rightarrow> winsize \<Rightarrow> (int \<times> int) option"
  e_ioctl :: "history \<Rightarrow> int \<Rightarrow> winsize \<Rightarrow> int"
  e_fork :: "history \<Rightarrow> int"
  e_close :: "history \<Rightarrow> int \<Rightarrow> int"
  e_login_tty :: "history \<Rightarrow> int \<Rightarrow> int"
  e_execl :: "history \<Rightarrow> string \<Rightarrow> string list \<Rightarrow> bool"
  e_kill :: "history \<Rightarrow> int \<Rightarrow> int \<Rightarrow> int"
  e_waitpid :: "history \<Rightarrow> int \<Rightarrow> int \<times> int"
  e_write :: "history \<Rightarrow> int \<Rightarrow> string \<Rightarrow> int"
  e_read :: "history \<Rightarrow> int \<Rightarrow> nat \<Rightarrow> int \<times> string"
  e_channel_new :: "history \<Rightarrow> nat option"
  e_is_open :: "history \<Rightarrow> nat option \<Rightarrow> bool"
  e_key_exchange :: "history \<Rightarrow> nat \<Rightarrow> int"
  e_add_fd :: "history \<Rightarrow> int \<Rightarrow> int"
  e_status :: "history \<Rightarrow> nat \<Rightarrow> int"
  e_poll :: "history \<Rightarrow> int \<Rightarrow> callback list"
  e_poll_rc :: "history \<Rightarrow> int"
  e_error :: "history \<Rightarrow> string"
  e_sigaction :: "history \<Rightarrow> int"
  e_bind_new :: "history \<Rightarrow> nat"
  e_bind_listen :: "history \<Rightarrow> int"
  e_ssh_new :: "history \<Rightarrow> nat option"
  e_accept :: "history \<Rightarrow> int"
  e_event_new :: "history \<Rightarrow> nat option"

record world =
  w_cdata :: channel_data
  w_sdata :: session_data
  w_wsize :: winsize
  w_server_cb :: bool
  w_channel_cb :: bool
  w_polled :: "(int \<times> fd_callback \<times> nat option) list"
  w_hist :: history

abbreviation upd_cdata :: "(channel_data \<Rightarrow> channel_data) \<Rightarrow> world \<Rightarrow> world" where
  "upd_cdata f w \<equiv> w\<lparr>w_cdata := f (w_cdata w)\<rparr>"

abbreviation upd_sdata :: "(session_data \<Rightarrow> session_data) \<Rightarrow> world \<Rightarrow> world" where
  "upd_sdata f w \<equiv> w\<lparr>w_sdata := f (w_sdata w)\<rparr>"

definition note_event :: "event \<Rightarrow> world \<Rightarrow> world" where
  "note_event e w = w\<lparr>w_hist := e # w_hist w\<rparr>"

lemma note_event_fields [simp]:
  "w_cdata (note_event e w) = w_cdata w"
  "w_sdata (note_event e w) = w_sdata w"
  "w_wsize (note_event e w) = w_wsize w"
  "w_server_cb (note_event e w) = w_server_cb w"
  "w_channel_cb (note_event e w) = w_channel_cb w"
  "w_polled (note_event e w) = w_polled w"
  "w_hist (note_event e w) = e # w_hist w"
  by (simp_all add: note_event_def)

subsection \<open>Calls\<close>

definition sys_socket :: "env \<Rightarrow> world \<Rightarrow> int \<times> world" where
  [sys_defs]: "sys_socket e w = (let fd = e_socket e (w_hist w) in (fd, note_event (ESocket fd) w))"

definition sys_connect :: "env \<Rightarrow> int \<Rightarrow> string \<Rightarrow> nat \<Rightarrow> world \<Rightarrow> world" where
  [sys_defs]: "sys_connect e fd addr port w =
     note_event (EConnect fd addr port (e_connect e (w_hist w) fd)) w"

definition sys_sendto :: "env \<Rightarrow> int \<Rightarrow> string \<Rightarrow> world \<Rightarrow> world" where
  [sys_defs]: "sys_sendto e fd s w = note_event (ESendto fd s (e_sendto e (w_hist w) fd s)) w"

text \<open>
  \<open>recvfrom\<close> and \<open>read\<close> write what arrived to the front of the buffer they are
  given; an arrival longer than the buffer is cut at its size.
\<close>

definition receive :: "buffer \<Rightarrow> string \<Rightarrow> buffer" where
  "receive b s = map Some (take (length b) s) @ drop (length s) b"

definition sys_recvfrom :: "env \<Rightarrow> int \<Rightarrow> nat \<Rightarrow> buffer \<Rightarrow> world \<Rightarrow> int \<times> buffer \<times> world" where
  [sys_defs]: "sys_recvfrom e fd n b w =
     (let (r, s) = e_recvfrom e (w_hist w) fd n
      in (r, receive b s, note_event (ERecvfrom fd n r s) w))"

definition sys_openpty :: "env \<Rightarrow> world \<Rightarrow> (int \<times> int) option \<times> world" where
  [sys_defs]: "sys_openpty e w =
     (let r = e_openpty e (w_hist w) (w_wsize w) in (r, note_event (EOpenpty (w_wsize w) r) w))"

definition sys_ioctl_winsz :: "env \<Rightarrow> int \<Rightarrow> world \<Rightarrow> int \<times> world" where
  [sys_defs]: "sys_ioctl_winsz e fd w =
     (let r = e_ioctl e (w_hist w) fd (w_wsize w) in (r, note_event (EIoctlWinsz fd (w_wsize w) r) w))"

definition sys_fork :: "env \<Rightarrow> world \<Rightarrow> int \<times> world" where
  [sys_defs]: "sys_fork e w = (let p = e_fork e (w_hist w) in (p, note_event (EFork p) w))"

definition sys_close :: "env \<Rightarrow> int \<Rightarrow> world \<Rightarrow> world" where
  [sys_defs]: "sys_close e fd w = note_event (EClose fd (e_close e (w_hist w) fd)) w"

definition sys_login_tty :: "env \<Rightarrow> int \<Rightarrow> world \<Rightarrow> int \<times> world" where
  [sys_defs]: "sys_login_tty e fd w =
     (let r = e_login_tty e (w_hist w) fd in (r, note_event (ELoginTty fd r) w))"

definition sys_execl :: "env \<Rightarrow> string \<Rightarrow> string list \<Rightarrow> world \<Rightarrow> bool \<times> world" where
  [sys_defs]: "sys_execl e path args w =
     (let r = e_execl e (w_hist w) path args in (r, note_event (EExecl path args r) w))"

definition sys_kill :: "env \<Rightarrow> int \<Rightarrow> int \<Rightarrow> world \<Rightarrow> int \<times> world" where
  [sys_defs]: "sys_kill e p sig w =
     (let r = e_kill e (w_hist w) p sig in (r, note_event (EKill p sig r) w))"

text \<open>
  \<open>waitpid\<close> with \<open>WNOHANG\<close>: the status variable is written exactly when a
  process was waited for, that is when the result is positive.
\<close>

definition sys_waitpid :: "env \<Rightarrow> int \<Rightarrow> int option \<Rightarrow> world \<Rightarrow> int \<times> int option \<times> world" where
  [sys_defs]: "sys_waitpid e p rc w =
     (let (r, st) = e_waitpid e (w_hist w) p
      in (r, if 0 < r then Some st else rc, note_event (EWaitpid p r) w))"

definition sys_write :: "env \<Rightarrow> int \<Rightarrow> string \<Rightarrow> world \<Rightarrow> int \<times> world" where
  [sys_defs]: "sys_write e fd s w =
     (let r = e_write e (w_hist w) fd s in (r, note_event (EWrite fd s r) w))"

definition sys_read :: "env \<Rightarrow> int \<Rightarrow> nat \<Rightarrow> buffer \<Rightarrow> world \<Rightarrow> int \<times> buffer \<times> world" where
  [sys_defs]: "sys_read e fd n b w =
     (let (r, s) = e_read e (w_hist w) fd n in (r, receive b s, note_event (ERead fd n r s) w))"

definition ssh_channel_new :: "env \<Rightarrow> world \<Rightarrow> nat option \<times> world" where
  [sys_defs]: "ssh_channel_new e w =
     (let c = e_channel_new e (w_hist w) in (c, note_event (EChannelNew c) w))"

definition ssh_channel_is_open :: "env \<Rightarrow> nat option \<Rightarrow> world \<Rightarrow> bool \<times> world" where
  [sys_defs]: "ssh_channel_is_open e c w =
     (let r = e_is_open e (w_hist w) c in (r, note_event (EChannelIsOpen c r) w))"

definition ssh_handle_key_exchange :: "env \<Rightarrow> nat \<Rightarrow> world \<Rightarrow> int \<times> world" where
  [sys_defs]: "ssh_handle_key_exchange e s w =
     (let r = e_key_exchange e (w_hist w) s in (r, note_event (EKeyExchange s r) w))"

definition ssh_get_status :: "env \<Rightarrow> nat \<Rightarrow> world \<Rightarrow> int \<times> world" where
  [sys_defs]: "ssh_get_status e s w =
     (let r = e_status e (w_hist w) s in (r, note_event (EGetStatus s r) w))"

text \<open>Registering a descriptor succeeds or fails; libssh polls it only when it succeeded.\<close>

definition ssh_event_add_fd ::
    "env \<Rightarrow> nat \<Rightarrow> int \<Rightarrow> int \<Rightarrow> fd_callback \<Rightarrow> nat option \<Rightarrow> world \<Rightarrow> int \<times> world" where
  [sys_defs]: "ssh_event_add_fd e ev fd events cb ud w =
     (let r = e_add_fd e (w_hist w) fd;
          w1 = note_event (EAddFd ev fd events cb ud r) w
      in (r, if r = SSH_OK then w1\<lparr>w_polled := (fd, cb, ud) # w_polled w1\<rparr> else w1))"

definition ssh_event_remove_fd :: "nat \<Rightarrow> int \<Rightarrow> world \<Rightarrow> world" where
  [sys_defs]: "ssh_event_remove_fd ev fd w =
     (note_event (ERemoveFd ev fd) w)\<lparr>w_polled := filter (\<lambda>(f, _). f \<noteq> fd) (w_polled w)\<rparr>"

definition print_error :: "env \<Rightarrow> world \<Rightarrow> world" where
  [sys_defs]: "print_error e w = note_event (EStderr (e_error e (w_hist w) @ ''\<newline>'')) w"

subsection \<open>What the history says\<close>

text \<open>
  Descriptors this process has been given and has not closed, and children it
  has forked and not waited for. A \<open>fork\<close> that returns 0 starts a process with
  no children of its own.
\<close>

fun open_fds :: "history \<Rightarrow> int set" where
  "open_fds [] = {}"
| "open_fds (ESocket fd # h) = (if fd < 0 then open_fds h else insert fd (open_fds h))"
| "open_fds (EOpenpty ws (Some (m, s)) # h) = insert m (insert s (open_fds h))"
| "open_fds (EClose fd r # h) = open_fds h - {fd}"
| "open_fds (x # h) = open_fds h"

fun children :: "history \<Rightarrow> int set" where
  "children [] = {}"
| "children (EFork p # h) =
     (if p = 0 then {} else if p < 0 then children h else insert p (children h))"
| "children (EWaitpid q r # h) = (if r > 0 then children h - {r} else children h)"
| "children (x # h) = children h"

definition polls :: "history \<Rightarrow> nat" where
  "polls h = length (filter (\<lambda>x. case x of EPoll _ _ _ \<Rightarrow> True | _ \<Rightarrow> False) h)"

lemma polls_simps [simp]:
  "polls [] = 0"
  "polls (x # h) = (case x of EPoll _ _ _ \<Rightarrow> Suc (polls h) | _ \<Rightarrow> polls h)"
  by (simp add: polls_def) (cases x, simp_all add: polls_def)

lemma finite_children [simp]: "finite (children h)"
  by (induction h rule: children.induct) auto

lemma children_pos: "p \<in> children h \<Longrightarrow> 0 < p"
  by (induction h rule: children.induct) (auto split: if_splits)

lemma finite_open_fds [simp]: "finite (open_fds h)"
  by (induction h rule: open_fds.induct) auto

subsection \<open>Laws of the environment\<close>

text \<open>
  Documented behaviour that theorems name as hypotheses where they need it.
  \<open>transfer_ok\<close> is what \<open>read\<close> and \<open>recvfrom\<close> promise: the number of bytes
  stored, at most what was asked for, or -1 and nothing stored.
\<close>

definition transfer_ok :: "nat \<Rightarrow> int \<times> string \<Rightarrow> bool" where
  "transfer_ok n = (\<lambda>(r, s). if r < 0 then r = - 1 \<and> s = [] else r = int (length s) \<and> length s \<le> n)"

definition recv_lawful :: "env \<Rightarrow> bool" where
  "recv_lawful e \<longleftrightarrow> (\<forall>h fd n. transfer_ok n (e_recvfrom e h fd n))"

definition read_lawful :: "env \<Rightarrow> bool" where
  "read_lawful e \<longleftrightarrow> (\<forall>h fd n. transfer_ok n (e_read e h fd n))"

text \<open>\<open>fork\<close> fails with -1; in the parent it returns the pid of a new child.\<close>

definition fork_lawful :: "env \<Rightarrow> bool" where
  "fork_lawful e \<longleftrightarrow> (\<forall>h. - 1 \<le> e_fork e h \<and> e_fork e h \<notin> children h)"

text \<open>\<open>waitpid\<close> hands out only children that have not been waited for, and only those asked for.\<close>

definition wait_lawful :: "env \<Rightarrow> bool" where
  "wait_lawful e \<longleftrightarrow> (\<forall>h p. 0 < fst (e_waitpid e h p) \<longrightarrow>
     fst (e_waitpid e h p) \<in> children h \<and> (0 < p \<longrightarrow> fst (e_waitpid e h p) = p))"

text \<open>
  Signal 0 reaches a child that has not been waited for, running or not, and the
  caller's own process group (pid 0).
\<close>

definition kill_lawful :: "env \<Rightarrow> bool" where
  "kill_lawful e \<longleftrightarrow> (\<forall>h p. p = 0 \<or> p \<in> children h \<longrightarrow> 0 \<le> e_kill e h p 0)"

text \<open>\<open>openpty\<close> returns two new descriptors.\<close>

definition pty_lawful :: "env \<Rightarrow> bool" where
  "pty_lawful e \<longleftrightarrow> (\<forall>h ws. case e_openpty e h ws of None \<Rightarrow> True
     | Some (m, s) \<Rightarrow> 0 \<le> m \<and> 0 \<le> s \<and> m \<noteq> s \<and> m \<notin> open_fds h \<and> s \<notin> open_fds h)"

lemma transfer_okD: "transfer_ok n (r, s) \<Longrightarrow> r = - 1 \<and> s = [] \<or> r = int (length s) \<and> length s \<le> n"
  by (auto simp: transfer_ok_def split: if_splits)

lemma recv_lawfulD:
  "recv_lawful e \<Longrightarrow> e_recvfrom e h fd n = (r, s) \<Longrightarrow>
     r = - 1 \<and> s = [] \<or> r = int (length s) \<and> length s \<le> n"
  by (rule transfer_okD) (metis recv_lawful_def)

lemma read_lawfulD:
  "read_lawful e \<Longrightarrow> e_read e h fd n = (r, s) \<Longrightarrow>
     r = - 1 \<and> s = [] \<or> r = int (length s) \<and> length s \<le> n"
  by (rule transfer_okD) (metis read_lawful_def)

lemma fork_lawfulD: "fork_lawful e \<Longrightarrow> - 1 \<le> e_fork e h" "fork_lawful e \<Longrightarrow> e_fork e h \<notin> children h"
  by (simp_all add: fork_lawful_def)

lemma wait_lawfulD:
  "wait_lawful e \<Longrightarrow> e_waitpid e h p = (r, st) \<Longrightarrow> 0 < r \<Longrightarrow> r \<in> children h \<and> (0 < p \<longrightarrow> r = p)"
  unfolding wait_lawful_def by (metis fst_conv)

end
