(* ===== verification/Gateway_Sample.thy ===== *)
theory Gateway_Sample
  imports Gateway_World
begin

text \<open>
  A concrete environment for the witnesses: a backend that grants every request,
  a kernel that keeps its documented promises, and a client that follows a
  script with one list of callbacks per poll. The channel stays open until the
  script has been played.
\<close>

definition sample_key :: string where
  "sample_key = replicate 64 CHR ''k''"

definition sample_env :: "callback list list \<Rightarrow> env" where
  "sample_env script = \<lparr>
     e_socket = (\<lambda>h. 3),
     e_connect = (\<lambda>h fd. 0),
     e_sendto = (\<lambda>h fd s. int (length s)),
     e_recvfrom = (\<lambda>h fd n. if 64 \<le> n then (64, sample_key) else (- 1, [])),
     e_openpty = (\<lambda>h ws. if 5 \<in> open_fds h \<or> 6 \<in> open_fds h then None else Some (5, 6)),
     e_ioctl = (\<lambda>h fd ws. 0),
     e_fork = (\<lambda>h. if 100 \<in> children h then - 1 else 100),
     e_close = (\<lambda>h fd. if fd < 0 then - 1 else 0),
     e_login_tty = (\<lambda>h fd. 0),
     e_execl = (\<lambda>h path args. True),
     e_kill = (\<lambda>h p sig. if p = 0 \<or> p \<in> children h then 0 else - 1),
     e_waitpid = (\<lambda>h p. (0, 0)),
     e_write = (\<lambda>h fd s. int (length s)),
     e_read = (\<lambda>h fd n. if 5 \<le> n then (5, ''hello'') else (- 1, [])),
     e_channel_new = (\<lambda>h. Some 7),
     e_is_open = (\<lambda>h c. c \<noteq> None \<and> polls h < length script),
     e_key_exchange = (\<lambda>h s. 0),
     e_add_fd = (\<lambda>h fd. 0),
     e_status = (\<lambda>h s. 1),
     e_poll = (\<lambda>h t. if polls h < length script then script ! polls h else []),
     e_poll_rc = (\<lambda>h. 0),
     e_error = (\<lambda>h. ''error''),
     e_sigaction = (\<lambda>h. 0),
     e_bind_new = (\<lambda>h. 1),
     e_bind_listen = (\<lambda>h. 0),
     e_ssh_new = (\<lambda>h. Some 2),
     e_accept = (\<lambda>h. 0),
     e_event_new = (\<lambda>h. Some 4)\<rparr>"

lemma sample_env_simps [simp]:
  "e_socket (sample_env script) h = 3"
  "e_connect (sample_env script) h fd = 0"
  "e_sendto (sample_env script) h fd s = int (length s)"
  "e_recvfrom (sample_env script) h fd n = (if 64 \<le> n then (64, sample_key) else (- 1, []))"
  "e_openpty (sample_env script) h ws =
     (if 5 \<in> open_fds h \<or> 6 \<in> open_fds h then None else Some (5, 6))"
  "e_ioctl (sample_env script) h fd ws = 0"
  "e_fork (sample_env script) h = (if 100 \<in> children h then - 1 else 100)"
  "e_close (sample_env script) h fd = (if fd < 0 then - 1 else 0)"
  "e_login_tty (sample_env script) h fd = 0"
  "e_execl (sample_env script) h path args"
  "e_kill (sample_env script) h p sig = (if p = 0 \<or> p \<in> children h then 0 else - 1)"
  "e_waitpid (sample_env script) h p = (0, 0)"
  "e_write (sample_env script) h fd s = int (length s)"
  "e_read (sample_env script) h fd n = (if 5 \<le> n then (5, ''hello'') else (- 1, []))"
  "e_channel_new (sample_env script) h = Some 7"
  "e_is_open (sample_env script) h c \<longleftrightarrow> c \<noteq> None \<and> polls h < length script"
  "e_key_exchange (sample_env script) h sess = 0"
  "e_add_fd (sample_env script) h fd = 0"
  "e_status (sample_env script) h sess = 1"
  "e_poll (sample_env script) h t = (if polls h < length script then script ! polls h else [])"
  "e_poll_rc (sample_env script) h = 0"
  "e_sigaction (sample_env script) h = 0"
  "e_bind_new (sample_env script) h = 1"
  "e_bind_listen (sample_env script) h = 0"
  "e_ssh_new (sample_env script) h = Some 2"
  "e_accept (sample_env script) h = 0"
  "e_event_new (sample_env script) h = Some 4"
  by (simp_all add: sample_env_def)

lemma length_sample_key [simp]: "length sample_key = 64"
  by (simp add: sample_key_def)

lemma sample_lawful [simp]:
  "recv_lawful (sample_env script)" "read_lawful (sample_env script)"
  "fork_lawful (sample_env script)" "wait_lawful (sample_env script)"
  "kill_lawful (sample_env script)" "pty_lawful (sample_env script)"
  by (auto dest: children_pos simp: recv_lawful_def read_lawful_def fork_lawful_def
      wait_lawful_def kill_lawful_def pty_lawful_def transfer_ok_def)

text \<open>The state of a process before it has done anything.\<close>

definition blank_world :: world where
  "blank_world = \<lparr>
     w_cdata = \<lparr>cd_pid = 0, cd_pty_master = - 1, cd_pty_slave = - 1, cd_child_stdin = - 1,
       cd_child_stdout = - 1, cd_child_stderr = - 1, cd_event = None, cd_sdata = True\<rparr>,
     w_sdata = \<lparr>sd_channel = None, sd_auth_attempts = 0, sd_authenticated = 0,
       sd_key = replicate 65 (Some NUL)\<rparr>,
     w_wsize = \<lparr>ws_row = 0, ws_col = 0, ws_xpixel = 0, ws_ypixel = 0\<rparr>,
     w_server_cb = False, w_channel_cb = False, w_polled = [], w_hist = []\<rparr>"

lemma blank_world_simps [simp]:
  "w_hist blank_world = []" "sd_key (w_sdata blank_world) = replicate 65 (Some NUL)"
  "w_wsize blank_world = \<lparr>ws_row = 0, ws_col = 0, ws_xpixel = 0, ws_ypixel = 0\<rparr>"
  "cd_pid (w_cdata blank_world) = 0" "cd_pty_master (w_cdata blank_world) = - 1"
  by (simp_all add: blank_world_def)

text \<open>A login followed by a terminal, a shell and some typing.\<close>

definition login_script :: "callback list list" where
  "login_script =
     [[CbAuthPassword ''bob'' ''secret'', CbChannelOpen],
      [CbPtyRequest ''xterm'' 80 24 640 480, CbShellRequest],
      [CbData ''hi'' False]]"

end
