(* ===== verification/Gateway_Auth.thy ===== *)
theory Gateway_Auth
  imports Gateway_Sample
begin

text \<open>
  Password authentication (\<open>getkey\<close> and \<open>auth_password\<close> of
  \<open>src/gateway.c\<close>): the gateway asks the backend on 127.0.0.1:8420 for a
  one-time key and keeps the 64 bytes it answers with.
\<close>

subsection \<open>The request\<close>

definition SENDBUF_SIZE :: nat where [code_defs]: "SENDBUF_SIZE = 256"
definition RECVBUF_SIZE :: nat where [code_defs]: "RECVBUF_SIZE = 128"

definition quoted :: "string \<Rightarrow> string" where
  "quoted s = DQ # s @ [DQ]"

definition auth_format :: string where
  "auth_format = ''{'' @ quoted ''type'' @ '':'' @ quoted ''auth'' @
     '','' @ quoted ''username'' @ '':'' @ quoted ''%s'' @
     '','' @ quoted ''password'' @ '':'' @ quoted ''%s'' @ ''}''"

definition auth_request :: "string \<Rightarrow> string \<Rightarrow> string" where
  "auth_request u p = format_s auth_format [u, p]"

subsection \<open>getkey\<close>

text \<open>
  The result is the C return value with the key buffer afterwards. The two
  buffers on the stack start out unwritten; every store into them is checked.
\<close>

definition getkey ::
    "env \<Rightarrow> string \<Rightarrow> string \<Rightarrow> buffer \<Rightarrow> world \<Rightarrow> (int \<times> buffer) outcome \<times> world" where
  "getkey e username password key w =
     (if strlen username = 0 \<or> strlen username > 32 then (Ret (0, key), w)
      else if strlen password = 0 \<or> strlen password > 64 then (Ret (0, key), w)
      else (case snprintf (uninit SENDBUF_SIZE) SENDBUF_SIZE auth_format [username, password] of
        None \<Rightarrow> (Undef OutOfBounds, w)
      | Some (n, sendbuf) \<Rightarrow>
          if n > int SENDBUF_SIZE then (Ret (0, key), w)
          else
            let (sockfd, w) = sys_socket e w;
                w = sys_connect e sockfd ''127.0.0.1'' 8420 w
            in (case buf_cstr sendbuf of
                  None \<Rightarrow> (Undef OutOfBounds, w)
                | Some msg \<Rightarrow>
                    let w = sys_sendto e sockfd msg w;
                        (n, recvbuf, w) = sys_recvfrom e sockfd RECVBUF_SIZE (uninit 128) w
                    in if n \<noteq> 64 then (Ret (0, key), w)
                       else (case store recvbuf (nat n) NUL of
                               None \<Rightarrow> (Undef OutOfBounds, w)
                             | Some recvbuf \<Rightarrow>
                                 (case memcpy key recvbuf 65 of
                                    None \<Rightarrow> (Undef OutOfBounds, w)
                                  | Some key \<Rightarrow> (Ret (1, key), w))))))"

subsection \<open>auth\_password\<close>

definition auth_password ::
    "env \<Rightarrow> string \<Rightarrow> string \<Rightarrow> world \<Rightarrow> int outcome \<times> world" where
  "auth_password e user pass w =
     (case memset (sd_key (w_sdata w)) NUL 65 of
        None \<Rightarrow> (Undef OutOfBounds, w)
      | Some cleared \<Rightarrow>
          chain (getkey e user pass cleared (upd_sdata (sd_key_update (\<lambda>_. cleared)) w))
            (\<lambda>(r, key) w.
               let w = upd_sdata (sd_key_update (\<lambda>_. key)) w
               in if r \<noteq> 0
                  then (Ret (ssh_auth_code SSH_AUTH_SUCCESS),
                        upd_sdata (sd_authenticated_update (\<lambda>_. 1)) w)
                  else (Ret (ssh_auth_code SSH_AUTH_DENIED),
                        upd_sdata (sd_auth_attempts_update (\<lambda>n. n + 1)) w)))"

subsection \<open>The request fits its buffer\<close>

text \<open>Credentials the length checks let through.\<close>

definition lengths_ok :: "string \<Rightarrow> string \<Rightarrow> bool" where
  "lengths_ok u p \<longleftrightarrow> 1 \<le> strlen u \<and> strlen u \<le> 32 \<and> 1 \<le> strlen p \<and> strlen p \<le> 64"

definition request_head :: string where
  "request_head = ''{'' @ quoted ''type'' @ '':'' @ quoted ''auth'' @
     '','' @ quoted ''username'' @ '':'' @ [DQ]"

definition request_mid :: string where
  "request_mid = [DQ] @ '','' @ quoted ''password'' @ '':'' @ [DQ]"

definition request_tail :: string where
  "request_tail = [DQ] @ ''}''"

lemmas request_parts = request_head_def request_mid_def request_tail_def quoted_def

lemma auth_request_eq:
  "auth_request u p = request_head @ cstr u @ request_mid @ cstr p @ request_tail"
  by (simp add: auth_request_def auth_format_def request_parts)

lemma request_no_nul: "NUL \<notin> set (auth_request u p)"
  by (simp add: auth_request_eq request_parts)

lemma length_auth_request: "length (auth_request u p) = 43 + strlen u + strlen p"
  by (simp add: auth_request_eq request_parts strlen_def)

lemma snprintf_auth:
  assumes "lengths_ok u p"
  shows "snprintf (uninit SENDBUF_SIZE) SENDBUF_SIZE auth_format [u, p] =
    Some (int (length (auth_request u p)),
          map Some (auth_request u p @ [NUL]) @ uninit (255 - length (auth_request u p)))"
proof -
  have len: "length (auth_request u p) \<le> 139"
    using assms by (simp add: length_auth_request lengths_ok_def)
  have cut: "take 255 (auth_request u p) = auth_request u p"
    using len by simp
  show ?thesis
    using len cut
    by (simp add: snprintf_def SENDBUF_SIZE_def uninit_def auth_request_def [symmetric] Let_def)
qed

lemma buf_cstr_request:
  "buf_cstr (map Some (auth_request u p @ [NUL]) @ r) = Some (auth_request u p)"
  using buf_cstr_text [OF request_no_nul, of u p r] by simp

subsection \<open>What one attempt does\<close>

text \<open>The history after the request has been sent, the reply to it, and the history after that.\<close>

definition request_log :: "env \<Rightarrow> string \<Rightarrow> string \<Rightarrow> history \<Rightarrow> history" where
  "request_log e u p h =
     (let fd = e_socket e h; h = ESocket fd # h;
          h = EConnect fd ''127.0.0.1'' 8420 (e_connect e h fd) # h
      in ESendto fd (auth_request u p) (e_sendto e h fd (auth_request u p)) # h)"

definition backend_reply :: "env \<Rightarrow> string \<Rightarrow> string \<Rightarrow> history \<Rightarrow> int \<times> string" where
  "backend_reply e u p h = e_recvfrom e (request_log e u p h) (e_socket e h) 128"

definition auth_log :: "env \<Rightarrow> string \<Rightarrow> string \<Rightarrow> history \<Rightarrow> history" where
  "auth_log e u p h =
     (if lengths_ok u p
      then ERecvfrom (e_socket e h) 128 (fst (backend_reply e u p h)) (snd (backend_reply e u p h))
           # request_log e u p h
      else h)"

definition auth_accepts :: "env \<Rightarrow> string \<Rightarrow> string \<Rightarrow> history \<Rightarrow> bool" where
  "auth_accepts e u p h \<longleftrightarrow> lengths_ok u p \<and> fst (backend_reply e u p h) = 64"

definition key_of :: "string \<Rightarrow> buffer" where
  "key_of s = map Some s @ [Some NUL]"

definition no_key :: buffer where
  "no_key = replicate 65 (Some NUL)"

definition key_ok :: "buffer \<Rightarrow> bool" where
  "key_ok b \<longleftrightarrow> length b = 65 \<and> None \<notin> set b \<and> b ! 64 = Some NUL"

lemma key_ok_no_key [simp]: "key_ok no_key"
  by (simp add: key_ok_def no_key_def)

lemma key_ok_key_of: "length s = 64 \<Longrightarrow> key_ok (key_of s)"
  by (auto simp: key_ok_def key_of_def nth_append)

lemma key_ok_length: "key_ok b \<Longrightarrow> length b = 65"
  by (simp add: key_ok_def)

lemma key_ok_cstr: "key_ok b \<Longrightarrow> \<exists>k. buf_cstr b = Some k \<and> length k \<le> 64"
proof -
  assume ok: "key_ok b"
  define t where "t = map the (take 64 b)"
  have "b = take 64 b @ [b ! 64]"
    using ok take_Suc_conv_app_nth [of 64 b] by (simp add: key_ok_def)
  moreover have "map Some t = take 64 b"
    using ok unfolding t_def key_ok_def map_map
    by (intro map_idI) (metis comp_apply in_set_takeD option.collapse)
  ultimately have "b = map Some t @ [Some NUL]"
    using ok by (simp add: key_ok_def)
  then have "buf_cstr b = Some (cstr t)"
    using buf_cstr_prefix [of t "[]"] by simp
  moreover have "length (cstr t) \<le> 64"
    using length_takeWhile_le [of "\<lambda>c. c \<noteq> NUL" t] by (simp add: cstr_def t_def)
  ultimately show ?thesis by blast
qed

lemma recv_lawful_64:
  "recv_lawful e \<Longrightarrow> e_recvfrom e h fd n = (64, s) \<Longrightarrow> length s = 64"
  by (drule (1) recv_lawfulD) auto

lemma receive_64:
  assumes "length s = 64"
  shows "store (receive (uninit 128) s) 64 NUL = Some (key_of s @ uninit 63)"
  using assms
  by (simp add: store_def receive_def uninit_def key_of_def list_update_append
      numeral_eq_Suc)

lemma memcpy_key: "length key = 65 \<Longrightarrow> length s = 64 \<Longrightarrow>
    memcpy key (key_of s @ r) 65 = Some (key_of s)"
  using mem.copy_whole [of key 65 "key_of s @ r"] by (auto simp: key_of_def)

lemma memset_key: "length key = 65 \<Longrightarrow> memset key NUL 65 = Some no_key"
  using mem.fill_all [of key 65 NUL] by (auto simp: no_key_def)

text \<open>The whole of \<open>getkey\<close>, case by case.\<close>

lemma getkey_rejects: "\<not> lengths_ok u p \<Longrightarrow> getkey e u p key w = (Ret (0, key), w)"
  by (auto simp: getkey_def lengths_ok_def)

lemma getkey_asks:
  assumes "lengths_ok u p" and "length key = 65" and "recv_lawful e"
  shows "getkey e u p key w =
    (Ret (if fst (backend_reply e u p (w_hist w)) = 64
          then (1, key_of (snd (backend_reply e u p (w_hist w)))) else (0, key)),
     w\<lparr>w_hist := auth_log e u p (w_hist w)\<rparr>)"
proof -
  obtain n s where r: "backend_reply e u p (w_hist w) = (n, s)" by fastforce
  have lens: "strlen u \<noteq> 0" "\<not> 32 < strlen u" "strlen p \<noteq> 0" "\<not> 64 < strlen p"
    and short: "\<not> int SENDBUF_SIZE < int (length (auth_request u p))"
    using assms(1) by (auto simp: lengths_ok_def length_auth_request SENDBUF_SIZE_def)
  have s64: "n = 64 \<Longrightarrow> length s = 64"
    using r recv_lawful_64 [OF assms(3)] by (auto simp: backend_reply_def)
  show ?thesis
    using lens short s64 r assms(1,2)
    by (simp add: getkey_def snprintf_auth buf_cstr_request sys_defs Let_def
        auth_log_def request_log_def backend_reply_def RECVBUF_SIZE_def receive_64
        memcpy_key note_event_def del: map_append)
qed

lemma auth_password_eq:
  assumes "length (sd_key (w_sdata w)) = 65" and "recv_lawful e"
  shows "auth_password e u p w =
    (if auth_accepts e u p (w_hist w)
     then (Ret (ssh_auth_code SSH_AUTH_SUCCESS),
           w\<lparr>w_sdata := (w_sdata w)\<lparr>sd_key := key_of (snd (backend_reply e u p (w_hist w))),
                                sd_authenticated := 1\<rparr>,
             w_hist := auth_log e u p (w_hist w)\<rparr>)
     else (Ret (ssh_auth_code SSH_AUTH_DENIED),
           w\<lparr>w_sdata := (w_sdata w)\<lparr>sd_key := no_key,
                                sd_auth_attempts := sd_auth_attempts (w_sdata w) + 1\<rparr>,
             w_hist := auth_log e u p (w_hist w)\<rparr>))"
proof (cases "lengths_ok u p")
  case True
  have "length no_key = 65" by (simp add: no_key_def)
  with True assms show ?thesis
    by (auto simp: auth_password_def memset_key getkey_asks auth_accepts_def Let_def)
next
  case False
  with assms show ?thesis
    by (simp add: auth_password_def memset_key getkey_rejects auth_accepts_def auth_log_def Let_def)
qed

subsection \<open>Reading a request back\<close>

text \<open>
  The backend reads the two values back out of the request. For credentials
  without a double quote the text between the quotes is the credential.
\<close>

definition strip :: "string \<Rightarrow> string \<Rightarrow> string option" where
  "strip pre s = (if take (length pre) s = pre then Some (drop (length pre) s) else None)"

definition decode_request :: "string \<Rightarrow> (string \<times> string) option" where
  "decode_request m =
     (case strip request_head m of
        None \<Rightarrow> None
      | Some r \<Rightarrow>
          (case strip request_mid (dropWhile (\<lambda>c. c \<noteq> DQ) r) of
             None \<Rightarrow> None
           | Some q \<Rightarrow>
               if dropWhile (\<lambda>c. c \<noteq> DQ) q = request_tail
               then Some (takeWhile (\<lambda>c. c \<noteq> DQ) r, takeWhile (\<lambda>c. c \<noteq> DQ) q)
               else None))"

lemma strip_append [simp]: "strip pre (pre @ s) = Some s"
  by (simp add: strip_def)

lemma until_quote:
  assumes "DQ \<notin> set u"
  shows "takeWhile (\<lambda>c. c \<noteq> DQ) (u @ DQ # r) = u" "dropWhile (\<lambda>c. c \<noteq> DQ) (u @ DQ # r) = DQ # r"
  using assms by (auto simp: takeWhile_tail takeWhile_all dropWhile_append3 dropWhile_eq_Cons_conv)

subsection \<open>Properties\<close>

text \<open>
  C23: Authentication, case by case. On a 65-byte key buffer and with a kernel
  whose \<open>recvfrom\<close> reports what it stored, \<open>auth_password\<close> never leaves a
  buffer and always returns. It answers \<open>SSH_AUTH_SUCCESS\<close> exactly when both
  credentials have an admissible length and the backend's reply to the request
  is 64 bytes; then the key buffer holds those bytes and a NUL and the session
  is authenticated. Otherwise it answers \<open>SSH_AUTH_DENIED\<close>, the key is all NULs
  and the attempt is counted. The history grows by the one exchange with the
  backend, and by nothing if a length is not admissible.
\<close>

theorem auth_password_correct:
  assumes "recv_lawful e" and "key_ok (sd_key (w_sdata w))"
  shows "\<exists>r w'. auth_password e u p w = (Ret r, w')
    \<and> (r = ssh_auth_code SSH_AUTH_SUCCESS \<longleftrightarrow>
        lengths_ok u p \<and> fst (backend_reply e u p (w_hist w)) = 64)
    \<and> (r = ssh_auth_code SSH_AUTH_SUCCESS \<and> sd_authenticated (w_sdata w') = 1
         \<and> sd_key (w_sdata w') = key_of (snd (backend_reply e u p (w_hist w)))
         \<and> sd_auth_attempts (w_sdata w') = sd_auth_attempts (w_sdata w)
       \<or> r = ssh_auth_code SSH_AUTH_DENIED
         \<and> sd_authenticated (w_sdata w') = sd_authenticated (w_sdata w)
         \<and> sd_key (w_sdata w') = no_key
         \<and> sd_auth_attempts (w_sdata w') = sd_auth_attempts (w_sdata w) + 1)
    \<and> key_ok (sd_key (w_sdata w'))
    \<and> sd_channel (w_sdata w') = sd_channel (w_sdata w) \<and> w_cdata w' = w_cdata w
    \<and> w_hist w' = auth_log e u p (w_hist w)"
proof -
  note eq = auth_password_eq [OF key_ok_length [OF assms(2)] assms(1), of u p]
  have "length (snd (backend_reply e u p (w_hist w))) = 64" if "fst (backend_reply e u p (w_hist w)) = 64"
    using that recv_lawful_64 [OF assms(1)] unfolding backend_reply_def by (metis prod.collapse)
  then show ?thesis
    by (cases "auth_accepts e u p (w_hist w)") (auto simp: eq auth_accepts_def key_ok_key_of)
qed

lemma lengths_ok_bob [simp]: "lengths_ok ''bob'' ''secret''"
  by (simp add: lengths_ok_def strlen_def cstr_def)

theorem auth_password_correct_witness:
  "recv_lawful (sample_env []) \<and> key_ok (sd_key (w_sdata blank_world)) \<and>
   (\<exists>w'. auth_password (sample_env []) ''bob'' ''secret'' blank_world
          = (Ret (ssh_auth_code SSH_AUTH_SUCCESS), w') \<and> sd_key (w_sdata w') = key_of sample_key)"
proof -
  have h: "recv_lawful (sample_env [])" "key_ok (sd_key (w_sdata blank_world))"
    using key_ok_no_key by (simp_all add: no_key_def)
  have "fst (backend_reply (sample_env []) ''bob'' ''secret'' []) = 64"
    "snd (backend_reply (sample_env []) ''bob'' ''secret'' []) = sample_key"
    by (simp_all add: backend_reply_def)
  then show ?thesis
    using h auth_password_correct [OF h, of "''bob''" "''secret''"] by auto
qed

text \<open>
  The request always fits. For credentials within the length limits,
  \<open>snprintf\<close> into the 256-byte buffer truncates nothing, the buffer read as a C
  string is the whole request, and the request is at most 139 bytes; the test
  \<open>n > SENDBUF_SIZE\<close> of \<open>getkey\<close> is never true.
\<close>

theorem auth_request_fits:
  assumes "lengths_ok u p"
  shows "\<exists>n b. snprintf (uninit SENDBUF_SIZE) SENDBUF_SIZE auth_format [u, p] = Some (n, b)
    \<and> length b = SENDBUF_SIZE \<and> buf_cstr b = Some (auth_request u p)
    \<and> n = int (43 + strlen u + strlen p) \<and> n \<le> 139 \<and> \<not> n > int SENDBUF_SIZE"
proof (intro exI conjI)
  show "snprintf (uninit SENDBUF_SIZE) SENDBUF_SIZE auth_format [u, p] =
      Some (int (length (auth_request u p)),
            map Some (auth_request u p @ [NUL]) @ uninit (255 - length (auth_request u p)))"
    by (rule snprintf_auth [OF assms])
  show "buf_cstr (map Some (auth_request u p @ [NUL]) @ uninit (255 - length (auth_request u p))) =
      Some (auth_request u p)"
    by (rule buf_cstr_request)
qed (use assms in \<open>simp_all add: length_auth_request lengths_ok_def SENDBUF_SIZE_def uninit_def\<close>)

theorem auth_request_fits_witness:
  "lengths_ok ''bob'' ''secret'' \<and>
   (\<exists>n b. snprintf (uninit SENDBUF_SIZE) SENDBUF_SIZE auth_format [''bob'', ''secret''] = Some (n, b)
      \<and> buf_cstr b = Some (auth_request ''bob'' ''secret'') \<and> n \<le> 139)"
  using auth_request_fits [OF lengths_ok_bob] by auto

text \<open>
  Round trip of the request: for credentials without double quotes and NULs
  the two values can be read back from the bytes sent, so different credentials
  never give the same request.
\<close>

theorem auth_request_roundtrip:
  assumes "DQ \<notin> set u" "NUL \<notin> set u" "DQ \<notin> set p" "NUL \<notin> set p"
  shows "decode_request (auth_request u p) = Some (u, p)"
proof -
  obtain m t where m: "request_mid = DQ # m" and t: "request_tail = DQ # t"
    by (simp add: request_parts)
  show ?thesis
    using assms until_quote [OF assms(1)] until_quote [OF assms(3)]
      strip_append [of "request_mid"]
    by (simp add: decode_request_def auth_request_eq cstr_id m t)
qed

theorem auth_request_roundtrip_witness:
  "decode_request (auth_request ''bob'' ''secret'') = Some (''bob'', ''secret'')"
  by (rule auth_request_roundtrip) simp_all

text \<open>
  The request is ambiguous when credentials may hold double quotes: nothing
  escapes them, so two different pairs of credentials within the length limits give
  the same bytes.
\<close>

theorem auth_request_ambiguous:
  "\<exists>u p u' p'. (u, p) \<noteq> (u', p') \<and> lengths_ok u p \<and> lengths_ok u' p'
     \<and> auth_request u p = auth_request u' p'"
proof -
  define u where "u = ''a'' @ request_mid @ ''b''"
  define p' where "p' = ''b'' @ request_mid @ ''c''"
  have mid: "NUL \<notin> set request_mid" "length request_mid = 14"
    by (simp_all add: request_parts)
  then have c: "cstr u = u" "cstr p' = p'" "cstr ''a'' = ''a''" "cstr ''c'' = ''c''"
    by (auto intro!: cstr_id simp: u_def p'_def)
  have "auth_request u ''c'' = auth_request ''a'' p'"
    by (simp add: auth_request_eq c) (simp add: u_def p'_def)
  moreover have "lengths_ok u ''c''" "lengths_ok ''a'' p'"
    using mid(2) by (simp_all add: lengths_ok_def strlen_def c) (simp_all add: u_def p'_def)
  moreover have "u \<noteq> ''a''"
    by (simp add: u_def)
  ultimately show ?thesis by blast
qed

text \<open>
  An attempt with admissible credentials opens one socket to the backend
  and never closes it: the descriptor is open afterwards, whatever the answer.
\<close>

theorem auth_leaks_socket:
  assumes "recv_lawful e" and "key_ok (sd_key (w_sdata w))" and "lengths_ok u p"
    and "0 \<le> e_socket e (w_hist w)"
  shows "open_fds (w_hist (snd (auth_password e u p w))) =
    insert (e_socket e (w_hist w)) (open_fds (w_hist w))"
  using assms(3,4) auth_password_eq [OF key_ok_length [OF assms(2)] assms(1), of u p]
  by (simp add: auth_log_def request_log_def Let_def)

theorem auth_leaks_socket_witness:
  "open_fds (w_hist (snd (auth_password (sample_env []) ''bob'' ''secret'' blank_world))) = {3}"
  using auth_leaks_socket [of "sample_env []" blank_world "''bob''" "''secret''"] key_ok_no_key
  by (simp add: no_key_def)

end
