(* ===== verification/Gateway_Channel.thy ===== *)
theory Gateway_Channel
  imports Gateway_World
begin

unbundle bit_operations_syntax

text \<open>
  The channel callbacks of \<open>src/gateway.c\<close>: terminal allocation and resizing,
  starting the BBS client on the terminal, and moving bytes between the SSH
  channel and the child process.
\<close>

definition BUF_SIZE :: nat where [code_defs]: "BUF_SIZE = 1048576"
definition SIGKILL :: int where [code_defs]: "SIGKILL = 9"

subsection \<open>From the client to the child\<close>

definition data_function :: "env \<Rightarrow> string \<Rightarrow> bool \<Rightarrow> world \<Rightarrow> int \<times> world" where
  [op_defs]: "data_function e dat is_stderr w =
     (if length dat = 0 \<or> cd_pid (w_cdata w) < 1 then (0, w)
      else let (k, w) = sys_kill e (cd_pid (w_cdata w)) 0 w
           in if k < 0 then (0, w)
              else let (n, w) = sys_write e (cd_child_stdin (w_cdata w)) dat w
                   in (c_int n, w))"

subsection \<open>The terminal\<close>

text \<open>The four assignments to the fields of \<open>*cdata->winsize\<close>, each to an \<open>unsigned short\<close>.\<close>

definition set_winsize :: "int \<Rightarrow> int \<Rightarrow> int \<Rightarrow> int \<Rightarrow> world \<Rightarrow> world" where
  [op_defs]: "set_winsize cols rows py px w =
     w\<lparr>w_wsize := \<lparr>ws_row = c_ushort rows, ws_col = c_ushort cols,
                   ws_xpixel = c_ushort px, ws_ypixel = c_ushort py\<rparr>\<rparr>"

definition pty_request ::
    "env \<Rightarrow> string \<Rightarrow> int \<Rightarrow> int \<Rightarrow> int \<Rightarrow> int \<Rightarrow> world \<Rightarrow> int \<times> world" where
  [op_defs]: "pty_request e trm cols rows py px w =
     (let w = set_winsize cols rows py px w;
          (r, w) = sys_openpty e w
      in case r of
           None \<Rightarrow> (SSH_ERROR, note_event (EStderr ''Failed to open pty\<newline>'') w)
         | Some (m, s) \<Rightarrow>
             (SSH_OK, upd_cdata (\<lambda>c. c\<lparr>cd_pty_master := m, cd_pty_slave := s\<rparr>) w))"

definition pty_resize :: "env \<Rightarrow> int \<Rightarrow> int \<Rightarrow> int \<Rightarrow> int \<Rightarrow> world \<Rightarrow> int \<times> world" where
  [op_defs]: "pty_resize e cols rows py px w =
     (let w = set_winsize cols rows py px w
      in if cd_pty_master (w_cdata w) \<noteq> - 1
         then sys_ioctl_winsz e (cd_pty_master (w_cdata w)) w
         else (SSH_ERROR, w))"

subsection \<open>Starting the BBS client\<close>

text \<open>
  \<open>fork\<close> answers this process: a negative number, 0 in the child, the child's
  pid in the parent. The child leaves this program in one of three ways.
\<close>

definition exec_child :: "env \<Rightarrow> world \<Rightarrow> int outcome \<times> world" where
  [op_defs]: "exec_child e w =
     (let w = sys_close e (cd_pty_master (w_cdata w)) w;
          (r, w) = sys_login_tty e (cd_pty_slave (w_cdata w)) w
      in if r \<noteq> 0 then (Halt (Exited 1), w)
         else if \<not> cd_sdata (w_cdata w) then (Undef NullDeref, w)
         else case buf_cstr (sd_key (w_sdata w)) of
           None \<Rightarrow> (Undef OutOfBounds, w)
         | Some key \<Rightarrow>
             let (ok, w) = sys_execl e ''/usr/bin/node'' [''node'', ''bbs.js'', key] w
             in (Halt (if ok then Execed ''/usr/bin/node'' [''node'', ''bbs.js'', key]
                       else Exited 0), w))"

definition exec_pty :: "env \<Rightarrow> world \<Rightarrow> int outcome \<times> world" where
  [op_defs]: "exec_pty e w =
     (let (p, w) = sys_fork e w;
          w = upd_cdata (cd_pid_update (\<lambda>_. p)) w
      in if p = - 1 then
           let w = sys_close e (cd_pty_master (w_cdata w)) w;
               w = sys_close e (cd_pty_slave (w_cdata w)) w
           in (Ret SSH_ERROR, note_event (EStderr ''Failed to fork\<newline>'') w)
         else if p = 0 then exec_child e w
         else
           let w = sys_close e (cd_pty_slave (w_cdata w)) w
           in (Ret SSH_OK,
               upd_cdata (\<lambda>c. c\<lparr>cd_child_stdin := cd_pty_master c,
                               cd_child_stdout := cd_pty_master c\<rparr>) w))"

lemma exec_pty_eq:
  assumes "sys_fork e w = (p, w1)" and "w2 = upd_cdata (cd_pid_update (\<lambda>_. p)) w1"
  shows "exec_pty e w =
    (if p = - 1 then
       (Ret SSH_ERROR, note_event (EStderr ''Failed to fork\<newline>'')
         (sys_close e (cd_pty_slave (w_cdata w2)) (sys_close e (cd_pty_master (w_cdata w2)) w2)))
     else if p = 0 then exec_child e w2
     else (Ret SSH_OK, upd_cdata (\<lambda>c. c\<lparr>cd_child_stdin := cd_pty_master c,
             cd_child_stdout := cd_pty_master c\<rparr>) (sys_close e (cd_pty_slave (w_cdata w2)) w2)))"
  using assms by (simp add: exec_pty_def Let_def sys_close_def)

definition shell_request :: "env \<Rightarrow> world \<Rightarrow> int outcome \<times> world" where
  [op_defs]: "shell_request e w =
     (if cd_pid (w_cdata w) > 0 then (Ret SSH_ERROR, w)
      else if cd_pty_master (w_cdata w) \<noteq> - 1 \<and> cd_pty_slave (w_cdata w) \<noteq> - 1
      then exec_pty e w
      else (Ret SSH_OK, w))"

subsection \<open>Opening the channel\<close>

definition channel_open :: "env \<Rightarrow> world \<Rightarrow> nat option \<times> world" where
  [op_defs]: "channel_open e w =
     (let (c, w) = ssh_channel_new e w
      in (c, upd_sdata (sd_channel_update (\<lambda>_. c)) w))"

subsection \<open>From the child to the client\<close>

text \<open>The first \<open>n\<close> bytes of a buffer, as passed to a call that reads them.\<close>

definition bytes_of :: "buffer \<Rightarrow> nat \<Rightarrow> string option" where
  "bytes_of b n = (if n \<le> length b \<and> None \<notin> set (take n b)
     then Some (map the (take n b)) else None)"

definition process_output ::
    "(nat \<Rightarrow> string \<Rightarrow> event) \<Rightarrow> env \<Rightarrow> int \<Rightarrow> int \<Rightarrow> nat option \<Rightarrow> world \<Rightarrow> int outcome \<times> world" where
  [op_defs]: "process_output wr e fd revents channel w =
     (case channel of
        None \<Rightarrow> (Ret (- 1), w)
      | Some c \<Rightarrow>
          if revents AND POLLIN \<noteq> 0 then
            let (r, buf, w) = sys_read e fd BUF_SIZE (uninit BUF_SIZE) w;
                n = c_int r
            in if n > 0 then
                 (case bytes_of buf (nat n) of
                    None \<Rightarrow> (Undef OutOfBounds, w)
                  | Some dat \<Rightarrow> (Ret n, note_event (wr c dat) w))
               else (Ret n, w)
          else (Ret (- 1), w))"

definition process_stdout ::
    "env \<Rightarrow> int \<Rightarrow> int \<Rightarrow> nat option \<Rightarrow> world \<Rightarrow> int outcome \<times> world" where
  [op_defs]: "process_stdout = process_output EChannelWrite"

definition process_stderr ::
    "env \<Rightarrow> int \<Rightarrow> int \<Rightarrow> nat option \<Rightarrow> world \<Rightarrow> int outcome \<times> world" where
  [op_defs]: "process_stderr = process_output EChannelWriteStderr"

end
