(* ===== verification/Gateway_Poll.thy ===== *)
theory Gateway_Poll
  imports Gateway_Auth Gateway_Channel
begin

text \<open>
  One poll of the session's event context (\<open>ssh_event_dopoll\<close>). libssh calls
  the gateway back while the poll runs; which callbacks run, and in which order,
  is the environment's choice, but only callbacks the gateway has registered are
  run. Every return value goes into the history, where the environment sees it.
\<close>

fun registered :: "callback \<Rightarrow> world \<Rightarrow> bool" where
  "registered (CbAuthPassword u p) w = w_server_cb w"
| "registered CbChannelOpen w = w_server_cb w"
| "registered (CbFd fd revents) w = (fd \<in> fst ` set (w_polled w))"
| "registered cb w = w_channel_cb w"

definition int_result :: "int \<times> world \<Rightarrow> int outcome \<times> world" where
  [op_defs]: "int_result r = (Ret (fst r), snd r)"

definition pointer_result :: "nat option \<times> world \<Rightarrow> int outcome \<times> world" where
  [op_defs]: "pointer_result r = (Ret (if fst r = None then 0 else 1), snd r)"

fun process_fd :: "env \<Rightarrow> int \<Rightarrow> int \<Rightarrow> (fd_callback \<times> nat option) option \<Rightarrow> world \<Rightarrow> int outcome \<times> world" where
  "process_fd e fd revents (Some (Process_stdout, ud)) w = process_stdout e fd revents ud w"
| "process_fd e fd revents (Some (Process_stderr, ud)) w = process_stderr e fd revents ud w"
| "process_fd e fd revents None w = (Ret 0, w)"

text \<open>
  The arguments of a window callback arrive in libssh's order and are passed on
  by position: what libssh calls pixel width is \<open>py\<close> in \<open>gateway.c\<close>.
\<close>

fun invoke :: "env \<Rightarrow> callback \<Rightarrow> world \<Rightarrow> int outcome \<times> world" where
  "invoke e (CbAuthPassword u p) w = auth_password e u p w"
| "invoke e CbChannelOpen w = pointer_result (channel_open e w)"
| "invoke e (CbPtyRequest trm a b c d) w = int_result (pty_request e trm a b c d w)"
| "invoke e (CbWindowChange a b c d) w = int_result (pty_resize e a b c d w)"
| "invoke e CbShellRequest w = shell_request e w"
| "invoke e (CbData dat is_stderr) w = int_result (data_function e dat is_stderr w)"
| "invoke e (CbFd fd revents) w = process_fd e fd revents (map_of (w_polled w) fd) w"

definition deliver :: "env \<Rightarrow> callback \<Rightarrow> world \<Rightarrow> unit outcome \<times> world" where
  [op_defs]: "deliver e cb w =
     (if registered cb w
      then chain (invoke e cb w) (\<lambda>r w. (Ret (), note_event (ECallback cb r) w))
      else (Ret (), w))"

fun run_callbacks :: "env \<Rightarrow> callback list \<Rightarrow> world \<Rightarrow> unit outcome \<times> world" where
  "run_callbacks e [] w = (Ret (), w)"
| "run_callbacks e (cb # cbs) w = chain (deliver e cb w) (\<lambda>_ w. run_callbacks e cbs w)"

definition ssh_event_dopoll :: "env \<Rightarrow> nat \<Rightarrow> int \<Rightarrow> world \<Rightarrow> int outcome \<times> world" where
  [op_defs]: "ssh_event_dopoll e ev timeout w =
     (let cbs = e_poll e (w_hist w) timeout
      in chain (run_callbacks e cbs (note_event (EPoll ev timeout cbs) w))
           (\<lambda>_ w. let r = e_poll_rc e (w_hist w) in (Ret r, note_event (EPollDone ev r) w)))"

end
