(* ===== verification/Gateway_Session.thy ===== *)
theory Gateway_Session
  imports Gateway_Poll
begin

unbundle bit_operations_syntax

text \<open>
  One SSH session (\<open>handle_session\<close> of \<open>src/gateway.c\<close>), in the phases the
  function has: set-up and key exchange, the wait for authentication, the main
  loop that serves the child, the tear-down, and the wait for the client to go.
\<close>

subsection \<open>Set-up\<close>

text \<open>The local variables, as their initialisers leave them.\<close>

definition init_locals :: "world \<Rightarrow> world" where
  [op_defs]: "init_locals w = w\<lparr>
     w_wsize := \<lparr>ws_row = 0, ws_col = 0, ws_xpixel = 0, ws_ypixel = 0\<rparr>,
     w_cdata := \<lparr>cd_pid = 0, cd_pty_master = - 1, cd_pty_slave = - 1, cd_child_stdin = - 1,
       cd_child_stdout = - 1, cd_child_stderr = - 1, cd_event = None, cd_sdata = True\<rparr>,
     w_sdata := \<lparr>sd_channel = None, sd_auth_attempts = 0, sd_authenticated = 0,
       sd_key = replicate 65 (Some NUL)\<rparr>,
     w_server_cb := False, w_channel_cb := False, w_polled := []\<rparr>"

definition set_server_callbacks :: "nat \<Rightarrow> world \<Rightarrow> world" where
  [op_defs]: "set_server_callbacks sess w = note_event (ESetServerCallbacks sess) w\<lparr>w_server_cb := True\<rparr>"

definition set_channel_callbacks :: "world \<Rightarrow> world" where
  [op_defs]: "set_channel_callbacks w =
     note_event (ESetChannelCallbacks (sd_channel (w_sdata w))) w\<lparr>w_channel_cb := True\<rparr>"

subsection \<open>Waiting for authentication\<close>

text \<open>\<open>Ret True\<close> leaves the loop by its condition, \<open>Ret False\<close> is the early \<open>return\<close>.\<close>

function auth_loop :: "env \<Rightarrow> nat \<Rightarrow> nat \<Rightarrow> world \<Rightarrow> bool outcome \<times> world" where
  "auth_loop e ev n w =
     (if sd_authenticated (w_sdata w) = 0 \<or> sd_channel (w_sdata w) = None then
        if sd_auth_attempts (w_sdata w) \<ge> 3 \<or> n \<ge> 100 then (Ret False, w)
        else case ssh_event_dopoll e ev 100 w of
          (Ret r, w1) \<Rightarrow>
            if r = SSH_ERROR then (Ret False, print_error e w1) else auth_loop e ev (n + 1) w1
        | (Halt h, w1) \<Rightarrow> (Halt h, w1)
        | (Undef u, w1) \<Rightarrow> (Undef u, w1)
      else (Ret True, w))"
  by pat_completeness auto
termination
  by (relation "measure (\<lambda>(e, ev, n, w). 100 - n)") auto

declare auth_loop.simps [simp del]

subsection \<open>The main loop\<close>

definition register_output ::
    "env \<Rightarrow> nat \<Rightarrow> int \<Rightarrow> fd_callback \<Rightarrow> string \<Rightarrow> world \<Rightarrow> world" where
  [op_defs]: "register_output e ev fd cb msg w =
     (if fd \<noteq> - 1 then
        let (r, w) = ssh_event_add_fd e ev fd POLLIN cb (sd_channel (w_sdata w)) w
        in if r \<noteq> SSH_OK
           then note_event (EChannelClose (sd_channel (w_sdata w))) (note_event (EStderr msg) w)
           else w
      else w)"

definition start_child_io :: "env \<Rightarrow> nat \<Rightarrow> world \<Rightarrow> world" where
  [op_defs]: "start_child_io e ev w =
     (if cd_event (w_cdata w) \<noteq> None \<or> cd_pid (w_cdata w) = 0 then w
      else
        let w = upd_cdata (cd_event_update (\<lambda>_. Some ev)) w;
            w = register_output e ev (cd_child_stdout (w_cdata w)) Process_stdout
                  ''Failed to register stdout to poll context\<newline>'' w
        in register_output e ev (cd_child_stderr (w_cdata w)) Process_stderr
             ''Failed to register stderr to poll context\<newline>'' w)"

definition loop_body :: "env \<Rightarrow> nat \<Rightarrow> world \<Rightarrow> unit outcome \<times> world" where
  [op_defs]: "loop_body e ev w =
     chain (ssh_event_dopoll e ev (- 1) w)
       (\<lambda>r w.
          let w = (if r = SSH_ERROR
                   then note_event (EChannelClose (sd_channel (w_sdata w))) w else w)
          in (Ret (), start_child_io e ev w))"

text \<open>
  The condition of the \<open>do ... while\<close>: \<open>waitpid\<close> runs only if the channel is
  open and a child has been forked. \<open>rc\<close> is \<open>None\<close> until it is first written.
\<close>

definition loop_cond :: "env \<Rightarrow> int option \<Rightarrow> world \<Rightarrow> bool \<times> int option \<times> world" where
  [op_defs]: "loop_cond e rc w =
     (let (isopen, w) = ssh_channel_is_open e (sd_channel (w_sdata w)) w
      in if \<not> isopen then (False, rc, w)
         else if cd_pid (w_cdata w) = 0 then (True, rc, w)
         else let (r, rc, w) = sys_waitpid e (cd_pid (w_cdata w)) rc w
              in (r = 0, rc, w))"

text \<open>Nothing bounds the number of rounds, so the loop has fuel; \<open>None\<close> is \<open>still running\<close>.\<close>

fun main_loop :: "nat \<Rightarrow> env \<Rightarrow> nat \<Rightarrow> int option \<Rightarrow> world \<Rightarrow>
    (int option outcome \<times> world) option" where
  "main_loop 0 e ev rc w = None"
| "main_loop (Suc fuel) e ev rc w =
     (case loop_body e ev w of
        (Ret _, w1) \<Rightarrow>
          (case loop_cond e rc w1 of
             (go, rc1, w2) \<Rightarrow> if go then main_loop fuel e ev rc1 w2 else Some (Ret rc1, w2))
      | (Halt h, w1) \<Rightarrow> Some (Halt h, w1)
      | (Undef u, w1) \<Rightarrow> Some (Undef u, w1))"

subsection \<open>Tear-down\<close>

definition close_descriptors :: "env \<Rightarrow> nat \<Rightarrow> world \<Rightarrow> world" where
  [op_defs]: "close_descriptors e ev w =
     (let w = sys_close e (cd_pty_master (w_cdata w)) w;
          w = sys_close e (cd_child_stdin (w_cdata w)) w;
          w = sys_close e (cd_child_stdout (w_cdata w)) w;
          w = sys_close e (cd_child_stderr (w_cdata w)) w;
          w = ssh_event_remove_fd ev (cd_child_stdout (w_cdata w)) w
      in ssh_event_remove_fd ev (cd_child_stderr (w_cdata w)) w)"

definition kill_child :: "env \<Rightarrow> world \<Rightarrow> world" where
  [op_defs]: "kill_child e w =
     (if cd_pid (w_cdata w) > 0 then snd (sys_kill e (cd_pid (w_cdata w)) SIGKILL w) else w)"

definition end_child :: "env \<Rightarrow> int option \<Rightarrow> world \<Rightarrow> unit outcome \<times> world" where
  [op_defs]: "end_child e rc w =
     (let (k, w) = sys_kill e (cd_pid (w_cdata w)) 0 w
      in if k < 0 then
           (case rc of
              None \<Rightarrow> (Undef UninitRead, w)
            | Some st \<Rightarrow>
                if WIFEXITED st
                then (Ret (), note_event (EChannelExitStatus (sd_channel (w_sdata w)) (WEXITSTATUS st)) w)
                else (Ret (), kill_child e w))
         else (Ret (), kill_child e w))"

function final_wait :: "env \<Rightarrow> nat \<Rightarrow> nat \<Rightarrow> nat \<Rightarrow> world \<Rightarrow> unit outcome \<times> world" where
  "final_wait e ev sess n w =
     (if n < 50 then
        let (st, w1) = ssh_get_status e sess w
        in if st AND SESSION_END = 0
           then case ssh_event_dopoll e ev 100 w1 of
               (Ret _, w2) \<Rightarrow> final_wait e ev sess (n + 1) w2
             | (Halt h, w2) \<Rightarrow> (Halt h, w2)
             | (Undef u, w2) \<Rightarrow> (Undef u, w2)
           else (Ret (), w1)
      else (Ret (), w))"
  by pat_completeness auto
termination
  by (relation "measure (\<lambda>(e, ev, sess, n, w). 50 - n)") auto

declare final_wait.simps [simp del]

definition teardown :: "env \<Rightarrow> nat \<Rightarrow> nat \<Rightarrow> int option \<Rightarrow> world \<Rightarrow> unit outcome \<times> world" where
  [op_defs]: "teardown e ev sess rc w =
     chain (end_child e rc (close_descriptors e ev w))
       (\<lambda>_ w.
          let w = note_event (EChannelSendEof (sd_channel (w_sdata w))) w;
              w = note_event (EChannelClose (sd_channel (w_sdata w))) w
          in final_wait e ev sess 0 w)"

subsection \<open>The whole session\<close>

definition begin_session :: "env \<Rightarrow> nat \<Rightarrow> nat \<Rightarrow> world \<Rightarrow> bool \<times> world" where
  [op_defs]: "begin_session e ev sess w =
     (let w = set_server_callbacks sess (init_locals w);
          (r, w) = ssh_handle_key_exchange e sess w
      in if r \<noteq> SSH_OK then (False, print_error e w)
         else (True, note_event (EAddSession ev sess)
                       (note_event (ESetAuthMethods sess SSH_AUTH_METHOD_PASSWORD) w)))"

definition handle_session ::
    "nat \<Rightarrow> env \<Rightarrow> nat \<Rightarrow> nat \<Rightarrow> world \<Rightarrow> (unit outcome \<times> world) option" where
  [op_defs]: "handle_session fuel e ev sess w =
     (case begin_session e ev sess w of
        (False, w) \<Rightarrow> Some (Ret (), w)
      | (True, w) \<Rightarrow>
          (case auth_loop e ev 0 w of
             (Ret False, w) \<Rightarrow> Some (Ret (), w)
           | (Ret True, w) \<Rightarrow>
               (case main_loop fuel e ev None (set_channel_callbacks w) of
                  None \<Rightarrow> None
                | Some (Ret rc, w) \<Rightarrow> Some (teardown e ev sess rc w)
                | Some (Halt h, w) \<Rightarrow> Some (Halt h, w)
                | Some (Undef u, w) \<Rightarrow> Some (Undef u, w))
           | (Halt h, w) \<Rightarrow> Some (Halt h, w)
           | (Undef u, w) \<Rightarrow> Some (Undef u, w)))"

end
