(* ===== verification/Session_Contracts.thy ===== *)
theory Session_Contracts
  imports Gateway_Session
begin

text \<open>
  How a property of the gateway's state is carried through a session. A
  postcondition has three parts, one per way a C function can end. The locale
  \<open>poll_contract\<close> says what a property must satisfy for a poll to keep it: each
  single callback keeps it, and so do the events that only record something.
  \<open>session_contract\<close> adds the steps of the main loop. Everything that loops
  (callback lists, the two polling loops, the main loop) is proved here once.
\<close>

fun ensures ::
    "('s \<Rightarrow> bool) \<Rightarrow> (halt \<Rightarrow> 's \<Rightarrow> bool) \<Rightarrow> (ub \<Rightarrow> 's \<Rightarrow> bool) \<Rightarrow> 'a outcome \<times> 's \<Rightarrow> bool" where
  "ensures I H U (Ret a, w) = I w"
| "ensures I H U (Halt h, w) = H h w"
| "ensures I H U (Undef u, w) = U u w"

lemma ensures_chain:
  assumes "ensures J H U r" and "\<And>a w. r = (Ret a, w) \<Longrightarrow> J w \<Longrightarrow> ensures I H U (k a w)"
  shows "ensures I H U (chain r k)"
  using assms by (cases "(r, k)" rule: chain.cases) auto

lemma ensures_cases:
  "ensures I H U r \<longleftrightarrow> (case r of (Ret a, w) \<Rightarrow> I w | (Halt h, w) \<Rightarrow> H h w | (Undef u, w) \<Rightarrow> U u w)"
  by (cases "(I, H, U, r)" rule: ensures.cases) auto

lemma ensures_mono:
  assumes "ensures I H U r"
    and "\<And>w. I w \<Longrightarrow> I' w" "\<And>h w. H h w \<Longrightarrow> H' h w" "\<And>u w. U u w \<Longrightarrow> U' u w"
  shows "ensures I' H' U' r"
  using assms by (auto simp: ensures_cases split: prod.splits outcome.splits)

lemma ensures_Ret_snd: "fst r = Ret a \<Longrightarrow> ensures I H U r = I (snd r)"
  by (cases r) auto

text \<open>
  Events that neither make nor end a process or descriptor, nor carry a signal,
  a key or relayed bytes, nor record a callback.
\<close>

definition inert :: "event \<Rightarrow> bool" where
  "inert x = (case x of
      EFork _ \<Rightarrow> False | EKill _ _ _ \<Rightarrow> False | EWaitpid _ _ \<Rightarrow> False | EClose _ _ \<Rightarrow> False
    | ESocket _ \<Rightarrow> False | EOpenpty _ _ \<Rightarrow> False | ERecvfrom _ _ _ _ \<Rightarrow> False
    | EExecl _ _ _ \<Rightarrow> False | EWrite _ _ _ \<Rightarrow> False | EChannelWrite _ _ \<Rightarrow> False
    | EChannelWriteStderr _ _ \<Rightarrow> False | ECallback _ _ \<Rightarrow> False | _ \<Rightarrow> True)"

locale poll_contract =
  fixes e :: env
    and I :: "world \<Rightarrow> bool" and H :: "halt \<Rightarrow> world \<Rightarrow> bool" and U :: "ub \<Rightarrow> world \<Rightarrow> bool"
  assumes deliver_ok: "I w \<Longrightarrow> ensures I H U (deliver e cb w)"
    and inert_ok: "I w \<Longrightarrow> inert x \<Longrightarrow> I (note_event x w)"
begin

lemma run_callbacks_ok: "I w \<Longrightarrow> ensures I H U (run_callbacks e cbs w)"
proof (induction cbs arbitrary: w)
  case Nil
  then show ?case by simp
next
  case (Cons cb cbs)
  from deliver_ok [OF Cons.prems] show ?case
    by (simp, rule ensures_chain) (auto intro: Cons.IH)
qed

lemma dopoll_ok: "I w \<Longrightarrow> ensures I H U (ssh_event_dopoll e ev t w)"
  unfolding ssh_event_dopoll_def Let_def
  by (rule ensures_chain [OF run_callbacks_ok]) (auto intro!: inert_ok simp: inert_def)

lemma auth_loop_ok: "I w \<Longrightarrow> ensures I H U (auth_loop e ev n w)"
proof (induction "100 - n" arbitrary: n w)
  case 0
  then show ?case by (subst auth_loop.simps) auto
next
  case (Suc k)
  have next_round: "I w1 \<Longrightarrow> ensures I H U (auth_loop e ev (n + 1) w1)" for w1
    using Suc.hyps by auto
  have poll: "ensures I H U (ssh_event_dopoll e ev 100 w)"
    by (rule dopoll_ok [OF Suc.prems])
  show ?case
    using Suc.prems poll next_round
    by (subst auth_loop.simps)
      (auto simp: print_error_def inert_def intro!: inert_ok split: prod.splits outcome.splits)
qed

lemma final_wait_ok: "I w \<Longrightarrow> ensures I H U (final_wait e ev sess n w)"
proof (induction "50 - n" arbitrary: n w)
  case 0
  then show ?case by (subst final_wait.simps) auto
next
  case (Suc k)
  have next_round: "I w1 \<Longrightarrow> ensures I H U (final_wait e ev sess (n + 1) w1)" for w1
    using Suc.hyps by auto
  have st: "I (snd (ssh_get_status e sess w))"
    using Suc.prems by (auto simp: ssh_get_status_def Let_def inert_def intro: inert_ok)
  show ?case
    using Suc.prems st next_round dopoll_ok [OF st, of ev 100]
    by (subst final_wait.simps) (auto split: prod.splits outcome.splits)
qed

end

locale session_contract = poll_contract e I H U
  for e :: env and I :: "world \<Rightarrow> bool" and H :: "halt \<Rightarrow> world \<Rightarrow> bool"
    and U :: "ub \<Rightarrow> world \<Rightarrow> bool" +
  fixes Q :: "int option \<Rightarrow> world \<Rightarrow> bool"
  assumes register_ok: "I w \<Longrightarrow> I (start_child_io e ev w)"
    and stay_ok: "I w \<Longrightarrow> loop_cond e None w = (True, rc, w') \<Longrightarrow> rc = None \<and> I w'"
    and leave_ok: "I w \<Longrightarrow> loop_cond e None w = (False, rc, w') \<Longrightarrow> Q rc w'"
begin

lemma loop_body_ok: "I w \<Longrightarrow> ensures I H U (loop_body e ev w)"
  unfolding loop_body_def
  by (rule ensures_chain [OF dopoll_ok])
    (auto simp: Let_def inert_def intro!: register_ok inert_ok)

lemma main_loop_ok:
  "I w \<Longrightarrow> main_loop fuel e ev None w = Some r \<Longrightarrow>
     (case r of (Ret rc, w') \<Rightarrow> Q rc w' | (Halt h, w') \<Rightarrow> H h w' | (Undef u, w') \<Rightarrow> U u w')"
proof (induction fuel arbitrary: w)
  case 0
  then show ?case by simp
next
  case (Suc fuel)
  show ?case
  proof (cases "(e, loop_body e ev w)" rule: prod.exhaust)
    case (Pair x b)
    obtain c w1 where b: "loop_body e ev w = (c, w1)" by fastforce
    have body: "ensures I H U (c, w1)" using loop_body_ok [OF Suc.prems(1), of ev] b by simp
    show ?thesis
    proof (cases c)
      case (Ret a)
      obtain go rc w2 where cnd: "loop_cond e None w1 = (go, rc, w2)" by (metis prod_cases3)
      have I1: "I w1" using body Ret by simp
      show ?thesis
      proof (cases go)
        case True
        then have "rc = None" "I w2" using stay_ok [OF I1] cnd by auto
        then show ?thesis using Suc.IH [of w2] Suc.prems(2) b Ret cnd True by simp
      next
        case False
        then show ?thesis using leave_ok [OF I1] Suc.prems(2) b Ret cnd by auto
      qed
    qed (use body b Suc.prems(2) in auto)
  qed
qed

end

text \<open>The authentication loop lets in only an authenticated session with a channel.\<close>

lemma auth_loop_True:
  "auth_loop e ev n w = (Ret True, w') \<Longrightarrow>
     sd_authenticated (w_sdata w') \<noteq> 0 \<and> sd_channel (w_sdata w') \<noteq> None"
proof (induction "100 - n" arbitrary: n w)
  case 0
  then show ?case by (subst (asm) auth_loop.simps) (auto split: if_splits)
next
  case (Suc k)
  have "auth_loop e ev (n + 1) w1 = (Ret True, w') \<Longrightarrow>
     sd_authenticated (w_sdata w') \<noteq> 0 \<and> sd_channel (w_sdata w') \<noteq> None" for w1
    using Suc.hyps(1) [of "n + 1" w1] Suc.hyps(2) by simp
  then show ?case
    using Suc.prems by (subst (asm) auth_loop.simps) (auto split: if_splits prod.splits outcome.splits)
qed

text \<open>
  The whole of \<open>handle_session\<close>: how the property is established, and what
  entering the main loop and ending the child add. \<open>J\<close> is what holds once the
  child has been dealt with, \<open>V\<close> what may be undefined while that is done.
\<close>

locale whole_session =
  session_contract e I H U Q + fin: poll_contract e J H U
  for e :: env and I :: "world \<Rightarrow> bool" and H :: "halt \<Rightarrow> world \<Rightarrow> bool"
    and U :: "ub \<Rightarrow> world \<Rightarrow> bool" and Q :: "int option \<Rightarrow> world \<Rightarrow> bool"
    and J :: "world \<Rightarrow> bool" +
  fixes pre :: "world \<Rightarrow> bool" and V :: "ub \<Rightarrow> world \<Rightarrow> bool"
  assumes begin_ok: "pre w \<Longrightarrow> I (snd (begin_session e ev sess w))"
    and enter_ok: "I w \<Longrightarrow> sd_authenticated (w_sdata w) \<noteq> 0 \<Longrightarrow> I (set_channel_callbacks w)"
    and end_ok: "Q rc w \<Longrightarrow> ensures J H V (end_child e rc (close_descriptors e ev w))"
begin

lemma teardown_ok: "Q rc w \<Longrightarrow> ensures J H (\<lambda>u w. U u w \<or> V u w) (teardown e ev sess rc w)"
  unfolding teardown_def
  by (rule ensures_chain [where J = J])
    (auto simp: Let_def inert_def intro!: ensures_mono [OF end_ok] ensures_mono [OF fin.final_wait_ok]
      fin.inert_ok)

theorem handle_session_ok:
  assumes "pre w" and run: "handle_session fuel e ev sess w = Some r"
  shows "ensures (\<lambda>w. I w \<or> J w) H (\<lambda>u w. U u w \<or> V u w) r"
proof -
  obtain go w1 where b: "begin_session e ev sess w = (go, w1)" by fastforce
  have i1: "I w1" using begin_ok [OF assms(1), of ev sess] b by simp
  obtain q w2 where l: "auth_loop e ev 0 w1 = (q, w2)" by fastforce
  have i2: "ensures I H U (q, w2)" using auth_loop_ok [OF i1, of ev 0] l by simp
  show ?thesis
  proof (cases "go \<and> q = Ret True")
    case True
    then obtain c v where m: "main_loop fuel e ev None (set_channel_callbacks w2) = Some (c, v)"
      and r: "r = (case c of Ret rc \<Rightarrow> teardown e ev sess rc v | Halt h \<Rightarrow> (Halt h, v)
        | Undef u \<Rightarrow> (Undef u, v))"
      using run b l by (auto simp: handle_session_def split: option.splits outcome.splits)
    have i3: "I (set_channel_callbacks w2)"
      using i2 True enter_ok auth_loop_True [of e ev 0 w1 w2] l by simp
    show ?thesis
      using main_loop_ok [OF i3 m] ensures_mono [OF teardown_ok] r by (cases c) auto
  next
    case False
    then show ?thesis
      using run b l i1 i2
      by (auto simp: handle_session_def split: bool.splits outcome.splits)
  qed
qed

end

subsection \<open>Fuel\<close>

text \<open>More fuel never changes a result, so a result does not depend on the fuel.\<close>

lemma main_loop_mono: "main_loop f e ev rc w = Some r \<Longrightarrow> f \<le> f' \<Longrightarrow> main_loop f' e ev rc w = Some r"
proof (induction f arbitrary: f' rc w)
  case 0
  then show ?case by simp
next
  case (Suc f)
  then obtain g where "f' = Suc g" "f \<le> g" by (cases f') auto
  then show ?case
    using Suc by (auto split: prod.splits outcome.splits if_splits)
qed

lemma handle_session_mono:
  "handle_session f e ev sess w = Some r \<Longrightarrow> f \<le> f' \<Longrightarrow> handle_session f' e ev sess w = Some r"
  unfolding handle_session_def
  by (auto split: prod.splits outcome.splits bool.splits option.splits dest: main_loop_mono)

end
