(* ===== verification/Session_Safety.thy ===== *)
theory Session_Safety
  imports Session_Contracts
begin

unbundle bit_operations_syntax

text \<open>
  What holds throughout a session, whatever the client, the backend and the
  kernel do: the session invariant, its preservation by every callback, and the
  safety properties that follow from it.
\<close>

subsection \<open>Keys in the history\<close>

text \<open>
  The requests the backend has answered with 64 bytes, with the answers. A
  reply belongs to the request sent on the same socket just before it.
\<close>

fun grants :: "history \<Rightarrow> (string \<times> string) list" where
  "grants [] = []"
| "grants (x # h) =
     (case x of
        ERecvfrom fd n r s \<Rightarrow>
          (case h of
             y # _ \<Rightarrow> (case y of ESendto fd' m q \<Rightarrow> if r = 64 \<and> fd' = fd then [(m, s)] else []
                              | _ \<Rightarrow> [])
           | [] \<Rightarrow> [])
      | _ \<Rightarrow> []) @ grants h"

definition safe_kills :: "history \<Rightarrow> bool" where
  "safe_kills h = list_all (\<lambda>x. case x of EKill p sig r \<Rightarrow> sig = SIGKILL \<longrightarrow> 0 < p | _ \<Rightarrow> True) h"

lemma safe_kills_simps [simp]:
  "safe_kills []"
  "safe_kills (x # h) \<longleftrightarrow>
     (case x of EKill p sig r \<Rightarrow> sig = SIGKILL \<longrightarrow> 0 < p | _ \<Rightarrow> True) \<and> safe_kills h"
  by (simp_all add: safe_kills_def)

subsection \<open>The invariant\<close>

definition grants_ok :: "history \<Rightarrow> bool" where
  "grants_ok es \<longleftrightarrow> (\<forall>(m, s) \<in> set (grants es).
     length s = 64 \<and> (\<exists>u p. lengths_ok u p \<and> m = auth_request u p))"

definition key_granted :: "history \<Rightarrow> buffer \<Rightarrow> bool" where
  "key_granted es key \<longleftrightarrow> key = no_key \<or> (\<exists>(m, s) \<in> set (grants es). key = key_of s)"

text \<open>The events since the session began, and what they say about the session data.\<close>

definition trace_inv :: "history \<Rightarrow> session_data \<Rightarrow> bool" where
  "trace_inv es sd \<longleftrightarrow> grants_ok es \<and> key_granted es (sd_key sd) \<and> safe_kills es
     \<and> (sd_authenticated sd = 0 \<or> sd_authenticated sd = 1 \<and> grants es \<noteq> [])
     \<and> 0 \<le> sd_auth_attempts sd"

definition shape_inv :: "world \<Rightarrow> bool" where
  "shape_inv w \<longleftrightarrow> cd_sdata (w_cdata w) \<and> cd_child_stderr (w_cdata w) = - 1
     \<and> cd_child_stdin (w_cdata w) = cd_child_stdout (w_cdata w)
     \<and> (\<forall>(fd, cb, ud) \<in> set (w_polled w). cb = Process_stdout)
     \<and> (w_channel_cb w \<longrightarrow> sd_authenticated (w_sdata w) = 1)"

definition session_inv :: "history \<Rightarrow> world \<Rightarrow> bool" where
  "session_inv h0 w \<longleftrightarrow>
     (\<exists>es. w_hist w = es @ h0 \<and> trace_inv es (w_sdata w)) \<and> shape_inv w"

text \<open>How a forked child may leave: by \<open>exit\<close>, or by \<open>execl\<close> of the BBS client with a granted key.\<close>

definition exit_ok :: "history \<Rightarrow> halt \<Rightarrow> world \<Rightarrow> bool" where
  "exit_ok h0 h w \<longleftrightarrow> (\<exists>es. w_hist w = es @ h0 \<and> grants_ok es \<and> safe_kills es \<and>
     (case h of
        Exited c \<Rightarrow> c = 0 \<or> c = 1
      | Execed path args \<Rightarrow> path = ''/usr/bin/node'' \<and> sd_authenticated (w_sdata w) = 1
          \<and> grants es \<noteq> []
          \<and> (\<exists>k. args = [''node'', ''bbs.js'', k] \<and> length k \<le> 64
               \<and> (k = [] \<or> (\<exists>(m, s) \<in> set (grants es). k = cstr s)))))"

text \<open>Documented behaviour the callbacks rely on for staying inside their buffers.\<close>

definition io_lawful :: "env \<Rightarrow> bool" where
  "io_lawful e \<longleftrightarrow> recv_lawful e \<and> read_lawful e"

subsection \<open>Lemmas on the parts\<close>

lemma buf_cstr_no_key [simp]: "buf_cstr no_key = Some []"
  by (simp add: no_key_def numeral_eq_Suc)

lemma key_granted_ok:
  assumes "grants_ok es" and "key_granted es key"
  shows "key_ok key"
  using assms by (auto simp: key_granted_def grants_ok_def intro: key_ok_key_of)

lemma key_granted_cstr:
  assumes "grants_ok es" and "key_granted es key"
  shows "\<exists>k. buf_cstr key = Some k \<and> length k \<le> 64 \<and>
     (k = [] \<or> (\<exists>(m, s) \<in> set (grants es). k = cstr s))"
proof -
  obtain k where k: "buf_cstr key = Some k" "length k \<le> 64"
    using key_ok_cstr [OF key_granted_ok [OF assms]] by blast
  from assms(2) consider "key = no_key" | m s where "(m, s) \<in> set (grants es)" "key = key_of s"
    by (auto simp: key_granted_def)
  then show ?thesis
  proof cases
    case 1
    then show ?thesis using k by auto
  next
    case 2
    then have "k = cstr s" using k buf_cstr_prefix [of s "[]"] by (simp add: key_of_def)
    then show ?thesis using k 2 by auto
  qed
qed

lemma grants_inert: "inert x \<Longrightarrow> grants (x # h) = grants h"
  by (cases x) (simp_all add: inert_def)

lemma trace_inv_other:
  assumes "trace_inv es sd" and "grants (x # es) = grants es"
    and "case x of EKill p sig r \<Rightarrow> sig = SIGKILL \<longrightarrow> 0 < p | _ \<Rightarrow> True"
  shows "trace_inv (x # es) sd"
  using assms(1,3) unfolding trace_inv_def grants_ok_def key_granted_def assms(2) by simp

lemma session_invI:
  "w_hist w = es @ h0 \<Longrightarrow> trace_inv es (w_sdata w) \<Longrightarrow> shape_inv w \<Longrightarrow> session_inv h0 w"
  by (auto simp: session_inv_def)

lemma session_invE:
  assumes "session_inv h0 w"
  obtains es where "w_hist w = es @ h0" "trace_inv es (w_sdata w)" "shape_inv w"
  using assms by (auto simp: session_inv_def)

lemma shape_inv_note [simp]: "shape_inv (note_event x w) = shape_inv w"
  by (simp add: shape_inv_def)

lemma session_inv_note:
  assumes "session_inv h0 w" and "\<And>es. grants (x # es) = grants es"
    and "case x of EKill p sig r \<Rightarrow> sig = SIGKILL \<longrightarrow> 0 < p | _ \<Rightarrow> True"
  shows "session_inv h0 (note_event x w)"
  using assms(1)
proof (rule session_invE)
  fix es
  assume "w_hist w = es @ h0" "trace_inv es (w_sdata w)" "shape_inv w"
  then show ?thesis
    using trace_inv_other [OF _ assms(2,3)] by (intro session_invI [of _ "x # es"]) auto
qed

lemma session_inv_inert: "session_inv h0 w \<Longrightarrow> inert x \<Longrightarrow> session_inv h0 (note_event x w)"
  by (rule session_inv_note) (auto simp: grants_inert, auto simp: inert_def split: event.splits)

text \<open>The calls a callback makes, and the updates of the two structs.\<close>

lemma session_inv_calls [intro]:
  assumes "session_inv h0 w"
  shows "session_inv h0 (sys_close e fd w)"
    "session_inv h0 (snd (sys_kill e p 0 w))"
    "session_inv h0 (snd (sys_write e fd dat w))"
    "session_inv h0 (snd (sys_openpty e w))"
    "session_inv h0 (snd (sys_ioctl_winsz e fd w))"
    "session_inv h0 (snd (sys_fork e w))"
    "session_inv h0 (note_event (EStderr m) w)"
    "session_inv h0 (note_event (EChannelWrite c m) w)"
    "session_inv h0 (snd (ssh_channel_new e w))"
    "session_inv h0 (snd (snd (sys_read e fd n b w)))"
  using assms
  by (auto simp: sys_defs Let_def SIGKILL_def split: prod.splits intro!: session_inv_note)

lemma session_inv_wsize [simp]: "session_inv h0 (w\<lparr>w_wsize := ws\<rparr>) = session_inv h0 w"
  by (simp add: session_inv_def shape_inv_def)

lemma session_inv_channel [simp]:
  "session_inv h0 (w\<lparr>w_sdata := w_sdata w\<lparr>sd_channel := c\<rparr>\<rparr>) = session_inv h0 w"
  by (simp add: session_inv_def shape_inv_def trace_inv_def)

lemma session_inv_cdata:
  assumes "session_inv h0 w" and "cd_sdata c" and "cd_child_stderr c = - 1"
    and "cd_child_stdin c = cd_child_stdout c"
  shows "session_inv h0 (w\<lparr>w_cdata := c\<rparr>)"
  using assms by (auto simp: session_inv_def shape_inv_def)

subsection \<open>Every callback keeps the invariant\<close>

lemma auth_log_split:
  "\<exists>es. auth_log e u p h = es @ h \<and> safe_kills es \<and>
     grants (es @ t) = (if auth_accepts e u p h
       then [(auth_request u p, snd (backend_reply e u p h))] else []) @ grants t"
  by (cases "lengths_ok u p")
    (auto simp: auth_log_def request_log_def Let_def auth_accepts_def intro: exI [of _ "[_, _, _, _]"])

lemma auth_password_inv:
  assumes inv: "session_inv h0 w" and law: "recv_lawful e"
  shows "ensures (session_inv h0) (exit_ok h0) (\<lambda>_ _. False) (auth_password e u p w)"
proof -
  from inv obtain es where es: "w_hist w = es @ h0" "trace_inv es (w_sdata w)" "shape_inv w"
    by (rule session_invE)
  from es(2) have key: "length (sd_key (w_sdata w)) = 65"
    using key_granted_ok key_ok_length by (auto simp: trace_inv_def)
  obtain ns where ns: "auth_log e u p (w_hist w) = ns @ w_hist w" "safe_kills ns"
    "grants (ns @ es) = (if auth_accepts e u p (w_hist w)
       then [(auth_request u p, snd (backend_reply e u p (w_hist w)))] else []) @ grants es"
    using auth_log_split by metis
  have s64: "length (snd (backend_reply e u p (w_hist w))) = 64" if "auth_accepts e u p (w_hist w)"
    using that recv_lawful_64 [OF law] unfolding auth_accepts_def backend_reply_def
    by (metis prod.collapse)
  have gok: "grants_ok (ns @ es)"
    using es(2) ns(3) s64 by (auto simp: grants_ok_def trace_inv_def auth_accepts_def)
  have sk: "safe_kills (ns @ es)"
    using es(2) ns(2) by (simp add: trace_inv_def safe_kills_def)
  show ?thesis
    unfolding auth_password_eq [OF key law]
    using es ns gok sk
    by (auto simp: trace_inv_def key_granted_def shape_inv_def intro!: session_invI [of _ "ns @ es"])
qed

lemma exit_okI:
  assumes "w_hist w = es @ h0" "trace_inv es (w_sdata w)"
    and "c = 0 \<or> c = 1"
  shows "exit_ok h0 (Exited c) w"
  using assms by (auto simp: exit_ok_def trace_inv_def)

lemma exec_child_inv:
  assumes inv: "session_inv h0 w" and auth: "sd_authenticated (w_sdata w) = 1"
  shows "ensures (session_inv h0) (exit_ok h0) (\<lambda>_ _. False) (exec_child e w)"
proof -
  from inv obtain es where es: "w_hist w = es @ h0" "trace_inv es (w_sdata w)" "shape_inv w"
    by (rule session_invE)
  from es(2) obtain k where k: "buf_cstr (sd_key (w_sdata w)) = Some k" "length k \<le> 64"
    "k = [] \<or> (\<exists>(m, s) \<in> set (grants es). k = cstr s)"
    using key_granted_cstr unfolding trace_inv_def by blast
  have g: "grants es \<noteq> []" using es(2) auth by (auto simp: trace_inv_def)
  have sd: "cd_sdata (w_cdata w)" using es(3) by (simp add: shape_inv_def)
  let ?fd = "cd_pty_master (w_cdata w)"
  define c where "c = EClose ?fd (e_close e (w_hist w) ?fd)"
  have c: "grants (c # es) = grants es" "safe_kills (c # es) = safe_kills es"
    by (simp_all add: c_def)
  show ?thesis
    using k es g auth sd c
    by (auto simp: exec_child_def sys_defs Let_def exit_ok_def trace_inv_def grants_ok_def
        c_def [symmetric] simp del: append.simps
        intro!: exI [of _ "ELoginTty _ _ # c # es"] exI [of _ "EExecl _ _ _ # ELoginTty _ _ # c # es"])
qed

lemma session_invD:
  assumes "session_inv h0 w"
  shows "cd_sdata (w_cdata w)" "cd_child_stderr (w_cdata w) = - 1"
    "cd_child_stdin (w_cdata w) = cd_child_stdout (w_cdata w)"
    "(fd, cb, ud) \<in> set (w_polled w) \<Longrightarrow> cb = Process_stdout"
    "w_channel_cb w \<Longrightarrow> sd_authenticated (w_sdata w) = 1"
  using assms by (auto simp: session_inv_def shape_inv_def)

lemma sys_cdata [simp]:
  "w_cdata (snd (sys_fork e w)) = w_cdata w" "w_cdata (sys_close e fd w) = w_cdata w"
  "w_sdata (snd (sys_fork e w)) = w_sdata w" "w_sdata (sys_close e fd w) = w_sdata w"
  "w_cdata (snd (sys_openpty e w)) = w_cdata w"
  by (simp_all add: sys_defs Let_def)

lemma exec_pty_inv:
  assumes inv: "session_inv h0 w" and auth: "sd_authenticated (w_sdata w) = 1"
  shows "ensures (session_inv h0) (exit_ok h0) (\<lambda>_ _. False) (exec_pty e w)"
proof -
  obtain p w1 where f: "sys_fork e w = (p, w1)" by fastforce
  define w2 where "w2 = upd_cdata (cd_pid_update (\<lambda>_. p)) w1"
  have "session_inv h0 w1" using session_inv_calls(6) [OF inv, of e] f by simp
  then have i2: "session_inv h0 w2"
    unfolding w2_def by (rule session_inv_cdata) (simp_all add: session_invD [OF \<open>session_inv h0 w1\<close>])
  have a2: "sd_authenticated (w_sdata w2) = 1"
    using auth sys_cdata(3) [of e w] f by (simp add: w2_def)
  have i3: "session_inv h0 (sys_close e fd w2)" for fd
    using i2 by (rule session_inv_calls)
  have i4: "session_inv h0 (upd_cdata (\<lambda>c. c\<lparr>cd_child_stdin := cd_pty_master c,
      cd_child_stdout := cd_pty_master c\<rparr>) (sys_close e fd w2))" for fd
    by (rule session_inv_cdata [OF i3]) (simp_all add: session_invD [OF i2])
  show ?thesis
    unfolding exec_pty_eq [OF f w2_def]
    using exec_child_inv [OF i2 a2, of e] i3 i4 by (simp add: session_inv_calls)
qed

lemma shell_request_inv:
  assumes "session_inv h0 w" and "sd_authenticated (w_sdata w) = 1"
  shows "ensures (session_inv h0) (exit_ok h0) (\<lambda>_ _. False) (shell_request e w)"
  using assms exec_pty_inv [OF assms, of e] by (simp add: shell_request_def)

lemma pty_request_inv:
  assumes "session_inv h0 w"
  shows "session_inv h0 (snd (pty_request e trm a b c d w))"
proof -
  have i: "session_inv h0 (set_winsize a b c d w)"
    using assms by (simp add: set_winsize_def)
  note o = session_inv_calls(4) [OF i, of e]
  have "session_inv h0 (upd_cdata (\<lambda>c. c\<lparr>cd_pty_master := m, cd_pty_slave := s\<rparr>)
      (snd (sys_openpty e (set_winsize a b c d w))))" for m s
    by (rule session_inv_cdata [OF o]) (simp_all add: session_invD [OF i])
  then show ?thesis
    using o by (auto simp: pty_request_def Let_def split_def split: option.split)
qed

lemma bytes_of_receive:
  assumes "transfer_ok n (r, s)" and "0 < r"
  shows "bytes_of (receive (uninit n) s) (nat r) = Some s"
  using transfer_okD [OF assms(1)] assms(2)
  by (auto simp: bytes_of_def receive_def uninit_def)

lemma c_int_read:
  assumes "transfer_ok BUF_SIZE (r, s)"
  shows "c_int r = r"
  using transfer_okD [OF assms] by (intro c_int_id) (auto simp: BUF_SIZE_def)

lemma process_stdout_inv:
  assumes inv: "session_inv h0 w" and law: "read_lawful e"
  shows "ensures (session_inv h0) (exit_ok h0) (\<lambda>_ _. False) (process_stdout e fd revents ud w)"
proof (cases "ud = None \<or> revents AND POLLIN = 0")
  case True
  then show ?thesis using inv by (auto simp: process_stdout_def process_output_def split: option.split)
next
  case False
  then obtain c where c: "ud = Some c" "revents AND POLLIN \<noteq> 0" by auto
  obtain r s where rd: "e_read e (w_hist w) fd BUF_SIZE = (r, s)" by fastforce
  have ok: "transfer_ok BUF_SIZE (r, s)" using law rd unfolding read_lawful_def by metis
  have "session_inv h0 (note_event (ERead fd BUF_SIZE r s) w)"
    using session_inv_calls(10) [OF inv, of e fd BUF_SIZE] by (simp add: sys_read_def rd)
  then show ?thesis
    using c bytes_of_receive [OF ok] c_int_read [OF ok]
    by (auto simp: process_stdout_def process_output_def sys_read_def rd Let_def
        intro: session_inv_calls)
qed

text \<open>The first interface: each callback, run when registered, keeps the invariant.\<close>

lemma deliver_inv:
  assumes "session_inv h0 w" and "io_lawful e"
  shows "ensures (session_inv h0) (exit_ok h0) (\<lambda>_ _. False) (deliver e cb w)"
proof (cases "registered cb w")
  case False
  then show ?thesis using assms(1) by (simp add: deliver_def)
next
  case True
  have law: "recv_lawful e" "read_lawful e" using assms(2) by (simp_all add: io_lawful_def)
  have "ensures (session_inv h0) (exit_ok h0) (\<lambda>_ _. False) (invoke e cb w)"
  proof (cases cb)
    case (CbAuthPassword u p)
    then show ?thesis using auth_password_inv [OF assms(1) law(1)] by simp
  next
    case CbChannelOpen
    then show ?thesis
      using session_inv_calls(9) [OF assms(1), of e]
      by (simp add: pointer_result_def channel_open_def Let_def split_def)
  next
    case (CbPtyRequest trm a b c d)
    then show ?thesis using pty_request_inv [OF assms(1)] by (simp add: int_result_def)
  next
    case (CbWindowChange a b c d)
    then show ?thesis
      using assms(1) session_inv_calls(5) [of h0 "set_winsize a b c d w"]
      by (auto simp: int_result_def pty_resize_def Let_def set_winsize_def)
  next
    case CbShellRequest
    then show ?thesis
      using True shell_request_inv [OF assms(1)] session_invD(5) [OF assms(1)] by simp
  next
    case (CbData dat is_stderr)
    then show ?thesis
      using assms(1) session_inv_calls(2,3)
      by (auto simp: int_result_def data_function_def Let_def split_def)
  next
    case (CbFd fd revents)
    then obtain cb' ud where m: "map_of (w_polled w) fd = Some (cb', ud)"
      using True by (cases "map_of (w_polled w) fd") (auto simp: map_of_eq_None_iff)
    then have "cb' = Process_stdout" using session_invD(4) [OF assms(1)] map_of_SomeD by fast
    then show ?thesis
      using CbFd m process_stdout_inv [OF assms(1) law(2)] by simp
  qed
  then show ?thesis
    unfolding deliver_def using True
    by simp (erule ensures_chain [where J = "session_inv h0"],
        auto intro!: session_inv_note)
qed

subsection \<open>The steps of the main loop\<close>

lemma session_inv_polled:
  "session_inv h0 w \<Longrightarrow>
     session_inv h0 (w\<lparr>w_polled := (fd, Process_stdout, ud) # w_polled w\<rparr>)"
  by (auto simp: session_inv_def shape_inv_def)

lemma register_stdout_inv:
  assumes "session_inv h0 w"
  shows "session_inv h0 (register_output e ev fd Process_stdout msg w)"
proof -
  have n: "session_inv h0 (note_event (EAddFd ev fd POLLIN Process_stdout ud r) w)" for ud r
    using assms by (rule session_inv_inert) (simp add: inert_def)
  show ?thesis
    using assms n session_inv_polled [OF n]
    by (auto simp: register_output_def ssh_event_add_fd_def Let_def inert_def
        intro!: session_inv_inert)
qed

lemma register_no_descriptor [simp]: "register_output e ev (- 1) cb msg w = w"
  by (simp add: register_output_def)

lemma register_output_cdata [simp]: "w_cdata (register_output e ev fd cb msg w) = w_cdata w"
  by (simp add: register_output_def ssh_event_add_fd_def Let_def)

lemma start_child_io_inv:
  assumes "session_inv h0 w"
  shows "session_inv h0 (start_child_io e ev w)"
proof -
  have "session_inv h0 (upd_cdata (cd_event_update (\<lambda>_. Some ev)) w)"
    by (rule session_inv_cdata [OF assms]) (simp_all add: session_invD [OF assms])
  from register_stdout_inv [OF this] show ?thesis
    using assms session_invD(2) [OF assms]
    by (simp add: start_child_io_def Let_def)
qed

lemma session_inv_waitpid: "session_inv h0 w \<Longrightarrow> session_inv h0 (note_event (EWaitpid p r) w)"
  by (rule session_inv_note) auto

lemma loop_cond_inv:
  assumes "session_inv h0 w" and "loop_cond e rc w = (go, rc', w')"
  shows "session_inv h0 w'" and "go \<Longrightarrow> rc' = rc"
proof -
  have "session_inv h0 (note_event (EChannelIsOpen c r) w)" for c r
    using assms(1) by (rule session_inv_inert) (simp add: inert_def)
  then show "session_inv h0 w'" "go \<Longrightarrow> rc' = rc"
    using assms(2) session_inv_waitpid
    by (auto simp: loop_cond_def sys_defs Let_def split: if_splits prod.splits)
qed

subsection \<open>The whole session\<close>

lemma trace_inv_start: "trace_inv [] (w_sdata (init_locals w))"
  by (simp add: trace_inv_def init_locals_def grants_ok_def key_granted_def no_key_def)

lemma session_inv_start: "session_inv (w_hist w) (init_locals w)"
  by (rule session_invI [of _ "[]"]) (simp_all add: trace_inv_start, simp_all add: init_locals_def shape_inv_def)

lemma session_inv_server_cb [simp]: "session_inv h0 (w\<lparr>w_server_cb := b\<rparr>) = session_inv h0 w"
  by (simp add: session_inv_def shape_inv_def)

lemma begin_session_inv:
  "session_inv (w_hist w) (snd (begin_session e ev sess w))"
  using session_inv_start [of w]
  by (auto simp: begin_session_def set_server_callbacks_def sys_defs Let_def inert_def
      intro!: session_inv_inert)

lemma set_channel_callbacks_inv:
  assumes "session_inv h0 w" and "sd_authenticated (w_sdata w) \<noteq> 0"
  shows "session_inv h0 (set_channel_callbacks w)"
proof -
  have n: "session_inv h0 (note_event (ESetChannelCallbacks (sd_channel (w_sdata w))) w)"
    using assms(1) by (rule session_inv_inert) (simp add: inert_def)
  then show ?thesis
    using assms(2) by (auto simp: set_channel_callbacks_def session_inv_def shape_inv_def trace_inv_def)
qed

lemma session_inv_remove_fd:
  "session_inv h0 w \<Longrightarrow> session_inv h0 (ssh_event_remove_fd ev fd w)"
proof -
  assume inv: "session_inv h0 w"
  have "session_inv h0 (note_event (ERemoveFd ev fd) w)"
    using inv by (rule session_inv_inert) (simp add: inert_def)
  then show ?thesis
    by (auto simp: ssh_event_remove_fd_def session_inv_def shape_inv_def)
qed

lemma close_descriptors_inv: "session_inv h0 w \<Longrightarrow> session_inv h0 (close_descriptors e ev w)"
  by (simp add: close_descriptors_def Let_def session_inv_remove_fd session_inv_calls)

lemma kill_child_inv: "session_inv h0 w \<Longrightarrow> session_inv h0 (kill_child e w)"
  by (auto simp: kill_child_def sys_kill_def Let_def intro!: session_inv_note)

lemma end_child_inv:
  assumes "session_inv h0 w"
  shows "ensures (session_inv h0) H (\<lambda>u w. u = UninitRead \<and> session_inv h0 w) (end_child e rc w)"
  using session_inv_calls(2) [OF assms, of e "cd_pid (w_cdata w)"]
  by (auto simp: end_child_def split_def Let_def inert_def split: option.split
      intro!: kill_child_inv session_inv_inert)

text \<open>The second interface: the steps of a whole session keep the invariant.\<close>

definition safe_inv :: "env \<Rightarrow> history \<Rightarrow> world \<Rightarrow> bool" where
  "safe_inv e h0 w \<longleftrightarrow> session_inv h0 w \<and> io_lawful e"

interpretation safe: whole_session e "safe_inv e h0" "exit_ok h0" "\<lambda>_ _. False"
    "\<lambda>_. safe_inv e h0" "safe_inv e h0" "\<lambda>w. w_hist w = h0 \<and> io_lawful e" "\<lambda>u w. u = UninitRead \<and> session_inv h0 w"
  for e :: env and h0 :: history
proof unfold_locales
  fix w cb
  assume "safe_inv e h0 w"
  then have "ensures (session_inv h0) (exit_ok h0) (\<lambda>_ _. False) (deliver e cb w)" "io_lawful e"
    by (simp_all add: safe_inv_def deliver_inv)
  then show "ensures (safe_inv e h0) (exit_ok h0) (\<lambda>_ _. False) (deliver e cb w)"
    by (elim ensures_mono) (simp_all add: safe_inv_def)
next
  fix rc w ev
  assume "safe_inv e h0 w"
  then have "session_inv h0 (close_descriptors e ev w)" "io_lawful e"
    by (simp_all add: safe_inv_def close_descriptors_inv)
  then show "ensures (safe_inv e h0) (exit_ok h0) (\<lambda>u w. u = UninitRead \<and> session_inv h0 w)
      (end_child e rc (close_descriptors e ev w))"
    by (elim ensures_mono [OF end_child_inv]) (simp_all add: safe_inv_def)
next
  fix w :: world and ev sess
  assume "w_hist w = h0 \<and> io_lawful e"
  then show "safe_inv e h0 (snd (begin_session e ev sess w))"
    using begin_session_inv [of w e ev sess] by (simp add: safe_inv_def)
next
  fix w rc w'
  assume "safe_inv e h0 w" "loop_cond e None w = (True, rc, w')"
  then show "rc = None \<and> safe_inv e h0 w'"
    using loop_cond_inv [of h0 w] by (simp add: safe_inv_def)
next
  fix w rc w'
  assume "safe_inv e h0 w" "loop_cond e None w = (False, rc, w')"
  then show "safe_inv e h0 w'"
    using loop_cond_inv [of h0 w] by (simp add: safe_inv_def)
qed (simp_all add: safe_inv_def session_inv_inert start_child_io_inv set_channel_callbacks_inv)

end
