(* ===== verification/Session_Child.thy ===== *)
theory Session_Child
  imports Session_Safety
begin

unbundle bit_operations_syntax

text \<open>
  The child process of a session: \<open>cdata.pid\<close> names a child that has been
  forked and not yet waited for, from the fork to the \<open>waitpid\<close> that ends the
  main loop. With the documented behaviour of \<open>kill\<close> this bounds what can go
  wrong in the tear-down.
\<close>

definition child_inv :: "world \<Rightarrow> bool" where
  "child_inv w \<longleftrightarrow> - 1 \<le> cd_pid (w_cdata w)
     \<and> (0 < cd_pid (w_cdata w) \<longrightarrow> cd_pid (w_cdata w) \<in> children (w_hist w))"

text \<open>After the main loop the child may have been waited for; then its status is there.\<close>

definition child_after :: "int option \<Rightarrow> world \<Rightarrow> bool" where
  "child_after rc w \<longleftrightarrow> - 1 \<le> cd_pid (w_cdata w)
     \<and> (0 < cd_pid (w_cdata w) \<and> rc = None \<longrightarrow> cd_pid (w_cdata w) \<in> children (w_hist w))"

lemma children_inert: "inert x \<Longrightarrow> children (x # h) = children h"
  by (cases x) (simp_all add: inert_def)

lemma child_inv_same:
  "child_inv w \<Longrightarrow> cd_pid (w_cdata w') = cd_pid (w_cdata w) \<Longrightarrow>
     children (w_hist w') = children (w_hist w) \<Longrightarrow> child_inv w'"
  by (simp add: child_inv_def)

lemma children_auth_log [simp]: "children (auth_log e u p h) = children h"
  by (simp add: auth_log_def request_log_def Let_def)

text \<open>Only a shell request changes the pid or makes a child.\<close>

lemma process_output_frame:
  assumes "process_output wr e fd revents ud w = (r, w')" and "\<And>c s h. children (wr c s # h) = children h"
  shows "cd_pid (w_cdata w') = cd_pid (w_cdata w) \<and> children (w_hist w') = children (w_hist w)"
  using assms
  by (auto simp: process_output_def sys_read_def Let_def split: option.splits if_splits prod.splits)

lemma invoke_frame:
  assumes "invoke e cb w = (Ret r, w')" and "cb \<noteq> CbShellRequest"
    and "length (sd_key (w_sdata w)) = 65" and "recv_lawful e"
  shows "cd_pid (w_cdata w') = cd_pid (w_cdata w) \<and> children (w_hist w') = children (w_hist w)"
proof (cases cb)
  case (CbAuthPassword u p)
  then show ?thesis
    using assms(1) by (auto simp: auth_password_eq [OF assms(3,4)] split: if_splits)
next
  case (CbFd fd revents)
  have "children (EChannelWrite c s # h) = children h" "children (EChannelWriteStderr c s # h) = children h"
    for c s h by simp_all
  then show ?thesis
    using CbFd assms(1) process_output_frame
    by (cases "(e, fd, revents, map_of (w_polled w) fd, w)" rule: process_fd.cases)
      (auto simp: process_stdout_def process_stderr_def)
qed (use assms in \<open>auto simp: op_defs sys_defs pointer_result_def int_result_def Let_def
      split: if_splits option.splits\<close>)

lemma shell_request_child:
  assumes "shell_request e w = (Ret r, w')" and "fork_lawful e" and "child_inv w"
  shows "child_inv w'"
proof -
  obtain p w1 where f: "sys_fork e w = (p, w1)" by fastforce
  then have p: "- 1 \<le> p" "w1 = note_event (EFork p) w"
    using fork_lawfulD(1) [OF assms(2)] by (auto simp: sys_fork_def Let_def)
  have "fst (exec_child e w2) \<noteq> Ret r" for w2
    by (auto simp: exec_child_def Let_def split: prod.splits option.splits)
  then show ?thesis
    using assms(1,3) p
    by (auto simp: shell_request_def exec_pty_eq [OF f refl] child_inv_def sys_close_def
        split: if_splits) (metis fst_conv)+
qed

lemma session_key_length: "session_inv h0 w \<Longrightarrow> length (sd_key (w_sdata w)) = 65"
  by (auto simp: session_inv_def trace_inv_def dest: key_granted_ok key_ok_length)

lemma deliver_child:
  assumes "deliver e cb w = (Ret r, w')" and "session_inv h0 w" and "io_lawful e"
    and "fork_lawful e" and "child_inv w"
  shows "child_inv w'"
proof (cases "registered cb w")
  case False
  then show ?thesis using assms by (simp add: deliver_def)
next
  case True
  then obtain q w1 where i: "invoke e cb w = (Ret q, w1)" "w' = note_event (ECallback cb q) w1"
    using assms(1) by (auto simp: deliver_def)
  have law: "recv_lawful e" using assms(3) by (simp add: io_lawful_def)
  have "child_inv w1"
  proof (cases "cb = CbShellRequest")
    case True
    then show ?thesis using shell_request_child [OF _ assms(4,5)] i(1) by auto
  next
    case False
    from invoke_frame [OF i(1) False session_key_length [OF assms(2)] law]
    show ?thesis using child_inv_same [OF assms(5)] by blast
  qed
  then show ?thesis using i(2) by (simp add: child_inv_def)
qed

subsection \<open>Through the main loop\<close>

definition tracked :: "env \<Rightarrow> history \<Rightarrow> world \<Rightarrow> bool" where
  "tracked e h0 w \<longleftrightarrow> safe_inv e h0 w \<and> fork_lawful e \<and> kill_lawful e \<and> child_inv w"

lemma register_output_children [simp]:
  "children (w_hist (register_output e ev fd cb msg w)) = children (w_hist w)"
  by (simp add: register_output_def ssh_event_add_fd_def Let_def)

lemma start_child_io_frame [simp]:
  "cd_pid (w_cdata (start_child_io e ev w)) = cd_pid (w_cdata w)"
  "children (w_hist (start_child_io e ev w)) = children (w_hist w)"
  by (simp_all add: start_child_io_def Let_def)

lemma loop_cond_child:
  assumes "child_inv w" and "loop_cond e None w = (go, rc, w')"
  shows "if go then child_inv w' else child_after rc w'"
  using assms
  by (auto simp: loop_cond_def sys_defs Let_def child_inv_def child_after_def
      split: if_splits prod.splits)

subsection \<open>In the tear-down\<close>

lemma close_descriptors_frame [simp]:
  "cd_pid (w_cdata (close_descriptors e ev w)) = cd_pid (w_cdata w)"
  "children (w_hist (close_descriptors e ev w)) = children (w_hist w)"
  by (simp_all add: close_descriptors_def ssh_event_remove_fd_def sys_close_def Let_def)

lemma end_child_undef:
  assumes "end_child e rc w = (Undef u, w')" and "child_after rc w" and "kill_lawful e"
  shows "cd_pid (w_cdata w') = - 1 \<and> u = UninitRead"
proof -
  let ?p = "cd_pid (w_cdata w)"
  have k: "e_kill e (w_hist w) ?p 0 < 0" "rc = None" "w' = note_event (EKill ?p 0 (e_kill e (w_hist w) ?p 0)) w"
    "u = UninitRead"
    using assms(1) by (auto simp: end_child_def sys_kill_def Let_def split: if_splits option.splits)
  then have "\<not> (?p = 0 \<or> ?p \<in> children (w_hist w))"
    using assms(3) unfolding kill_lawful_def by (metis not_less)
  then show ?thesis
    using assms(2) k by (auto simp: child_after_def)
qed

lemma end_child_children [simp]: "cd_pid (w_cdata (kill_child e w)) = cd_pid (w_cdata w)"
  "children (w_hist (kill_child e w)) = children (w_hist w)"
  by (simp_all add: kill_child_def sys_kill_def Let_def)

lemma end_child_frame:
  "end_child e rc w = (Ret a, w') \<Longrightarrow>
     cd_pid (w_cdata w') = cd_pid (w_cdata w) \<and> children (w_hist w') = children (w_hist w)"
  by (auto simp: end_child_def sys_kill_def Let_def split: if_splits option.splits)

lemma start_session_child:
  "child_inv (snd (begin_session e ev sess w))"
  by (simp add: begin_session_def init_locals_def set_server_callbacks_def sys_defs Let_def child_inv_def)

text \<open>Once the child has been dealt with, the pid stays what it is.\<close>

definition settled :: "env \<Rightarrow> history \<Rightarrow> world \<Rightarrow> bool" where
  "settled e h0 w \<longleftrightarrow> safe_inv e h0 w \<and> fork_lawful e \<and> - 1 \<le> cd_pid (w_cdata w)"

lemma shell_request_pid:
  assumes "shell_request e w = (Ret r, w')" and "fork_lawful e" and "- 1 \<le> cd_pid (w_cdata w)"
  shows "- 1 \<le> cd_pid (w_cdata w')"
proof -
  obtain p w1 where f: "sys_fork e w = (p, w1)" by fastforce
  then have "- 1 \<le> p" using fork_lawfulD(1) [OF assms(2)] by (auto simp: sys_fork_def Let_def)
  moreover have "fst (exec_child e w2) \<noteq> Ret r" for w2
    by (auto simp: exec_child_def Let_def split: prod.splits option.splits)
  ultimately show ?thesis
    using assms(1,3)
    by (auto simp: shell_request_def exec_pty_eq [OF f refl] sys_close_def split: if_splits)
      (metis fst_conv)+
qed

lemma deliver_settled:
  assumes "deliver e cb w = (Ret r, w')" and "session_inv h0 w" and "io_lawful e"
    and "fork_lawful e" and "- 1 \<le> cd_pid (w_cdata w)"
  shows "- 1 \<le> cd_pid (w_cdata w')"
proof (cases "registered cb w")
  case True
  then obtain q w1 where i: "invoke e cb w = (Ret q, w1)" "w' = note_event (ECallback cb q) w1"
    using assms(1) by (auto simp: deliver_def)
  have law: "recv_lawful e" using assms(3) by (simp add: io_lawful_def)
  show ?thesis
    using invoke_frame [OF i(1) _ session_key_length [OF assms(2)] law] assms(4,5) i
      shell_request_pid [of e w q w1]
    by (cases "cb = CbShellRequest") auto
qed (use assms in \<open>simp add: deliver_def\<close>)

text \<open>The fourth interface: who the pid names, through the whole session.\<close>

lemma deliver_tracked:
  assumes "tracked e h0 w"
  shows "ensures (tracked e h0) (\<lambda>_ _. True) (\<lambda>_ _. False) (deliver e cb w)"
proof -
  have inv: "session_inv h0 w" "io_lawful e" "fork_lawful e" "kill_lawful e" "child_inv w"
    using assms by (simp_all add: tracked_def safe_inv_def)
  show ?thesis
    using deliver_inv [OF inv(1,2), of cb] deliver_child [OF _ inv(1,2,3,5), of cb] inv
    by (cases "deliver e cb w" rule: prod.exhaust)
      (auto simp: ensures_cases tracked_def safe_inv_def split: outcome.splits)
qed

lemma deliver_settled_ok:
  assumes "settled e h0 w"
  shows "ensures (settled e h0) (\<lambda>_ _. True) (\<lambda>_ _. False) (deliver e cb w)"
proof -
  have inv: "session_inv h0 w" "io_lawful e" "fork_lawful e" "- 1 \<le> cd_pid (w_cdata w)"
    using assms by (simp_all add: settled_def safe_inv_def)
  show ?thesis
    using deliver_inv [OF inv(1,2), of cb] deliver_settled [OF _ inv, of cb] inv
    by (cases "deliver e cb w" rule: prod.exhaust)
      (auto simp: ensures_cases settled_def safe_inv_def split: outcome.splits)
qed

lemma child_inv_inert: "child_inv w \<Longrightarrow> inert x \<Longrightarrow> child_inv (note_event x w)"
  by (rule child_inv_same) (simp_all add: children_inert)

lemma end_child_settled:
  assumes "safe_inv e h0 w" "fork_lawful e" "kill_lawful e" "child_after rc w"
  shows "ensures (settled e h0) (\<lambda>_ _. True) (\<lambda>u w. cd_pid (w_cdata w) = - 1 \<and> u = UninitRead)
    (end_child e rc (close_descriptors e ev w))"
proof -
  let ?w = "close_descriptors e ev w"
  have inv: "session_inv h0 ?w" "io_lawful e" "child_after rc ?w"
    using assms by (simp_all add: safe_inv_def close_descriptors_inv child_after_def)
  show ?thesis
    using end_child_inv [OF inv(1), of "\<lambda>_ _. True" e rc] end_child_frame [of e rc ?w]
      end_child_undef [OF _ inv(3) assms(3)] assms(2,4) inv(2)
    by (cases "end_child e rc ?w" rule: prod.exhaust)
      (auto simp: ensures_cases settled_def safe_inv_def child_after_def split: outcome.splits)
qed

interpretation owned: whole_session e "tracked e h0" "\<lambda>_ _. True" "\<lambda>_ _. False"
    "\<lambda>rc w. safe_inv e h0 w \<and> fork_lawful e \<and> kill_lawful e \<and> child_after rc w" "settled e h0"
    "\<lambda>w. w_hist w = h0 \<and> io_lawful e \<and> fork_lawful e \<and> kill_lawful e"
    "\<lambda>u w. cd_pid (w_cdata w) = - 1 \<and> u = UninitRead"
  for e :: env and h0 :: history
proof (unfold_locales, goal_cases)
  case (1 w cb)
  then show ?case by (rule deliver_tracked)
next
  case (2 w x)
  then show ?case by (simp add: tracked_def safe_inv_def session_inv_inert child_inv_inert)
next
  case (3 w ev)
  then show ?case
    by (auto simp: tracked_def safe_inv_def start_child_io_inv elim: child_inv_same)
next
  case (4 w rc w')
  then show ?case
    using loop_cond_child [of w e True rc w'] loop_cond_inv [of h0 w e None True rc w']
    by (simp add: tracked_def safe_inv_def)
next
  case (5 w rc w')
  then show ?case
    using loop_cond_child [of w e False rc w'] loop_cond_inv [of h0 w e None False rc w']
    by (simp add: tracked_def safe_inv_def)
next
  case (6 w cb)
  then show ?case by (rule deliver_settled_ok)
next
  case (7 w x)
  then show ?case by (simp add: settled_def safe_inv_def session_inv_inert)
next
  case (8 w ev sess)
  then show ?case
    using begin_session_inv [of w e ev sess] start_session_child [of e ev sess w]
    by (simp add: tracked_def safe_inv_def)
next
  case (9 w)
  then show ?case
    by (simp add: tracked_def safe_inv_def set_channel_callbacks_inv)
      (simp add: child_inv_def set_channel_callbacks_def)
next
  case (10 rc w ev)
  then show ?case by (auto intro: end_child_settled)
qed

end
