(* ===== verification/Session_Relay.thy ===== *)
theory Session_Relay
  imports Session_Safety
begin

unbundle bit_operations_syntax

text \<open>
  What a session moves between the SSH channel and the child: bytes go to a
  terminal only after the child has been found alive, bytes go to the channel
  only as they were read, a session starts at most one child, and it is the only
  process the session ever sends a signal.
\<close>

subsection \<open>The relay in the history\<close>

fun masters :: "history \<Rightarrow> int set" where
  "masters [] = {}"
| "masters (EOpenpty ws (Some (m, s)) # h) = insert m (masters h)"
| "masters (x # h) = masters h"

fun forked :: "history \<Rightarrow> int list" where
  "forked [] = []"
| "forked (EFork p # h) = (if 0 < p then p # forked h else forked h)"
| "forked (x # h) = forked h"

fun relayed :: "event \<Rightarrow> history \<Rightarrow> bool" where
  "relayed (EWrite fd s r) h \<longleftrightarrow>
     (case h of
        EKill p sig k # h' \<Rightarrow> sig = 0 \<and> 0 \<le> k \<and> p \<in> set (forked h') \<and> fd \<in> masters h' \<and> s \<noteq> []
      | _ \<Rightarrow> False)"
| "relayed (EChannelWrite c s) h \<longleftrightarrow>
     (case h of ERead fd n r t # h' \<Rightarrow> t = s \<and> 0 < r \<and> fd \<in> masters h' | _ \<Rightarrow> False)"
| "relayed (EChannelWriteStderr c s) h \<longleftrightarrow> False"
| "relayed (EKill p sig r) h \<longleftrightarrow> sig = 0 \<or> sig = SIGKILL \<and> p \<in> set (forked h)"
| "relayed x h \<longleftrightarrow> True"

fun relays_ok :: "history \<Rightarrow> bool" where
  "relays_ok [] \<longleftrightarrow> True"
| "relays_ok (x # h) \<longleftrightarrow> relayed x h \<and> relays_ok h"

subsection \<open>The invariant\<close>

definition relay_state ::
    "history \<Rightarrow> channel_data \<Rightarrow> (int \<times> fd_callback \<times> nat option) list \<Rightarrow> bool" where
  "relay_state es c q \<longleftrightarrow> relays_ok es
     \<and> forked es = (if 0 < cd_pid c then [cd_pid c] else [])
     \<and> (0 < cd_pid c \<longrightarrow> cd_child_stdin c \<noteq> - 1)
     \<and> (cd_child_stdin c \<noteq> - 1 \<longrightarrow> cd_child_stdin c \<in> masters es)
     \<and> (cd_pty_master c \<noteq> - 1 \<longrightarrow> cd_pty_master c \<in> masters es)
     \<and> (\<forall>fd \<in> fst ` set q. fd \<in> masters es)"

definition relay_inv :: "history \<Rightarrow> world \<Rightarrow> bool" where
  "relay_inv h0 w \<longleftrightarrow> (\<exists>es. w_hist w = es @ h0 \<and> relay_state es (w_cdata w) (w_polled w))"

text \<open>What is left of it in a history, whoever owns the descriptors by then.\<close>

definition relay_log :: "history \<Rightarrow> world \<Rightarrow> bool" where
  "relay_log h0 w \<longleftrightarrow> (\<exists>es. w_hist w = es @ h0 \<and> relays_ok es \<and> length (forked es) \<le> 1)"

text \<open>Events that are neither relayed bytes nor change what is known of descriptors and children.\<close>

definition relay_inert :: "event \<Rightarrow> bool" where
  "relay_inert x = (case x of EFork _ \<Rightarrow> False | EOpenpty _ _ \<Rightarrow> False | EWrite _ _ _ \<Rightarrow> False
     | EChannelWrite _ _ \<Rightarrow> False | EChannelWriteStderr _ _ \<Rightarrow> False
     | EKill p sig r \<Rightarrow> sig = 0 | _ \<Rightarrow> True)"

lemma relay_inert_simps:
  "relay_inert x \<Longrightarrow> relayed x h" "relay_inert x \<Longrightarrow> forked (x # h) = forked h"
  "relay_inert x \<Longrightarrow> masters (x # h) = masters h"
  by (cases x; simp add: relay_inert_def)+

lemma relay_inert_inert: "inert x \<Longrightarrow> relay_inert x"
  by (cases x) (simp_all add: inert_def relay_inert_def)

lemma relay_state_inert: "relay_state es c q \<Longrightarrow> relay_inert x \<Longrightarrow> relay_state (x # es) c q"
  by (simp add: relay_state_def relay_inert_simps)

lemma relay_state_fewer: "relay_state es c q \<Longrightarrow> set q' \<subseteq> set q \<Longrightarrow> relay_state es c q'"
  unfolding relay_state_def by blast

lemma relay_invI:
  "w_hist w = es @ h0 \<Longrightarrow> relay_state es (w_cdata w) (w_polled w) \<Longrightarrow> relay_inv h0 w"
  by (auto simp: relay_inv_def)

lemma relay_invE:
  assumes "relay_inv h0 w"
  obtains es where "w_hist w = es @ h0" "relay_state es (w_cdata w) (w_polled w)"
  using assms by (auto simp: relay_inv_def)

lemma relay_inv_note:
  assumes "relay_inv h0 w" and "\<And>es. relay_state es (w_cdata w) (w_polled w) \<Longrightarrow>
      relay_state (x # es) (w_cdata w) (w_polled w)"
  shows "relay_inv h0 (note_event x w)"
  using assms(1) by (rule relay_invE) (rule relay_invI [of _ "x # _"], auto intro: assms(2))

lemma relay_inv_inert: "relay_inv h0 w \<Longrightarrow> relay_inert x \<Longrightarrow> relay_inv h0 (note_event x w)"
  by (rule relay_inv_note) (auto intro: relay_state_inert)

lemma relay_inv_log: "relay_inv h0 w \<Longrightarrow> relay_log h0 w"
  by (auto simp: relay_inv_def relay_log_def relay_state_def)

lemma relay_log_inert: "relay_log h0 w \<Longrightarrow> relay_inert x \<Longrightarrow> relay_log h0 (note_event x w)"
  unfolding relay_log_def
  by (elim exE conjE, rule exI [of _ "x # _"]) (simp add: relay_inert_simps)

lemma relay_inv_update [simp]:
  "relay_inv h0 (w\<lparr>w_sdata := d\<rparr>) = relay_inv h0 w" "relay_inv h0 (w\<lparr>w_wsize := s\<rparr>) = relay_inv h0 w"
  "relay_inv h0 (w\<lparr>w_channel_cb := b\<rparr>) = relay_inv h0 w" "relay_inv h0 (w\<lparr>w_server_cb := b\<rparr>) = relay_inv h0 w"
  "relay_inv h0 (w\<lparr>w_cdata := w_cdata w\<lparr>cd_event := v\<rparr>\<rparr>) = relay_inv h0 w"
  by (simp_all add: relay_inv_def relay_state_def)

lemma relay_log_update [simp]:
  "relay_log h0 (w\<lparr>w_cdata := d\<rparr>) = relay_log h0 w"
  by (simp add: relay_log_def)

text \<open>The calls that are inert here.\<close>

lemma relay_inv_calls:
  assumes "relay_inv h0 w"
  shows "relay_inv h0 (sys_close e fd w)" "relay_inv h0 (snd (sys_kill e p 0 w))"
    "relay_inv h0 (snd (sys_ioctl_winsz e fd w))" "relay_inv h0 (snd (ssh_channel_new e w))"
    "relay_inv h0 (note_event (EStderr m) w)" "relay_inv h0 (snd (snd (sys_read e fd n b w)))"
  using assms
  by (auto simp: sys_defs Let_def relay_inert_def split: prod.splits intro!: relay_inv_inert)

subsection \<open>Every callback keeps it\<close>

lemma auth_log_relay:
  assumes "relay_inv h0 w"
  shows "relay_inv h0 (w\<lparr>w_hist := auth_log e u p (w_hist w)\<rparr>)"
proof -
  have "relay_inv h0 (note_event a (note_event b (note_event c (note_event d w))))"
    if "relay_inert a" "relay_inert b" "relay_inert c" "relay_inert d" for a b c d
    using assms that by (simp add: relay_inv_inert)
  then show ?thesis
    using assms by (auto simp: auth_log_def request_log_def Let_def note_event_def relay_inert_def)
qed

lemma relay_state_openpty:
  "relay_state es c q \<Longrightarrow> relay_state (EOpenpty ws (Some (m, s)) # es)
     (c\<lparr>cd_pty_master := m, cd_pty_slave := s\<rparr>) q"
  "relay_state es c q \<Longrightarrow> relay_state (EOpenpty ws None # es) c q"
  by (simp_all add: relay_state_def)

lemma pty_request_relay:
  assumes "relay_inv h0 w"
  shows "relay_inv h0 (snd (pty_request e trm a b c d w))"
proof -
  obtain es where es: "w_hist w = es @ h0" "relay_state es (w_cdata w) (w_polled w)"
    using assms by (rule relay_invE)
  define v where "v = set_winsize a b c d w"
  have v: "w_hist v = w_hist w" "w_cdata v = w_cdata w" "w_polled v = w_polled w"
    by (simp_all add: v_def set_winsize_def)
  show ?thesis
  proof (cases "e_openpty e (w_hist v) (w_wsize v)")
    case None
    then show ?thesis
      using es v relay_state_inert [OF relay_state_openpty(2) [OF es(2)]]
      unfolding pty_request_def v_def [symmetric] Let_def sys_openpty_def
      by (auto simp: relay_inert_def intro!: relay_invI [of _ "EStderr _ # EOpenpty _ None # es"])
  next
    case (Some r)
    then show ?thesis
      using es v relay_state_openpty(1) [OF es(2)]
      unfolding pty_request_def v_def [symmetric] Let_def sys_openpty_def
      by (cases r) (auto intro!: relay_invI [of _ "EOpenpty _ (Some _) # es"])
  qed
qed

text \<open>A shell request forks at most once, and only while no child is known.\<close>

lemma relay_state_fork:
  assumes "relay_state es c q" and "\<not> 0 < cd_pid c" and "cd_pty_master c \<noteq> - 1"
  shows "relay_state (EFork p # es) (c\<lparr>cd_pid := p, cd_child_stdin := cd_pty_master c,
           cd_child_stdout := cd_pty_master c\<rparr>) q"
    "p \<le> 0 \<Longrightarrow> relay_state (EFork p # es) (c\<lparr>cd_pid := p\<rparr>) q"
  using assms by (auto simp: relay_state_def)

lemma shell_request_relay:
  assumes inv: "relay_inv h0 w"
  shows "ensures (relay_inv h0) (\<lambda>_. relay_log h0) (\<lambda>_ w. relay_log h0 w) (shell_request e w)"
proof (cases "cd_pid (w_cdata w) > 0 \<or> cd_pty_master (w_cdata w) = - 1 \<or> cd_pty_slave (w_cdata w) = - 1")
  case True
  then show ?thesis using inv by (auto simp: shell_request_def)
next
  case False
  obtain es where es: "w_hist w = es @ h0" "relay_state es (w_cdata w) (w_polled w)"
    using inv by (rule relay_invE)
  define p where "p = e_fork e (w_hist w)"
  define w2 where "w2 = upd_cdata (cd_pid_update (\<lambda>_. p)) (note_event (EFork p) w)"
  have f: "sys_fork e w = (p, note_event (EFork p) w)" by (simp add: sys_fork_def p_def Let_def)
  have st: "relay_state (EFork p # es) ((w_cdata w)\<lparr>cd_pid := p, cd_child_stdin := cd_pty_master (w_cdata w),
           cd_child_stdout := cd_pty_master (w_cdata w)\<rparr>) (w_polled w)"
    "p \<le> 0 \<Longrightarrow> relay_state (EFork p # es) ((w_cdata w)\<lparr>cd_pid := p\<rparr>) (w_polled w)"
    using relay_state_fork [OF es(2)] False by auto
  have i2: "p \<le> 0 \<Longrightarrow> relay_inv h0 w2"
    using es st by (intro relay_invI [of _ "EFork p # es"]) (simp_all add: w2_def)
  have failed: "p = - 1 \<Longrightarrow> relay_inv h0 (note_event (EStderr m) (sys_close e a (sys_close e b w2)))" for m a b
    using i2 by (simp add: relay_inv_calls)
  have child: "p = 0 \<Longrightarrow> ensures (relay_inv h0) (\<lambda>_. relay_log h0) (\<lambda>_ w. relay_log h0 w) (exec_child e w2)"
    using relay_inv_log [OF i2] by (auto simp: exec_child_def sys_defs Let_def relay_inert_def
        intro!: relay_log_inert split: option.split)
  have parent: "relay_inv h0 (upd_cdata (\<lambda>c. c\<lparr>cd_child_stdin := cd_pty_master c,
      cd_child_stdout := cd_pty_master c\<rparr>) (sys_close e fd w2))" for fd
    using es relay_state_inert [OF st(1), of "EClose fd _"]
    by (intro relay_invI [of _ "EClose fd _ # EFork p # es"])
      (simp_all add: w2_def sys_close_def relay_inert_def)
  show ?thesis
    using False failed child parent
    by (simp add: shell_request_def exec_pty_eq [OF f w2_def])
qed

lemma data_function_relay:
  assumes inv: "relay_inv h0 w"
  shows "relay_inv h0 (snd (data_function e dat is_stderr w))"
proof (cases "length dat = 0 \<or> cd_pid (w_cdata w) < 1")
  case True
  then show ?thesis using inv by (auto simp: data_function_def)
next
  case False
  obtain es where es: "w_hist w = es @ h0" "relay_state es (w_cdata w) (w_polled w)"
    using inv by (rule relay_invE)
  let ?p = "cd_pid (w_cdata w)"
  define k where "k = e_kill e (w_hist w) ?p 0"
  define w1 where "w1 = note_event (EKill ?p 0 k) w"
  have i1: "relay_inv h0 w1"
    using inv by (simp add: w1_def relay_inv_inert relay_inert_def)
  have "0 \<le> k \<Longrightarrow> relay_state (EWrite (cd_child_stdin (w_cdata w)) dat r # EKill ?p 0 k # es)
      (w_cdata w) (w_polled w)" for r
    using es(2) False by (auto simp: relay_state_def)
  then have i2: "0 \<le> k \<Longrightarrow> relay_inv h0 (note_event (EWrite (cd_child_stdin (w_cdata w)) dat r) w1)" for r
    using es(1) by (intro relay_invI [of _ "EWrite _ dat r # EKill ?p 0 k # es"]) (simp_all add: w1_def)
  show ?thesis
    using False i1 i2
    by (simp add: data_function_def sys_kill_def sys_write_def Let_def k_def [symmetric] w1_def)
qed

lemma process_stdout_relay:
  assumes inv: "relay_inv h0 w" and law: "read_lawful e" and fd: "fd \<in> fst ` set (w_polled w)"
  shows "ensures (relay_inv h0) (\<lambda>_. relay_log h0) (\<lambda>_ w. relay_log h0 w) (process_stdout e fd revents ud w)"
proof (cases "ud = None \<or> revents AND POLLIN = 0")
  case True
  then show ?thesis using inv by (auto simp: process_stdout_def process_output_def split: option.split)
next
  case False
  then obtain c where c: "ud = Some c" "revents AND POLLIN \<noteq> 0" by auto
  obtain es where es: "w_hist w = es @ h0" "relay_state es (w_cdata w) (w_polled w)"
    using inv by (rule relay_invE)
  obtain r s where rd: "e_read e (w_hist w) fd BUF_SIZE = (r, s)" by fastforce
  have ok: "transfer_ok BUF_SIZE (r, s)" using law rd unfolding read_lawful_def by metis
  define w1 where "w1 = note_event (ERead fd BUF_SIZE r s) w"
  have i1: "relay_inv h0 w1"
    using inv by (simp add: w1_def relay_inv_inert relay_inert_def)
  have "relay_state (EChannelWrite c s # ERead fd BUF_SIZE r s # es) (w_cdata w) (w_polled w)" if "0 < r"
    using that es(2) fd by (auto simp: relay_state_def)
  then have i2: "0 < r \<Longrightarrow> relay_inv h0 (note_event (EChannelWrite c s) w1)"
    using es(1) by (auto simp: w1_def intro!: relay_invI [of _ "EChannelWrite c s # _ # es"])
  show ?thesis
    using c i1 i2 bytes_of_receive [OF ok] c_int_read [OF ok]
    by (simp add: process_stdout_def process_output_def sys_read_def rd Let_def w1_def)
qed

text \<open>The relay needs what every session keeps: the child's output is \<open>stdout\<close> only.\<close>

definition relaying :: "env \<Rightarrow> history \<Rightarrow> world \<Rightarrow> bool" where
  "relaying e h0 w \<longleftrightarrow> safe_inv e h0 w \<and> relay_inv h0 w"

lemma invoke_relay:
  assumes "relaying e h0 w" and "registered cb w"
  shows "ensures (relay_inv h0) (\<lambda>_. relay_log h0) (\<lambda>_ w. relay_log h0 w) (invoke e cb w)"
proof -
  have inv: "relay_inv h0 w" and s: "session_inv h0 w" and law: "recv_lawful e" "read_lawful e"
    using assms(1) by (simp_all add: relaying_def safe_inv_def io_lawful_def)
  show ?thesis
  proof (cases cb)
    case (CbAuthPassword u p)
    have "length (sd_key (w_sdata w)) = 65"
      using s by (auto simp: session_inv_def trace_inv_def dest: key_granted_ok key_ok_length)
    moreover have "relay_inv h0 (w\<lparr>w_sdata := d, w_hist := auth_log e u p (w_hist w)\<rparr>)" for d
      using auth_log_relay [OF inv] by (simp add: relay_inv_def)
    ultimately show ?thesis
      using CbAuthPassword auth_password_eq [of w e u p] law by simp
  next
    case CbChannelOpen
    then show ?thesis
      using relay_inv_calls(4) [OF inv, of e]
      by (simp add: pointer_result_def channel_open_def Let_def split_def)
  next
    case (CbPtyRequest trm a b c d)
    then show ?thesis using pty_request_relay [OF inv] by (simp add: int_result_def)
  next
    case (CbWindowChange a b c d)
    then show ?thesis
      using inv relay_inv_calls(3) [of h0 "set_winsize a b c d w"]
      by (auto simp: int_result_def pty_resize_def Let_def set_winsize_def)
  next
    case CbShellRequest
    then show ?thesis using shell_request_relay [OF inv] by simp
  next
    case (CbData dat is_stderr)
    then show ?thesis using data_function_relay [OF inv] by (simp add: int_result_def)
  next
    case (CbFd fd revents)
    then obtain cb' ud where m: "map_of (w_polled w) fd = Some (cb', ud)"
      using assms(2) by (cases "map_of (w_polled w) fd") (auto simp: map_of_eq_None_iff)
    then have "cb' = Process_stdout" using session_invD(4) [OF s] map_of_SomeD by fast
    then show ?thesis
      using CbFd m assms(2) process_stdout_relay [OF inv law(2)] by simp
  qed
qed

lemma deliver_relay:
  assumes "relaying e h0 w"
  shows "ensures (relay_inv h0) (\<lambda>_. relay_log h0) (\<lambda>_ w. relay_log h0 w) (deliver e cb w)"
proof (cases "registered cb w")
  case False
  then show ?thesis using assms by (simp add: deliver_def relaying_def)
next
  case True
  then show ?thesis
    unfolding deliver_def
    by simp (rule ensures_chain [OF invoke_relay [OF assms]],
        auto intro!: relay_inv_inert simp: relay_inert_def)
qed

subsection \<open>The whole session\<close>

text \<open>The third interface.\<close>

lemma relay_inv_polled:
  assumes "relay_inv h0 w" and "fd = cd_child_stdin (w_cdata w)" and "fd \<noteq> - 1"
  shows "relay_inv h0 (w\<lparr>w_polled := (fd, cb, ud) # w_polled w\<rparr>)"
  using assms by (auto simp: relay_inv_def relay_state_def)

lemma register_output_relay:
  assumes inv: "relay_inv h0 w" and fd: "fd = - 1 \<or> fd = cd_child_stdin (w_cdata w)"
  shows "relay_inv h0 (register_output e ev fd cb msg w)"
proof -
  have i1: "relay_inv h0 (note_event (EAddFd ev fd POLLIN cb ud r) w)" for ud r
    using inv by (simp add: relay_inv_inert relay_inert_def)
  show ?thesis
    using inv fd i1 relay_inv_polled [OF i1]
    by (auto simp: register_output_def ssh_event_add_fd_def Let_def relay_inert_def
        intro!: relay_inv_inert)
qed

lemma start_child_io_relay:
  assumes "relaying e h0 w"
  shows "relay_inv h0 (start_child_io e ev w)"
proof -
  have "cd_child_stdout (w_cdata w) = cd_child_stdin (w_cdata w)" "cd_child_stderr (w_cdata w) = - 1"
    using assms session_invD(2,3) [of h0 w] by (simp_all add: relaying_def safe_inv_def)
  moreover have "relay_inv h0 (upd_cdata (cd_event_update (\<lambda>_. Some ev)) w)"
    using assms by (simp add: relaying_def)
  ultimately show ?thesis
    using assms by (auto simp: start_child_io_def Let_def relaying_def intro!: register_output_relay)
qed

lemma loop_cond_relay:
  "relay_inv h0 w \<Longrightarrow> loop_cond e rc w = (go, rc', w') \<Longrightarrow> relay_inv h0 w'"
  by (auto simp: loop_cond_def sys_defs Let_def relay_inert_def intro!: relay_inv_inert
      split: if_splits prod.splits)

lemma close_descriptors_relay:
  assumes "relay_inv h0 w"
  shows "relay_inv h0 (close_descriptors e ev w)"
proof -
  have "relay_inv h0 v \<Longrightarrow> relay_inv h0 (ssh_event_remove_fd ev fd v)" for v fd
  proof -
    assume "relay_inv h0 v"
    then have "relay_inv h0 (note_event (ERemoveFd ev fd) v)"
      by (simp add: relay_inv_inert relay_inert_def)
    then show ?thesis
      unfolding ssh_event_remove_fd_def
      by (rule relay_invE) (rule relay_invI, simp, auto elim: relay_state_fewer)
  qed
  then show ?thesis
    using assms by (simp add: close_descriptors_def Let_def relay_inv_calls)
qed

lemma kill_child_relay:
  assumes "relay_inv h0 w"
  shows "relay_inv h0 (kill_child e w)"
proof -
  have "relay_state (EKill (cd_pid (w_cdata w)) SIGKILL r # es) (w_cdata w) (w_polled w)"
    if "relay_state es (w_cdata w) (w_polled w)" "0 < cd_pid (w_cdata w)" for es r
    using that by (simp add: relay_state_def)
  then show ?thesis
    using assms by (auto simp: kill_child_def sys_kill_def Let_def intro: relay_inv_note)
qed

lemma end_child_relay:
  assumes "relay_inv h0 w"
  shows "ensures (relay_inv h0) (\<lambda>_. relay_log h0) (\<lambda>_ w. relay_log h0 w) (end_child e rc w)"
  using assms relay_inv_calls(2) [OF assms]
  by (auto simp: end_child_def split_def Let_def relay_inert_def relay_inv_log
      split: option.split intro!: relay_inv_inert kill_child_relay)

lemma begin_session_relay:
  "relay_inv (w_hist w) (snd (begin_session e ev sess w))"
proof -
  have "relay_inv (w_hist w) (init_locals w)"
    by (rule relay_invI [of _ "[]"]) (simp_all add: init_locals_def relay_state_def)
  then show ?thesis
    by (auto simp: begin_session_def set_server_callbacks_def sys_defs Let_def relay_inert_def
        intro!: relay_inv_inert)
qed

interpretation relay: whole_session e "relaying e h0" "\<lambda>_. relay_log h0" "\<lambda>_ _. False"
    "\<lambda>_. relaying e h0" "relaying e h0" "\<lambda>w. w_hist w = h0 \<and> io_lawful e" "\<lambda>_. relay_log h0"
  for e :: env and h0 :: history
proof (unfold_locales, goal_cases)
  case (1 w cb)
  then have "ensures (session_inv h0) (exit_ok h0) (\<lambda>_ _. False) (deliver e cb w)"
    by (simp add: relaying_def safe_inv_def deliver_inv)
  with deliver_relay [OF 1, of cb] 1 show ?case
    by (cases "deliver e cb w" rule: prod.exhaust)
      (auto simp: ensures_cases relaying_def safe_inv_def split: outcome.splits)
next
  case (2 w x)
  then show ?case
    by (simp add: relaying_def safe_inv_def session_inv_inert relay_inv_inert relay_inert_inert)
next
  case (3 w ev)
  then show ?case
    using start_child_io_relay [OF 3]
    by (simp add: relaying_def safe_inv_def start_child_io_inv)
next
  case (4 w rc w')
  then show ?case
    using loop_cond_relay [of h0 w] loop_cond_inv [of h0 w e None True rc w']
    by (auto simp: relaying_def safe_inv_def)
next
  case (5 w rc w')
  then show ?case
    using loop_cond_relay [of h0 w] loop_cond_inv [of h0 w e None False rc w']
    by (auto simp: relaying_def safe_inv_def)
next
  case (6 w ev sess)
  then show ?case
    using begin_session_inv [of w e ev sess] begin_session_relay [of w e ev sess]
    by (simp add: relaying_def safe_inv_def)
next
  case (7 w)
  then show ?case
    by (simp add: relaying_def safe_inv_def set_channel_callbacks_inv)
      (simp add: set_channel_callbacks_def relay_inv_inert relay_inert_def)
next
  case (8 rc w ev)
  then have "ensures (session_inv h0) (\<lambda>_. relay_log h0) (\<lambda>u w. u = UninitRead \<and> session_inv h0 w)
      (end_child e rc (close_descriptors e ev w))"
    by (intro end_child_inv close_descriptors_inv) (simp add: relaying_def safe_inv_def)
  moreover have "relay_inv h0 (close_descriptors e ev w)"
    using 8 by (simp add: relaying_def close_descriptors_relay)
  note end_child_relay [OF this, of e rc]
  ultimately show ?case
    using 8
    by (cases "end_child e rc (close_descriptors e ev w)" rule: prod.exhaust)
      (auto simp: ensures_cases relaying_def safe_inv_def split: outcome.splits)
qed

end
