(* ===== verification/Session_Trace.thy ===== *)
theory Session_Trace
  imports Session_Contracts
begin

unbundle bit_operations_syntax

text \<open>
  The history as a trace: nothing a session does takes an event back, callbacks
  never poll, and so the number of polls bounds the two loops of a session.
\<close>

subsection \<open>The history only grows\<close>

text \<open>A call's event is neither a poll nor the record of a callback.\<close>

definition is_call :: "event \<Rightarrow> bool" where
  "is_call x = (case x of EPoll _ _ _ \<Rightarrow> False | ECallback _ _ \<Rightarrow> False | _ \<Rightarrow> True)"

definition no_poll :: "event \<Rightarrow> bool" where
  "no_poll x = (case x of EPoll _ _ _ \<Rightarrow> False | _ \<Rightarrow> True)"

definition grown :: "(event \<Rightarrow> bool) \<Rightarrow> history \<Rightarrow> world \<Rightarrow> bool" where
  "grown P h0 w \<longleftrightarrow> (\<exists>es. w_hist w = es @ h0 \<and> list_all P es)"

abbreviation extends :: "history \<Rightarrow> world \<Rightarrow> bool" where
  "extends \<equiv> grown is_call"

lemma grown_refl: "w_hist w = h \<Longrightarrow> grown P h w"
  by (simp add: grown_def)

lemma grown_note: "grown P h0 w \<Longrightarrow> P x \<Longrightarrow> grown P h0 (note_event x w)"
  unfolding grown_def by (metis append_Cons list.pred_inject(2) note_event_fields(7))

lemma grown_trans: "grown P (w_hist w1) w2 \<Longrightarrow> grown P h0 w1 \<Longrightarrow> grown P h0 w2"
  by (auto simp: grown_def)

lemma grown_mono: "grown P h0 w \<Longrightarrow> (\<And>x. P x \<Longrightarrow> Q x) \<Longrightarrow> grown Q h0 w"
  by (auto simp: grown_def list_all_iff)

lemma is_call_no_poll: "is_call x \<Longrightarrow> no_poll x"
  by (cases x) (simp_all add: is_call_def no_poll_def)

lemma no_poll_simps [simp]: "no_poll (ECallback cb r)" "no_poll (EPollDone ev r)"
  by (simp_all add: no_poll_def)

lemma extends_note: "extends h0 w \<Longrightarrow> is_call x \<Longrightarrow> extends h0 (note_event x w)"
  by (rule grown_note)

lemma extends_chain:
  assumes "extends h0 (snd r)" and "\<And>a w. extends h0 w \<Longrightarrow> extends h0 (snd (k a w))"
  shows "extends h0 (snd (chain r k))"
  using assms chain_snd_inv [of "extends h0" r k] by blast

text \<open>Each call adds one event to the history, and none of them is a poll.\<close>

lemma extends_calls:
  assumes "extends h0 w"
  shows "extends h0 (sys_close e fd w)" "extends h0 (snd (sys_kill e p sig w))"
    "extends h0 (snd (sys_write e fd dat w))" "extends h0 (snd (sys_openpty e w))"
    "extends h0 (snd (sys_ioctl_winsz e fd w))" "extends h0 (snd (sys_fork e w))"
    "extends h0 (snd (ssh_channel_new e w))" "extends h0 (snd (snd (sys_read e fd n b w)))"
    "extends h0 (snd (sys_login_tty e fd w))" "extends h0 (snd (sys_execl e path args w))"
    "extends h0 (snd (sys_socket e w))" "extends h0 (sys_connect e fd addr port w)"
    "extends h0 (sys_sendto e fd dat w)" "extends h0 (snd (snd (sys_recvfrom e fd n b w)))"
    "extends h0 (note_event (EStderr m) w)"
  using assms by (auto simp: sys_defs is_call_def Let_def split: prod.splits intro!: extends_note)

lemma extends_update [simp]:
  "extends h0 (w\<lparr>w_cdata := c\<rparr>) = extends h0 w" "extends h0 (w\<lparr>w_sdata := d\<rparr>) = extends h0 w"
  "extends h0 (w\<lparr>w_wsize := s\<rparr>) = extends h0 w"
  by (simp_all add: grown_def)

lemma getkey_extends: "extends h0 w \<Longrightarrow> extends h0 (snd (getkey e u p key w))"
  by (auto simp: getkey_def Let_def split: prod.splits option.splits)
    (metis (no_types, lifting) extends_calls(11-14) snd_conv)+

lemma auth_password_extends: "extends h0 w \<Longrightarrow> extends h0 (snd (auth_password e u p w))"
  by (auto simp: auth_password_def Let_def split: option.split prod.split
      intro!: extends_chain getkey_extends)

lemma exec_child_extends: "extends h0 w \<Longrightarrow> extends h0 (snd (exec_child e w))"
  by (auto simp: exec_child_def sys_defs is_call_def Let_def split: option.split intro!: extends_note)

lemma shell_request_extends: "extends h0 w \<Longrightarrow> extends h0 (snd (shell_request e w))"
  by (auto simp: shell_request_def exec_pty_def sys_defs is_call_def Let_def
      intro!: extends_note exec_child_extends)

lemma process_output_extends:
  assumes "extends h0 w" and "\<And>c s. is_call (wr c s)"
  shows "extends h0 (snd (process_output wr e fd revents ud w))"
  using assms
  by (auto simp: process_output_def sys_defs is_call_def Let_def split: option.split prod.split
      intro!: extends_note)

lemma process_fd_extends: "extends h0 w \<Longrightarrow> extends h0 (snd (process_fd e fd revents q w))"
  by (cases "(e, fd, revents, q, w)" rule: process_fd.cases)
    (auto simp: process_stdout_def process_stderr_def is_call_def intro: process_output_extends)

lemma invoke_extends: "extends h0 w \<Longrightarrow> extends h0 (snd (invoke e cb w))"
proof (cases cb)
  case (CbPtyRequest trm a b c d)
  then show "extends h0 w \<Longrightarrow> ?thesis"
    by (auto simp: int_result_def pty_request_def set_winsize_def sys_defs is_call_def Let_def
        split: option.split intro!: extends_note)
next
  case CbChannelOpen
  then show "extends h0 w \<Longrightarrow> ?thesis"
    by (auto simp: pointer_result_def channel_open_def sys_defs is_call_def Let_def intro!: extends_note)
next
  case (CbWindowChange a b c d)
  then show "extends h0 w \<Longrightarrow> ?thesis"
    by (auto simp: int_result_def pty_resize_def set_winsize_def sys_defs is_call_def Let_def
        intro!: extends_note)
next
  case (CbData dat err)
  then show "extends h0 w \<Longrightarrow> ?thesis"
    by (auto simp: int_result_def data_function_def sys_defs is_call_def Let_def intro!: extends_note)
qed (simp_all add: auth_password_extends shell_request_extends process_fd_extends)

text \<open>Delivering callbacks adds the callbacks themselves, but no poll.\<close>

lemma invoke_grown: "grown no_poll h0 w \<Longrightarrow> grown no_poll h0 (snd (invoke e cb w))"
  using invoke_extends [OF grown_refl [OF refl], of w e cb]
  by (blast intro: grown_trans grown_mono is_call_no_poll)

lemma run_callbacks_grown: "grown no_poll h0 w \<Longrightarrow> grown no_poll h0 (snd (run_callbacks e cbs w))"
proof (induction cbs arbitrary: w)
  case (Cons cb cbs)
  have "grown no_poll h0 (snd (deliver e cb w))"
    unfolding deliver_def using Cons.prems
    by (auto intro!: chain_snd_inv [of "grown no_poll h0"] invoke_grown grown_note)
  then show ?case
    using Cons.IH by (auto intro!: chain_snd_inv [of "grown no_poll h0"])
qed simp

text \<open>The whole session only adds to the history: the session contract read that way.\<close>

abbreviation later :: "history \<Rightarrow> world \<Rightarrow> bool" where
  "later \<equiv> grown (\<lambda>_. True)"

lemma later_update [simp]:
  "later h0 (w\<lparr>w_polled := q\<rparr>) = later h0 w" "later h0 (w\<lparr>w_cdata := c\<rparr>) = later h0 w"
  "later h0 (w\<lparr>w_sdata := d\<rparr>) = later h0 w" "later h0 (w\<lparr>w_wsize := s\<rparr>) = later h0 w"
  "later h0 (w\<lparr>w_server_cb := b\<rparr>) = later h0 w" "later h0 (w\<lparr>w_channel_cb := b\<rparr>) = later h0 w"
  by (simp_all add: grown_def)

lemma later_deliver: "later h0 w \<Longrightarrow> later h0 (snd (deliver e cb w))"
  using grown_mono [OF invoke_extends [OF grown_refl [OF refl], of w e cb], of "\<lambda>_. True"]
  by (auto simp: deliver_def intro!: grown_note chain_snd_inv [of "later h0"] elim: grown_trans)

lemma later_steps:
  assumes "later h0 w"
  shows "later h0 (snd (begin_session e ev sess w))" "later h0 (start_child_io e ev w)"
    "later h0 (snd (snd (loop_cond e rc w)))" "later h0 (snd (end_child e rc' (close_descriptors e ev w)))"
    "later h0 (set_channel_callbacks w)"
  using assms
  by (auto simp: begin_session_def init_locals_def set_server_callbacks_def start_child_io_def
      register_output_def loop_cond_def close_descriptors_def end_child_def kill_child_def
      set_channel_callbacks_def sys_defs Let_def split: option.split prod.split intro!: grown_note)

lemma ensures_later: "later h0 (snd r) \<Longrightarrow> ensures (later h0) (\<lambda>_. later h0) (\<lambda>_. later h0) r"
  by (auto simp: ensures_cases split: prod.splits outcome.splits)

interpretation grows: whole_session e "later h0" "\<lambda>_. later h0" "\<lambda>_. later h0" "\<lambda>_. later h0" "later h0"
    "\<lambda>w. w_hist w = h0" "\<lambda>_. later h0"
  for e :: env and h0 :: history
proof (unfold_locales, goal_cases)
  case (1 w cb)
  then show ?case by (intro ensures_later later_deliver)
next
  case (4 w rc w')
  then show ?case
    using later_steps(3) [OF 4(1), of e None]
    by (auto simp: loop_cond_def sys_defs Let_def split: if_splits prod.splits)
next
  case (5 w rc w')
  then show ?case using later_steps(3) [OF 5(1), of e None] by simp
next
  case (6 w ev sess)
  then show ?case by (intro later_steps) (auto intro: grown_refl)
next
  case (8 rc w ev)
  then show ?case by (intro ensures_later later_steps)
qed (simp_all add: grown_note later_steps)

lemma handle_session_later:
  "handle_session fuel e ev sess w = Some r \<Longrightarrow> later (w_hist w) (snd r)"
  using grows.handle_session_ok [of w "w_hist w" fuel e ev sess r]
  by (cases r) (auto simp: ensures_cases split: outcome.splits)

subsection \<open>Polls\<close>

text \<open>\<open>polled k h0 w\<close>: since \<open>h0\<close> there have been exactly \<open>k\<close> polls.\<close>

definition polled :: "nat \<Rightarrow> history \<Rightarrow> world \<Rightarrow> bool" where
  "polled k h0 w \<longleftrightarrow> (\<exists>es. w_hist w = es @ h0 \<and> polls es = k)"

lemma polls_append [simp]: "polls (a @ b) = polls a + polls b"
  by (simp add: polls_def)

lemma polled_trans: "polled j (w_hist w1) w2 \<Longrightarrow> polled k (w_hist w0) w1 \<Longrightarrow> polled (k + j) (w_hist w0) w2"
  by (auto simp: polled_def)

lemma grown_polled: "grown no_poll h0 w \<Longrightarrow> polled 0 h0 w"
  unfolding grown_def polled_def polls_def list_all_iff no_poll_def
  by (auto simp: filter_empty_conv split: event.splits)

lemma polled_polls: "polled k h0 w \<Longrightarrow> polls (w_hist w) = k + polls h0"
  by (auto simp: polled_def)

lemma dopoll_polled: "polled 1 (w_hist w) (snd (ssh_event_dopoll e ev t w))"
proof -
  let ?w = "note_event (EPoll ev t (e_poll e (w_hist w) t)) w"
  have "grown no_poll (w_hist ?w) (snd (ssh_event_dopoll e ev t w))"
    unfolding ssh_event_dopoll_def Let_def
    by (rule chain_snd_inv [of "grown no_poll (w_hist ?w)", OF run_callbacks_grown [OF grown_refl]])
      (auto intro!: grown_note)
  then obtain es where "w_hist (snd (ssh_event_dopoll e ev t w)) = es @ w_hist ?w" "polls es = 0"
    using grown_polled unfolding polled_def by blast
  then show ?thesis
    by (auto simp: polled_def intro!: exI [of _ "es @ [_]"])
qed

lemma dopoll_polls: "ssh_event_dopoll e ev t w = (q, w') \<Longrightarrow> polls (w_hist w') = Suc (polls (w_hist w))"
  using polled_polls [OF dopoll_polled [of w e ev t]] by simp

lemma polled_note: "polled k h0 w \<Longrightarrow> polls [x] = 0 \<Longrightarrow> polled k h0 (note_event x w)"
  by (auto simp: polled_def split: event.splits intro!: exI [of _ "x # _"])

lemma auth_loop_polled: "\<exists>k \<le> 100 - n. polled k (w_hist w) (snd (auth_loop e ev n w))"
proof (induction "100 - n" arbitrary: n w)
  case 0
  then show ?case
    by (subst auth_loop.simps) (auto simp: polled_def intro!: exI [of _ 0])
next
  case (Suc m)
  obtain q w1 where d: "ssh_event_dopoll e ev 100 w = (q, w1)" by fastforce
  have p1: "polled 1 (w_hist w) w1" using dopoll_polled [of w e ev 100] d by simp
  have "\<exists>k \<le> 100 - (n + 1). polled k (w_hist w1) (snd (auth_loop e ev (n + 1) w1))"
    by (rule Suc.hyps(1)) (use Suc.hyps(2) in simp)
  then obtain k where k: "k \<le> 100 - (n + 1)"
      "polled k (w_hist w1) (snd (auth_loop e ev (n + 1) w1))"
    by blast
  have p2: "polled (1 + k) (w_hist w) (snd (auth_loop e ev (n + 1) w1))"
    by (rule polled_trans [OF k(2) p1])
  have p3: "polled 1 (w_hist w) (print_error e w1)"
    using p1 by (simp add: print_error_def polled_note)
  have "\<exists>j \<le> 100 - n. polled j (w_hist w) w" "\<exists>j \<le> 100 - n. polled j (w_hist w) w1"
    "\<exists>j \<le> 100 - n. polled j (w_hist w) (print_error e w1)"
    "\<exists>j \<le> 100 - n. polled j (w_hist w) (snd (auth_loop e ev (n + 1) w1))"
    using p1 p2 p3 k(1) Suc.hyps(2)
    by (auto simp: polled_def intro: exI [of _ 0] exI [of _ 1] exI [of _ "1 + k"])
  then show ?case
    by (subst auth_loop.simps) (auto simp: d split: outcome.splits)
qed

subsection \<open>The main loop ends when the channel is closed\<close>

text \<open>
  The client's side of the bargain: after \<open>N\<close> polls the channel no longer
  counts as open. Every round of the main loop polls once and asks once.
\<close>

definition closes_by :: "nat \<Rightarrow> env \<Rightarrow> bool" where
  "closes_by N e \<longleftrightarrow> (\<forall>h c. N \<le> polls h \<longrightarrow> \<not> e_is_open e h c)"

lemma register_output_polls [simp]:
  "polls (w_hist (register_output e ev fd cb msg w)) = polls (w_hist w)"
  by (simp add: register_output_def ssh_event_add_fd_def Let_def)

lemma start_child_io_polls [simp]: "polls (w_hist (start_child_io e ev w)) = polls (w_hist w)"
  by (simp add: start_child_io_def Let_def)

lemma loop_body_polls:
  "loop_body e ev w = (Ret r, w') \<Longrightarrow> polls (w_hist w') = Suc (polls (w_hist w))"
  by (auto simp: loop_body_def Let_def chain_eq_Ret dest!: dopoll_polls)

lemma loop_cond_polls:
  assumes "loop_cond e rc w = (True, rc', w')" and "closes_by N e"
  shows "polls (w_hist w') = polls (w_hist w)" and "polls (w_hist w) < N"
  using assms
  by (auto simp: loop_cond_def sys_defs Let_def closes_by_def not_le [symmetric]
      split: if_splits prod.splits)

lemma main_loop_returns:
  assumes "closes_by N e"
  shows "0 < fuel \<Longrightarrow> N < polls (w_hist w) + fuel \<Longrightarrow> main_loop fuel e ev rc w \<noteq> None"
proof (induction fuel arbitrary: rc w)
  case (Suc f)
  obtain c w1 where b: "loop_body e ev w = (c, w1)" by fastforce
  show ?case
  proof (cases c)
    case (Ret a)
    obtain go rc1 w2 where l: "loop_cond e rc w1 = (go, rc1, w2)" by (metis prod_cases3)
    have "polls (w_hist w1) = Suc (polls (w_hist w))"
      using b Ret by (auto intro: loop_body_polls)
    then have "go \<Longrightarrow> 0 < f \<and> N < polls (w_hist w2) + f"
      using loop_cond_polls [of e rc w1 rc1 w2 N] l assms Suc.prems by auto
    then show ?thesis using b Ret l Suc.IH by auto
  qed (use b in auto)
qed simp

lemma handle_session_returns:
  assumes "closes_by N e" and "N < fuel"
  shows "handle_session fuel e ev sess w \<noteq> None"
proof -
  have no: "main_loop fuel e ev None w2 = None \<Longrightarrow> False" for w2
    using main_loop_returns [OF assms(1)] assms(2) by simp
  show ?thesis
    by (auto simp: handle_session_def dest: no split: prod.split bool.split outcome.split option.split)
qed

subsection \<open>Failed attempts\<close>

text \<open>The password attempts among the callbacks of one poll.\<close>

definition attempts_in :: "callback list \<Rightarrow> nat" where
  "attempts_in cbs = length (filter (\<lambda>cb. case cb of CbAuthPassword u p \<Rightarrow> True | _ \<Rightarrow> False) cbs)"

lemma getkey_sdata [simp]: "w_sdata (snd (getkey e u p key w)) = w_sdata w"
  by (auto simp: getkey_def sys_defs Let_def split: prod.split option.split)

abbreviation attempts :: "world \<Rightarrow> int" where
  "attempts w \<equiv> sd_auth_attempts (w_sdata w)"

lemma auth_password_attempts: "attempts (snd (auth_password e u p w)) \<le> attempts w + 1"
proof (cases "memset (sd_key (w_sdata w)) NUL 65")
  case (Some b)
  obtain q w1 where g: "getkey e u p b (upd_sdata (sd_key_update (\<lambda>_. b)) w) = (q, w1)"
    by fastforce
  have "attempts w1 = attempts w"
    using getkey_sdata [of e u p b "upd_sdata (sd_key_update (\<lambda>_. b)) w"] g by simp
  then show ?thesis
    by (cases q) (auto simp: auth_password_def Some g Let_def)
qed (simp add: auth_password_def)

lemma invoke_attempts:
  "attempts (snd (invoke e cb w)) \<le> attempts w + int (attempts_in [cb])"
proof (cases cb)
  case (CbAuthPassword u p)
  then show ?thesis using auth_password_attempts by (simp add: attempts_in_def)
next
  case (CbFd fd revents)
  then show ?thesis
    by (cases "(e, fd, revents, map_of (w_polled w) fd, w)" rule: process_fd.cases)
      (auto simp: process_stdout_def process_stderr_def process_output_def sys_defs Let_def
        split: option.split prod.split)
qed (auto simp: attempts_in_def op_defs sys_defs Let_def split: option.split prod.split)

lemma deliver_attempts:
  "attempts (snd (deliver e cb w)) \<le> attempts w + int (attempts_in [cb])"
proof -
  obtain q w1 where i: "invoke e cb w = (q, w1)" by fastforce
  show ?thesis
    using invoke_attempts [of e cb w] by (cases q) (auto simp: deliver_def i)
qed

lemma run_callbacks_attempts:
  "attempts (snd (run_callbacks e cbs w)) \<le> attempts w + int (attempts_in cbs)"
proof (induction cbs arbitrary: w)
  case (Cons cb cbs)
  have split: "attempts_in (cb # cbs) = attempts_in [cb] + attempts_in cbs"
    by (simp add: attempts_in_def)
  obtain q w1 where d: "deliver e cb w = (q, w1)" by fastforce
  show ?case
    using deliver_attempts [of e cb w] Cons.IH [of w1] unfolding split
    by (cases q) (auto simp: d)
qed simp

lemma dopoll_attempts:
  assumes "ssh_event_dopoll e ev t w = (q, w')"
  shows "attempts w' \<le> attempts w + int (attempts_in (e_poll e (w_hist w) t))"
proof -
  let ?cbs = "e_poll e (w_hist w) t"
  let ?w = "note_event (EPoll ev t ?cbs) w"
  obtain q1 w1 where r: "run_callbacks e ?cbs ?w = (q1, w1)" by fastforce
  show ?thesis
    using run_callbacks_attempts [of e ?cbs ?w] assms r
    by (cases q1) (auto simp: ssh_event_dopoll_def Let_def)
qed

text \<open>
  The limit of three attempts is tested between polls, so what one poll brings
  is let through: with at most \<open>k\<close> attempts in a poll there are at most \<open>2 + k\<close>.
\<close>

lemma auth_loop_attempts:
  assumes few: "\<And>h t. attempts_in (e_poll e h t) \<le> k"
  shows "auth_loop e ev n w = (q, w') \<Longrightarrow> attempts w \<le> 2 + int k \<Longrightarrow> attempts w' \<le> 2 + int k"
proof (induction "100 - n" arbitrary: n w)
  case 0
  then show ?case by (subst (asm) auth_loop.simps) (auto split: if_splits)
next
  case (Suc m)
  obtain r w1 where d: "ssh_event_dopoll e ev 100 w = (r, w1)" by fastforce
  have up: "attempts w1 \<le> attempts w + int k"
    using dopoll_attempts [OF d] few [of "w_hist w" 100] by simp
  have again: "auth_loop e ev (n + 1) w1 = (q, w') \<Longrightarrow> attempts w1 \<le> 2 + int k \<Longrightarrow>
      attempts w' \<le> 2 + int k"
    by (rule Suc.hyps(1)) (use Suc.hyps(2) in simp_all)
  show ?case
    using Suc.prems up again
    by (subst (asm) auth_loop.simps)
      (auto simp: d print_error_def split: if_splits outcome.splits)
qed

end
