(* ===== verification/Sample_Runs.thy ===== *)
theory Sample_Runs
  imports Session_Child Session_Relay Session_Trace
begin

unbundle bit_operations_syntax

text \<open>
  Whole sessions of the sample environment, evaluated in three stages (up to the
  main loop, the main loop, the tear-down), for the witnesses of the session
  properties. The stages keep the state an explicit record, and the congruence
  rules evaluate a call before what comes after it.
\<close>

lemma note_event_record:
  "note_event x \<lparr>w_cdata = c, w_sdata = d, w_wsize = s, w_server_cb = a, w_channel_cb = b,
      w_polled = q, w_hist = h\<rparr> =
   \<lparr>w_cdata = c, w_sdata = d, w_wsize = s, w_server_cb = a, w_channel_cb = b,
      w_polled = q, w_hist = x # h\<rparr>"
  by (simp add: note_event_def)

lemma chain_weak_cong: "r = r' \<Longrightarrow> chain r k = chain r' k"
  by simp

lemma result_pair [simp]:
  "int_result (r, w) = (Ret r, w)" "pointer_result (c, w) = (Ret (if c = None then 0 else 1), w)"
  by (simp_all add: int_result_def pointer_result_def)

lemma main_loop_numeral [simp]:
  "main_loop (numeral k) e ev rc w =
     (case loop_body e ev w of
        (Ret _, w1) \<Rightarrow>
          (case loop_cond e rc w1 of
             (go, rc1, w2) \<Rightarrow> if go then main_loop (pred_numeral k) e ev rc1 w2 else Some (Ret rc1, w2))
      | (Halt h, w1) \<Rightarrow> Some (Halt h, w1)
      | (Undef u, w1) \<Rightarrow> Some (Undef u, w1))"
  by (simp add: numeral_eq_Suc)

text \<open>A backend that grants every request, and what an attempt then does.\<close>

definition grants_all :: "env \<Rightarrow> bool" where
  "grants_all e \<longleftrightarrow> (\<forall>h fd n. e_recvfrom e h fd n = (if 64 \<le> n then (64, sample_key) else (- 1, [])))"

lemma grants_all_sample [simp]: "grants_all (sample_env script)"
  "grants_all (e\<lparr>e_fork := f\<rparr>) = grants_all e" "grants_all (e\<lparr>e_waitpid := g\<rparr>) = grants_all e"
  "grants_all (e\<lparr>e_kill := k\<rparr>) = grants_all e" "grants_all (e\<lparr>e_is_open := b\<rparr>) = grants_all e"
  "grants_all (e\<lparr>e_status := t\<rparr>) = grants_all e"
  by (simp_all add: grants_all_def)

lemma grants_all_recv: "grants_all e \<Longrightarrow> recv_lawful e"
  by (auto simp: grants_all_def recv_lawful_def transfer_ok_def)

lemma grants_all_accepts:
  assumes "grants_all e"
  shows "backend_reply e u p h = (64, sample_key)" "auth_accepts e u p h \<longleftrightarrow> lengths_ok u p"
  using assms by (simp_all add: grants_all_def backend_reply_def auth_accepts_def)

lemma auth_password_granted:
  assumes "grants_all e" and "length (sd_key (w_sdata w)) = 65"
  shows "auth_password e u p w =
    (if lengths_ok u p
     then (Ret (ssh_auth_code SSH_AUTH_SUCCESS),
           w\<lparr>w_sdata := (w_sdata w)\<lparr>sd_key := key_of sample_key, sd_authenticated := 1\<rparr>,
             w_hist := auth_log e u p (w_hist w)\<rparr>)
     else (Ret (ssh_auth_code SSH_AUTH_DENIED),
           w\<lparr>w_sdata := (w_sdata w)\<lparr>sd_key := no_key,
                                sd_auth_attempts := sd_auth_attempts (w_sdata w) + 1\<rparr>,
             w_hist := auth_log e u p (w_hist w)\<rparr>))"
  using auth_password_eq [OF assms(2) grants_all_recv [OF assms(1)]]
  by (simp add: grants_all_accepts [OF assms(1)])

lemma auth_log_facts [simp]:
  "polls (auth_log e u p h) = polls h"
  "open_fds (auth_log e u p h) =
     (if lengths_ok u p \<and> 0 \<le> e_socket e h then insert (e_socket e h) (open_fds h) else open_fds h)"
  "masters (auth_log e u p h) = masters h" "forked (auth_log e u p h) = forked h"
  "relays_ok (auth_log e u p h) = relays_ok h"
  by (simp_all add: auth_log_def request_log_def Let_def)

lemma length_keys [simp]: "length (key_of sample_key) = 65" "length no_key = 65"
  by (simp_all add: key_of_def no_key_def)

lemma buf_cstr_sample_key [simp]: "buf_cstr (key_of sample_key) = Some sample_key"
  using buf_cstr_text [of sample_key "[]"] by (simp add: key_of_def sample_key_def)

lemma final_wait_closed:
  assumes "\<And>h. e_status e h sess = 1"
  shows "final_wait e ev sess 0 w = (Ret (), note_event (EGetStatus sess 1) w)"
  using assms by (subst final_wait.simps) (simp add: sys_defs code_defs Let_def SESSION_END_def)

subsection \<open>Up to the main loop\<close>

text \<open>Bob logs in and opens a channel during the first poll.\<close>

definition bob :: "callback list" where
  "bob = [CbAuthPassword ''bob'' ''secret'', CbChannelOpen]"

definition logs_in :: "env \<Rightarrow> bool" where
  "logs_in e \<longleftrightarrow> grants_all e \<and> (\<forall>h s. e_key_exchange e h s = 0) \<and> (\<forall>h. e_poll_rc e h = 0)
     \<and> (\<forall>h. e_channel_new e h = Some 7) \<and> (\<forall>h t. polls h = 0 \<longrightarrow> e_poll e h t = bob)"

lemma logs_in_sample [simp]:
  "logs_in (sample_env (bob # script))"
  "logs_in (e\<lparr>e_fork := f\<rparr>) = logs_in e" "logs_in (e\<lparr>e_waitpid := g\<rparr>) = logs_in e"
  "logs_in (e\<lparr>e_kill := k\<rparr>) = logs_in e"
  "logs_in (e\<lparr>e_is_open := b\<rparr>) = logs_in e" "logs_in (e\<lparr>e_status := t\<rparr>) = logs_in e"
  by (simp_all add: logs_in_def)

definition logged_in :: "env \<Rightarrow> history \<Rightarrow> world" where
  "logged_in e h = \<lparr>
     w_cdata = \<lparr>cd_pid = 0, cd_pty_master = - 1, cd_pty_slave = - 1, cd_child_stdin = - 1,
       cd_child_stdout = - 1, cd_child_stderr = - 1, cd_event = None, cd_sdata = True\<rparr>,
     w_sdata = \<lparr>sd_channel = Some 7, sd_auth_attempts = 0, sd_authenticated = 1,
                 sd_key = key_of sample_key\<rparr>,
     w_wsize = \<lparr>ws_row = 0, ws_col = 0, ws_xpixel = 0, ws_ypixel = 0\<rparr>,
     w_server_cb = True, w_channel_cb = True, w_polled = [],
     w_hist = [ESetChannelCallbacks (Some 7), EPollDone 4 0, ECallback CbChannelOpen 1,
         EChannelNew (Some 7), ECallback (CbAuthPassword ''bob'' ''secret'') 0] @
       auth_log e ''bob'' ''secret'' ([EPoll 4 100 bob, EAddSession 4 2, ESetAuthMethods 2 2,
         EKeyExchange 2 0, ESetServerCallbacks 2] @ h)\<rparr>"

lemma auth_loop_done:
  "sd_authenticated (w_sdata w) \<noteq> 0 \<Longrightarrow> sd_channel (w_sdata w) \<noteq> None \<Longrightarrow>
     auth_loop e ev n w = (Ret True, w)"
  by (subst auth_loop.simps) auto

lemma session_after_login:
  assumes "logs_in e" and "polls (w_hist v) = 0"
  shows "handle_session fuel e 4 2 v =
    (case main_loop fuel e 4 None (logged_in e (w_hist v)) of
       None \<Rightarrow> None
     | Some (Ret rc, w) \<Rightarrow> Some (teardown e 4 2 rc w)
     | Some (Halt h, w) \<Rightarrow> Some (Halt h, w)
     | Some (Undef u, w) \<Rightarrow> Some (Undef u, w))"
proof -
  have l: "grants_all e" "\<And>h s. e_key_exchange e h s = 0" "\<And>h. e_poll_rc e h = 0"
      "\<And>h. e_channel_new e h = Some 7" "\<And>h t. polls h = 0 \<Longrightarrow> e_poll e h t = bob"
    using assms(1) by (simp_all add: logs_in_def)
  obtain h where h: "w_hist v = h" and p: "polls h = 0" using assms(2) by simp
  have i: "init_locals v = init_locals blank_world\<lparr>w_hist := h\<rparr>"
    unfolding h [symmetric] by (cases v) (simp add: init_locals_def blank_world_def)
  show ?thesis
    unfolding handle_session_def begin_session_def i h
    by (simp add: l p init_locals_def set_server_callbacks_def sys_defs code_defs Let_def
        blank_world_def note_event_record logged_in_def
        del: note_event_fields blank_world_simps main_loop.simps main_loop_numeral,
      subst auth_loop.simps,
      simp add: l p bob_def ssh_event_dopoll_def deliver_def channel_open_def auth_password_granted
        auth_loop_done sys_defs code_defs set_channel_callbacks_def Let_def note_event_record
        del: note_event_fields blank_world_simps main_loop.simps main_loop_numeral)
qed

subsection \<open>From the main loop to the end\<close>

lemmas run_defs = session_after_login logged_in_def
  loop_body_def start_child_io_def register_output_def loop_cond_def
  ssh_event_dopoll_def deliver_def pty_request_def pty_resize_def set_winsize_def shell_request_def
  exec_pty_def exec_child_def data_function_def channel_open_def auth_password_granted
  note_event_record Let_def

lemmas end_defs = teardown_def close_descriptors_def end_child_def kill_child_def final_wait_closed
  note_event_record Let_def

definition open_shell :: "callback list" where
  "open_shell = [CbPtyRequest ''xterm'' 80 24 640 480, CbShellRequest]"

text \<open>Bob gets a shell, types something and leaves; the child is killed.\<close>

definition typing_env :: env where
  "typing_env = sample_env [bob, open_shell, [CbData ''hi'' False]]"

lemma typing_run:
  "\<exists>w. handle_session 4 typing_env 4 2 blank_world = Some (Ret (), w)
     \<and> EWrite 5 ''hi'' 2 \<in> set (w_hist w) \<and> EKill 100 SIGKILL 0 \<in> set (w_hist w)"
  unfolding typing_env_def open_shell_def
  by (simp add: run_defs sys_defs code_defs del: note_event_fields cong: let_weak_cong chain_weak_cong,
    simp add: end_defs sys_defs code_defs del: note_event_fields cong: let_weak_cong chain_weak_cong)

text \<open>The same session in the process that \<open>fork\<close> makes.\<close>

definition child_env :: env where
  "child_env = sample_env [bob, open_shell]\<lparr>e_fork := \<lambda>h. 0\<rparr>"

lemma child_run_from:
  assumes "polls (w_hist v) = 0" and "open_fds (w_hist v) = {}"
  shows "\<exists>w. handle_session 4 child_env 4 2 v =
     Some (Halt (Execed ''/usr/bin/node'' [''node'', ''bbs.js'', sample_key]), w)"
  using assms unfolding child_env_def open_shell_def
  by (simp add: run_defs sys_defs code_defs del: note_event_fields cong: let_weak_cong chain_weak_cong)

lemmas child_run = child_run_from [of blank_world, simplified]

text \<open>The fork fails, the client leaves.\<close>

definition fork_fails_env :: env where
  "fork_fails_env = sample_env [bob, open_shell]\<lparr>e_fork := \<lambda>h. - 1\<rparr>"

lemma fork_fails_run:
  "\<exists>w. handle_session 4 fork_fails_env 4 2 blank_world = Some (Undef UninitRead, w)
     \<and> cd_pid (w_cdata w) = - 1"
  unfolding fork_fails_env_def open_shell_def
  by (simp add: run_defs sys_defs code_defs del: note_event_fields cong: let_weak_cong chain_weak_cong,
    simp add: end_defs sys_defs code_defs del: note_event_fields cong: let_weak_cong chain_weak_cong)

text \<open>The child is ended by a signal and waited for; then its pid is signalled once more.\<close>

fun late_kill :: "history \<Rightarrow> bool" where
  "late_kill [] \<longleftrightarrow> False"
| "late_kill (EKill p sig r # h) \<longleftrightarrow> sig = SIGKILL \<and> p \<notin> children h \<or> late_kill h"
| "late_kill (x # h) \<longleftrightarrow> late_kill h"

lemma late_kill_auth_log [simp]: "late_kill (auth_log e u p h) = late_kill h"
  by (simp add: auth_log_def request_log_def Let_def)

definition signalled_env :: env where
  "signalled_env = sample_env [bob, open_shell, []]\<lparr>e_waitpid := \<lambda>h p. (p, 9)\<rparr>"

lemma signalled_run:
  "\<exists>w. handle_session 4 signalled_env 4 2 blank_world = Some (Ret (), w)
     \<and> late_kill (w_hist w)"
  unfolding signalled_env_def open_shell_def
  by (simp add: run_defs sys_defs code_defs del: note_event_fields cong: let_weak_cong chain_weak_cong,
    simp add: end_defs sys_defs code_defs WIFEXITED_def del: note_event_fields cong: let_weak_cong chain_weak_cong)

text \<open>The child exits with status 3.\<close>

definition exited_env :: env where
  "exited_env = sample_env [bob, open_shell, []]\<lparr>e_waitpid := \<lambda>h p. (p, 3 * 256)\<rparr>"

lemma exited_run:
  "\<exists>w. handle_session 4 exited_env 4 2 blank_world = Some (Ret (), w)
     \<and> EChannelExitStatus (Some 7) 3 \<in> set (w_hist w)"
  unfolding exited_env_def open_shell_def
  using WEXITSTATUS_exit [of 3]
  by (simp add: run_defs sys_defs code_defs del: note_event_fields cong: let_weak_cong chain_weak_cong,
    simp add: end_defs sys_defs code_defs del: note_event_fields cong: let_weak_cong chain_weak_cong)

text \<open>The client leaves, and sends some more while the gateway waits for it to go.\<close>

fun late_write :: "history \<Rightarrow> bool" where
  "late_write [] \<longleftrightarrow> False"
| "late_write (EWrite fd s r # h) \<longleftrightarrow> fd \<notin> open_fds h \<or> late_write h"
| "late_write (x # h) \<longleftrightarrow> late_write h"

lemma late_write_auth_log [simp]: "late_write (auth_log e u p h) = late_write h"
  by (simp add: auth_log_def request_log_def Let_def)

definition late_data_env :: env where
  "late_data_env = sample_env [bob, open_shell, [CbData ''hi'' False]]
     \<lparr>e_is_open := \<lambda>h c. polls h < 2, e_status := \<lambda>h s. if polls h < 3 then 0 else 1\<rparr>"

lemma late_data_run:
  "\<exists>w. handle_session 4 late_data_env 4 2 blank_world = Some (Ret (), w)
     \<and> late_write (w_hist w)"
  unfolding late_data_env_def open_shell_def
  by (simp add: run_defs sys_defs code_defs del: note_event_fields cong: let_weak_cong chain_weak_cong,
    simp add: end_defs sys_defs code_defs del: note_event_fields final_wait_closed
      cong: let_weak_cong chain_weak_cong,
    subst final_wait.simps,
    simp add: run_defs sys_defs code_defs SESSION_END_def del: note_event_fields final_wait_closed
      cong: let_weak_cong chain_weak_cong,
    subst final_wait.simps,
    simp add: run_defs sys_defs code_defs SESSION_END_def del: note_event_fields final_wait_closed
      cong: let_weak_cong chain_weak_cong)

text \<open>A second, refused login on the authenticated session, then a shell.\<close>

definition relogin_env :: env where
  "relogin_env = sample_env [bob, [CbAuthPassword ''bob'' []], open_shell]\<lparr>e_fork := \<lambda>h. 0\<rparr>"

lemma relogin_run:
  "\<exists>w. handle_session 4 relogin_env 4 2 blank_world =
     Some (Halt (Execed ''/usr/bin/node'' [''node'', ''bbs.js'', []]), w)"
  unfolding relogin_env_def open_shell_def
  by (simp add: run_defs sys_defs code_defs lengths_ok_def strlen_def cstr_def
      del: note_event_fields cong: let_weak_cong chain_weak_cong)

end
