(* ===== verification/Session_Gate.thy ===== *)
theory Session_Gate
  imports Session_Safety Session_Trace
begin

text \<open>
  Nothing but logging in and opening a channel happens before the backend has
  granted a login: the callbacks of the channel are registered only then.
\<close>

fun needs_login :: "callback \<Rightarrow> bool" where
  "needs_login (CbAuthPassword u p) \<longleftrightarrow> False"
| "needs_login CbChannelOpen \<longleftrightarrow> False"
| "needs_login (CbFd fd revents) \<longleftrightarrow> False"
| "needs_login cb \<longleftrightarrow> True"

fun gated :: "history \<Rightarrow> bool" where
  "gated [] \<longleftrightarrow> True"
| "gated (ECallback cb r # h) \<longleftrightarrow> (needs_login cb \<longrightarrow> grants h \<noteq> []) \<and> gated h"
| "gated (x # h) \<longleftrightarrow> gated h"

lemma gated_calls: "list_all is_call es \<Longrightarrow> gated h \<Longrightarrow> gated (es @ h)"
proof (induction es)
  case (Cons x es)
  then show ?case by (cases x) (simp_all add: is_call_def)
qed simp

definition no_callback :: "event \<Rightarrow> bool" where
  "no_callback x = (case x of ECallback _ _ \<Rightarrow> False | _ \<Rightarrow> True)"

lemma gated_other: "no_callback x \<Longrightarrow> gated (x # h) = gated h"
  by (cases x) (simp_all add: no_callback_def)

lemma inert_no_callback: "inert x \<Longrightarrow> no_callback x"
  by (cases x) (simp_all add: inert_def no_callback_def)

lemma registered_login: "registered cb w \<Longrightarrow> needs_login cb \<Longrightarrow> w_channel_cb w"
  by (cases cb) simp_all

lemma grants_append: "set (grants h) \<subseteq> set (grants (es @ h))"
  by (induction es) (auto split: event.split)

text \<open>The invariant, and what is left of it in the history of a process that has left.\<close>

definition gate_log :: "history \<Rightarrow> world \<Rightarrow> bool" where
  "gate_log h0 w \<longleftrightarrow> (\<exists>es. w_hist w = es @ h0 \<and> gated es)"

definition gate_inv :: "env \<Rightarrow> history \<Rightarrow> world \<Rightarrow> bool" where
  "gate_inv e h0 w \<longleftrightarrow> safe_inv e h0 w \<and> gate_log h0 w"

lemma gate_log_note: "gate_log h0 w \<Longrightarrow> no_callback x \<Longrightarrow> gate_log h0 (note_event x w)"
  unfolding gate_log_def by (metis append_Cons gated_other note_event_fields(7))

lemma gate_log_update [simp]:
  "gate_log h0 (w\<lparr>w_cdata := c\<rparr>) = gate_log h0 w" "gate_log h0 (w\<lparr>w_polled := q\<rparr>) = gate_log h0 w"
  "gate_log h0 (w\<lparr>w_channel_cb := b\<rparr>) = gate_log h0 w" "gate_log h0 (w\<lparr>w_server_cb := b\<rparr>) = gate_log h0 w"
  "gate_log h0 (w\<lparr>w_wsize := s\<rparr>) = gate_log h0 w" "gate_log h0 (w\<lparr>w_sdata := d\<rparr>) = gate_log h0 w"
  by (simp_all add: gate_log_def)

lemma gate_log_grown: "extends (w_hist w) w' \<Longrightarrow> gate_log h0 w \<Longrightarrow> gate_log h0 w'"
  unfolding gate_log_def grown_def by (metis append.assoc gated_calls)

lemma gate_log_callback:
  assumes "session_inv h0 w" and "registered cb w" and "extends (w_hist w) w'" and "gate_log h0 w"
  shows "gate_log h0 (note_event (ECallback cb r) w')"
proof -
  obtain es where es: "w_hist w = es @ h0" "trace_inv es (w_sdata w)"
    using assms(1) by (rule session_invE)
  obtain ns where ns: "w_hist w' = ns @ w_hist w" "list_all is_call ns"
    using assms(3) by (auto simp: grown_def)
  obtain gs where gs: "w_hist w = gs @ h0" "gated gs" using assms(4) by (auto simp: gate_log_def)
  have "grants es \<noteq> []" if "needs_login cb"
    using session_invD(5) [OF assms(1) registered_login [OF assms(2) that]] es(2)
    by (auto simp: trace_inv_def)
  then have "needs_login cb \<longrightarrow> grants (ns @ es) \<noteq> []"
    using grants_append [of es ns] by auto
  moreover have "gated (ns @ es)" using gs es(1) ns(2) by (auto intro: gated_calls)
  ultimately show ?thesis
    using es(1) ns(1) by (auto simp: gate_log_def intro!: exI [of _ "ECallback cb r # ns @ es"])
qed

lemma deliver_gate:
  assumes "gate_inv e h0 w"
  shows "gate_log h0 (snd (deliver e cb w))"
proof (cases "registered cb w")
  case False
  then show ?thesis using assms by (simp add: deliver_def gate_inv_def)
next
  case True
  obtain q w1 where i: "invoke e cb w = (q, w1)" by fastforce
  have ext: "extends (w_hist w) w1"
    using invoke_extends [OF grown_refl [OF refl], of w e cb] i by simp
  have inv: "session_inv h0 w" "gate_log h0 w"
    using assms by (simp_all add: gate_inv_def safe_inv_def)
  show ?thesis
    using True i gate_log_callback [OF inv(1) True ext inv(2)] gate_log_grown [OF ext inv(2)]
    by (cases q) (simp_all add: deliver_def)
qed

lemma gate_log_calls:
  assumes "gate_log h0 w"
  shows "gate_log h0 (snd (begin_session e ev sess w))" "gate_log h0 (start_child_io e ev w)"
    "gate_log h0 (snd (snd (loop_cond e rc w)))" "gate_log h0 (close_descriptors e ev w)"
    "gate_log h0 (snd (end_child e rc' w))" "gate_log h0 (set_channel_callbacks w)"
  using assms
  by (auto simp: begin_session_def init_locals_def set_server_callbacks_def start_child_io_def register_output_def loop_cond_def
      close_descriptors_def end_child_def kill_child_def set_channel_callbacks_def sys_defs
      no_callback_def Let_def split: option.split prod.split intro!: gate_log_note)

subsection \<open>The whole session\<close>

lemma ensures_gate:
  assumes "ensures (session_inv h0) H U r" and "gate_log h0 (snd r)" and "io_lawful e"
  shows "ensures (gate_inv e h0) (\<lambda>_. gate_log h0) (\<lambda>u w. U u w \<and> gate_log h0 w) r"
  using assms by (auto simp: ensures_cases gate_inv_def safe_inv_def split: prod.splits outcome.splits)

interpretation gate: whole_session e "gate_inv e h0" "\<lambda>_. gate_log h0" "\<lambda>_ w. False"
    "\<lambda>_. gate_inv e h0" "gate_inv e h0" "\<lambda>w. w_hist w = h0 \<and> io_lawful e" "\<lambda>_. gate_log h0"
  for e :: env and h0 :: history
proof (unfold_locales, goal_cases)
  case (1 w cb)
  then show ?case
    using ensures_gate [OF deliver_inv [of h0 w e cb] deliver_gate [OF 1]]
    by (simp add: gate_inv_def safe_inv_def)
next
  case (2 w x)
  then show ?case
    by (simp add: gate_inv_def safe_inv_def session_inv_inert gate_log_note inert_no_callback)
next
  case (3 w ev)
  then show ?case
    by (simp add: gate_inv_def safe_inv_def start_child_io_inv gate_log_calls)
next
  case (4 w rc w')
  then show ?case
    using loop_cond_inv [of h0 w e None True rc w'] gate_log_calls(3) [of h0 w e None]
    by (auto simp: gate_inv_def safe_inv_def)
next
  case (5 w rc w')
  then show ?case
    using loop_cond_inv [of h0 w e None False rc w'] gate_log_calls(3) [of h0 w e None]
    by (auto simp: gate_inv_def safe_inv_def)
next
  case (6 w ev sess)
  have "gate_log (w_hist w) w" by (auto simp: gate_log_def intro: exI [of _ "[]"])
  then show ?case
    using 6 begin_session_inv [of w e ev sess] gate_log_calls(1)
    by (auto simp: gate_inv_def safe_inv_def)
next
  case (7 w)
  then show ?case
    by (simp add: gate_inv_def safe_inv_def set_channel_callbacks_inv gate_log_calls)
next
  case (8 rc w ev)
  then have "session_inv h0 (close_descriptors e ev w)" "gate_log h0 (close_descriptors e ev w)"
    "io_lawful e"
    by (simp_all add: gate_inv_def safe_inv_def close_descriptors_inv gate_log_calls)
  from ensures_gate [OF end_child_inv [OF this(1)] gate_log_calls(5) [OF this(2)] this(3)]
  show ?case by (rule ensures_mono) auto
qed

end
