(* ===== verification/Session_Properties.thy ===== *)
theory Session_Properties
  imports Sample_Runs Session_Gate
begin

text \<open>
  The properties of whole sessions. Each follows from one of the four readings
  of the session contract (\<open>safe\<close>, \<open>owned\<close>, \<open>relay\<close>, \<open>gate\<close>) or from the
  bounds on polls; the witnesses and the behaviours that surprise are runs of
  the sample environment.
\<close>

lemma sample_io_lawful [simp]:
  "io_lawful (sample_env script)" "io_lawful (e\<lparr>e_fork := f\<rparr>) = io_lawful e"
  "io_lawful (e\<lparr>e_waitpid := g\<rparr>) = io_lawful e" "io_lawful (e\<lparr>e_is_open := b\<rparr>) = io_lawful e"
  "io_lawful (e\<lparr>e_status := t\<rparr>) = io_lawful e"
  using sample_lawful(1,2) [of script]
  by (simp_all add: io_lawful_def recv_lawful_def read_lawful_def)

lemma kill_lawful_update [simp]:
  "kill_lawful (e\<lparr>e_fork := f\<rparr>) = kill_lawful e" "kill_lawful (e\<lparr>e_waitpid := g\<rparr>) = kill_lawful e"
  by (simp_all add: kill_lawful_def)

subsection \<open>Who gets in\<close>

lemma exit_ok_exec:
  assumes "exit_ok h0 (Execed path args) w"
  shows "\<exists>es k. w_hist w = es @ h0 \<and> path = ''/usr/bin/node'' \<and> args = [''node'', ''bbs.js'', k]
    \<and> sd_authenticated (w_sdata w) = 1 \<and> grants es \<noteq> [] \<and> length k \<le> 64
    \<and> (k = [] \<or> (\<exists>u p s. lengths_ok u p \<and> length s = 64 \<and> (auth_request u p, s) \<in> set (grants es)
         \<and> k = cstr s))"
  using assms unfolding exit_ok_def grants_ok_def by fastforce



text \<open>
  C12: Before the backend has granted a login, a session does nothing but log in
  and open channels: whatever libssh delivers, no terminal, window, shell or
  data callback runs earlier in the session than the first grant.
\<close>

theorem nothing_before_login:
  assumes "io_lawful e" and "handle_session fuel e ev sess w = Some (q, w')"
  shows "\<exists>es. w_hist w' = es @ w_hist w \<and> gated es"
  using gate.handle_session_ok [of w "w_hist w" e fuel ev sess "(q, w')"] assms
  by (cases q) (auto simp: gate_inv_def gate_log_def)

theorem nothing_before_login_witness:
  "\<exists>w'. handle_session 4 typing_env 4 2 blank_world = Some (Ret (), w') \<and> gated (w_hist w')
     \<and> EWrite 5 ''hi'' 2 \<in> set (w_hist w')"
proof -
  have "io_lawful typing_env" by (simp add: typing_env_def)
  with nothing_before_login [OF this] typing_run show ?thesis
    by (metis append_Nil2 blank_world_simps(1))
qed


text \<open>
  The wait for a login is bounded. It polls at most 100 times, it returns,
  it lets in only an authenticated session that has a channel, and if no poll
  brings more than \<open>k\<close> password attempts, at most \<open>2 + k\<close> attempts fail in it:
  three, when libssh delivers them one by one.
\<close>

theorem auth_loop_bounded:
  assumes "auth_loop e ev 0 w = (q, w')" and "sd_auth_attempts (w_sdata w) = 0"
    and "\<And>h t. attempts_in (e_poll e h t) \<le> k"
  shows "polls (w_hist w') \<le> polls (w_hist w) + 100 \<and> sd_auth_attempts (w_sdata w') \<le> 2 + int k
    \<and> (q = Ret True \<longrightarrow> sd_authenticated (w_sdata w') \<noteq> 0 \<and> sd_channel (w_sdata w') \<noteq> None)"
proof -
  obtain n where "n \<le> 100" "polled n (w_hist w) w'"
    using auth_loop_polled [of 0 w e ev] assms(1) by auto
  then show ?thesis
    using auth_loop_attempts [OF assms(3,1)] assms auth_loop_True [of e ev 0 w w']
    by (auto dest: polled_polls)
qed

lemma attempts_in_sample: "attempts_in (e_poll (sample_env [bob]) h t) \<le> 1"
  by (cases "polls h") (simp_all add: attempts_in_def bob_def)

theorem auth_loop_bounded_witness:
  "\<exists>q w'. auth_loop (sample_env [bob]) 4 0 blank_world = (q, w')
     \<and> polls (w_hist w') \<le> 100 \<and> sd_auth_attempts (w_sdata w') \<le> 3"
proof -
  obtain q w' where l: "auth_loop (sample_env [bob]) 4 0 blank_world = (q, w')" by fastforce
  then show ?thesis
    using auth_loop_bounded [OF l _ attempts_in_sample] by (auto simp: blank_world_def)
qed

text \<open>
  The limit of three attempts is only tested between polls: five refused
  attempts that arrive in one poll are all tried, and a sixth that is right
  still logs the session in.
\<close>

theorem six_attempts_in_one_poll:
  "\<exists>w'. auth_loop (sample_env [replicate 5 (CbAuthPassword ''bob'' []) @ bob]) 4 0
       (snd (begin_session (sample_env [replicate 5 (CbAuthPassword ''bob'' []) @ bob]) 4 2 blank_world))
     = (Ret True, w') \<and> sd_auth_attempts (w_sdata w') = 5"
  by (simp add: begin_session_def init_locals_def set_server_callbacks_def sys_defs code_defs
      blank_world_def note_event_record Let_def
      del: note_event_fields blank_world_simps cong: let_weak_cong chain_weak_cong,
    subst auth_loop.simps,
    simp add: bob_def ssh_event_dopoll_def deliver_def channel_open_def auth_password_granted
      auth_loop_done sys_defs code_defs lengths_ok_def strlen_def cstr_def numeral_eq_Suc
      note_event_record Let_def del: note_event_fields blank_world_simps
      cong: let_weak_cong chain_weak_cong)

subsection \<open>What the session does to processes and descriptors\<close>

text \<open>
  C7: What a session relays. In the events of a session, however it ends: every
  write goes to a terminal the session opened, carries at least one byte and
  directly follows a \<open>kill(pid, 0)\<close> that found the session's own child; every
  write to the channel carries exactly the bytes of the \<open>read\<close> just before it,
  from such a terminal; nothing is ever written to the channel's \<open>stderr\<close>; and
  at most one child is started.
\<close>

theorem session_relays:
  assumes "io_lawful e" and "handle_session fuel e ev sess w = Some (q, w')"
  shows "\<exists>es. w_hist w' = es @ w_hist w \<and> relays_ok es \<and> length (forked es) \<le> 1"
proof -
  have "relay_log (w_hist w) w'"
    using relay.handle_session_ok [of w "w_hist w" e fuel ev sess "(q, w')"] assms
    by (cases q) (auto simp: relaying_def relay_inv_log)
  then show ?thesis by (auto simp: relay_log_def)
qed

theorem session_relays_witness:
  "\<exists>w'. handle_session 4 typing_env 4 2 blank_world = Some (Ret (), w') \<and> relays_ok (w_hist w')
     \<and> EWrite 5 ''hi'' 2 \<in> set (w_hist w')"
proof -
  have "io_lawful typing_env" by (simp add: typing_env_def)
  with session_relays [OF this] typing_run show ?thesis
    by (metis append_Nil2 blank_world_simps(1))
qed

lemma relays_ok_kill:
  "relays_ok es \<Longrightarrow> EKill p sig r \<in> set es \<Longrightarrow> sig = 0 \<or> sig = SIGKILL \<and> p \<in> set (forked es)"
proof (induction es)
  case (Cons x es)
  have "set (forked es) \<subseteq> set (forked (x # es))" by (cases x) auto
  then show ?case using Cons by auto
qed simp

lemma forked_pos: "p \<in> set (forked es) \<Longrightarrow> 0 < p"
  by (induction es rule: forked.induct) (auto split: if_splits)

text \<open>
  C22: A session signals nobody but its child: every \<open>kill\<close> of a session either
  probes with signal 0 or sends \<open>SIGKILL\<close> to the positive pid that the one
  successful \<open>fork\<close> of this session returned; it never signals a process group.
\<close>

theorem kills_only_its_child:
  assumes "io_lawful e" and "handle_session fuel e ev sess w = Some (q, w')"
  shows "\<exists>es. w_hist w' = es @ w_hist w \<and> (\<forall>p sig r. EKill p sig r \<in> set es \<longrightarrow>
     sig = 0 \<or> sig = SIGKILL \<and> 0 < p \<and> forked es = [p])"
proof -
  have "relay_log (w_hist w) w'"
    using relay.handle_session_ok [of w "w_hist w" e fuel ev sess "(q, w')"] assms
    by (cases q) (auto simp: relaying_def relay_inv_log)
  then obtain es where es: "w_hist w' = es @ w_hist w" "relays_ok es" "length (forked es) \<le> 1"
    unfolding relay_log_def by blast
  have one: "forked es = [p]" if "p \<in> set (forked es)" for p
    using es(3) that by (cases "forked es") auto
  show ?thesis
    using es(1) relays_ok_kill [OF es(2)] forked_pos one by blast
qed

theorem kills_only_its_child_witness:
  "\<exists>w'. handle_session 4 typing_env 4 2 blank_world = Some (Ret (), w')
     \<and> EKill 100 SIGKILL 0 \<in> set (w_hist w') \<and> forked (w_hist w') = [100]"
proof -
  have "io_lawful typing_env" by (simp add: typing_env_def)
  moreover obtain w' where w': "handle_session 4 typing_env 4 2 blank_world = Some (Ret (), w')"
      "EKill 100 SIGKILL 0 \<in> set (w_hist w')"
    using typing_run by blast
  ultimately have "SIGKILL = 0 \<or> forked (w_hist w') = [100]"
    using kills_only_its_child [of typing_env 4 4 2 blank_world "Ret ()" w'] by fastforce
  then show ?thesis
    using w' by (auto simp: SIGKILL_def)
qed

text \<open>
  A session can signal a process that is gone: when the child was ended by a
  signal, the main loop's \<open>waitpid\<close> has already reaped it, and the tear-down still sends \<open>SIGKILL\<close>
  to its pid, which by then names no child of this process.
\<close>

theorem reaped_child_is_killed_again:
  "\<exists>w'. handle_session 4 signalled_env 4 2 blank_world = Some (Ret (), w') \<and> late_kill (w_hist w')"
  by (rule signalled_run)

text \<open>
  Data that arrives while the gateway waits for the client to leave is still
  written to the terminal's descriptor, which the tear-down has closed before.
\<close>

theorem data_written_after_close:
  "\<exists>w'. handle_session 4 late_data_env 4 2 blank_world = Some (Ret (), w') \<and> late_write (w_hist w')"
  by (rule late_data_run)

subsection \<open>Undefined behaviour\<close>

text \<open>
  C21: Inside the laws of \<open>recvfrom\<close>, \<open>read\<close>, \<open>fork\<close> and \<open>kill\<close>, a session leaves no
  buffer, follows no null pointer and reads no unset byte, whatever libssh
  delivers in whatever order. One read of an unset variable remains: \<open>rc\<close> in
  the tear-down, and only in a session whose \<open>cdata.pid\<close> is -1, that is, after
  a \<open>fork\<close> that failed.
\<close>

theorem session_undefined_only_after_failed_fork:
  assumes "io_lawful e" "fork_lawful e" "kill_lawful e"
    and "handle_session fuel e ev sess w = Some (Undef u, w')"
  shows "u = UninitRead \<and> cd_pid (w_cdata w') = - 1"
  using owned.handle_session_ok [of w "w_hist w" e fuel ev sess "(Undef u, w')"] assms by simp

lemma fork_fails_lawful: "io_lawful fork_fails_env" "fork_lawful fork_fails_env" "kill_lawful fork_fails_env"
  by (auto simp: fork_fails_env_def fork_lawful_def dest: children_pos)

theorem session_undefined_only_after_failed_fork_witness:
  "\<exists>w'. handle_session 4 fork_fails_env 4 2 blank_world = Some (Undef UninitRead, w')
     \<and> cd_pid (w_cdata w') = - 1"
  using session_undefined_only_after_failed_fork [OF fork_fails_lawful] fork_fails_run by blast

text \<open>
  The read of the unset status does happen: there is an environment that
  keeps the laws of \<open>fork\<close>, \<open>kill\<close>, \<open>waitpid\<close> and the terminals, in which the \<open>fork\<close> for the shell fails, the client leaves and
  the tear-down applies \<open>WIFEXITED\<close> to the unset \<open>rc\<close>.
\<close>

theorem failed_fork_reads_unset_status:
  "\<exists>e w'. io_lawful e \<and> fork_lawful e \<and> kill_lawful e
     \<and> handle_session 4 e 4 2 blank_world = Some (Undef UninitRead, w')"
  using fork_fails_lawful fork_fails_run by blast

subsection \<open>Ending\<close>

text \<open>
  C8: A session ends when its client goes. If after \<open>N\<close> polls the channel no
  longer counts as open, any fuel above \<open>N\<close> gives a result, and it is the
  same result for all of them.
\<close>

theorem session_returns:
  assumes "closes_by N e" and "N < fuel"
  shows "\<exists>r. \<forall>fuel' > N. handle_session fuel' e ev sess w = Some r"
proof -
  obtain r where r: "handle_session (Suc N) e ev sess w = Some r"
    using handle_session_returns [OF assms(1), of "Suc N" ev sess w] by auto
  then have "handle_session fuel' e ev sess w = Some r" if "N < fuel'" for fuel'
    using handle_session_mono [OF r] that by simp
  then show ?thesis by blast
qed

theorem session_returns_witness:
  "\<exists>r. \<forall>fuel' > 3. handle_session fuel' (sample_env [bob, open_shell, []]) 4 2 blank_world = Some r"
proof -
  have "closes_by 3 (sample_env [bob, open_shell, []])"
    by (simp add: closes_by_def)
  then show ?thesis by (rule session_returns [where fuel = 4]) simp
qed

text \<open>What the tear-down does with the child, once \<open>rc\<close> cannot be read unset.\<close>

definition child_report :: "env \<Rightarrow> int option \<Rightarrow> int \<Rightarrow> world \<Rightarrow> world" where
  "child_report e rc k w =
     (if k < 0 \<and> WIFEXITED (the rc)
      then note_event (EChannelExitStatus (sd_channel (w_sdata w)) (WEXITSTATUS (the rc))) w
      else kill_child e w)"

lemma end_child_eq:
  assumes "rc = None \<longrightarrow> 0 \<le> e_kill e (w_hist w) (cd_pid (w_cdata w)) 0"
  shows "end_child e rc w =
    (Ret (), child_report e rc (e_kill e (w_hist w) (cd_pid (w_cdata w)) 0)
      (note_event (EKill (cd_pid (w_cdata w)) 0 (e_kill e (w_hist w) (cd_pid (w_cdata w)) 0)) w))"
  using assms by (cases rc) (auto simp: end_child_def child_report_def sys_kill_def Let_def)

lemma child_report_events:
  "\<exists>r. w_hist (child_report e rc k w) =
     (if k < 0 \<and> WIFEXITED (the rc)
      then [EChannelExitStatus (sd_channel (w_sdata w)) (WEXITSTATUS (the rc))]
      else if 0 < cd_pid (w_cdata w) then [EKill (cd_pid (w_cdata w)) SIGKILL r] else []) @ w_hist w"
  "w_sdata (child_report e rc k w) = w_sdata w"
  by (auto simp: child_report_def kill_child_def sys_kill_def Let_def)

text \<open>A started child, gone when the tear-down probes it.\<close>

definition child_world :: world where
  "child_world = blank_world\<lparr>w_cdata := \<lparr>cd_pid = 100, cd_pty_master = 5, cd_pty_slave = 6,
     cd_child_stdin = 5, cd_child_stdout = 5, cd_child_stderr = - 1, cd_event = Some 4, cd_sdata = True\<rparr>\<rparr>"

lemma child_world_simps [simp]:
  "cd_pid (w_cdata child_world) = 100" "cd_pty_master (w_cdata child_world) = 5"
  "cd_child_stdin (w_cdata child_world) = 5" "cd_child_stdout (w_cdata child_world) = 5"
  "cd_child_stderr (w_cdata child_world) = - 1" "w_hist child_world = []"
  "sd_channel (w_sdata child_world) = None"
  by (simp_all add: child_world_def) (simp add: blank_world_def)

text \<open>
  C20: The tear-down in order. After the descriptors are closed the child is
  probed with signal 0. If it is gone and its status says that it exited, the
  client is told that exit status; otherwise a child that was started is sent
  \<open>SIGKILL\<close>. Then the channel gets EOF and is closed, before anything else
  happens.
\<close>

theorem teardown_in_order:
  assumes "w1 = close_descriptors e ev w" and "k = e_kill e (w_hist w1) (cd_pid (w_cdata w)) 0"
    and "rc = None \<longrightarrow> 0 \<le> k"
  shows "\<exists>es r. w_hist (snd (teardown e ev sess rc w)) =
     es @ [EChannelClose (sd_channel (w_sdata w1)), EChannelSendEof (sd_channel (w_sdata w1))]
     @ (if k < 0 \<and> WIFEXITED (the rc)
        then [EChannelExitStatus (sd_channel (w_sdata w1)) (WEXITSTATUS (the rc))]
        else if 0 < cd_pid (w_cdata w) then [EKill (cd_pid (w_cdata w)) SIGKILL r] else [])
     @ [EKill (cd_pid (w_cdata w)) 0 k] @ w_hist w1"
proof -
  have pid: "cd_pid (w_cdata w1) = cd_pid (w_cdata w)" using assms(1) by simp
  define v where "v = child_report e rc k (note_event (EKill (cd_pid (w_cdata w)) 0 k) w1)"
  have ec: "end_child e rc w1 = (Ret (), v)"
    using end_child_eq [of rc e w1] assms(2,3) pid by (simp add: v_def)
  define z where "z = note_event (EChannelClose (sd_channel (w_sdata v)))
    (note_event (EChannelSendEof (sd_channel (w_sdata v))) v)"
  have "ensures (grown (\<lambda>_. True) (w_hist z)) (\<lambda>_. grown (\<lambda>_. True) (w_hist z))
      (\<lambda>_. grown (\<lambda>_. True) (w_hist z)) (final_wait e ev sess 0 z)"
    by (rule grows.final_wait_ok) (rule grown_refl, rule refl)
  then obtain es where es: "w_hist (snd (final_wait e ev sess 0 z)) = es @ w_hist z"
    by (cases "final_wait e ev sess 0 z" rule: prod.exhaust)
      (auto simp: ensures_cases grown_def split: outcome.splits)
  have "w_hist (snd (teardown e ev sess rc w)) = es @ w_hist z"
    using ec es assms(1) by (simp add: teardown_def Let_def z_def)
  then show ?thesis
    using child_report_events(1) [of e rc k "note_event (EKill (cd_pid (w_cdata w)) 0 k) w1"] pid
    by (auto simp: z_def v_def child_report_events(2))
qed

theorem teardown_in_order_witness:
  "\<exists>es. w_hist (snd (teardown (sample_env []) 4 2 (Some (3 * 256)) child_world)) =
     es @ [EChannelClose None, EChannelSendEof None, EChannelExitStatus None 3, EKill 100 0 (- 1)]
     @ w_hist (close_descriptors (sample_env []) 4 child_world)"
  using teardown_in_order [OF refl refl, of "Some (3 * 256)" "sample_env []" 4 child_world 2]
    WEXITSTATUS_exit [of 3]
  by (simp add: close_descriptors_def sys_close_def ssh_event_remove_fd_def Let_def)

text \<open>
  The exit status round trip: a child that exits with a code from 0 to 255
  is reported to the client with exactly that code, whatever the tear-down finds
  otherwise, as long as the child is gone when it is probed.
\<close>

theorem exit_code_reported:
  assumes "0 \<le> c" "c < 256"
    and "e_kill e (w_hist w) (cd_pid (w_cdata w)) 0 < 0"
  shows "\<exists>k. end_child e (Some (c * 256)) w =
    (Ret (), note_event (EChannelExitStatus (sd_channel (w_sdata w)) c)
      (note_event (EKill (cd_pid (w_cdata w)) 0 k) w))"
  using end_child_eq [of "Some (c * 256)" e w] WEXITSTATUS_exit [OF assms(1,2)] assms(3)
  by (auto simp: child_report_def)

theorem exit_code_reported_witness:
  "\<exists>k. end_child (sample_env []) (Some (3 * 256)) child_world =
     (Ret (), note_event (EChannelExitStatus None 3) (note_event (EKill 100 0 k) child_world))"
  using exit_code_reported [of 3 "sample_env []" child_world] by simp

text \<open>
  A child that was started leaves \<open>child_stdin\<close>, \<open>child_stdout\<close> and
  \<open>pty_master\<close> with the same descriptor, and the tear-down closes all three: the
  terminal is closed three times in a row, twice when it is no longer open.
\<close>

theorem terminal_closed_three_times:
  assumes "cd_pty_master (w_cdata w) = m" "cd_child_stdin (w_cdata w) = m"
    and "cd_child_stdout (w_cdata w) = m"
  shows "\<exists>r a b c x y z. w_hist (close_descriptors e ev w) =
      [x, y, EClose (cd_child_stderr (w_cdata w)) r, EClose m c, EClose m b, EClose m a] @ w_hist w
    \<and> m \<notin> open_fds (EClose m a # w_hist w) \<and> m \<notin> open_fds (EClose m b # EClose m a # w_hist w)"
  using assms by (simp add: close_descriptors_def sys_close_def ssh_event_remove_fd_def Let_def)

theorem terminal_closed_three_times_witness:
  "\<exists>r a b c x y. w_hist (close_descriptors (sample_env []) 4 child_world) =
     [x, y, EClose (- 1) r, EClose 5 c, EClose 5 b, EClose 5 a]"
  using terminal_closed_three_times [of child_world 5 "sample_env []" 4] by simp

end
