(* ===== verification/Session_Serves.thy ===== *)
theory Session_Serves
  imports Sample_Runs
begin

unbundle bit_operations_syntax

text \<open>
  Progress: in an environment where everything succeeds, a client that logs in
  and asks for a shell gets the BBS, however many polls pass in between (fewer
  than 100 of them before the login).
\<close>

text \<open>The backend grants with \<open>key\<close>, and the kernel and libssh give what they are asked for.\<close>

definition cooperative :: "env \<Rightarrow> string \<Rightarrow> nat \<Rightarrow> bool" where
  "cooperative e key c \<longleftrightarrow> length key = 64 \<and> NUL \<notin> set key \<and> recv_lawful e
     \<and> (\<forall>h fd. e_recvfrom e h fd 128 = (64, key))
     \<and> (\<forall>h s. e_key_exchange e h s = SSH_OK) \<and> (\<forall>h. e_poll_rc e h = SSH_OK)
     \<and> (\<forall>h. e_channel_new e h = Some c) \<and> (\<forall>h. e_is_open e h (Some c))
     \<and> (\<forall>h ws. \<exists>m s. e_openpty e h ws = Some (m, s) \<and> m \<noteq> - 1 \<and> s \<noteq> - 1)
     \<and> (\<forall>h. e_fork e h = 0) \<and> (\<forall>h fd. e_login_tty e h fd = 0) \<and> (\<forall>h path args. e_execl e h path args)"

text \<open>Before the \<open>k\<close>th poll after the \<open>b\<close> first, and for \<open>j\<close> polls after it, the client is silent.\<close>

definition patient_client :: "env \<Rightarrow> nat \<Rightarrow> nat \<Rightarrow> nat \<Rightarrow> string \<Rightarrow> string \<Rightarrow> callback \<Rightarrow> bool" where
  "patient_client e b k j user pass pty \<longleftrightarrow> (\<forall>h t. e_poll e h t =
     (if polls h = b + k then [CbAuthPassword user pass, CbChannelOpen]
      else if polls h = b + k + 1 + j then [pty, CbShellRequest]
      else []))"

lemma cooperativeD:
  assumes "cooperative e key c"
  shows "length key = 64" "NUL \<notin> set key" "recv_lawful e" "e_recvfrom e h fd 128 = (64, key)"
    "e_key_exchange e h sess = 0" "e_poll_rc e h = 0" "e_channel_new e h = Some c" "e_is_open e h (Some c)"
    "\<exists>m s. e_openpty e h ws = Some (m, s) \<and> m \<noteq> - 1 \<and> s \<noteq> - 1"
    "e_fork e h = 0" "e_login_tty e h fd' = 0" "e_execl e h path args"
  using assms by (simp_all add: cooperative_def SSH_OK_def)

subsection \<open>Silent polls\<close>

lemma silent_poll:
  assumes "e_poll e (w_hist w) t = []" and "\<And>h. e_poll_rc e h = 0"
  shows "ssh_event_dopoll e ev t w = (Ret 0, w\<lparr>w_hist := EPollDone ev 0 # EPoll ev t [] # w_hist w\<rparr>)"
  using assms by (simp add: ssh_event_dopoll_def Let_def note_event_def)

lemma auth_loop_silent:
  assumes "\<And>h. e_poll_rc e h = 0" and "\<And>h t. b \<le> polls h \<Longrightarrow> polls h < b + n + i \<Longrightarrow> e_poll e h t = []"
    and "n + i < 100" and "sd_authenticated (w_sdata w) = 0" "sd_auth_attempts (w_sdata w) = 0"
    and "polls (w_hist w) = b + n"
  shows "\<exists>h. polls h = b + n + i \<and> auth_loop e ev n w = auth_loop e ev (n + i) (w\<lparr>w_hist := h\<rparr>)"
  using assms(2-)
proof (induction i arbitrary: n w)
  case 0
  then show ?case by (intro exI [of _ "w_hist w"]) simp
next
  case (Suc i)
  let ?w = "w\<lparr>w_hist := EPollDone ev 0 # EPoll ev 100 [] # w_hist w\<rparr>"
  have "e_poll e (w_hist w) 100 = []" using Suc.prems(1,5) by simp
  note p = silent_poll [OF this assms(1), of ev]
  have step: "auth_loop e ev n w = auth_loop e ev (Suc n) ?w"
    using Suc.prems(2,3,4) by (subst auth_loop.simps) (simp add: p SSH_ERROR_def)
  obtain h where "polls h = b + Suc n + i" "auth_loop e ev (Suc n) ?w = auth_loop e ev (Suc n + i) (?w\<lparr>w_hist := h\<rparr>)"
    using Suc.IH [of "Suc n" ?w] Suc.prems by auto
  then show ?case using step by (intro exI [of _ h]) simp
qed

lemma main_loop_silent:
  assumes "\<And>h. e_poll_rc e h = 0" and "\<And>h. e_is_open e h (sd_channel (w_sdata w))"
    and "\<And>h t. b \<le> polls h \<Longrightarrow> polls h < b + i \<Longrightarrow> e_poll e h t = []"
    and "cd_pid (w_cdata w) = 0" and "polls (w_hist w) = b"
  shows "\<exists>h. polls h = b + i \<and> main_loop (i + fuel) e ev rc w = main_loop fuel e ev rc (w\<lparr>w_hist := h\<rparr>)"
  using assms(2-)
proof (induction i arbitrary: b w)
  case 0
  then show ?case by (intro exI [of _ "w_hist w"]) simp
next
  case (Suc i)
  let ?h = "EChannelIsOpen (sd_channel (w_sdata w)) True # EPollDone ev 0 # EPoll ev (- 1) [] # w_hist w"
  have "e_poll e (w_hist w) (- 1) = []" using Suc.prems(2,4) by simp
  note p = silent_poll [OF this assms(1), of ev]
  have step: "main_loop (Suc i + fuel) e ev rc w = main_loop (i + fuel) e ev rc (w\<lparr>w_hist := ?h\<rparr>)"
    using Suc.prems(1,3)
    by (simp add: loop_body_def p start_child_io_def loop_cond_def ssh_channel_is_open_def SSH_ERROR_def note_event_def Let_def)
  obtain h where "polls h = Suc b + i"
      "main_loop (i + fuel) e ev rc (w\<lparr>w_hist := ?h\<rparr>) = main_loop fuel e ev rc (w\<lparr>w_hist := h\<rparr>)"
    using Suc.IH [of "w\<lparr>w_hist := ?h\<rparr>" "Suc b"] Suc.prems by auto
  then show ?case using step by (intro exI [of _ h]) simp
qed

subsection \<open>The login and the shell\<close>

lemma cooperative_accepts:
  assumes "cooperative e key c" and "lengths_ok u p"
  shows "auth_accepts e u p h" "snd (backend_reply e u p h) = key"
  using assms cooperativeD(4) [OF assms(1)] by (simp_all add: auth_accepts_def backend_reply_def)

lemma login_poll:
  assumes "cooperative e key c" and "lengths_ok u p" and "n < 100"
    and "e_poll e (w_hist w) 100 = [CbAuthPassword u p, CbChannelOpen]" and "w_server_cb w"
    and "sd_authenticated (w_sdata w) = 0" "sd_auth_attempts (w_sdata w) = 0" "length (sd_key (w_sdata w)) = 65"
  shows "\<exists>h. polls h = Suc (polls (w_hist w)) \<and> auth_loop e ev n w = (Ret True, w\<lparr>
     w_sdata := (w_sdata w)\<lparr>sd_key := key_of key, sd_authenticated := 1, sd_channel := Some c\<rparr>, w_hist := h\<rparr>)"
proof -
  note co = cooperativeD [OF assms(1)]
  note acc = cooperative_accepts [OF assms(1,2)]
  have "\<exists>h. polls h = Suc (polls (w_hist w)) \<and> ssh_event_dopoll e ev 100 w = (Ret 0, w\<lparr>
     w_sdata := (w_sdata w)\<lparr>sd_key := key_of key, sd_authenticated := 1, sd_channel := Some c\<rparr>, w_hist := h\<rparr>)"
    using assms(4,5,8)
    by (intro exI [of _ "EPollDone ev 0 # ECallback CbChannelOpen 1 # EChannelNew (Some c) #
          ECallback (CbAuthPassword u p) 0 # auth_log e u p (EPoll ev 100 [CbAuthPassword u p, CbChannelOpen] # w_hist w)"])
      (simp add: ssh_event_dopoll_def deliver_def auth_password_eq [OF _ co(3)] acc channel_open_def
        ssh_channel_new_def co(6,7) note_event_def Let_def)
  then obtain h where h: "polls h = Suc (polls (w_hist w))" "ssh_event_dopoll e ev 100 w = (Ret 0, w\<lparr>
     w_sdata := (w_sdata w)\<lparr>sd_key := key_of key, sd_authenticated := 1, sd_channel := Some c\<rparr>, w_hist := h\<rparr>)" by blast
  then show ?thesis
    using assms(3,6,7)
    by (intro exI [of _ h], subst auth_loop.simps) (simp add: SSH_ERROR_def auth_loop_done)
qed

lemma shell_poll:
  assumes "cooperative e key c"
    and "e_poll e (w_hist w) (- 1) = [CbPtyRequest trm cols rows px py, CbShellRequest]"
    and "w_channel_cb w" and "cd_pid (w_cdata w) = 0" "cd_sdata (w_cdata w)" "sd_key (w_sdata w) = key_of key"
  shows "\<exists>w'. main_loop (Suc fuel) e ev rc w =
     Some (Halt (Execed ''/usr/bin/node'' [''node'', ''bbs.js'', key]), w')"
proof -
  note co = cooperativeD [OF assms(1)]
  have key: "buf_cstr (key_of key) = Some key"
    using buf_cstr_text [OF co(2), of "[]"] by (simp add: key_of_def)
  obtain m s where pty: "e_openpty e (EPoll ev (- 1) [CbPtyRequest trm cols rows px py, CbShellRequest] # w_hist w)
      \<lparr>ws_row = c_ushort rows, ws_col = c_ushort cols, ws_xpixel = c_ushort py, ws_ypixel = c_ushort px\<rparr> = Some (m, s)"
      "m \<noteq> - 1" "s \<noteq> - 1"
    using co(9) by meson
  show ?thesis
    using assms(2-) pty
    by (simp add: loop_body_def ssh_event_dopoll_def deliver_def pty_request_def set_winsize_def shell_request_def
        exec_pty_def exec_child_def sys_openpty_def sys_fork_def sys_close_def sys_login_tty_def sys_execl_def
        co(10,11,12) key int_result_def note_event_def Let_def)
qed

text \<open>
  Progress: a client that logs in with admissible credentials within the first
  100 polls and later asks for a terminal and a shell gets the BBS client,
  started with the key that the backend answered, if the backend, the kernel and
  libssh give what they are asked for. This holds for any number of polls in
  between, given fuel for them.
\<close>

theorem login_leads_to_bbs:
  assumes "cooperative e key c"
    and "patient_client e (polls (w_hist v)) k j u p (CbPtyRequest trm cols rows px py)"
    and "lengths_ok u p" and "k < 100" and "j < fuel"
  shows "\<exists>w'. handle_session fuel e ev sess v =
     Some (Halt (Execed ''/usr/bin/node'' [''node'', ''bbs.js'', key]), w')"
proof -
  note co = cooperativeD [OF assms(1)]
  let ?b = "polls (w_hist v)"
  obtain w0 where w0: "begin_session e ev sess v = (True, w0)" "polls (w_hist w0) = ?b" "w_server_cb w0"
      "w_sdata w0 = \<lparr>sd_channel = None, sd_auth_attempts = 0, sd_authenticated = 0, sd_key = replicate 65 (Some NUL)\<rparr>"
      "cd_pid (w_cdata w0) = 0" "cd_sdata (w_cdata w0)"
    by (simp add: begin_session_def set_server_callbacks_def init_locals_def ssh_handle_key_exchange_def co(5)
        SSH_OK_def note_event_def Let_def)
  have poll: "e_poll e h t = (if polls h = ?b + k then [CbAuthPassword u p, CbChannelOpen]
      else if polls h = ?b + k + 1 + j then [CbPtyRequest trm cols rows px py, CbShellRequest] else [])" for h t
    using assms(2) by (simp add: patient_client_def)
  obtain h1 where h1: "polls h1 = ?b + k" "auth_loop e ev 0 w0 = auth_loop e ev k (w0\<lparr>w_hist := h1\<rparr>)"
    using auth_loop_silent [of e ?b 0 k w0 ev] co(6) poll assms(4) w0 by auto
  obtain h2 where h2: "polls h2 = Suc (?b + k)" "auth_loop e ev k (w0\<lparr>w_hist := h1\<rparr>) = (Ret True, w0\<lparr>
      w_sdata := (w_sdata w0)\<lparr>sd_key := key_of key, sd_authenticated := 1, sd_channel := Some c\<rparr>, w_hist := h2\<rparr>)"
    using login_poll [OF assms(1,3,4), of "w0\<lparr>w_hist := h1\<rparr>" ev] h1(1) poll w0 by auto
  define w2 where "w2 = set_channel_callbacks (w0\<lparr>
      w_sdata := (w_sdata w0)\<lparr>sd_key := key_of key, sd_authenticated := 1, sd_channel := Some c\<rparr>, w_hist := h2\<rparr>)"
  have w2: "polls (w_hist w2) = Suc (?b + k)" "w_channel_cb w2" "cd_pid (w_cdata w2) = 0" "cd_sdata (w_cdata w2)"
      "sd_key (w_sdata w2) = key_of key" "sd_channel (w_sdata w2) = Some c"
    using h2(1) w0 by (simp_all add: w2_def set_channel_callbacks_def)
  obtain fuel' where fuel: "fuel = j + Suc fuel'" using assms(5) by (metis add_Suc_right less_iff_Suc_add)
  obtain h3 where h3: "polls h3 = Suc (?b + k) + j"
      "main_loop fuel e ev None w2 = main_loop (Suc fuel') e ev None (w2\<lparr>w_hist := h3\<rparr>)"
    using main_loop_silent [of e w2 "Suc (?b + k)" j "Suc fuel'" ev None] co(6,8) poll w2 fuel by auto
  have "\<exists>w'. main_loop (Suc fuel') e ev None (w2\<lparr>w_hist := h3\<rparr>) =
      Some (Halt (Execed ''/usr/bin/node'' [''node'', ''bbs.js'', key]), w')"
    by (rule shell_poll [OF assms(1)]) (simp_all add: poll h3(1) w2)
  then obtain w' where "main_loop (Suc fuel') e ev None (w2\<lparr>w_hist := h3\<rparr>) =
      Some (Halt (Execed ''/usr/bin/node'' [''node'', ''bbs.js'', key]), w')" by blast
  then show ?thesis
    using w0(1) h1(2) h2(2) h3(2) by (simp add: handle_session_def w2_def del: main_loop.simps)
qed

definition patient_env :: env where
  "patient_env = sample_env []\<lparr>e_fork := \<lambda>h. 0, e_is_open := \<lambda>h c. True, e_openpty := \<lambda>h ws. Some (5, 6),
     e_poll := \<lambda>h t. if polls h = 40 then bob else if polls h = 1041 then open_shell else []\<rparr>"

theorem login_leads_to_bbs_witness:
  "\<exists>w'. handle_session 2000 patient_env 4 2 blank_world =
     Some (Halt (Execed ''/usr/bin/node'' [''node'', ''bbs.js'', sample_key]), w')"
proof -
  have "cooperative patient_env sample_key 7"
    using sample_lawful(1) [of "[]"]
    by (simp add: cooperative_def patient_env_def recv_lawful_def SSH_OK_def sample_key_def)
  moreover have "patient_client patient_env (polls (w_hist blank_world)) 40 1000 ''bob'' ''secret''
      (CbPtyRequest ''xterm'' 80 24 640 480)"
    by (simp add: patient_client_def patient_env_def bob_def open_shell_def)
  ultimately show ?thesis
    using login_leads_to_bbs [of patient_env sample_key 7 blank_world 40 1000] lengths_ok_bob by simp
qed

end
