(* ===== verification/Channel_Properties.thy ===== *)
theory Channel_Properties
  imports Session_Safety
begin

unbundle bit_operations_syntax

text \<open>
  What single channel callbacks do: the terminal's size, the shell request on
  every branch, and the two directions of data.
\<close>

subsection \<open>The size of the terminal\<close>

text \<open>
  A size change is stored modulo 65536, field by field: columns and rows
  as named, but with the two pixel sizes exchanged. libssh passes the width in
  pixels before the height; \<open>pty_resize\<close> names the first \<open>py\<close> and stores it as
  the height. The stored size is handed to the terminal of the session, when
  there is one, and the return value is that call's; without a terminal it is
  \<open>SSH_ERROR\<close>.
\<close>

theorem resize_stores_swapped_pixels:
  "\<exists>r w'. invoke e (CbWindowChange cols rows pxwidth pxheight) w = (Ret r, w')
    \<and> uint (ws_col (w_wsize w')) = cols mod 65536 \<and> uint (ws_row (w_wsize w')) = rows mod 65536
    \<and> uint (ws_xpixel (w_wsize w')) = pxheight mod 65536
    \<and> uint (ws_ypixel (w_wsize w')) = pxwidth mod 65536
    \<and> w_cdata w' = w_cdata w \<and> w_sdata w' = w_sdata w
    \<and> (if cd_pty_master (w_cdata w) = - 1 then r = SSH_ERROR \<and> w_hist w' = w_hist w
       else w_hist w' = EIoctlWinsz (cd_pty_master (w_cdata w)) (w_wsize w') r # w_hist w)"
  by (simp add: int_result_def pty_resize_def set_winsize_def sys_ioctl_winsz_def Let_def
      uint_c_ushort)

text \<open>
  A terminal request asks for a terminal of exactly the size it stores.
  When one is given its two descriptors are the session's, and the answer is
  \<open>SSH_OK\<close>; otherwise the descriptors stay what they were and the answer is
  \<open>SSH_ERROR\<close>. A terminal the session already had is not closed: with fresh
  descriptors the old ones stay open and are no longer referred to.
\<close>

theorem pty_request_replaces_terminal:
  assumes "pty_lawful e" and "pty_request e trm cols rows py px w = (r, w')"
    and "cd_pty_master (w_cdata w) \<in> open_fds (w_hist w)"
  shows "(r = SSH_OK \<and> cd_pty_master (w_cdata w') \<in> open_fds (w_hist w') \<and>
           cd_pty_master (w_cdata w') \<noteq> cd_pty_master (w_cdata w)
         \<or> r = SSH_ERROR \<and> w_cdata w' = w_cdata w)
    \<and> cd_pty_master (w_cdata w) \<in> open_fds (w_hist w')
    \<and> cd_pid (w_cdata w') = cd_pid (w_cdata w) \<and> w_sdata w' = w_sdata w"
proof -
  define v where "v = set_winsize cols rows py px w"
  have v: "w_hist v = w_hist w" "w_cdata v = w_cdata w" "w_sdata v = w_sdata w"
    by (simp_all add: v_def set_winsize_def)
  have law: "case e_openpty e (w_hist w) (w_wsize v) of None \<Rightarrow> True
     | Some (m, s) \<Rightarrow> m \<notin> open_fds (w_hist w)"
    using assms(1) unfolding pty_lawful_def by (auto split: option.splits prod.splits)
  show ?thesis
    using assms(2,3) law v
    by (auto simp: pty_request_def sys_openpty_def v_def [symmetric] Let_def split: option.splits)
qed

theorem pty_request_replaces_terminal_witness:
  "\<exists>w'. pty_request (sample_env []) ''xterm'' 80 24 0 0
       (blank_world\<lparr>w_cdata := (w_cdata blank_world)\<lparr>cd_pty_master := 9\<rparr>, w_hist := [ESocket 9]\<rparr>) = (SSH_OK, w')
     \<and> 9 \<in> open_fds (w_hist w') \<and> cd_pty_master (w_cdata w') \<noteq> 9"
proof -
  let ?w = "blank_world\<lparr>w_cdata := (w_cdata blank_world)\<lparr>cd_pty_master := 9\<rparr>, w_hist := [ESocket 9]\<rparr>"
  obtain r w' where p: "pty_request (sample_env []) ''xterm'' 80 24 0 0 ?w = (r, w')" by fastforce
  then have "r = SSH_OK"
    by (auto simp: pty_request_def set_winsize_def sys_openpty_def Let_def)
  then show ?thesis
    using pty_request_replaces_terminal [OF sample_lawful(6) p] p by (auto simp: code_defs)
qed

subsection \<open>Starting the shell\<close>

text \<open>
  C24: A shell request, on every branch. It always ends well defined. With a
  child running it is refused and changes nothing; without a terminal it is
  granted and changes nothing. Otherwise it forks. A failed fork closes both
  descriptors of the terminal and is an error. In the new process it ends by
  \<open>execl\<close> with the key, or by \<open>exit\<close>. In the parent the new child is
  recorded and becomes one of the process's children, the slave is closed, and
  the master is what the child's input and output go through.
\<close>

theorem shell_request_correct:
  assumes "key_ok (sd_key (w_sdata w))" and "cd_sdata (w_cdata w)" and "fork_lawful e"
  defines "m \<equiv> cd_pty_master (w_cdata w)" and "s \<equiv> cd_pty_slave (w_cdata w)"
    and "p \<equiv> e_fork e (w_hist w)"
  shows "\<exists>q w'. shell_request e w = (q, w') \<and>
    (if 0 < cd_pid (w_cdata w) then q = Ret SSH_ERROR \<and> w' = w
     else if m = - 1 \<or> s = - 1 then q = Ret SSH_OK \<and> w' = w
     else if p = - 1 then q = Ret SSH_ERROR \<and> w_cdata w' = (w_cdata w)\<lparr>cd_pid := - 1\<rparr>
       \<and> open_fds (w_hist w') = open_fds (w_hist w) - {m, s} \<and> children (w_hist w') = children (w_hist w)
     else if p = 0 then q = Halt (Exited 1) \<or> q = Halt (Exited 0)
       \<or> (\<exists>k. buf_cstr (sd_key (w_sdata w)) = Some k
            \<and> q = Halt (Execed ''/usr/bin/node'' [''node'', ''bbs.js'', k]))
     else q = Ret SSH_OK
       \<and> w_cdata w' = (w_cdata w)\<lparr>cd_pid := p, cd_child_stdin := m, cd_child_stdout := m\<rparr>
       \<and> open_fds (w_hist w') = open_fds (w_hist w) - {s}
       \<and> children (w_hist w') = insert p (children (w_hist w)))"
proof (cases "0 < cd_pid (w_cdata w) \<or> m = - 1 \<or> s = - 1")
  case True
  then show ?thesis by (auto simp: shell_request_def m_def s_def)
next
  case False
  define w2 where "w2 = upd_cdata (cd_pid_update (\<lambda>_. p)) (note_event (EFork p) w)"
  have f: "sys_fork e w = (p, note_event (EFork p) w)" by (simp add: sys_fork_def p_def Let_def)
  obtain k where k: "buf_cstr (sd_key (w_sdata w)) = Some k" using key_ok_cstr [OF assms(1)] by blast
  have child: "\<exists>w'. exec_child e w2 = (Halt (Exited 1), w') \<or> exec_child e w2 = (Halt (Exited 0), w')
      \<or> exec_child e w2 = (Halt (Execed ''/usr/bin/node'' [''node'', ''bbs.js'', k]), w')"
    using k assms(2) by (auto simp: exec_child_def sys_defs Let_def w2_def)
  have "- 1 \<le> p" using fork_lawfulD(1) [OF assms(3)] by (simp add: p_def)
  moreover have "w_hist w2 = EFork p # w_hist w" "w_cdata w2 = (w_cdata w)\<lparr>cd_pid := p\<rparr>"
    by (simp_all add: w2_def)
  ultimately show ?thesis
    using False child k
    unfolding shell_request_def exec_pty_eq [OF f w2_def]
    by (auto simp: m_def s_def sys_close_def)
qed

lemma key_ok_blank [simp]: "key_ok (replicate 65 (Some NUL))"
  by (simp only: no_key_def [symmetric] key_ok_no_key)

text \<open>A world with a terminal and no child.\<close>

definition terminal_world :: world where
  "terminal_world = blank_world\<lparr>
     w_cdata := (w_cdata blank_world)\<lparr>cd_pty_master := 5, cd_pty_slave := 6\<rparr>,
     w_hist := [EOpenpty (w_wsize blank_world) (Some (5, 6))]\<rparr>"

lemma terminal_world_simps [simp]:
  "cd_pid (w_cdata terminal_world) = 0" "cd_pty_master (w_cdata terminal_world) = 5"
  "cd_pty_slave (w_cdata terminal_world) = 6" "cd_sdata (w_cdata terminal_world)"
  "key_ok (sd_key (w_sdata terminal_world))" "open_fds (w_hist terminal_world) = {5, 6}"
  "children (w_hist terminal_world) = {}" "w_hist terminal_world \<noteq> []"
  by (simp_all add: terminal_world_def, auto simp: blank_world_def)

theorem shell_request_correct_witness:
  "\<exists>w'. shell_request (sample_env []) terminal_world = (Ret SSH_OK, w')
     \<and> open_fds (w_hist w') = {5} \<and> children (w_hist w') = {100}"
  using shell_request_correct [of terminal_world "sample_env []"] by auto

text \<open>
  After a failed fork the session still believes in its terminal. The two
  descriptors are closed but kept in \<open>cdata\<close>, and \<open>pid\<close> is -1, so the next
  shell request forks again: it succeeds with a child whose input and output
  are a descriptor that is not open.
\<close>

theorem shell_retry_uses_closed_terminal:
  assumes "shell_request e w = (Ret r, w1)" and "e_fork e (w_hist w) = - 1"
    and "\<not> 0 < cd_pid (w_cdata w)" and "cd_pty_master (w_cdata w) = m" "m \<noteq> - 1" "cd_pty_slave (w_cdata w) \<noteq> - 1"
    and "0 < e_fork e (w_hist w1)"
  shows "r = SSH_ERROR \<and> (\<exists>w2. shell_request e w1 = (Ret SSH_OK, w2)
    \<and> cd_child_stdin (w_cdata w2) = m \<and> cd_child_stdout (w_cdata w2) = m \<and> m \<notin> open_fds (w_hist w2))"
  using assms by (auto simp: shell_request_def exec_pty_def sys_defs Let_def)

theorem shell_retry_uses_closed_terminal_witness:
  "\<exists>w1 w2. shell_request (sample_env []\<lparr>e_fork := \<lambda>h. if h = w_hist terminal_world then - 1 else 100\<rparr>) terminal_world
       = (Ret SSH_ERROR, w1)
     \<and> shell_request (sample_env []\<lparr>e_fork := \<lambda>h. if h = w_hist terminal_world then - 1 else 100\<rparr>) w1 = (Ret SSH_OK, w2)
     \<and> cd_child_stdin (w_cdata w2) = 5 \<and> 5 \<notin> open_fds (w_hist w2)"
proof -
  let ?e = "sample_env []\<lparr>e_fork := \<lambda>h. if h = w_hist terminal_world then - 1 else 100\<rparr>"
  obtain r w1 where s: "shell_request ?e terminal_world = (Ret r, w1)" "w_hist w1 \<noteq> w_hist terminal_world"
    by (auto simp: shell_request_def exec_pty_def sys_defs Let_def)
  show ?thesis
    using shell_retry_uses_closed_terminal [OF s(1), of 5] s by auto
qed

subsection \<open>Moving data\<close>

text \<open>
  Output of the child is forwarded unchanged. When the poll reports input,
  one \<open>read\<close> of at most 1048576 bytes is made; if it gives bytes, exactly those
  bytes are written to the channel in one call and their number is returned; if
  not, nothing is written and the result is the one \<open>read\<close> gave. The megabyte
  on the stack is never left, and no byte of it is used that \<open>read\<close> has not set.
\<close>

theorem child_output_forwarded:
  assumes "read_lawful e" and "revents AND POLLIN \<noteq> 0"
  shows "\<exists>r s. e_read e (w_hist w) fd BUF_SIZE = (r, s) \<and> length s \<le> BUF_SIZE
    \<and> process_stdout e fd revents (Some c) w =
       (Ret r, w\<lparr>w_hist := (if 0 < r then [EChannelWrite c s] else []) @ ERead fd BUF_SIZE r s # w_hist w\<rparr>)"
proof -
  obtain r s where rd: "e_read e (w_hist w) fd BUF_SIZE = (r, s)" by fastforce
  have ok: "transfer_ok BUF_SIZE (r, s)" using assms(1) rd unfolding read_lawful_def by metis
  have "length s \<le> BUF_SIZE" using transfer_okD [OF ok] by auto
  then show ?thesis
    using assms(2) rd bytes_of_receive [OF ok] c_int_read [OF ok]
    by (auto simp: process_stdout_def process_output_def sys_read_def note_event_def Let_def)
qed

theorem child_output_forwarded_witness:
  "\<exists>w'. process_stdout (sample_env []) 5 POLLIN (Some 7) blank_world = (Ret 5, w')
     \<and> w_hist w' = [EChannelWrite 7 ''hello'', ERead 5 BUF_SIZE 5 ''hello'']"
proof -
  have p: "POLLIN AND POLLIN \<noteq> 0" by (simp add: code_defs)
  have "e_read (sample_env []) (w_hist blank_world) 5 BUF_SIZE = (5, ''hello'')"
    by (simp add: BUF_SIZE_def)
  with child_output_forwarded [OF sample_lawful(2) [of "[]"] p, of blank_world 5 7]
  show ?thesis by auto
qed

text \<open>
  Input of the client is offered to the child once, whole. The callback
  returns how many of the bytes the terminal took, which is what libssh removes
  from the channel; it returns 0 and writes nothing for an empty message,
  without a child, and with a child that \<open>kill(pid, 0)\<close> no longer finds. Its
  \<open>is_stderr\<close> argument makes no difference.
\<close>

theorem client_data_offered_once:
  assumes "\<And>h fd s. - 1 \<le> e_write e h fd s \<and> e_write e h fd s \<le> int (length s)"
    and "length dat < 2 ^ 31"
  shows "\<exists>r w'. invoke e (CbData dat is_stderr) w = (Ret r, w') \<and> w_cdata w' = w_cdata w
    \<and> (if dat = [] \<or> cd_pid (w_cdata w) < 1 then r = 0 \<and> w' = w
       else let k = e_kill e (w_hist w) (cd_pid (w_cdata w)) 0;
                h = EKill (cd_pid (w_cdata w)) 0 k # w_hist w
            in if k < 0 then r = 0 \<and> w_hist w' = h
               else r = e_write e h (cd_child_stdin (w_cdata w)) dat \<and> r \<le> int (length dat)
                 \<and> w_hist w' = EWrite (cd_child_stdin (w_cdata w)) dat r # h)"
proof -
  have "c_int (e_write e h fd dat) = e_write e h fd dat" for h fd
    using assms(1) [of h fd dat] assms(2) by (intro c_int_id) auto
  then show ?thesis
    using assms(1) by (auto simp: int_result_def data_function_def sys_kill_def sys_write_def Let_def)
qed

theorem client_data_offered_once_witness:
  "\<exists>w'. invoke (sample_env []\<lparr>e_kill := \<lambda>h p s. 0\<rparr>) (CbData ''hi'' False)
       (terminal_world\<lparr>w_cdata := (w_cdata terminal_world)\<lparr>cd_pid := 100, cd_child_stdin := 5\<rparr>\<rparr>) = (Ret 2, w')
     \<and> EWrite 5 ''hi'' 2 \<in> set (w_hist w')"
  using client_data_offered_once [of "sample_env []\<lparr>e_kill := \<lambda>h p s. 0\<rparr>" "''hi''" False
      "terminal_world\<lparr>w_cdata := (w_cdata terminal_world)\<lparr>cd_pid := 100, cd_child_stdin := 5\<rparr>\<rparr>"]
  by auto

end
