(* ===== verification/Session_Spec.thy ===== *)
theory Session_Spec
  imports Sample_Runs Session_Gate
begin

unbundle bit_operations_syntax

text \<open>
  The contract of a session, without descriptors' bookkeeping, buffers and
  system calls: a small state machine whose steps are the callbacks with the
  answers they give. The code refines it: the callbacks recorded in a session's
  history are a run of the machine, and the C structs at any time are its state.
\<close>

subsection \<open>The machine\<close>

datatype child = No_child | Fork_failed | Running int int

record spec =
  sp_login :: "string option"
  sp_failures :: int
  sp_channel :: "nat option"
  sp_size :: winsize
  sp_terminal :: "(int \<times> int) option"
  sp_child :: child

definition spec_start :: spec where
  "spec_start = \<lparr>sp_login = None, sp_failures = 0, sp_channel = None,
     sp_size = \<lparr>ws_row = 0, ws_col = 0, ws_xpixel = 0, ws_ypixel = 0\<rparr>,
     sp_terminal = None, sp_child = No_child\<rparr>"

fun running :: "child \<Rightarrow> bool" where
  "running (Running p m) \<longleftrightarrow> True"
| "running c \<longleftrightarrow> False"

definition spec_size :: "int \<Rightarrow> int \<Rightarrow> int \<Rightarrow> int \<Rightarrow> winsize" where
  "spec_size cols rows pxwidth pxheight =
     \<lparr>ws_row = word_of_int rows, ws_col = word_of_int cols,
      ws_xpixel = word_of_int pxheight, ws_ypixel = word_of_int pxwidth\<rparr>"

inductive spec_step :: "spec \<Rightarrow> callback \<Rightarrow> int \<Rightarrow> spec \<Rightarrow> bool" where
  granted: "lengths_ok u p \<Longrightarrow> length s = 64 \<Longrightarrow>
    spec_step a (CbAuthPassword u p) (ssh_auth_code SSH_AUTH_SUCCESS) (a\<lparr>sp_login := Some (cstr s)\<rparr>)"
| refused: "spec_step a (CbAuthPassword u p) (ssh_auth_code SSH_AUTH_DENIED)
    (a\<lparr>sp_login := map_option (\<lambda>_. []) (sp_login a), sp_failures := sp_failures a + 1\<rparr>)"
| opened: "spec_step a CbChannelOpen (if c = None then 0 else 1) (a\<lparr>sp_channel := c\<rparr>)"
| terminal: "0 \<le> m \<Longrightarrow> 0 \<le> s \<Longrightarrow> spec_step a (CbPtyRequest t cols rows x y) SSH_OK
    (a\<lparr>sp_size := spec_size cols rows x y, sp_terminal := Some (m, s)\<rparr>)"
| no_terminal: "spec_step a (CbPtyRequest t cols rows x y) SSH_ERROR
    (a\<lparr>sp_size := spec_size cols rows x y\<rparr>)"
| resized: "sp_terminal a \<noteq> None \<or> r = SSH_ERROR \<Longrightarrow>
    spec_step a (CbWindowChange cols rows x y) r (a\<lparr>sp_size := spec_size cols rows x y\<rparr>)"
| busy: "running (sp_child a) \<Longrightarrow> spec_step a CbShellRequest SSH_ERROR a"
| pretended: "\<not> running (sp_child a) \<Longrightarrow> sp_terminal a = None \<Longrightarrow> spec_step a CbShellRequest SSH_OK a"
| started: "\<not> running (sp_child a) \<Longrightarrow> sp_terminal a = Some (m, s) \<Longrightarrow> 0 < p \<Longrightarrow>
    spec_step a CbShellRequest SSH_OK (a\<lparr>sp_child := Running p m\<rparr>)"
| not_started: "\<not> running (sp_child a) \<Longrightarrow> sp_terminal a = Some (m, s) \<Longrightarrow>
    spec_step a CbShellRequest SSH_ERROR (a\<lparr>sp_child := Fork_failed\<rparr>)"
| client_data: "running (sp_child a) \<or> r = 0 \<Longrightarrow> spec_step a (CbData dat is_stderr) r a"
| child_data: "spec_step a (CbFd fd revents) r a"

inductive_cases spec_auth: "spec_step a (CbAuthPassword u p) r b"
inductive_cases spec_shell: "spec_step a CbShellRequest r b"

text \<open>Runs, with the callbacks and their answers, newest first.\<close>

type_synonym trace = "(callback \<times> int) list"

inductive spec_reach :: "trace \<Rightarrow> spec \<Rightarrow> bool" where
  start: "spec_reach [] spec_start"
| step: "spec_reach tr a \<Longrightarrow> spec_step a cb r b \<Longrightarrow> spec_reach ((cb, r) # tr) b"

subsection \<open>What every run of the machine satisfies\<close>

definition denials :: "trace \<Rightarrow> nat" where
  "denials tr = length (filter (\<lambda>(cb, r). case cb of
     CbAuthPassword u p \<Rightarrow> r = ssh_auth_code SSH_AUTH_DENIED | _ \<Rightarrow> False) tr)"

definition grants_in :: "trace \<Rightarrow> nat" where
  "grants_in tr = length (filter (\<lambda>(cb, r). case cb of
     CbAuthPassword u p \<Rightarrow> r = ssh_auth_code SSH_AUTH_SUCCESS | _ \<Rightarrow> False) tr)"

lemma auth_codes_differ: "ssh_auth_code SSH_AUTH_SUCCESS \<noteq> ssh_auth_code SSH_AUTH_DENIED"
  by simp

lemma spec_counts:
  "spec_reach tr a \<Longrightarrow> sp_failures a = int (denials tr) \<and> (sp_login a \<noteq> None \<longleftrightarrow> 0 < grants_in tr)"
proof (induction rule: spec_reach.induct)
  case start
  then show ?case by (simp add: spec_start_def denials_def grants_in_def)
next
  case (step tr a cb r b)
  from step(2) show ?case
    using step(3) by (cases rule: spec_step.cases) (auto simp: denials_def grants_in_def)
qed

lemma spec_child:
  "spec_reach tr a \<Longrightarrow> (running (sp_child a) \<longrightarrow> sp_terminal a \<noteq> None \<and> (CbShellRequest, SSH_OK) \<in> set tr)
     \<and> (sp_child a \<noteq> No_child \<longrightarrow> sp_terminal a \<noteq> None)"
proof (induction rule: spec_reach.induct)
  case start
  then show ?case by (simp add: spec_start_def)
next
  case (step tr a cb r b)
  from step(2) show ?case
    using step(3) by (cases rule: spec_step.cases) auto
qed

text \<open>A child, once running, stays the session's child.\<close>

lemma running_stays: "spec_step a cb r b \<Longrightarrow> sp_child a = Running p m \<Longrightarrow> sp_child b = Running p m"
  by (cases rule: spec_step.cases) auto

subsection \<open>The code's state as a state of the machine\<close>

definition abs_session :: "world \<Rightarrow> spec" where
  "abs_session w = \<lparr>
     sp_login = (if sd_authenticated (w_sdata w) = 0 then None else buf_cstr (sd_key (w_sdata w))),
     sp_failures = sd_auth_attempts (w_sdata w),
     sp_channel = sd_channel (w_sdata w),
     sp_size = w_wsize w,
     sp_terminal = (if cd_pty_master (w_cdata w) = - 1 then None
       else Some (cd_pty_master (w_cdata w), cd_pty_slave (w_cdata w))),
     sp_child = (if cd_pid (w_cdata w) = 0 then No_child
       else if cd_pid (w_cdata w) < 0 then Fork_failed
       else Running (cd_pid (w_cdata w)) (cd_child_stdin (w_cdata w)))\<rparr>"

text \<open>The two descriptors of a terminal are set together.\<close>

definition terminal_ok :: "world \<Rightarrow> bool" where
  "terminal_ok w \<longleftrightarrow> (cd_pty_master (w_cdata w) = - 1 \<longleftrightarrow> cd_pty_slave (w_cdata w) = - 1)"

lemma abs_note [simp]: "abs_session (note_event x w) = abs_session w"
  by (simp add: abs_session_def)

lemma terminal_note [simp]: "terminal_ok (note_event x w) = terminal_ok w"
  by (simp add: terminal_ok_def)

definition spec_lawful :: "env \<Rightarrow> bool" where
  "spec_lawful e \<longleftrightarrow> io_lawful e \<and> fork_lawful e \<and> pty_lawful e"

text \<open>One lemma per callback.\<close>

lemma buf_cstr_key_of: "buf_cstr (key_of s) = Some (cstr s)"
  using buf_cstr_prefix [of s "[]"] by (simp add: key_of_def)

lemma auth_password_refines:
  assumes "auth_password e u p w = (Ret r, w')" and "session_inv h0 w" and "recv_lawful e"
  shows "spec_step (abs_session w) (CbAuthPassword u p) r (abs_session w')"
proof -
  note eq = auth_password_eq [OF session_key_length [OF assms(2)] assms(3), of u p]
  have kg: "\<exists>k. buf_cstr (sd_key (w_sdata w)) = Some k"
    using assms(2) by (auto simp: session_inv_def trace_inv_def dest!: key_granted_cstr)
  show ?thesis
  proof (cases "auth_accepts e u p (w_hist w)")
    case True
    define s where "s = snd (backend_reply e u p (w_hist w))"
    have "lengths_ok u p" "length s = 64"
      using True recv_lawful_64 [OF assms(3)] unfolding auth_accepts_def backend_reply_def s_def
      by (auto simp: prod_eq_iff) 
    then have "spec_step (abs_session w) (CbAuthPassword u p) (ssh_auth_code SSH_AUTH_SUCCESS)
        ((abs_session w)\<lparr>sp_login := Some (cstr s)\<rparr>)"
      by (rule granted)
    moreover have "abs_session w' = (abs_session w)\<lparr>sp_login := Some (cstr s)\<rparr>"
      "r = ssh_auth_code SSH_AUTH_SUCCESS"
      using assms(1) True by (auto simp: eq abs_session_def s_def buf_cstr_key_of)
    ultimately show ?thesis by simp
  next
    case False
    then have "abs_session w' = (abs_session w)\<lparr>sp_login := map_option (\<lambda>_. []) (sp_login (abs_session w)),
        sp_failures := sp_failures (abs_session w) + 1\<rparr>" "r = ssh_auth_code SSH_AUTH_DENIED"
      using assms(1) kg by (auto simp: eq abs_session_def)
    then show ?thesis using refused by simp
  qed
qed

lemma abs_terminal:
  "0 \<le> m \<Longrightarrow> abs_session (upd_cdata (\<lambda>c. c\<lparr>cd_pty_master := m, cd_pty_slave := s\<rparr>) z) =
     (abs_session z)\<lparr>sp_terminal := Some (m, s)\<rparr>"
  by (simp add: abs_session_def)

lemma pty_request_refines:
  assumes "pty_request e t cols rows x y w = (r, w')" and "pty_lawful e" and "terminal_ok w"
  shows "spec_step (abs_session w) (CbPtyRequest t cols rows x y) r (abs_session w') \<and> terminal_ok w'"
proof -
  define v where "v = set_winsize cols rows x y w"
  have v: "w_hist v = w_hist w" "abs_session v = (abs_session w)\<lparr>sp_size := spec_size cols rows x y\<rparr>"
    "terminal_ok v = terminal_ok w"
    by (simp_all add: v_def set_winsize_def abs_session_def spec_size_def c_ushort_def terminal_ok_def)
  show ?thesis
  proof (cases "e_openpty e (w_hist v) (w_wsize v)")
    case None
    then have "r = SSH_ERROR" "abs_session w' = abs_session v" "terminal_ok w'"
      using assms(1,3) v by (auto simp: pty_request_def sys_openpty_def v_def [symmetric] Let_def)
    then show ?thesis using no_terminal v(2) by simp
  next
    case (Some q)
    then obtain m s where q: "e_openpty e (w_hist v) (w_wsize v) = Some (m, s)" by (cases q) auto
    then have ms: "0 \<le> m" "0 \<le> s"
      using assms(2) unfolding pty_lawful_def by (metis (no_types, lifting) case_prod_conv option.simps(5))+
    have w': "r = SSH_OK" "w' = upd_cdata (\<lambda>c. c\<lparr>cd_pty_master := m, cd_pty_slave := s\<rparr>)
        (note_event (EOpenpty (w_wsize v) (Some (m, s))) v)"
      using assms(1) q by (simp_all add: pty_request_def sys_openpty_def v_def [symmetric] Let_def)
    then have "abs_session w' = (abs_session v)\<lparr>sp_terminal := Some (m, s)\<rparr>" "terminal_ok w'"
      using abs_terminal [OF ms(1), of s "note_event _ v"] ms by (simp_all add: terminal_ok_def)
    then show ?thesis using terminal [OF ms] v(2) w'(1) by simp
  qed
qed

lemma shell_request_refines:
  assumes "shell_request e w = (Ret r, w')" and "fork_lawful e" and "terminal_ok w"
  shows "spec_step (abs_session w) CbShellRequest r (abs_session w') \<and> terminal_ok w'"
proof -
  let ?c = "w_cdata w" and ?a = "abs_session w"
  have alive: "running (sp_child ?a) \<longleftrightarrow> 0 < cd_pid ?c"
    by (simp add: abs_session_def)
  define p where "p = e_fork e (w_hist w)"
  define w2 where "w2 = upd_cdata (cd_pid_update (\<lambda>_. p)) (note_event (EFork p) w)"
  have f: "sys_fork e w = (p, note_event (EFork p) w)" by (simp add: sys_fork_def p_def Let_def)
  have no_ret: "fst (exec_child e w2) \<noteq> Ret r"
    by (auto simp: exec_child_def Let_def split: prod.splits option.splits)
  have "- 1 \<le> p" using fork_lawfulD(1) [OF assms(2)] by (simp add: p_def)
  consider "0 < cd_pid ?c" | "\<not> 0 < cd_pid ?c" "cd_pty_master ?c = - 1"
    | "\<not> 0 < cd_pid ?c" "cd_pty_master ?c \<noteq> - 1" "p = - 1"
    | "\<not> 0 < cd_pid ?c" "cd_pty_master ?c \<noteq> - 1" "p = 0"
    | "\<not> 0 < cd_pid ?c" "cd_pty_master ?c \<noteq> - 1" "0 < p"
    using \<open>- 1 \<le> p\<close> by linarith
  then show ?thesis
  proof cases
    case 1
    then show ?thesis using assms(1,3) busy [of ?a] alive by (simp add: shell_request_def)
  next
    case 2
    then have "sp_terminal ?a = None" by (simp add: abs_session_def)
    then show ?thesis using 2 assms(1,3) pretended [of ?a] alive by (simp add: shell_request_def)
  next
    case 3
    have "abs_session w' = ?a\<lparr>sp_child := Fork_failed\<rparr>" "r = SSH_ERROR" "terminal_ok w'"
      using 3 assms(1,3) by (auto simp: shell_request_def exec_pty_eq [OF f w2_def] sys_close_def w2_def
          abs_session_def terminal_ok_def)
    moreover have "sp_terminal ?a = Some (cd_pty_master ?c, cd_pty_slave ?c)"
      using 3 by (simp add: abs_session_def)
    ultimately show ?thesis using not_started 3(1) alive by auto
  next
    case 4
    then show ?thesis
      using assms(1,3) no_ret
      by (auto simp: shell_request_def exec_pty_eq [OF f w2_def] terminal_ok_def dest: arg_cong [of _ _ fst])
  next
    case 5
    have "abs_session w' = ?a\<lparr>sp_child := Running p (cd_pty_master ?c)\<rparr>" "r = SSH_OK" "terminal_ok w'"
      using 5 assms(1,3) by (auto simp: shell_request_def exec_pty_eq [OF f w2_def] sys_close_def w2_def
          abs_session_def terminal_ok_def)
    moreover have "sp_terminal ?a = Some (cd_pty_master ?c, cd_pty_slave ?c)"
      using 5 by (simp add: abs_session_def)
    ultimately show ?thesis using started 5(1,3) alive by auto
  qed
qed

lemma data_function_refines:
  assumes "data_function e dat is_stderr w = (r, w')" and "terminal_ok w"
  shows "spec_step (abs_session w) (CbData dat is_stderr) r (abs_session w') \<and> terminal_ok w'"
proof -
  have "abs_session w' = abs_session w \<and> terminal_ok w' \<and> (r = 0 \<or> 0 < cd_pid (w_cdata w))"
    using assms by (auto simp: data_function_def sys_defs Let_def split: if_splits)
  moreover have "running (sp_child (abs_session w)) \<longleftrightarrow> 0 < cd_pid (w_cdata w)"
    by (simp add: abs_session_def)
  ultimately show ?thesis using client_data by auto
qed

lemma pty_resize_refines:
  assumes "pty_resize e cols rows x y w = (r, w')" and "terminal_ok w"
  shows "spec_step (abs_session w) (CbWindowChange cols rows x y) r (abs_session w') \<and> terminal_ok w'"
proof -
  have "abs_session w' = (abs_session w)\<lparr>sp_size := spec_size cols rows x y\<rparr>" "terminal_ok w'"
    "sp_terminal (abs_session w) \<noteq> None \<or> r = SSH_ERROR"
    using assms by (auto simp: pty_resize_def set_winsize_def sys_defs Let_def abs_session_def spec_size_def
        c_ushort_def terminal_ok_def split: if_splits)
  then show ?thesis using resized by simp
qed

lemma process_fd_frame:
  assumes "process_fd e fd revents q w = (Ret r, w')"
  shows "abs_session w' = abs_session w \<and> terminal_ok w' = terminal_ok w"
  using assms
  by (cases "(e, fd, revents, q, w)" rule: process_fd.cases)
    (auto simp: process_stdout_def process_stderr_def process_output_def sys_read_def Let_def
      split: option.splits prod.splits if_splits)

text \<open>The simulation: one callback is one step.\<close>

lemma invoke_refines:
  assumes "invoke e cb w = (Ret r, w')" and "session_inv h0 w" and "spec_lawful e" and "terminal_ok w"
  shows "spec_step (abs_session w) cb r (abs_session w') \<and> terminal_ok w'"
proof -
  have law: "recv_lawful e" "fork_lawful e" "pty_lawful e"
    using assms(3) by (simp_all add: spec_lawful_def io_lawful_def)
  show ?thesis
  proof (cases cb)
    case (CbAuthPassword u p)
    moreover have "terminal_ok w'"
      using assms(1,4) CbAuthPassword
      by (auto simp: auth_password_eq [OF session_key_length [OF assms(2)] law(1)] terminal_ok_def split: if_splits)
    ultimately show ?thesis using auth_password_refines [OF _ assms(2) law(1)] assms(1) by simp
  next
    case CbChannelOpen
    then obtain c where "r = (if c = None then 0 else 1)" "abs_session w' = (abs_session w)\<lparr>sp_channel := c\<rparr>"
      "terminal_ok w'"
      using assms(1,4) by (auto simp: pointer_result_def channel_open_def ssh_channel_new_def Let_def
          abs_session_def terminal_ok_def)
    then show ?thesis using CbChannelOpen opened by simp
  next
    case (CbPtyRequest t a b c d)
    then show ?thesis using assms(1,4) pty_request_refines [OF _ law(3)] by (auto simp: int_result_def prod_eq_iff)
  next
    case (CbWindowChange a b c d)
    then show ?thesis using assms(1,4) pty_resize_refines by (auto simp: int_result_def prod_eq_iff)
  next
    case CbShellRequest
    then show ?thesis using assms(1,4) shell_request_refines [OF _ law(2)] by simp
  next
    case (CbData dat is_stderr)
    then show ?thesis using assms(1,4) data_function_refines by (auto simp: int_result_def prod_eq_iff)
  next
    case (CbFd fd revents)
    then show ?thesis using assms(1,4) process_fd_frame child_data by fastforce
  qed
qed

subsection \<open>Whole sessions\<close>

fun callbacks_of :: "history \<Rightarrow> trace" where
  "callbacks_of [] = []"
| "callbacks_of (ECallback cb r # h) = (cb, r) # callbacks_of h"
| "callbacks_of (x # h) = callbacks_of h"

definition refines :: "env \<Rightarrow> history \<Rightarrow> world \<Rightarrow> bool" where
  "refines e h0 w \<longleftrightarrow> safe_inv e h0 w \<and> spec_lawful e \<and> terminal_ok w
     \<and> (\<exists>es. w_hist w = es @ h0 \<and> spec_reach (callbacks_of es) (abs_session w))"

text \<open>What the code does between callbacks the machine does not see.\<close>

definition unseen :: "world \<Rightarrow> world \<Rightarrow> bool" where
  "unseen w w' \<longleftrightarrow> abs_session w' = abs_session w \<and> terminal_ok w' = terminal_ok w
     \<and> (\<exists>ns. w_hist w' = ns @ w_hist w \<and> list_all no_callback ns)"

lemma unseen_refl: "unseen w w"
  by (simp add: unseen_def)

lemma unseen_note: "unseen w w' \<Longrightarrow> no_callback x \<Longrightarrow> unseen w (note_event x w')"
  unfolding unseen_def by (metis abs_note append_Cons list.pred_inject(2) note_event_fields(7) terminal_note)

lemma abs_update [simp]:
  "abs_session (w\<lparr>w_polled := q\<rparr>) = abs_session w" "abs_session (w\<lparr>w_channel_cb := b\<rparr>) = abs_session w"
  "abs_session (w\<lparr>w_server_cb := b\<rparr>) = abs_session w"
  "abs_session (w\<lparr>w_cdata := w_cdata w\<lparr>cd_event := v\<rparr>\<rparr>) = abs_session w"
  "terminal_ok (w\<lparr>w_polled := q\<rparr>) = terminal_ok w" "terminal_ok (w\<lparr>w_channel_cb := b\<rparr>) = terminal_ok w"
  "terminal_ok (w\<lparr>w_server_cb := b\<rparr>) = terminal_ok w"
  "terminal_ok (w\<lparr>w_cdata := w_cdata w\<lparr>cd_event := v\<rparr>\<rparr>) = terminal_ok w"
  by (simp_all only: abs_session_def terminal_ok_def) simp_all

lemma unseen_same:
  "unseen w w' \<Longrightarrow> unseen w (w'\<lparr>w_polled := q\<rparr>)" "unseen w w' \<Longrightarrow> unseen w (w'\<lparr>w_channel_cb := b\<rparr>)"
  "unseen w w' \<Longrightarrow> unseen w (w'\<lparr>w_server_cb := b\<rparr>)"
  "unseen w w' \<Longrightarrow> unseen w (w'\<lparr>w_cdata := w_cdata w'\<lparr>cd_event := v\<rparr>\<rparr>)"
  by (simp_all add: unseen_def)

lemma unseen_steps:
  "unseen w (start_child_io e ev w)" "unseen w (snd (snd (loop_cond e rc w)))"
  "unseen w (close_descriptors e ev w)" "unseen w (snd (end_child e rc w))"
  "unseen w (set_channel_callbacks w)"
  by (auto simp: start_child_io_def register_output_def loop_cond_def close_descriptors_def
      end_child_def kill_child_def set_channel_callbacks_def sys_defs no_callback_def Let_def
      split: option.split prod.split intro!: unseen_note unseen_same unseen_refl)

lemma callbacks_append: "list_all no_callback ns \<Longrightarrow> callbacks_of (ns @ es) = callbacks_of es"
proof (induction ns)
  case (Cons x ns)
  then show ?case by (cases x) (simp_all add: no_callback_def)
qed simp

lemma refines_unseen:
  assumes "refines e h0 w" and "unseen w w'" and "session_inv h0 w'"
  shows "refines e h0 w'"
proof -
  obtain es ns where "w_hist w = es @ h0" "spec_reach (callbacks_of es) (abs_session w)"
    "w_hist w' = ns @ w_hist w" "list_all no_callback ns"
    using assms(1,2) unfolding refines_def unseen_def by blast
  then have "w_hist w' = (ns @ es) @ h0" "spec_reach (callbacks_of (ns @ es)) (abs_session w')"
    using assms(2) by (simp_all add: callbacks_append unseen_def)
  then show ?thesis
    using assms unfolding refines_def unseen_def safe_inv_def by blast
qed

lemma deliver_refines:
  assumes "refines e h0 w"
  shows "ensures (refines e h0) (\<lambda>_ _. True) (\<lambda>_ _. False) (deliver e cb w)"
proof (cases "registered cb w")
  case False
  then show ?thesis using assms by (simp add: deliver_def)
next
  case True
  have inv: "session_inv h0 w" "io_lawful e" "spec_lawful e" "terminal_ok w"
    using assms by (simp_all add: refines_def safe_inv_def)
  obtain q w1 where i: "invoke e cb w = (q, w1)" by fastforce
  have d: "ensures (session_inv h0) (exit_ok h0) (\<lambda>_ _. False) (deliver e cb w)"
    by (rule deliver_inv [OF inv(1,2)])
  show ?thesis
  proof (cases q)
    case (Ret r)
    obtain es where es: "w_hist w = es @ h0" "spec_reach (callbacks_of es) (abs_session w)"
      using assms unfolding refines_def by blast
    obtain ns where ns: "w_hist w1 = ns @ w_hist w" "list_all is_call ns"
      using invoke_extends [OF grown_refl [OF refl], of w e cb] i by (auto simp: grown_def)
    have nc: "list_all no_callback ns"
      using ns(2) by (auto simp: list_all_iff is_call_def no_callback_def split: event.splits)
    have sim: "spec_step (abs_session w) cb r (abs_session w1)" "terminal_ok w1"
      using invoke_refines [OF _ inv(1,3,4)] i Ret by auto
    have "spec_reach (callbacks_of (ECallback cb r # ns @ es)) (abs_session w1)"
      using spec_reach.step [OF es(2) sim(1)] nc by (simp add: callbacks_append)
    then show ?thesis
      using d i Ret True ns(1) es(1) sim(2) inv
      by (auto simp: deliver_def refines_def safe_inv_def intro!: exI [of _ "ECallback cb r # ns @ es"])
  qed (use d i True in \<open>auto simp: deliver_def\<close>)
qed

lemma begin_session_refines:
  assumes "spec_lawful e"
  shows "refines e (w_hist w) (snd (begin_session e ev sess w))"
proof -
  have start: "session_inv (w_hist w) (init_locals w)" "w_hist (init_locals w) = w_hist w"
    using session_inv_start [of w] by (simp_all add: init_locals_def)
  have "abs_session (init_locals w) = spec_start" "terminal_ok (init_locals w)"
    by (simp_all add: init_locals_def abs_session_def spec_start_def terminal_ok_def)
  then have "refines e (w_hist w) (init_locals w)"
    using start assms spec_reach.start
    by (auto simp: refines_def safe_inv_def spec_lawful_def intro: exI [of _ "[]"])
  moreover have "unseen (init_locals w) (snd (begin_session e ev sess w))"
    by (auto simp: begin_session_def set_server_callbacks_def sys_defs no_callback_def Let_def
        intro!: unseen_note unseen_same unseen_refl)
  ultimately show ?thesis
    using begin_session_inv [of w e ev sess] by (rule refines_unseen)
qed

text \<open>The fifth interface.\<close>

interpretation spec: whole_session e "refines e h0" "\<lambda>_ _. True" "\<lambda>_ _. False"
    "\<lambda>_. refines e h0" "refines e h0" "\<lambda>w. w_hist w = h0 \<and> spec_lawful e" "\<lambda>_ _. True"
  for e :: env and h0 :: history
proof (unfold_locales, goal_cases)
  case (1 w cb)
  then show ?case by (rule deliver_refines)
next
  case (2 w x)
  then have "session_inv h0 (note_event x w)"
    by (simp add: refines_def safe_inv_def session_inv_inert)
  then show ?case
    using 2 unseen_note [OF unseen_refl inert_no_callback] by (blast intro: refines_unseen)
next
  case (3 w ev)
  then have "session_inv h0 (start_child_io e ev w)"
    by (simp add: refines_def safe_inv_def start_child_io_inv)
  then show ?case using 3 unseen_steps(1) by (blast intro: refines_unseen)
next
  case (4 w rc w')
  then have "session_inv h0 w'" "rc = None"
    using loop_cond_inv [of h0 w e None True rc w'] by (auto simp: refines_def safe_inv_def)
  then show ?case using 4 unseen_steps(2) [of w e None] by (auto intro: refines_unseen)
next
  case (5 w rc w')
  then have "session_inv h0 w'"
    using loop_cond_inv [of h0 w e None False rc w'] by (auto simp: refines_def safe_inv_def)
  then show ?case using 5 unseen_steps(2) [of w e None] by (auto intro: refines_unseen)
next
  case (6 w ev sess)
  then show ?case using begin_session_refines by auto
next
  case (7 w)
  then have "session_inv h0 (set_channel_callbacks w)"
    by (simp add: refines_def safe_inv_def set_channel_callbacks_inv)
  then show ?case using 7 unseen_steps(5) by (blast intro: refines_unseen)
next
  case (8 rc w ev)
  let ?w = "close_descriptors e ev w"
  have inv: "session_inv h0 ?w" using 8 by (simp add: refines_def safe_inv_def close_descriptors_inv)
  have r: "refines e h0 ?w" using 8 unseen_steps(3) inv by (blast intro: refines_unseen)
  show ?case
    using refines_unseen [OF r unseen_steps(4) [of ?w e rc]] end_child_inv [OF inv, of "\<lambda>_ _. True" e rc]
    by (cases "end_child e rc ?w" rule: prod.exhaust) (auto simp: ensures_cases split: outcome.splits)
qed

text \<open>
  C11: The simulation. In a session, each callback that returns takes the C
  structs from one state of the machine \<open>spec_step\<close> to a next one, under the
  same callback and with the same answer.
\<close>

theorem callback_is_spec_step:
  assumes "invoke e cb w = (Ret r, w')" and "session_inv h0 w" and "terminal_ok w"
    and "io_lawful e" "fork_lawful e" "pty_lawful e"
  shows "spec_step (abs_session w) cb r (abs_session w') \<and> terminal_ok w'"
  using invoke_refines [OF assms(1,2) _ assms(3)] assms(4-6) by (simp add: spec_lawful_def)

theorem callback_is_spec_step_witness:
  "\<exists>r w'. invoke (sample_env []) CbChannelOpen (init_locals blank_world) = (Ret r, w')
     \<and> spec_step (abs_session (init_locals blank_world)) CbChannelOpen r (abs_session w')"
proof -
  obtain r w' where i: "invoke (sample_env []) CbChannelOpen (init_locals blank_world) = (Ret r, w')"
    by (auto simp: pointer_result_def)
  have "terminal_ok (init_locals blank_world)" by (simp add: init_locals_def terminal_ok_def)
  with callback_is_spec_step [OF i session_inv_start] i show ?thesis
    by (auto simp: io_lawful_def)
qed

text \<open>
  C5: A whole session is a run of the machine: the callbacks in the history of
  a session that returns, with the answers they gave, lead from the machine's
  start to the state of the C structs at the end.
\<close>

theorem session_is_spec_run:
  assumes "io_lawful e" "fork_lawful e" "pty_lawful e"
    and "handle_session fuel e ev sess w = Some (Ret (), w')"
  shows "\<exists>es. w_hist w' = es @ w_hist w \<and> spec_reach (callbacks_of es) (abs_session w')"
  using spec.handle_session_ok [of w "w_hist w" e fuel ev sess "(Ret (), w')"] assms
  by (auto simp: spec_lawful_def refines_def)

lemma typing_lawful: "io_lawful typing_env" "fork_lawful typing_env" "pty_lawful typing_env"
  by (simp_all add: typing_env_def io_lawful_def)

theorem session_is_spec_run_witness:
  "\<exists>w'. handle_session 4 typing_env 4 2 blank_world = Some (Ret (), w')
     \<and> spec_reach (callbacks_of (w_hist w')) (abs_session w')"
proof -
  obtain w' where w': "handle_session 4 typing_env 4 2 blank_world = Some (Ret (), w')"
    using typing_run by blast
  with session_is_spec_run [OF typing_lawful w'] show ?thesis by auto
qed

text \<open>
  The counters and flags mean what they say. When a session returns,
  \<open>auth_attempts\<close> is the number of password attempts it has answered with
  \<open>SSH_AUTH_DENIED\<close>, \<open>authenticated\<close> is set exactly if it has answered one with
  \<open>SSH_AUTH_SUCCESS\<close>, and a positive \<open>pid\<close> means that a shell request has been
  answered with \<open>SSH_OK\<close> and that there is a terminal.
\<close>

theorem session_counters_correct:
  assumes "io_lawful e" "fork_lawful e" "pty_lawful e"
    and "handle_session fuel e ev sess w = Some (Ret (), w')"
  shows "\<exists>es. w_hist w' = es @ w_hist w
    \<and> sd_auth_attempts (w_sdata w') = int (denials (callbacks_of es))
    \<and> (sd_authenticated (w_sdata w') \<noteq> 0 \<longleftrightarrow> 0 < grants_in (callbacks_of es))
    \<and> (0 < cd_pid (w_cdata w') \<longrightarrow> (CbShellRequest, SSH_OK) \<in> set (callbacks_of es)
         \<and> cd_pty_master (w_cdata w') \<noteq> - 1)"
proof -
  have "refines e (w_hist w) w'"
    using spec.handle_session_ok [of w "w_hist w" e fuel ev sess "(Ret (), w')"] assms
    by (simp add: spec_lawful_def)
  then obtain es where es: "w_hist w' = es @ w_hist w" "spec_reach (callbacks_of es) (abs_session w')"
      "session_inv (w_hist w) w'"
    by (auto simp: refines_def safe_inv_def)
  have "\<exists>k. buf_cstr (sd_key (w_sdata w')) = Some k"
    using es(3) by (auto simp: session_inv_def trace_inv_def dest!: key_granted_cstr)
  then show ?thesis
    using es(1) spec_counts [OF es(2)] spec_child [OF es(2)]
    by (auto simp: abs_session_def split: if_splits)
qed

theorem session_counters_correct_witness:
  "\<exists>w'. handle_session 4 typing_env 4 2 blank_world = Some (Ret (), w')
     \<and> sd_auth_attempts (w_sdata w') = int (denials (callbacks_of (w_hist w')))
     \<and> (sd_authenticated (w_sdata w') \<noteq> 0 \<longleftrightarrow> 0 < grants_in (callbacks_of (w_hist w')))"
proof -
  obtain w' where w': "handle_session 4 typing_env 4 2 blank_world = Some (Ret (), w')"
    using typing_run by blast
  with session_counters_correct [OF typing_lawful w'] show ?thesis by auto
qed

end
