(* ===== verification/Gateway_Server.thy ===== *)
theory Gateway_Server
  imports Gateway_Session
begin

text \<open>
  The listening process (\<open>main\<close>, \<open>usage\<close> and \<open>sigchld_handler\<close> of
  \<open>src/gateway.c\<close>): reading the command line, setting up the listener, and
  one forked process per accepted session.
\<close>

definition ADDRESS_MAX :: nat where [code_defs]: "ADDRESS_MAX = 64"

subsection \<open>The command line\<close>

definition usage :: "world \<Rightarrow> int \<times> world" where
  [op_defs]: "usage w =
     (let w = note_event (EStdout ''Usage: ssh-gateway <address> <port>\<newline>'') w;
          w = note_event (EStdout (TAB # ''address - Address to listen on (0.0.0.0 for any interface) \<newline>'')) w;
          w = note_event (EStdout (TAB # ''port    - Port to listen on\<newline>\<newline>'')) w
      in (1, w))"

text \<open>
  \<open>Ret None\<close> is a return of \<open>usage()\<close>. The length and the port are
  \<open>unsigned int\<close>: what \<open>strlen\<close> and \<open>strtol\<close> return is cut to 32 bits.
\<close>

definition parse_args :: "string list \<Rightarrow> (buffer \<times> 32 word) option outcome" where
  [op_defs]: "parse_args argv =
     (if length argv \<noteq> 3 then Ret None
      else
        let len = (of_nat (strlen (argv ! 1)) :: 32 word)
        in if len < 7 \<or> len > of_nat (ADDRESS_MAX - 1) then Ret None
           else case strncpy (uninit ADDRESS_MAX) (argv ! 1) (unat len) of
             None \<Rightarrow> Undef OutOfBounds
           | Some address \<Rightarrow>
               (case store address (unat len) NUL of
                  None \<Rightarrow> Undef OutOfBounds
                | Some address \<Rightarrow>
                    let port = (word_of_int (strtol10 (argv ! 2)) :: 32 word)
                    in if port = 0 then Ret None else Ret (Some (address, port))))"

subsection \<open>Reaping\<close>

text \<open>\<open>while (waitpid(-1, NULL, WNOHANG) > 0);\<close>, with fuel.\<close>

fun sigchld_handler :: "nat \<Rightarrow> env \<Rightarrow> world \<Rightarrow> world option" where
  "sigchld_handler 0 e w = None"
| "sigchld_handler (Suc fuel) e w =
     (case sys_waitpid e (- 1) None w of
        (r, _, w) \<Rightarrow> if r > 0 then sigchld_handler fuel e w else Some w)"

subsection \<open>One accepted connection\<close>

definition sys_sigaction :: "env \<Rightarrow> sig_action \<Rightarrow> world \<Rightarrow> int \<times> world" where
  [sys_defs]: "sys_sigaction e a w =
     (let r = e_sigaction e (w_hist w) in (r, note_event (ESigaction a r) w))"

definition ssh_new :: "env \<Rightarrow> world \<Rightarrow> nat option \<times> world" where
  [sys_defs]: "ssh_new e w = (let s = e_ssh_new e (w_hist w) in (s, note_event (ESshNew s) w))"

definition ssh_bind_accept :: "env \<Rightarrow> nat \<Rightarrow> nat \<Rightarrow> world \<Rightarrow> int \<times> world" where
  [sys_defs]: "ssh_bind_accept e b s w =
     (let r = e_accept e (w_hist w) in (r, note_event (EAccept b s r) w))"

definition ssh_event_new :: "env \<Rightarrow> world \<Rightarrow> nat option \<times> world" where
  [sys_defs]: "ssh_event_new e w =
     (let ev = e_event_new e (w_hist w) in (ev, note_event (EEventNew ev) w))"

definition end_session :: "nat \<Rightarrow> world \<Rightarrow> world" where
  [op_defs]: "end_session sess w = note_event (ESshFree sess) (note_event (EDisconnect sess) w)"

text \<open>The forked process: it serves one session and exits.\<close>

definition serve_child ::
    "nat \<Rightarrow> env \<Rightarrow> nat \<Rightarrow> nat \<Rightarrow> world \<Rightarrow> (unit outcome \<times> world) option" where
  [op_defs]: "serve_child fuel e sshbind sess w =
     (let (_, w) = sys_sigaction e Sig_dfl w;
          w = note_event (EBindFree sshbind) w;
          (ev, w) = ssh_event_new e w
      in case ev of
           None \<Rightarrow>
             let w = note_event (EStderr ''Could not create polling context\<newline>'') w
             in Some (Halt (Exited 0), end_session sess w)
         | Some ev \<Rightarrow>
             (case handle_session fuel e ev sess w of
                None \<Rightarrow> None
              | Some (Ret _, w) \<Rightarrow>
                  Some (Halt (Exited 0), end_session sess (note_event (EEventFree ev) w))
              | Some (Halt h, w) \<Rightarrow> Some (Halt h, w)
              | Some (Undef u, w) \<Rightarrow> Some (Undef u, w)))"

definition accept_once :: "nat \<Rightarrow> env \<Rightarrow> nat \<Rightarrow> world \<Rightarrow> (unit outcome \<times> world) option" where
  [op_defs]: "accept_once fuel e sshbind w =
     (let (s, w) = ssh_new e w
      in case s of
           None \<Rightarrow> Some (Ret (), note_event (EStderr ''Failed to allocate session\<newline>'') w)
         | Some sess \<Rightarrow>
             let (r, w) = ssh_bind_accept e sshbind sess w
             in if r \<noteq> SSH_ERROR then
                  let (p, w) = sys_fork e w
                  in if p = 0 then serve_child fuel e sshbind sess w
                     else if p = - 1
                     then Some (Ret (), end_session sess (note_event (EStderr ''Failed to fork\<newline>'') w))
                     else Some (Ret (), end_session sess w)
                else Some (Ret (), end_session sess (print_error e w)))"

text \<open>The \<open>while (1)\<close> of \<open>main\<close>, for a given number of rounds.\<close>

fun serve :: "nat \<Rightarrow> nat \<Rightarrow> env \<Rightarrow> nat \<Rightarrow> world \<Rightarrow> (unit outcome \<times> world) option" where
  "serve 0 fuel e sshbind w = Some (Ret (), w)"
| "serve (Suc k) fuel e sshbind w =
     (case accept_once fuel e sshbind w of
        None \<Rightarrow> None
      | Some (Ret _, w) \<Rightarrow> serve k fuel e sshbind w
      | Some (Halt h, w) \<Rightarrow> Some (Halt h, w)
      | Some (Undef u, w) \<Rightarrow> Some (Undef u, w))"

subsection \<open>main\<close>

text \<open>
  Up to the accept loop: \<open>Inl\<close> is an early return of \<open>main\<close> with its value,
  \<open>Inr\<close> the listener.
\<close>

definition start_listener :: "env \<Rightarrow> buffer \<Rightarrow> 32 word \<Rightarrow> world \<Rightarrow> (int + nat) outcome \<times> world" where
  [op_defs]: "start_listener e address port w =
     (case buf_cstr address of
        None \<Rightarrow> (Undef OutOfBounds, w)
      | Some addr \<Rightarrow>
          let w = note_event (EAnnounce addr (sint port)) w;
              (r, w) = sys_sigaction e Sigchld_handler w
          in if r \<noteq> 0 then
               (Ret (Inl 1), note_event (EStderr ''Failed to register SIGCHLD handler\<newline>'') w)
             else
               let w = note_event ESshInit w;
                   b = e_bind_new e (w_hist w);
                   w = note_event (EBindNew b) w;
                   w = note_event (EBindOption b SSH_BIND_OPTIONS_RSAKEY (VText ''keys/host_rsa'')) w;
                   w = note_event (EBindOption b SSH_BIND_OPTIONS_BINDADDR (VText addr)) w;
                   w = note_event (EBindOption b SSH_BIND_OPTIONS_BINDPORT (VUint port)) w;
                   w = note_event (EBindOption b SSH_BIND_OPTIONS_LOG_VERBOSITY_STR (VText ''2'')) w;
                   l = e_bind_listen e (w_hist w);
                   w = note_event (EBindListen b l) w
               in if l < 0 then (Ret (Inl 1), print_error e w) else (Ret (Inr b), w))"

definition gateway_main ::
    "nat \<Rightarrow> nat \<Rightarrow> env \<Rightarrow> string list \<Rightarrow> world \<Rightarrow> (int outcome \<times> world) option" where
  [op_defs]: "gateway_main rounds fuel e argv w =
     (case parse_args argv of
        Ret None \<Rightarrow> (case usage w of (r, w) \<Rightarrow> Some (Ret r, w))
      | Ret (Some (address, port)) \<Rightarrow>
          (case start_listener e address port w of
             (Ret (Inl r), w) \<Rightarrow> Some (Ret r, w)
           | (Ret (Inr b), w) \<Rightarrow>
               (case serve rounds fuel e b w of
                  Some (Halt h, w) \<Rightarrow> Some (Halt h, w)
                | Some (Undef u, w) \<Rightarrow> Some (Undef u, w)
                | _ \<Rightarrow> None)
           | (Halt h, w) \<Rightarrow> Some (Halt h, w)
           | (Undef u, w) \<Rightarrow> Some (Undef u, w))
      | Halt h \<Rightarrow> Some (Halt h, w)
      | Undef u \<Rightarrow> Some (Undef u, w))"

end
