(* ===== verification/Server_Properties.thy ===== *)
theory Server_Properties
  imports Gateway_Server Session_Properties
begin

text \<open>
  The listening process: what it takes from the command line, that it reaps and
  frees what it makes, and that the guarantees of a session are those of the
  whole program.
\<close>

subsection \<open>The command line\<close>

lemma strncpy_store:
  assumes "strlen s = n" and "n < 64"
  shows "\<exists>b. (case strncpy (uninit 64) s n of None \<Rightarrow> None | Some a \<Rightarrow> store a n NUL) = Some b
    \<and> length b = 64 \<and> buf_cstr b = Some (cstr s)"
proof -
  have l: "length (cstr s) = n" using assms(1) by (simp add: strlen_def)
  have d: "drop n (uninit 64) = None # uninit (63 - n)"
    using assms(2) by (simp add: uninit_def Suc_diff_Suc [symmetric] numeral_eq_Suc Suc_diff_le
        flip: replicate_Suc)
  have c: "strncpy (uninit 64) s n = Some (map Some (cstr s) @ None # uninit (63 - n))"
    using assms l d by (simp add: strncpy_def uninit_def)
  have "store (map Some (cstr s) @ None # uninit (63 - n)) n NUL =
      Some (map Some (cstr s) @ Some NUL # uninit (63 - n))"
    using l assms(2) by (simp add: store_def list_update_append uninit_def)
  then show ?thesis
    using c l assms(2) buf_cstr_text [of "cstr s" "uninit (63 - n)"] by (simp add: uninit_def)
qed

lemma parse_args_text:
  assumes "strlen (argv ! 1) < 2 ^ 32"
  shows "if length argv = 3 \<and> 7 \<le> strlen (argv ! 1) \<and> strlen (argv ! 1) \<le> 63
      \<and> strtol10 (argv ! 2) mod 2 ^ 32 \<noteq> 0
    then \<exists>b. parse_args argv = Ret (Some (b, word_of_int (strtol10 (argv ! 2))))
      \<and> length b = 64 \<and> buf_cstr b = Some (cstr (argv ! 1))
    else parse_args argv = Ret None"
proof -
  define a n where a: "a = argv ! 1" and n: "n = strlen a"
  have u: "unat (of_nat n :: 32 word) = n"
    using assms a n by (simp add: unat_of_nat take_bit_nat_eq_self)
  have port: "(word_of_int (strtol10 (argv ! 2)) :: 32 word) = 0 \<longleftrightarrow> strtol10 (argv ! 2) mod 2 ^ 32 = 0"
    by (simp add: uint_word_of_int flip: uint_0_iff)
  have lo: "(of_nat n :: 32 word) < 7 \<longleftrightarrow> n < 7"
    and hi: "(of_nat n :: 32 word) > of_nat (ADDRESS_MAX - 1) \<longleftrightarrow> n > 63"
    by (simp_all add: word_less_nat_alt u ADDRESS_MAX_def)
  show ?thesis
    using strncpy_store [of a n] u port lo hi
    unfolding parse_args_def Let_def a [symmetric] n [symmetric]
    by (auto simp: ADDRESS_MAX_def n split: option.splits)
qed

text \<open>
  C35: The command line, for an address shorter than 4 GiB. The gateway takes
  exactly the command lines with two arguments, an address of 7 to 63 characters
  and a port that \<open>strtol\<close> reads as something other than 0 modulo \<open>2 ^ 32\<close>; then
  the 64-byte buffer on the stack holds the address as a C string. No store into
  that buffer is outside it.
\<close>

theorem parse_args_correct:
  assumes "strlen (argv ! 1) < 2 ^ 32"
  shows "if length argv = 3 \<and> 7 \<le> strlen (argv ! 1) \<and> strlen (argv ! 1) \<le> 63
      \<and> strtol10 (argv ! 2) mod 2 ^ 32 \<noteq> 0
    then \<exists>b. parse_args argv = Ret (Some (b, word_of_int (strtol10 (argv ! 2))))
      \<and> length b = 64 \<and> buf_cstr b = Some (cstr (argv ! 1))
    else parse_args argv = Ret None"
  using parse_args_text [OF assms] .

theorem parse_args_correct_witness:
  "\<exists>b. parse_args [''ssh-gateway'', ''127.0.0.1'', ''8022''] = Ret (Some (b, 8022))
     \<and> buf_cstr b = Some ''127.0.0.1''"
proof -
  have "strtol10 ''8022'' = 8022"
    by (simp add: strtol10_def cstr_def isspace_def is_digit_def clamp_long_def LONG_MAX_def LONG_MIN_def)
  then show ?thesis
    using parse_args_correct [of "[''ssh-gateway'', ''127.0.0.1'', ''8022'']"]
    by (simp add: strlen_def cstr_def) blast
qed

text \<open>
  The port is not checked for being one. A number above 65535 is taken as it
  is, a negative one becomes a large positive one, and text after the digits is
  ignored.
\<close>

theorem port_not_validated:
  "(\<exists>b. parse_args [''ssh-gateway'', ''127.0.0.1'', ''70000''] = Ret (Some (b, 70000)))
   \<and> (\<exists>b. parse_args [''ssh-gateway'', ''127.0.0.1'', ''-1''] = Ret (Some (b, 4294967295)))
   \<and> (\<exists>b. parse_args [''ssh-gateway'', ''127.0.0.1'', ''22x''] = Ret (Some (b, 22)))"
  by (simp add: parse_args_def strlen_def cstr_def strtol10_def isspace_def is_digit_def clamp_long_def
      LONG_MAX_def LONG_MIN_def ADDRESS_MAX_def strncpy_def uninit_def store_def Let_def)

text \<open>The decimal digits of a number.\<close>

fun decimal :: "nat \<Rightarrow> string" where
  "decimal n = (if n < 10 then [char_of (48 + n)] else decimal (n div 10) @ [char_of (48 + n mod 10)])"

declare decimal.simps [simp del]

lemma dec_value_append:
  "list_all is_digit s \<Longrightarrow> dec_value acc (s @ t) = dec_value (dec_value acc s) t"
  by (induction s arbitrary: acc) auto

lemma digit_char: "d < 10 \<Longrightarrow> is_digit (char_of (48 + d)) \<and> (of_char (char_of (48 + d) :: char) :: nat) - 48 = d"
  by (simp add: is_digit_def)

lemma decimal_digits: "list_all is_digit (decimal n) \<and> decimal n \<noteq> []"
proof (induction n rule: decimal.induct)
  case (1 n)
  then show ?case
    by (subst (1 2) decimal.simps) (use digit_char [of n] digit_char [of "n mod 10"] in auto)
qed

lemma dec_value_decimal: "dec_value 0 (decimal n) = n"
proof (induction n rule: decimal.induct)
  case (1 n)
  show ?case
  proof (cases "n < 10")
    case True
    then show ?thesis using digit_char [of n] by (subst decimal.simps) simp
  next
    case False
    then have "dec_value 0 (decimal n) = dec_value (n div 10) [char_of (48 + n mod 10)]"
      using 1 decimal_digits [of "n div 10"] by (subst decimal.simps) (simp add: dec_value_append)
    then show ?thesis using digit_char [of "n mod 10"] by simp
  qed
qed

lemma is_digit_plain: "is_digit c \<Longrightarrow> \<not> isspace c \<and> c \<noteq> NUL \<and> c \<noteq> CHR ''-'' \<and> c \<noteq> CHR ''+''"
  by (auto simp: is_digit_def isspace_def)

text \<open>
  Round trip of the port: the decimal digits of any number that fits a
  \<open>long\<close> are read back as that number, so a gateway started with a port from
  1 to 4294967295 in decimal listens on that port.
\<close>

theorem port_roundtrip:
  assumes "int n \<le> LONG_MAX"
  shows "strtol10 (decimal n) = int n"
proof -
  obtain c r where d: "decimal n = c # r" "is_digit c" "list_all is_digit r"
    using decimal_digits [of n] by (cases "decimal n") auto
  have "NUL \<notin> set (decimal n)"
    using decimal_digits [of n] is_digit_plain by (auto simp: list_all_iff)
  then have "cstr (decimal n) = decimal n" by (rule cstr_id)
  then show ?thesis
    using d is_digit_plain [OF d(2)] dec_value_decimal [of n] assms
    by (simp add: strtol10_def clamp_long_def LONG_MIN_def)
qed

theorem port_roundtrip_witness: "strtol10 (decimal 8022) = 8022"
  using port_roundtrip [of 8022] by (simp add: LONG_MAX_def)

subsection \<open>Reaping children\<close>

lemma sigchld_handler_reaps:
  assumes "wait_lawful e"
  shows "card (children (w_hist w)) < fuel \<Longrightarrow>
    \<exists>es r. sigchld_handler fuel e w = Some (w\<lparr>w_hist := EWaitpid (- 1) r # es @ w_hist w\<rparr>)
      \<and> r \<le> 0 \<and> (\<forall>x \<in> set es. \<exists>p. x = EWaitpid (- 1) p \<and> p \<in> children (w_hist w))"
proof (induction fuel arbitrary: w)
  case (Suc fuel)
  obtain r st where r: "e_waitpid e (w_hist w) (- 1) = (r, st)" by fastforce
  let ?w = "note_event (EWaitpid (- 1) r) w"
  show ?case
  proof (cases "r > 0")
    case True
    then have c: "r \<in> children (w_hist w)" using wait_lawfulD [OF assms r] by simp
    then have "card (children (w_hist ?w)) < fuel"
      using True Suc.prems card_Diff1_less [OF finite_children, of r "w_hist w"] by simp
    then obtain es q where ih: "sigchld_handler fuel e ?w = Some (?w\<lparr>w_hist := EWaitpid (- 1) q # es @ w_hist ?w\<rparr>)"
        "q \<le> 0" "\<forall>x \<in> set es. \<exists>p. x = EWaitpid (- 1) p \<and> p \<in> children (w_hist ?w)"
      using Suc.IH by blast
    have "sigchld_handler (Suc fuel) e w =
        Some (w\<lparr>w_hist := EWaitpid (- 1) q # (es @ [EWaitpid (- 1) r]) @ w_hist w\<rparr>)"
      using True r ih(1) by (simp add: sys_waitpid_def note_event_def)
    moreover have "\<forall>x \<in> set (es @ [EWaitpid (- 1) r]). \<exists>p. x = EWaitpid (- 1) p \<and> p \<in> children (w_hist w)"
      using ih(3) c True by auto
    ultimately show ?thesis using ih(2) by blast
  next
    case False
    then have "sigchld_handler (Suc fuel) e w = Some (w\<lparr>w_hist := EWaitpid (- 1) r # [] @ w_hist w\<rparr>)"
      using r by (simp add: sys_waitpid_def note_event_def)
    then show ?thesis using False by (metis empty_iff list.set(1) not_less)
  qed
qed simp

text \<open>
  The \<open>SIGCHLD\<close> handler ends, and not before there is nothing to reap: with
  \<open>n\<close> children not yet waited for, it calls \<open>waitpid\<close> at most \<open>n + 1\<close> times, its
  last call reports no child, every earlier one reports a child of this process,
  and the handler does nothing else.
\<close>

theorem sigchld_handler_terminates:
  assumes "wait_lawful e"
  shows "\<exists>es r. sigchld_handler (card (children (w_hist w)) + 1) e w =
      Some (w\<lparr>w_hist := EWaitpid (- 1) r # es @ w_hist w\<rparr>)
    \<and> r \<le> 0 \<and> (\<forall>x \<in> set es. \<exists>p. x = EWaitpid (- 1) p \<and> p \<in> children (w_hist w))"
  by (rule sigchld_handler_reaps [OF assms]) simp

theorem sigchld_handler_terminates_witness:
  "\<exists>es r. sigchld_handler 2 (sample_env [] \<lparr>e_waitpid := \<lambda>h p. (if 100 \<in> children h \<and> p \<in> {- 1, 100} then 100 else 0, 0)\<rparr>)
     (blank_world\<lparr>w_hist := [EFork 100]\<rparr>) = Some (blank_world\<lparr>w_hist := EWaitpid (- 1) r # es @ [EFork 100]\<rparr>) \<and> r \<le> 0"
proof -
  let ?e = "sample_env [] \<lparr>e_waitpid := \<lambda>h p. (if 100 \<in> children h \<and> p \<in> {- 1, 100} then 100 else 0, 0)\<rparr>"
  have "wait_lawful ?e" by (auto simp: wait_lawful_def)
  from sigchld_handler_terminates [OF this, of "blank_world\<lparr>w_hist := [EFork 100]\<rparr>"]
  show ?thesis by (auto simp: numeral_2_eq_2)
qed

subsection \<open>The accept loop\<close>

text \<open>Session objects made and freed, in order.\<close>

fun created :: "history \<Rightarrow> nat list" where
  "created [] = []"
| "created (ESshNew (Some s) # h) = s # created h"
| "created (x # h) = created h"

fun freed :: "history \<Rightarrow> nat list" where
  "freed [] = []"
| "freed (ESshFree s # h) = s # freed h"
| "freed (x # h) = freed h"

lemma created_append [simp]: "created (a @ b) = created a @ created b"
  by (induction a rule: created.induct) auto

lemma freed_append [simp]: "freed (a @ b) = freed a @ freed b"
  by (induction a rule: freed.induct) auto

lemma serve_child_not_Ret [simp]: "serve_child fuel e b s w \<noteq> Some (Ret r, w')"
  by (auto simp: serve_child_def Let_def split: prod.splits option.splits outcome.splits)

lemma accept_once_parent:
  assumes "accept_once fuel e b w = Some (Ret (), w')"
  shows "\<exists>es. w_hist w' = es @ w_hist w \<and> created es = freed es
    \<and> (\<forall>x \<in> set es. case x of EExecl _ _ _ \<Rightarrow> False | EBindFree _ \<Rightarrow> False | _ \<Rightarrow> True)"
proof (cases "e_ssh_new e (w_hist w)")
  case None
  then show ?thesis
    using assms by (auto simp: accept_once_def ssh_new_def Let_def
        intro!: exI [of _ "[EStderr _, ESshNew None]"])
next
  case (Some s)
  define h where "h = ESshNew (Some s) # w_hist w"
  define r where "r = e_accept e h"
  show ?thesis
  proof (cases "r = SSH_ERROR")
    case True
    then show ?thesis
      using assms Some
      by (auto simp: accept_once_def ssh_new_def ssh_bind_accept_def end_session_def print_error_def
          h_def r_def Let_def intro!: exI [of _ "[ESshFree s, EDisconnect s, EStderr _, EAccept b s _, ESshNew (Some s)]"])
  next
    case False
    define p where "p = e_fork e (EAccept b s r # h)"
    have "p \<noteq> 0"
    proof
      assume "p = 0"
      then show False
        using assms Some False
        by (auto simp: accept_once_def ssh_new_def ssh_bind_accept_def sys_fork_def h_def r_def p_def Let_def)
    qed
    define es where "es = (if p = - 1
      then [ESshFree s, EDisconnect s, EStderr ''Failed to fork\<newline>'', EFork p, EAccept b s r, ESshNew (Some s)]
      else [ESshFree s, EDisconnect s, EFork p, EAccept b s r, ESshNew (Some s)])"
    have "w_hist w' = es @ w_hist w"
      using assms Some False \<open>p \<noteq> 0\<close>
      by (auto simp: accept_once_def ssh_new_def ssh_bind_accept_def sys_fork_def end_session_def
          h_def r_def p_def es_def Let_def)
    then show ?thesis by (intro exI [of _ es]) (auto simp: es_def)
  qed
qed

text \<open>
  C31: The listening process leaks no session. After any number of rounds of the
  accept loop that it comes out of, whatever failed in them, the sessions it has
  freed are those it has allocated, each once and in order; it has kept its
  listener and has never replaced its program.
\<close>

theorem serve_frees_every_session:
  "serve rounds fuel e b w = Some (Ret (), w') \<Longrightarrow> \<exists>es. w_hist w' = es @ w_hist w \<and> created es = freed es
    \<and> (\<forall>x \<in> set es. case x of EExecl _ _ _ \<Rightarrow> False | EBindFree _ \<Rightarrow> False | _ \<Rightarrow> True)"
proof (induction rounds arbitrary: w)
  case (Suc k)
  then obtain w1 where w1: "accept_once fuel e b w = Some (Ret (), w1)" "serve k fuel e b w1 = Some (Ret (), w')"
    by (auto split: option.splits prod.splits outcome.splits)
  obtain as bs where "w_hist w1 = as @ w_hist w" "created as = freed as"
      "\<forall>x \<in> set as. case x of EExecl _ _ _ \<Rightarrow> False | EBindFree _ \<Rightarrow> False | _ \<Rightarrow> True"
      "w_hist w' = bs @ w_hist w1" "created bs = freed bs"
      "\<forall>x \<in> set bs. case x of EExecl _ _ _ \<Rightarrow> False | EBindFree _ \<Rightarrow> False | _ \<Rightarrow> True"
    using accept_once_parent [OF w1(1)] Suc.IH [OF w1(2)] by blast
  then show ?case by (intro exI [of _ "bs @ as"]) auto
qed simp

theorem serve_frees_every_session_witness:
  "\<exists>w'. serve 2 4 (sample_env []) 1 blank_world = Some (Ret (), w') \<and> created (w_hist w') = freed (w_hist w')"
proof -
  obtain w' where w': "serve 2 4 (sample_env []) 1 blank_world = Some (Ret (), w')"
    by (simp add: numeral_2_eq_2 accept_once_def ssh_new_def ssh_bind_accept_def sys_fork_def code_defs
        end_session_def Let_def)
  with serve_frees_every_session [OF w'] show ?thesis by auto
qed

text \<open>In \<open>child_env\<close> every fork returns in the child, which becomes the client.\<close>

lemma child_accepts:
  assumes "polls (w_hist v) = 0" and "open_fds (w_hist v) = {}"
  shows "\<exists>w. accept_once 4 child_env b v =
     Some (Halt (Execed ''/usr/bin/node'' [''node'', ''bbs.js'', sample_key]), w)"
proof -
  have f: "e_ssh_new child_env h = Some 2" "e_accept child_env h = 0" "e_fork child_env h = 0"
    "e_event_new child_env h = Some 4" "e_sigaction child_env h = 0" for h
    by (simp_all add: child_env_def)
  obtain v' where a: "accept_once 4 child_env b v =
      (case handle_session 4 child_env 4 2 v' of
         None \<Rightarrow> None
       | Some (Ret _, w) \<Rightarrow> Some (Halt (Exited 0), end_session 2 (note_event (EEventFree 4) w))
       | Some (Halt h, w) \<Rightarrow> Some (Halt h, w)
       | Some (Undef u, w) \<Rightarrow> Some (Undef u, w))"
    and v': "polls (w_hist v') = 0" "open_fds (w_hist v') = {}"
    using assms
    by (auto simp: accept_once_def serve_child_def ssh_new_def ssh_bind_accept_def sys_fork_def
        sys_sigaction_def ssh_event_new_def Let_def code_defs f)
  show ?thesis using child_run_from [OF v'] unfolding a by auto
qed

lemma serve_child_later:
  assumes "serve_child fuel e b s w = Some (q, w')"
    and "w_hist w1 = EBindFree b # ESigaction Sig_dfl (e_sigaction e (w_hist w)) # w_hist w"
  shows "later (w_hist w1) w'"
proof -
  have start: "later (w_hist w1) (snd (ssh_event_new e (note_event (EBindFree b)
      (snd (sys_sigaction e Sig_dfl w)))))"
    using assms(2) by (auto simp: ssh_event_new_def sys_sigaction_def Let_def grown_def)
  have ends: "later h v \<Longrightarrow> later h (end_session s (note_event x v))" for h v x
    by (simp add: end_session_def grown_note)
  obtain ev v where ev: "ssh_event_new e (note_event (EBindFree b) (snd (sys_sigaction e Sig_dfl w))) = (ev, v)"
    by fastforce
  show ?thesis
  proof (cases ev)
    case None
    then show ?thesis using assms(1) start ends ev by (auto simp: serve_child_def Let_def split_def)
  next
    case (Some n)
    then obtain c u where h: "handle_session fuel e n s v = Some (c, u)"
      using assms(1) ev by (auto simp: serve_child_def Let_def split_def split: option.splits)
    then have "later (w_hist w1) u"
      using handle_session_later [OF h] start ev by (auto elim: grown_trans)
    then show ?thesis
      using assms(1) Some h ends ev
      by (cases c) (auto simp: serve_child_def Let_def split_def)
  qed
qed

text \<open>
  The forked process never comes back to the accept loop: it first restores
  the default action for \<open>SIGCHLD\<close> and drops the listener, then serves its one
  session, and whatever happens it ends.
\<close>

theorem child_never_returns:
  assumes "e_ssh_new e (w_hist w) = Some s" and "e_accept e (ESshNew (Some s) # w_hist w) = r" "r \<noteq> SSH_ERROR"
    and "e_fork e (EAccept b s r # ESshNew (Some s) # w_hist w) = 0"
    and "accept_once fuel e b w = Some (q, w')"
  shows "q \<noteq> Ret () \<and> (\<exists>es a. w_hist w' =
     es @ [EBindFree b, ESigaction Sig_dfl a, EFork 0, EAccept b s r, ESshNew (Some s)] @ w_hist w)"
proof -
  define w2 where "w2 = note_event (EFork 0) (note_event (EAccept b s r) (note_event (ESshNew (Some s)) w))"
  have sc: "serve_child fuel e b s w2 = Some (q, w')"
    using assms by (simp add: accept_once_def ssh_new_def ssh_bind_accept_def sys_fork_def w2_def Let_def)
  define a where "a = e_sigaction e (w_hist w2)"
  define w3 where "w3 = note_event (EBindFree b) (note_event (ESigaction Sig_dfl a) w2)"
  have "later (w_hist w3) w'"
    using sc by (rule serve_child_later) (simp add: w3_def a_def)
  then obtain es where "w_hist w' = es @ w_hist w3" unfolding grown_def by blast
  then show ?thesis using sc by (auto simp: w3_def w2_def)
qed

theorem child_never_returns_witness:
  "\<exists>q w'. accept_once 4 child_env 1 blank_world = Some (q, w') \<and> q \<noteq> Ret ()"
proof -
  obtain q w' where r: "accept_once 4 child_env 1 blank_world = Some (q, w')"
    using child_accepts [of blank_world 1] by auto
  show ?thesis
    using r child_never_returns [OF _ _ _ _ r, of 2 0] by (simp add: child_env_def code_defs)
qed

subsection \<open>The whole program\<close>

text \<open>
  A command line that is not understood is answered with the usage text and
  the exit code 1; nothing else happens, in particular no listener is made.
\<close>

theorem bad_arguments_only_print:
  assumes "parse_args argv = Ret None"
  shows "\<exists>a b c w'. gateway_main rounds fuel e argv w = Some (Ret 1, w')
    \<and> w_hist w' = [EStdout a, EStdout b, EStdout c] @ w_hist w"
  using assms by (simp add: gateway_main_def usage_def Let_def)

theorem bad_arguments_only_print_witness:
  "\<exists>a b c w'. gateway_main 1 1 (sample_env []) [''ssh-gateway''] blank_world = Some (Ret 1, w')
     \<and> w_hist w' = [EStdout a, EStdout b, EStdout c]"
proof -
  have "parse_args [''ssh-gateway''] = Ret None" by (simp add: parse_args_def)
  from bad_arguments_only_print [OF this, of 1 1 "sample_env []" blank_world] show ?thesis by simp
qed

lemma grants_suffix: "set (grants es) \<subseteq> set (grants (es @ h))"
proof (induction es)
  case (Cons x es)
  then show ?case by (cases es) (auto split: event.splits)
qed simp

text \<open>What is known of a process of the gateway that has become the BBS client.\<close>

definition became_client :: "string \<Rightarrow> string list \<Rightarrow> world \<Rightarrow> bool" where
  "became_client path args w \<longleftrightarrow> (\<exists>k. path = ''/usr/bin/node'' \<and> args = [''node'', ''bbs.js'', k]
    \<and> length k \<le> 64 \<and> sd_authenticated (w_sdata w) = 1 \<and> grants (w_hist w) \<noteq> []
    \<and> (k = [] \<or> (\<exists>u p r. lengths_ok u p \<and> length r = 64
         \<and> (auth_request u p, r) \<in> set (grants (w_hist w)) \<and> k = cstr r)))"

lemma serve_child_exec:
  assumes "io_lawful e" and "serve_child fuel e b s w = Some (Halt (Execed path args), w')"
  shows "became_client path args w'"
proof -
  obtain ev w1 where h: "handle_session fuel e ev s w1 = Some (Halt (Execed path args), w')"
    using assms(2) by (auto simp: serve_child_def Let_def split: prod.splits option.splits outcome.splits)
  have "exit_ok (w_hist w1) (Execed path args) w'"
    using safe.handle_session_ok [of w1 "w_hist w1" e fuel ev s] assms(1) h by fastforce
  from exit_ok_exec [OF this]
  obtain es k where e: "w_hist w' = es @ w_hist w1" "path = ''/usr/bin/node''" "args = [''node'', ''bbs.js'', k]"
    "sd_authenticated (w_sdata w') = 1" "grants es \<noteq> []" "length k \<le> 64"
    "k = [] \<or> (\<exists>u p r. lengths_ok u p \<and> length r = 64 \<and> (auth_request u p, r) \<in> set (grants es) \<and> k = cstr r)"
    by blast
  have "set (grants es) \<subseteq> set (grants (w_hist w'))" using e(1) grants_suffix by simp
  then show ?thesis using e unfolding became_client_def by fastforce
qed

lemma accept_once_exec:
  "io_lawful e \<Longrightarrow> accept_once fuel e b w = Some (Halt (Execed path args), w') \<Longrightarrow> became_client path args w'"
  by (auto simp: accept_once_def Let_def intro: serve_child_exec split: prod.splits option.splits if_splits)

lemma serve_exec:
  "io_lawful e \<Longrightarrow> serve rounds fuel e b w = Some (Halt (Execed path args), w') \<Longrightarrow> became_client path args w'"
  by (induction rounds arbitrary: w)
    (auto dest: accept_once_exec split: prod.splits option.splits outcome.splits)

text \<open>
  C3: Of the whole program: after any number of connections, a
  process that descends from \<open>main\<close> replaces itself only by \<open>node bbs.js\<close> with
  one key, only once the backend has granted a request in its history, and the
  key is empty or the text of such a grant.
\<close>

theorem gateway_exec_only_after_grant:
  assumes "io_lawful e" and "gateway_main rounds fuel e argv w = Some (Halt (Execed path args), w')"
  shows "\<exists>k. path = ''/usr/bin/node'' \<and> args = [''node'', ''bbs.js'', k]
    \<and> length k \<le> 64 \<and> sd_authenticated (w_sdata w') = 1 \<and> grants (w_hist w') \<noteq> []
    \<and> (k = [] \<or> (\<exists>u p r. lengths_ok u p \<and> length r = 64
         \<and> (auth_request u p, r) \<in> set (grants (w_hist w')) \<and> k = cstr r))"
proof -
  have no: "start_listener e a p v \<noteq> (Halt h, v')" for a p v h v'
    by (auto simp: start_listener_def sys_defs Let_def split: option.splits)
  have "\<exists>b v. serve rounds fuel e b v = Some (Halt (Execed path args), w')"
    using assms(2) no
    by (auto simp: gateway_main_def parse_args_def Let_def
        split: prod.splits option.splits outcome.splits sum.splits if_splits)
  then show ?thesis
    using serve_exec [OF assms(1)] unfolding became_client_def by blast
qed

theorem gateway_exec_only_after_grant_witness:
  "\<exists>w'. gateway_main 1 4 child_env [''ssh-gateway'', ''0.0.0.0'', ''2222''] blank_world =
      Some (Halt (Execed ''/usr/bin/node'' [''node'', ''bbs.js'', sample_key]), w')
    \<and> grants (w_hist w') \<noteq> []"
proof -
  obtain a v where s: "parse_args [''ssh-gateway'', ''0.0.0.0'', ''2222''] = Ret (Some (a, 2222))"
      "start_listener child_env a 2222 blank_world = (Ret (Inr 1), v)"
      "polls (w_hist v) = 0" "open_fds (w_hist v) = {}"
  proof -
    have n: "strtol10 ''2222'' = 2222"
      by (simp add: strtol10_def cstr_def isspace_def is_digit_def clamp_long_def LONG_MAX_def LONG_MIN_def)
    then obtain a where a: "parse_args [''ssh-gateway'', ''0.0.0.0'', ''2222''] = Ret (Some (a, 2222))"
        "buf_cstr a = Some ''0.0.0.0''"
      using parse_args_text [of "[''ssh-gateway'', ''0.0.0.0'', ''2222'']"]
      by (auto simp: strlen_def cstr_def)
    then show thesis
      using that [OF a(1)]
      by (simp add: start_listener_def child_env_def sys_sigaction_def Let_def)
  qed
  obtain w' where "accept_once 4 child_env 1 v =
     Some (Halt (Execed ''/usr/bin/node'' [''node'', ''bbs.js'', sample_key]), w')"
    using child_accepts [OF s(3,4)] by blast
  then have g: "gateway_main 1 4 child_env [''ssh-gateway'', ''0.0.0.0'', ''2222''] blank_world =
      Some (Halt (Execed ''/usr/bin/node'' [''node'', ''bbs.js'', sample_key]), w')"
    using s(1,2) by (simp add: gateway_main_def)
  have "io_lawful child_env" by (simp add: child_env_def)
  from gateway_exec_only_after_grant [OF this g] g show ?thesis by simp
qed

end
