(* ===== verification/Enum_Tables.thy ===== *)
theory Enum_Tables
  imports Gateway_Prelude
begin

text \<open>
  The enumerations and numbered constants of the libssh headers, as tables: each
  enumerator with its initialiser, in the order of the source. \<open>enum_values\<close>
  is C's rule for the value of an enumerator (the initialiser, or one more than
  the enumerator before). The locale \<open>c_enum\<close> is the contract that makes such
  a table a code: no constant is missing and no value is given twice.
\<close>

type_synonym 'a enum_table = "('a \<times> int option) list"

fun enum_values :: "int \<Rightarrow> 'a enum_table \<Rightarrow> ('a \<times> int) list" where
  "enum_values n [] = []"
| "enum_values n ((a, v) # t) =
     (let k = (case v of None \<Rightarrow> n | Some k \<Rightarrow> k) in (a, k) # enum_values (k + 1) t)"

definition enum_code :: "'a enum_table \<Rightarrow> 'a \<Rightarrow> int" where
  "enum_code t a = the (map_of (enum_values 0 t) a)"

definition enum_of :: "'a enum_table \<Rightarrow> int \<Rightarrow> 'a option" where
  "enum_of t n = map_option fst (find (\<lambda>(a, k). k = n) (enum_values 0 t))"

lemma enum_values_names [simp]: "map fst (enum_values n t) = map fst t"
  by (induction n t rule: enum_values.induct) (simp_all add: Let_def)

lemma enum_values_implicit:
  "enum_values n (map (\<lambda>a. (a, None)) as) = zip as (map (\<lambda>i. n + int i) [0..<length as])"
proof (induction as arbitrary: n)
  case (Cons a as)
  have "map (\<lambda>i. n + int i) [0..<Suc (length as)] =
      n # map (\<lambda>i. n + 1 + int i) [0..<length as]"
    by (subst upt_conv_Cons) (simp_all add: map_Suc_upt [symmetric] del: upt_Suc)
  then show ?case using Cons.IH [of "n + 1"] by simp
qed simp

locale c_codes =
  fixes t :: "'a enum_table"
  assumes names_distinct: "distinct (map fst t)"
    and complete: "a \<in> set (map fst t)"
begin

lemma code_in: "(a, enum_code t a) \<in> set (enum_values 0 t)"
proof -
  have "a \<in> fst ` set (enum_values 0 t)"
    using complete by (metis enum_values_names set_map)
  then obtain k where k: "(a, k) \<in> set (enum_values 0 t)" by force
  then have "map_of (enum_values 0 t) a = Some k" using names_distinct by (simp add: map_of_eq_Some_iff)
  with k show ?thesis by (simp add: enum_code_def)
qed

lemma in_code: "(a, k) \<in> set (enum_values 0 t) \<Longrightarrow> k = enum_code t a"
  using names_distinct by (simp add: enum_code_def map_of_eq_Some_iff)

lemma enum_of_Some: "enum_of t n = Some a \<Longrightarrow> enum_code t a = n"
  by (auto simp: enum_of_def find_Some_iff dest: in_code split: prod.splits)
    (metis in_code nth_mem prod.collapse)

lemma enum_of_None: "enum_of t n = None \<longleftrightarrow> n \<notin> range (enum_code t)"
proof
  assume "enum_of t n = None"
  then show "n \<notin> range (enum_code t)"
    using code_in by (fastforce simp: enum_of_def find_None_iff)
next
  assume "n \<notin> range (enum_code t)"
  then show "enum_of t n = None"
    using enum_of_Some by (metis option.exhaust rangeI)
qed

end

locale c_enum = c_codes +
  assumes codes_distinct: "distinct (map snd (enum_values 0 t))"
begin

lemma code_inject: "enum_code t a = enum_code t b \<longleftrightarrow> a = b"
  using codes_distinct code_in [of a] code_in [of b] by (metis eq_snd_iff distinct_map inj_onD prod.inject)

lemma enum_of_code [simp]: "enum_of t (enum_code t a) = Some a"
proof -
  have "enum_of t (enum_code t a) \<noteq> None" by (simp add: enum_of_None)
  then obtain b where "enum_of t (enum_code t a) = Some b" by blast
  then show ?thesis using enum_of_Some code_inject by metis
qed

lemma enum_of_iff: "enum_of t n = Some a \<longleftrightarrow> enum_code t a = n"
  using enum_of_Some enum_of_code by blast

end

text \<open>A mask of flags has a flag when one of its bits is the flag's.\<close>

definition has_flag :: "int \<Rightarrow> int \<Rightarrow> bool" where
  "has_flag m f \<longleftrightarrow> and m f \<noteq> 0"

definition mask_of :: "('a \<Rightarrow> int) \<Rightarrow> 'a list \<Rightarrow> int" where
  "mask_of code fs = fold (\<lambda>f m. or m (code f)) fs 0"

text \<open>The contract of a set of flags: none is empty, and no two share a bit.\<close>

locale bit_flags = c_codes +
  assumes some_bit: "enum_code t f \<noteq> 0"
    and no_overlap: "f \<noteq> g \<Longrightarrow> and (enum_code t f) (enum_code t g) = 0"
begin

lemma absorb: "or (and (enum_code t a) (enum_code t f)) (enum_code t f) = enum_code t f"
  by (cases "a = f") (simp_all add: no_overlap)

lemma and_mask:
  "and (fold (\<lambda>g m. or m (enum_code t g)) fs k) (enum_code t f) =
     or (and k (enum_code t f)) (if f \<in> set fs then enum_code t f else 0)"
  by (induction fs arbitrary: k)
    (auto simp: bit.conj_disj_distrib2 no_overlap absorb or.assoc)

lemma has_flag_mask: "has_flag (mask_of (enum_code t) fs) (enum_code t f) \<longleftrightarrow> f \<in> set fs"
  by (simp add: has_flag_def mask_of_def and_mask some_bit)

end

named_theorems enum_tables "the tables, as lists, and what reads them"

declare enum_code_def [enum_tables]

lemma c_codesI:
  assumes "\<And>a. a \<in> set (map fst t)" and "distinct (map fst t)"
  shows "c_codes t"
  using assms by unfold_locales

lemma c_enumI:
  assumes "\<And>a. a \<in> set (map fst t)" and "distinct (map fst t)"
    and "distinct (map snd (enum_values 0 t))"
  shows "c_enum t"
  using assms by unfold_locales

lemma sorted_wrt_pair:
  assumes "sorted_wrt R (map snd xs)" and "(a, k) \<in> set xs" "(b, l) \<in> set xs" "a \<noteq> b"
  shows "R k l \<or> R l k"
proof -
  obtain i j where "i < length xs" "j < length xs" "xs ! i = (a, k)" "xs ! j = (b, l)"
    using assms(2,3) by (metis in_set_conv_nth)
  with assms(1,4) show ?thesis
    by (cases i j rule: linorder_cases) (force simp: sorted_wrt_iff_nth_less)+
qed

context c_codes
begin

lemma flags_from_values:
  assumes "\<forall>k \<in> set (map snd (enum_values 0 t)). k \<noteq> 0"
    and "sorted_wrt (\<lambda>k l. and k l = 0) (map snd (enum_values 0 t))"
  shows "bit_flags t"
proof unfold_locales
  show "enum_code t f \<noteq> 0" for f
    using assms(1) code_in [of f] by force
  show "f \<noteq> g \<Longrightarrow> and (enum_code t f) (enum_code t g) = 0" for f g
    using sorted_wrt_pair [OF assms(2) code_in code_in, of f g] by (auto simp: and.commute)
qed

end

lemmas bit_flagsI = c_codes.flags_from_values [OF c_codesI]

end
