(* ===== verification/Libssh_Enums.thy ===== *)
theory Libssh_Enums
  imports Enum_Tables Libssh_Codes
begin

text \<open>
  The enumerations and flags of \<open>include/libssh/libssh.h\<close>, and the bind options of
  \<open>include/libssh/server.h\<close>. Each interpretation says that the values of one of
  them are different, so that \<open>enum_of\<close> reads a value back; for the flags, that
  they do not overlap, so that a mask is a set.
\<close>

subsection \<open>Key exchange methods\<close>

datatype (plugins only: code size) ssh_kex_types_e =
    SSH_KEX | SSH_HOSTKEYS | SSH_CRYPT_C_S | SSH_CRYPT_S_C | SSH_MAC_C_S | SSH_MAC_S_C
  | SSH_COMP_C_S | SSH_COMP_S_C | SSH_LANG_C_S | SSH_LANG_S_C

definition ssh_kex_types_enum :: "ssh_kex_types_e enum_table" where
  [enum_tables]: "ssh_kex_types_enum =
    [(SSH_KEX, Some 0), (SSH_HOSTKEYS, None), (SSH_CRYPT_C_S, None), (SSH_CRYPT_S_C, None),
     (SSH_MAC_C_S, None), (SSH_MAC_S_C, None), (SSH_COMP_C_S, None), (SSH_COMP_S_C, None),
     (SSH_LANG_C_S, None), (SSH_LANG_S_C, None)]"

interpretation kex_types: c_enum ssh_kex_types_enum
  by (rule c_enumI, rename_tac a, case_tac a) (simp_all add: enum_tables)

subsection \<open>Authentication\<close>

text \<open>The results of an authentication attempt; the gateway uses the function
  \<open>ssh_auth_code\<close>, which is this table.\<close>

definition ssh_auth_enum :: "ssh_auth_e enum_table" where
  [enum_tables]: "ssh_auth_enum =
    [(SSH_AUTH_SUCCESS, Some 0), (SSH_AUTH_DENIED, None), (SSH_AUTH_PARTIAL, None),
     (SSH_AUTH_INFO, None), (SSH_AUTH_AGAIN, None), (SSH_AUTH_ERROR, Some (-1))]"

interpretation auth_results: c_enum ssh_auth_enum
  by (rule c_enumI, rename_tac a, case_tac a) (simp_all add: enum_tables)

lemma ssh_auth_code_table: "ssh_auth_code a = enum_code ssh_auth_enum a"
  by (cases a) (simp_all add: enum_tables)

datatype (plugins only: code size) auth_method =
    SSH_AUTH_METHOD_NONE | SSH_AUTH_METHOD_PASSWORD | SSH_AUTH_METHOD_PUBLICKEY
  | SSH_AUTH_METHOD_HOSTBASED | SSH_AUTH_METHOD_INTERACTIVE | SSH_AUTH_METHOD_GSSAPI_MIC

definition auth_method_flags :: "auth_method enum_table" where
  [enum_tables]: "auth_method_flags =
    [(SSH_AUTH_METHOD_NONE, Some 0x0001), (SSH_AUTH_METHOD_PASSWORD, Some 0x0002),
     (SSH_AUTH_METHOD_PUBLICKEY, Some 0x0004), (SSH_AUTH_METHOD_HOSTBASED, Some 0x0008),
     (SSH_AUTH_METHOD_INTERACTIVE, Some 0x0010), (SSH_AUTH_METHOD_GSSAPI_MIC, Some 0x0020)]"

interpretation auth_methods: bit_flags auth_method_flags
  by (rule bit_flagsI, rename_tac a, case_tac a) (simp_all add: enum_tables)

subsection \<open>Requests and channels\<close>

datatype (plugins only: code size) ssh_requests_e =
    SSH_REQUEST_AUTH | SSH_REQUEST_CHANNEL_OPEN | SSH_REQUEST_CHANNEL | SSH_REQUEST_SERVICE
  | SSH_REQUEST_GLOBAL

definition ssh_requests_enum :: "ssh_requests_e enum_table" where
  [enum_tables]: "ssh_requests_enum =
    [(SSH_REQUEST_AUTH, Some 1), (SSH_REQUEST_CHANNEL_OPEN, None), (SSH_REQUEST_CHANNEL, None),
     (SSH_REQUEST_SERVICE, None), (SSH_REQUEST_GLOBAL, None)]"

interpretation requests: c_enum ssh_requests_enum
  by (rule c_enumI, rename_tac a, case_tac a) (simp_all add: enum_tables)

datatype (plugins only: code size) ssh_channel_type_e =
    SSH_CHANNEL_UNKNOWN | SSH_CHANNEL_SESSION | SSH_CHANNEL_DIRECT_TCPIP
  | SSH_CHANNEL_FORWARDED_TCPIP | SSH_CHANNEL_X11

definition ssh_channel_type_enum :: "ssh_channel_type_e enum_table" where
  [enum_tables]: "ssh_channel_type_enum =
    [(SSH_CHANNEL_UNKNOWN, Some 0), (SSH_CHANNEL_SESSION, None),
     (SSH_CHANNEL_DIRECT_TCPIP, None), (SSH_CHANNEL_FORWARDED_TCPIP, None),
     (SSH_CHANNEL_X11, None)]"

interpretation channel_types: c_enum ssh_channel_type_enum
  by (rule c_enumI, rename_tac a, case_tac a) (simp_all add: enum_tables)

datatype (plugins only: code size) ssh_channel_requests_e =
    SSH_CHANNEL_REQUEST_UNKNOWN | SSH_CHANNEL_REQUEST_PTY | SSH_CHANNEL_REQUEST_EXEC
  | SSH_CHANNEL_REQUEST_SHELL | SSH_CHANNEL_REQUEST_ENV | SSH_CHANNEL_REQUEST_SUBSYSTEM
  | SSH_CHANNEL_REQUEST_WINDOW_CHANGE | SSH_CHANNEL_REQUEST_X11

definition ssh_channel_requests_enum :: "ssh_channel_requests_e enum_table" where
  [enum_tables]: "ssh_channel_requests_enum =
    [(SSH_CHANNEL_REQUEST_UNKNOWN, Some 0), (SSH_CHANNEL_REQUEST_PTY, None),
     (SSH_CHANNEL_REQUEST_EXEC, None), (SSH_CHANNEL_REQUEST_SHELL, None),
     (SSH_CHANNEL_REQUEST_ENV, None), (SSH_CHANNEL_REQUEST_SUBSYSTEM, None),
     (SSH_CHANNEL_REQUEST_WINDOW_CHANGE, None), (SSH_CHANNEL_REQUEST_X11, None)]"

interpretation channel_requests: c_enum ssh_channel_requests_enum
  by (rule c_enumI, rename_tac a, case_tac a) (simp_all add: enum_tables)

datatype (plugins only: code size) ssh_global_requests_e =
    SSH_GLOBAL_REQUEST_UNKNOWN | SSH_GLOBAL_REQUEST_TCPIP_FORWARD
  | SSH_GLOBAL_REQUEST_CANCEL_TCPIP_FORWARD

definition ssh_global_requests_enum :: "ssh_global_requests_e enum_table" where
  [enum_tables]: "ssh_global_requests_enum =
    [(SSH_GLOBAL_REQUEST_UNKNOWN, Some 0), (SSH_GLOBAL_REQUEST_TCPIP_FORWARD, None),
     (SSH_GLOBAL_REQUEST_CANCEL_TCPIP_FORWARD, None)]"

interpretation global_requests: c_enum ssh_global_requests_enum
  by (rule c_enumI, rename_tac a, case_tac a) (simp_all add: enum_tables)

datatype (plugins only: code size) ssh_publickey_state_e =
    SSH_PUBLICKEY_STATE_ERROR | SSH_PUBLICKEY_STATE_NONE | SSH_PUBLICKEY_STATE_VALID
  | SSH_PUBLICKEY_STATE_WRONG

definition ssh_publickey_state_enum :: "ssh_publickey_state_e enum_table" where
  [enum_tables]: "ssh_publickey_state_enum =
    [(SSH_PUBLICKEY_STATE_ERROR, Some (-1)), (SSH_PUBLICKEY_STATE_NONE, Some 0),
     (SSH_PUBLICKEY_STATE_VALID, Some 1), (SSH_PUBLICKEY_STATE_WRONG, Some 2)]"

interpretation publickey_states: c_enum ssh_publickey_state_enum
  by (rule c_enumI, rename_tac a, case_tac a) (simp_all add: enum_tables)

subsection \<open>Hosts, errors, keys\<close>

datatype (plugins only: code size) ssh_server_known_e =
    SSH_SERVER_ERROR | SSH_SERVER_NOT_KNOWN | SSH_SERVER_KNOWN_OK | SSH_SERVER_KNOWN_CHANGED
  | SSH_SERVER_FOUND_OTHER | SSH_SERVER_FILE_NOT_FOUND

definition ssh_server_known_enum :: "ssh_server_known_e enum_table" where
  [enum_tables]: "ssh_server_known_enum =
    [(SSH_SERVER_ERROR, Some (-1)), (SSH_SERVER_NOT_KNOWN, Some 0),
     (SSH_SERVER_KNOWN_OK, None), (SSH_SERVER_KNOWN_CHANGED, None),
     (SSH_SERVER_FOUND_OTHER, None), (SSH_SERVER_FILE_NOT_FOUND, None)]"

interpretation server_known: c_enum ssh_server_known_enum
  by (rule c_enumI, rename_tac a, case_tac a) (simp_all add: enum_tables)

datatype (plugins only: code size) ssh_error_types_e =
    SSH_NO_ERROR | SSH_REQUEST_DENIED | SSH_FATAL | SSH_EINTR

definition ssh_error_types_enum :: "ssh_error_types_e enum_table" where
  [enum_tables]: "ssh_error_types_enum =
    [(SSH_NO_ERROR, Some 0), (SSH_REQUEST_DENIED, None), (SSH_FATAL, None), (SSH_EINTR, None)]"

interpretation error_types: c_enum ssh_error_types_enum
  by (rule c_enumI, rename_tac a, case_tac a) (simp_all add: enum_tables)

datatype (plugins only: code size) ssh_keytypes_e =
    SSH_KEYTYPE_UNKNOWN | SSH_KEYTYPE_DSS | SSH_KEYTYPE_RSA | SSH_KEYTYPE_RSA1
  | SSH_KEYTYPE_ECDSA | SSH_KEYTYPE_ED25519

definition ssh_keytypes_enum :: "ssh_keytypes_e enum_table" where
  [enum_tables]: "ssh_keytypes_enum =
    [(SSH_KEYTYPE_UNKNOWN, Some 0), (SSH_KEYTYPE_DSS, Some 1), (SSH_KEYTYPE_RSA, None),
     (SSH_KEYTYPE_RSA1, None), (SSH_KEYTYPE_ECDSA, None), (SSH_KEYTYPE_ED25519, None)]"

interpretation keytypes: c_enum ssh_keytypes_enum
  by (rule c_enumI, rename_tac a, case_tac a) (simp_all add: enum_tables)

datatype (plugins only: code size) ssh_keycmp_e =
    SSH_KEY_CMP_PUBLIC | SSH_KEY_CMP_PRIVATE

definition ssh_keycmp_enum :: "ssh_keycmp_e enum_table" where
  [enum_tables]: "ssh_keycmp_enum =
    [(SSH_KEY_CMP_PUBLIC, Some 0), (SSH_KEY_CMP_PRIVATE, None)]"

interpretation keycmp: c_enum ssh_keycmp_enum
  by (rule c_enumI, rename_tac a, case_tac a) (simp_all add: enum_tables)

datatype (plugins only: code size) ssh_publickey_hash_type =
    SSH_PUBLICKEY_HASH_SHA1 | SSH_PUBLICKEY_HASH_MD5

definition ssh_publickey_hash_enum :: "ssh_publickey_hash_type enum_table" where
  [enum_tables]: "ssh_publickey_hash_enum =
    [(SSH_PUBLICKEY_HASH_SHA1, None), (SSH_PUBLICKEY_HASH_MD5, None)]"

interpretation publickey_hash: c_enum ssh_publickey_hash_enum
  by (rule c_enumI, rename_tac a, case_tac a) (simp_all add: enum_tables)

subsection \<open>Logging\<close>

datatype (plugins only: code size) ssh_log_e =
    SSH_LOG_NOLOG | SSH_LOG_WARNING | SSH_LOG_PROTOCOL | SSH_LOG_PACKET | SSH_LOG_FUNCTIONS

definition ssh_log_enum :: "ssh_log_e enum_table" where
  [enum_tables]: "ssh_log_enum =
    [(SSH_LOG_NOLOG, Some 0), (SSH_LOG_WARNING, None), (SSH_LOG_PROTOCOL, None),
     (SSH_LOG_PACKET, None), (SSH_LOG_FUNCTIONS, None)]"

interpretation log_levels: c_enum ssh_log_enum
  by (rule c_enumI, rename_tac a, case_tac a) (simp_all add: enum_tables)

subsection \<open>Options\<close>

datatype (plugins only: code size) ssh_options_e =
    SSH_OPTIONS_HOST | SSH_OPTIONS_PORT | SSH_OPTIONS_PORT_STR | SSH_OPTIONS_FD
  | SSH_OPTIONS_USER | SSH_OPTIONS_SSH_DIR | SSH_OPTIONS_IDENTITY | SSH_OPTIONS_ADD_IDENTITY
  | SSH_OPTIONS_KNOWNHOSTS | SSH_OPTIONS_TIMEOUT | SSH_OPTIONS_TIMEOUT_USEC | SSH_OPTIONS_SSH1
  | SSH_OPTIONS_SSH2 | SSH_OPTIONS_LOG_VERBOSITY | SSH_OPTIONS_LOG_VERBOSITY_STR
  | SSH_OPTIONS_CIPHERS_C_S | SSH_OPTIONS_CIPHERS_S_C | SSH_OPTIONS_COMPRESSION_C_S
  | SSH_OPTIONS_COMPRESSION_S_C | SSH_OPTIONS_PROXYCOMMAND | SSH_OPTIONS_BINDADDR
  | SSH_OPTIONS_STRICTHOSTKEYCHECK | SSH_OPTIONS_COMPRESSION | SSH_OPTIONS_COMPRESSION_LEVEL
  | SSH_OPTIONS_KEY_EXCHANGE | SSH_OPTIONS_HOSTKEYS | SSH_OPTIONS_GSSAPI_SERVER_IDENTITY
  | SSH_OPTIONS_GSSAPI_CLIENT_IDENTITY | SSH_OPTIONS_GSSAPI_DELEGATE_CREDENTIALS
  | SSH_OPTIONS_HMAC_C_S | SSH_OPTIONS_HMAC_S_C

definition ssh_options_enum :: "ssh_options_e enum_table" where
  [enum_tables]: "ssh_options_enum =
    [(SSH_OPTIONS_HOST, None), (SSH_OPTIONS_PORT, None), (SSH_OPTIONS_PORT_STR, None),
     (SSH_OPTIONS_FD, None), (SSH_OPTIONS_USER, None), (SSH_OPTIONS_SSH_DIR, None),
     (SSH_OPTIONS_IDENTITY, None), (SSH_OPTIONS_ADD_IDENTITY, None),
     (SSH_OPTIONS_KNOWNHOSTS, None), (SSH_OPTIONS_TIMEOUT, None),
     (SSH_OPTIONS_TIMEOUT_USEC, None), (SSH_OPTIONS_SSH1, None), (SSH_OPTIONS_SSH2, None),
     (SSH_OPTIONS_LOG_VERBOSITY, None), (SSH_OPTIONS_LOG_VERBOSITY_STR, None),
     (SSH_OPTIONS_CIPHERS_C_S, None), (SSH_OPTIONS_CIPHERS_S_C, None),
     (SSH_OPTIONS_COMPRESSION_C_S, None), (SSH_OPTIONS_COMPRESSION_S_C, None),
     (SSH_OPTIONS_PROXYCOMMAND, None), (SSH_OPTIONS_BINDADDR, None),
     (SSH_OPTIONS_STRICTHOSTKEYCHECK, None), (SSH_OPTIONS_COMPRESSION, None),
     (SSH_OPTIONS_COMPRESSION_LEVEL, None), (SSH_OPTIONS_KEY_EXCHANGE, None),
     (SSH_OPTIONS_HOSTKEYS, None), (SSH_OPTIONS_GSSAPI_SERVER_IDENTITY, None),
     (SSH_OPTIONS_GSSAPI_CLIENT_IDENTITY, None),
     (SSH_OPTIONS_GSSAPI_DELEGATE_CREDENTIALS, None), (SSH_OPTIONS_HMAC_C_S, None),
     (SSH_OPTIONS_HMAC_S_C, None)]"

interpretation options: c_enum ssh_options_enum
  by (rule c_enumI, rename_tac a, case_tac a) (simp_all add: enum_tables)

definition ssh_bind_options_enum :: "ssh_bind_options_e enum_table" where
  [enum_tables]: "ssh_bind_options_enum =
    [(SSH_BIND_OPTIONS_BINDADDR, None), (SSH_BIND_OPTIONS_BINDPORT, None),
     (SSH_BIND_OPTIONS_BINDPORT_STR, None), (SSH_BIND_OPTIONS_HOSTKEY, None),
     (SSH_BIND_OPTIONS_DSAKEY, None), (SSH_BIND_OPTIONS_RSAKEY, None),
     (SSH_BIND_OPTIONS_BANNER, None), (SSH_BIND_OPTIONS_LOG_VERBOSITY, None),
     (SSH_BIND_OPTIONS_LOG_VERBOSITY_STR, None), (SSH_BIND_OPTIONS_ECDSAKEY, None)]"

interpretation bind_options: c_enum ssh_bind_options_enum
  by (rule c_enumI, rename_tac a, case_tac a) (simp_all add: enum_tables)

subsection \<open>Secure copy\<close>

datatype (plugins only: code size) ssh_scp_mode =
    SSH_SCP_WRITE | SSH_SCP_READ | SSH_SCP_RECURSIVE

definition ssh_scp_mode_enum :: "ssh_scp_mode enum_table" where
  [enum_tables]: "ssh_scp_mode_enum =
    [(SSH_SCP_WRITE, None), (SSH_SCP_READ, None), (SSH_SCP_RECURSIVE, Some 0x10)]"

interpretation scp_modes: c_enum ssh_scp_mode_enum
  by (rule c_enumI, rename_tac a, case_tac a) (simp_all add: enum_tables)

datatype (plugins only: code size) ssh_scp_request_types =
    SSH_SCP_REQUEST_NEWDIR | SSH_SCP_REQUEST_NEWFILE | SSH_SCP_REQUEST_EOF
  | SSH_SCP_REQUEST_ENDDIR | SSH_SCP_REQUEST_WARNING

definition ssh_scp_request_enum :: "ssh_scp_request_types enum_table" where
  [enum_tables]: "ssh_scp_request_enum =
    [(SSH_SCP_REQUEST_NEWDIR, Some 1), (SSH_SCP_REQUEST_NEWFILE, None),
     (SSH_SCP_REQUEST_EOF, None), (SSH_SCP_REQUEST_ENDDIR, None),
     (SSH_SCP_REQUEST_WARNING, None)]"

interpretation scp_requests: c_enum ssh_scp_request_enum
  by (rule c_enumI, rename_tac a, case_tac a) (simp_all add: enum_tables)

end
