(* ===== verification/Libssh_Api.thy ===== *)
theory Libssh_Api
  imports Libssh_Enums
begin

text \<open>
  The interface of libssh (\<open>include/libssh/libssh.h\<close>, \<open>include/libssh/server.h\<close>):
  one constructor per exported function, with the types of its parameters, and
  the type of what it returns. The functions themselves are not part of the
  repository. A pointer to something libssh made is a handle, \<open>None\<close> is \<open>NULL\<close>;
  a \<open>char *\<close> is a C string or \<open>NULL\<close>; any other pointer is an address.
\<close>

type_synonym handle = "nat option"
type_synonym ssh_session = handle
type_synonym ssh_channel = handle
type_synonym ssh_key = handle
type_synonym ssh_message = handle
type_synonym ssh_scp = handle
type_synonym ssh_string = handle
type_synonym ssh_event = handle
type_synonym ssh_bind = handle
type_synonym ssh_pcap_file = handle
type_synonym ssh_counter = handle
type_synonym ssh_gssapi_creds = handle
type_synonym ssh_bind_callbacks = handle

type_synonym address = "nat option"
type_synonym c_string = "string option"

text \<open>What an option's \<open>const void *\<close> points to, and an argument of a variadic call.\<close>

datatype option_value = Text c_string | Long_at int | Raw address

datatype c_arg = Int_arg int | Text_arg c_string | Pointer_arg address

text \<open>The types of results, and results.\<close>

datatype c_type = RVoid | RInt | RUint32 | RUint64 | RPointer | RText

datatype c_value = VVoid | VInt int | VUint32 "32 word" | VUint64 "64 word" | VPointer handle | VText c_string

fun value_type :: "c_value \<Rightarrow> c_type" where
  "value_type VVoid = RVoid"
| "value_type (VInt _) = RInt"
| "value_type (VUint32 _) = RUint32"
| "value_type (VUint64 _) = RUint64"
| "value_type (VPointer _) = RPointer"
| "value_type (VText _) = RText"

subsection \<open>Channels\<close>

datatype (plugins only: size) channel_call =
    Ssh_blocking_flush ssh_session int
  | Ssh_channel_accept_x11 ssh_channel int
  | Ssh_channel_change_pty_size ssh_channel int int
  | Ssh_channel_close ssh_channel
  | Ssh_channel_free ssh_channel
  | Ssh_channel_get_exit_status ssh_channel
  | Ssh_channel_get_session ssh_channel
  | Ssh_channel_is_closed ssh_channel
  | Ssh_channel_is_eof ssh_channel
  | Ssh_channel_is_open ssh_channel
  | Ssh_channel_new ssh_session
  | Ssh_channel_open_auth_agent ssh_channel
  | Ssh_channel_open_forward ssh_channel c_string int c_string int
  | Ssh_channel_open_session ssh_channel
  | Ssh_channel_open_x11 ssh_channel c_string int
  | Ssh_channel_poll ssh_channel int
  | Ssh_channel_poll_timeout ssh_channel int int
  | Ssh_channel_read ssh_channel address "32 word" int
  | Ssh_channel_read_timeout ssh_channel address "32 word" int int
  | Ssh_channel_read_nonblocking ssh_channel address "32 word" int
  | Ssh_channel_request_env ssh_channel c_string c_string
  | Ssh_channel_request_exec ssh_channel c_string
  | Ssh_channel_request_pty ssh_channel
  | Ssh_channel_request_pty_size ssh_channel c_string int int
  | Ssh_channel_request_shell ssh_channel
  | Ssh_channel_request_send_signal ssh_channel c_string
  | Ssh_channel_request_sftp ssh_channel
  | Ssh_channel_request_subsystem ssh_channel c_string
  | Ssh_channel_request_x11 ssh_channel int c_string c_string int
  | Ssh_channel_send_eof ssh_channel
  | Ssh_channel_select address address address address
  | Ssh_channel_set_blocking ssh_channel int
  | Ssh_channel_set_counter ssh_channel ssh_counter
  | Ssh_channel_write ssh_channel address "32 word"
  | Ssh_channel_window_size ssh_channel

fun channel_call_returns :: "channel_call \<Rightarrow> c_type" where
  "channel_call_returns (Ssh_channel_accept_x11 _ _) = RPointer"
| "channel_call_returns (Ssh_channel_get_session _) = RPointer"
| "channel_call_returns (Ssh_channel_new _) = RPointer"
| "channel_call_returns (Ssh_channel_free _) = RVoid"
| "channel_call_returns (Ssh_channel_set_blocking _ _) = RVoid"
| "channel_call_returns (Ssh_channel_set_counter _ _) = RVoid"
| "channel_call_returns (Ssh_channel_window_size _) = RUint32"
| "channel_call_returns _ = RInt"

subsection \<open>Sessions\<close>

datatype (plugins only: size) session_call =
    Ssh_basename c_string
  | Ssh_clean_pubkey_hash address
  | Ssh_connect ssh_session
  | Ssh_copyright
  | Ssh_disconnect ssh_session
  | Ssh_dirname c_string
  | Ssh_finalize
  | Ssh_channel_accept_forward ssh_session int address
  | Ssh_channel_cancel_forward ssh_session c_string int
  | Ssh_channel_listen_forward ssh_session c_string int address
  | Ssh_free ssh_session
  | Ssh_get_disconnect_message ssh_session
  | Ssh_get_error address
  | Ssh_get_error_code address
  | Ssh_get_fd ssh_session
  | Ssh_get_hexa address "64 word"
  | Ssh_get_issue_banner ssh_session
  | Ssh_get_openssh_version ssh_session
  | Ssh_get_publickey ssh_session address
  | Ssh_get_publickey_hash ssh_key ssh_publickey_hash_type address address
  | Ssh_get_pubkey_hash ssh_session address
  | Ssh_forward_accept ssh_session int
  | Ssh_forward_cancel ssh_session c_string int
  | Ssh_forward_listen ssh_session c_string int address
  | Ssh_get_random address int int
  | Ssh_get_version ssh_session
  | Ssh_get_status ssh_session
  | Ssh_get_poll_flags ssh_session
  | Ssh_init
  | Ssh_is_blocking ssh_session
  | Ssh_is_connected ssh_session
  | Ssh_is_server_known ssh_session
  | Ssh_set_log_level int
  | Ssh_get_log_level
  | Ssh_get_log_userdata
  | Ssh_set_log_userdata address
  | Priv_ssh_log int c_string c_string "c_arg list"
  | Ssh_log ssh_session int c_string "c_arg list"
  | Ssh_message_channel_request_open_reply_accept ssh_message
  | Ssh_message_channel_request_reply_success ssh_message
  | Ssh_message_free ssh_message
  | Ssh_message_get ssh_session
  | Ssh_message_subtype ssh_message
  | Ssh_message_type ssh_message
  | Ssh_mkdir c_string int
  | Ssh_new
  | Ssh_options_copy ssh_session address
  | Ssh_options_getopt ssh_session address address
  | Ssh_options_parse_config ssh_session c_string
  | Ssh_options_set ssh_session ssh_options_e option_value
  | Ssh_options_get ssh_session ssh_options_e address
  | Ssh_options_get_port ssh_session address
  | Ssh_pcap_file_close ssh_pcap_file
  | Ssh_pcap_file_free ssh_pcap_file
  | Ssh_pcap_file_new
  | Ssh_pcap_file_open ssh_pcap_file c_string

fun session_call_returns :: "session_call \<Rightarrow> c_type" where
  "session_call_returns (Ssh_basename _) = RText"
| "session_call_returns Ssh_copyright = RText"
| "session_call_returns (Ssh_dirname _) = RText"
| "session_call_returns (Ssh_get_disconnect_message _) = RText"
| "session_call_returns (Ssh_get_error _) = RText"
| "session_call_returns (Ssh_get_hexa _ _) = RText"
| "session_call_returns (Ssh_get_issue_banner _) = RText"
| "session_call_returns (Ssh_clean_pubkey_hash _) = RVoid"
| "session_call_returns (Ssh_disconnect _) = RVoid"
| "session_call_returns (Ssh_free _) = RVoid"
| "session_call_returns (Priv_ssh_log _ _ _ _) = RVoid"
| "session_call_returns (Ssh_log _ _ _ _) = RVoid"
| "session_call_returns (Ssh_message_free _) = RVoid"
| "session_call_returns (Ssh_pcap_file_free _) = RVoid"
| "session_call_returns (Ssh_channel_accept_forward _ _ _) = RPointer"
| "session_call_returns (Ssh_forward_accept _ _) = RPointer"
| "session_call_returns Ssh_get_log_userdata = RPointer"
| "session_call_returns (Ssh_message_channel_request_open_reply_accept _) = RPointer"
| "session_call_returns (Ssh_message_get _) = RPointer"
| "session_call_returns Ssh_new = RPointer"
| "session_call_returns Ssh_pcap_file_new = RPointer"
| "session_call_returns _ = RInt"

subsection \<open>Keys\<close>

datatype (plugins only: size) key_call =
    Ssh_key_new
  | Ssh_key_free ssh_key
  | Ssh_key_type ssh_key
  | Ssh_key_type_to_char ssh_keytypes_e
  | Ssh_key_type_from_name c_string
  | Ssh_key_is_public ssh_key
  | Ssh_key_is_private ssh_key
  | Ssh_key_cmp ssh_key ssh_key ssh_keycmp_e
  | Ssh_pki_generate ssh_keytypes_e int address
  | Ssh_pki_import_privkey_base64 c_string c_string address address address
  | Ssh_pki_import_privkey_file c_string c_string address address address
  | Ssh_pki_export_privkey_file ssh_key c_string address address c_string
  | Ssh_pki_import_pubkey_base64 c_string ssh_keytypes_e address
  | Ssh_pki_import_pubkey_file c_string address
  | Ssh_pki_export_privkey_to_pubkey ssh_key address
  | Ssh_pki_export_pubkey_base64 ssh_key address
  | Ssh_pki_export_pubkey_file ssh_key c_string
  | Ssh_pki_key_ecdsa_name ssh_key

fun key_call_returns :: "key_call \<Rightarrow> c_type" where
  "key_call_returns Ssh_key_new = RPointer"
| "key_call_returns (Ssh_key_free _) = RVoid"
| "key_call_returns (Ssh_key_type_to_char _) = RText"
| "key_call_returns (Ssh_pki_key_ecdsa_name _) = RText"
| "key_call_returns _ = RInt"

subsection \<open>Copying files and session settings\<close>

datatype (plugins only: size) transfer_call =
    Ssh_print_hexa c_string address "64 word"
  | Ssh_send_ignore ssh_session c_string
  | Ssh_send_debug ssh_session c_string int
  | Ssh_gssapi_set_creds ssh_session ssh_gssapi_creds
  | Ssh_scp_accept_request ssh_scp
  | Ssh_scp_close ssh_scp
  | Ssh_scp_deny_request ssh_scp c_string
  | Ssh_scp_free ssh_scp
  | Ssh_scp_init ssh_scp
  | Ssh_scp_leave_directory ssh_scp
  | Ssh_scp_new ssh_session int c_string
  | Ssh_scp_pull_request ssh_scp
  | Ssh_scp_push_directory ssh_scp c_string int
  | Ssh_scp_push_file ssh_scp c_string "64 word" int
  | Ssh_scp_push_file64 ssh_scp c_string "64 word" int
  | Ssh_scp_read ssh_scp address "64 word"
  | Ssh_scp_request_get_filename ssh_scp
  | Ssh_scp_request_get_permissions ssh_scp
  | Ssh_scp_request_get_size ssh_scp
  | Ssh_scp_request_get_size64 ssh_scp
  | Ssh_scp_request_get_warning ssh_scp
  | Ssh_scp_write ssh_scp address "64 word"
  | Ssh_select address address int address address
  | Ssh_service_request ssh_session c_string
  | Ssh_set_agent_channel ssh_session ssh_channel
  | Ssh_set_blocking ssh_session int
  | Ssh_set_counters ssh_session ssh_counter ssh_counter
  | Ssh_set_fd_except ssh_session
  | Ssh_set_fd_toread ssh_session
  | Ssh_set_fd_towrite ssh_session
  | Ssh_silent_disconnect ssh_session
  | Ssh_set_pcap_file ssh_session ssh_pcap_file

fun transfer_call_returns :: "transfer_call \<Rightarrow> c_type" where
  "transfer_call_returns (Ssh_print_hexa _ _ _) = RVoid"
| "transfer_call_returns (Ssh_gssapi_set_creds _ _) = RVoid"
| "transfer_call_returns (Ssh_scp_free _) = RVoid"
| "transfer_call_returns (Ssh_set_blocking _ _) = RVoid"
| "transfer_call_returns (Ssh_set_counters _ _ _) = RVoid"
| "transfer_call_returns (Ssh_set_fd_except _) = RVoid"
| "transfer_call_returns (Ssh_set_fd_toread _) = RVoid"
| "transfer_call_returns (Ssh_set_fd_towrite _) = RVoid"
| "transfer_call_returns (Ssh_silent_disconnect _) = RVoid"
| "transfer_call_returns (Ssh_scp_new _ _ _) = RPointer"
| "transfer_call_returns (Ssh_scp_request_get_filename _) = RText"
| "transfer_call_returns (Ssh_scp_request_get_warning _) = RText"
| "transfer_call_returns (Ssh_scp_request_get_size _) = RUint64"
| "transfer_call_returns (Ssh_scp_request_get_size64 _) = RUint64"
| "transfer_call_returns _ = RInt"

subsection \<open>Authentication\<close>

datatype (plugins only: size) userauth_call =
    Ssh_userauth_none ssh_session c_string
  | Ssh_userauth_list ssh_session c_string
  | Ssh_userauth_try_publickey ssh_session c_string ssh_key
  | Ssh_userauth_publickey ssh_session c_string ssh_key
  | Ssh_userauth_agent ssh_session c_string
  | Ssh_userauth_publickey_auto ssh_session c_string c_string
  | Ssh_userauth_password ssh_session c_string c_string
  | Ssh_userauth_kbdint ssh_session c_string c_string
  | Ssh_userauth_kbdint_getinstruction ssh_session
  | Ssh_userauth_kbdint_getname ssh_session
  | Ssh_userauth_kbdint_getnprompts ssh_session
  | Ssh_userauth_kbdint_getprompt ssh_session "32 word" c_string
  | Ssh_userauth_kbdint_getnanswers ssh_session
  | Ssh_userauth_kbdint_getanswer ssh_session "32 word"
  | Ssh_userauth_kbdint_setanswer ssh_session "32 word" c_string
  | Ssh_userauth_gssapi ssh_session
  | Ssh_version int
  | Ssh_write_knownhost ssh_session

fun userauth_call_returns :: "userauth_call \<Rightarrow> c_type" where
  "userauth_call_returns (Ssh_userauth_kbdint_getinstruction _) = RText"
| "userauth_call_returns (Ssh_userauth_kbdint_getname _) = RText"
| "userauth_call_returns (Ssh_userauth_kbdint_getprompt _ _ _) = RText"
| "userauth_call_returns (Ssh_userauth_kbdint_getanswer _ _) = RText"
| "userauth_call_returns (Ssh_version _) = RText"
| "userauth_call_returns _ = RInt"

subsection \<open>Strings\<close>

datatype (plugins only: size) string_call =
    Ssh_string_burn ssh_string
  | Ssh_string_copy ssh_string
  | Ssh_string_data ssh_string
  | Ssh_string_fill ssh_string address "64 word"
  | Ssh_string_free ssh_string
  | Ssh_string_from_char c_string
  | Ssh_string_len ssh_string
  | Ssh_string_new "64 word"
  | Ssh_string_get_char ssh_string
  | Ssh_string_to_char ssh_string
  | Ssh_string_free_char c_string
  | Ssh_getpass c_string c_string "64 word" int int

fun string_call_returns :: "string_call \<Rightarrow> c_type" where
  "string_call_returns (Ssh_string_burn _) = RVoid"
| "string_call_returns (Ssh_string_free _) = RVoid"
| "string_call_returns (Ssh_string_free_char _) = RVoid"
| "string_call_returns (Ssh_string_fill _ _ _) = RInt"
| "string_call_returns (Ssh_getpass _ _ _ _ _) = RInt"
| "string_call_returns (Ssh_string_len _) = RUint64"
| "string_call_returns (Ssh_string_get_char _) = RText"
| "string_call_returns (Ssh_string_to_char _) = RText"
| "string_call_returns _ = RPointer"

subsection \<open>Events\<close>

datatype (plugins only: size) event_call =
    Ssh_event_new
  | Ssh_event_add_fd ssh_event int int address address
  | Ssh_event_add_session ssh_event ssh_session
  | Ssh_event_dopoll ssh_event int
  | Ssh_event_remove_fd ssh_event int
  | Ssh_event_remove_session ssh_event ssh_session
  | Ssh_event_free ssh_event
  | Ssh_get_clientbanner ssh_session
  | Ssh_get_serverbanner ssh_session
  | Ssh_get_kex_algo ssh_session
  | Ssh_get_cipher_in ssh_session
  | Ssh_get_cipher_out ssh_session
  | Ssh_get_hmac_in ssh_session
  | Ssh_get_hmac_out ssh_session

fun event_call_returns :: "event_call \<Rightarrow> c_type" where
  "event_call_returns Ssh_event_new = RPointer"
| "event_call_returns (Ssh_event_add_fd _ _ _ _ _) = RInt"
| "event_call_returns (Ssh_event_add_session _ _) = RInt"
| "event_call_returns (Ssh_event_dopoll _ _) = RInt"
| "event_call_returns (Ssh_event_remove_fd _ _) = RInt"
| "event_call_returns (Ssh_event_remove_session _ _) = RInt"
| "event_call_returns (Ssh_event_free _) = RVoid"
| "event_call_returns _ = RText"

subsection \<open>Listening for sessions\<close>

datatype (plugins only: size) bind_call =
    Ssh_bind_new
  | Ssh_bind_options_set ssh_bind ssh_bind_options_e option_value
  | Ssh_bind_listen ssh_bind
  | Ssh_bind_set_callbacks ssh_bind ssh_bind_callbacks address
  | Ssh_bind_set_blocking ssh_bind int
  | Ssh_bind_get_fd ssh_bind
  | Ssh_bind_set_fd ssh_bind int
  | Ssh_bind_fd_toaccept ssh_bind
  | Ssh_bind_accept ssh_bind ssh_session
  | Ssh_bind_accept_fd ssh_bind ssh_session int
  | Ssh_gssapi_get_creds ssh_session
  | Ssh_handle_key_exchange ssh_session
  | Ssh_bind_free ssh_bind
  | Ssh_set_auth_methods ssh_session int

fun bind_call_returns :: "bind_call \<Rightarrow> c_type" where
  "bind_call_returns Ssh_bind_new = RPointer"
| "bind_call_returns (Ssh_gssapi_get_creds _) = RPointer"
| "bind_call_returns (Ssh_bind_set_blocking _ _) = RVoid"
| "bind_call_returns (Ssh_bind_set_fd _ _) = RVoid"
| "bind_call_returns (Ssh_bind_fd_toaccept _) = RVoid"
| "bind_call_returns (Ssh_bind_free _) = RVoid"
| "bind_call_returns (Ssh_set_auth_methods _ _) = RVoid"
| "bind_call_returns _ = RInt"

subsection \<open>Server messages\<close>

datatype (plugins only: size) message_call =
    Ssh_message_reply_default ssh_message
  | Ssh_message_auth_user ssh_message
  | Ssh_message_auth_password ssh_message
  | Ssh_message_auth_pubkey ssh_message
  | Ssh_message_auth_kbdint_is_response ssh_message
  | Ssh_message_auth_publickey_state ssh_message
  | Ssh_message_auth_reply_success ssh_message int
  | Ssh_message_auth_reply_pk_ok ssh_message ssh_string ssh_string
  | Ssh_message_auth_reply_pk_ok_simple ssh_message
  | Ssh_message_auth_set_methods ssh_message int
  | Ssh_message_auth_interactive_request ssh_message c_string c_string "32 word" address c_string
  | Ssh_message_service_reply_success ssh_message
  | Ssh_message_service_service ssh_message
  | Ssh_message_global_request_reply_success ssh_message "16 word"
  | Ssh_set_message_callback ssh_session address address
  | Ssh_execute_message_callbacks ssh_session
  | Ssh_message_channel_request_open_originator ssh_message
  | Ssh_message_channel_request_open_originator_port ssh_message
  | Ssh_message_channel_request_open_destination ssh_message
  | Ssh_message_channel_request_open_destination_port ssh_message
  | Ssh_message_channel_request_channel ssh_message
  | Ssh_message_channel_request_pty_term ssh_message
  | Ssh_message_channel_request_pty_width ssh_message
  | Ssh_message_channel_request_pty_height ssh_message
  | Ssh_message_channel_request_pty_pxwidth ssh_message
  | Ssh_message_channel_request_pty_pxheight ssh_message
  | Ssh_message_channel_request_env_name ssh_message
  | Ssh_message_channel_request_env_value ssh_message
  | Ssh_message_channel_request_command ssh_message
  | Ssh_message_channel_request_subsystem ssh_message
  | Ssh_message_channel_request_x11_single_connection ssh_message
  | Ssh_message_channel_request_x11_auth_protocol ssh_message
  | Ssh_message_channel_request_x11_auth_cookie ssh_message
  | Ssh_message_channel_request_x11_screen_number ssh_message
  | Ssh_message_global_request_address ssh_message
  | Ssh_message_global_request_port ssh_message
  | Ssh_channel_open_reverse_forward ssh_channel c_string int c_string int
  | Ssh_channel_request_send_exit_status ssh_channel int
  | Ssh_channel_request_send_exit_signal ssh_channel c_string int c_string c_string
  | Ssh_channel_write_stderr ssh_channel address "32 word"
  | Ssh_send_keepalive ssh_session
  | Ssh_accept ssh_session
  | Channel_write_stderr ssh_channel address "32 word"

fun message_call_returns :: "message_call \<Rightarrow> c_type" where
  "message_call_returns (Ssh_message_auth_user _) = RText"
| "message_call_returns (Ssh_message_auth_password _) = RText"
| "message_call_returns (Ssh_message_service_service _) = RText"
| "message_call_returns (Ssh_message_channel_request_open_originator _) = RText"
| "message_call_returns (Ssh_message_channel_request_open_destination _) = RText"
| "message_call_returns (Ssh_message_channel_request_pty_term _) = RText"
| "message_call_returns (Ssh_message_channel_request_env_name _) = RText"
| "message_call_returns (Ssh_message_channel_request_env_value _) = RText"
| "message_call_returns (Ssh_message_channel_request_command _) = RText"
| "message_call_returns (Ssh_message_channel_request_subsystem _) = RText"
| "message_call_returns (Ssh_message_channel_request_x11_auth_protocol _) = RText"
| "message_call_returns (Ssh_message_channel_request_x11_auth_cookie _) = RText"
| "message_call_returns (Ssh_message_global_request_address _) = RText"
| "message_call_returns (Ssh_message_auth_pubkey _) = RPointer"
| "message_call_returns (Ssh_message_channel_request_channel _) = RPointer"
| "message_call_returns (Ssh_set_message_callback _ _ _) = RVoid"
| "message_call_returns _ = RInt"

subsection \<open>All calls\<close>

datatype (plugins only: size) libssh_call =
    Channel channel_call
  | Session session_call
  | Key key_call
  | Transfer transfer_call
  | Userauth userauth_call
  | String string_call
  | Event event_call
  | Bind bind_call
  | Message message_call

fun call_returns :: "libssh_call \<Rightarrow> c_type" where
  "call_returns (Channel c) = channel_call_returns c"
| "call_returns (Session c) = session_call_returns c"
| "call_returns (Key c) = key_call_returns c"
| "call_returns (Transfer c) = transfer_call_returns c"
| "call_returns (Userauth c) = userauth_call_returns c"
| "call_returns (String c) = string_call_returns c"
| "call_returns (Event c) = event_call_returns c"
| "call_returns (Bind c) = bind_call_returns c"
| "call_returns (Message c) = message_call_returns c"

end
