(* ===== verification/Libssh_Callbacks.thy ===== *)
theory Libssh_Callbacks
  imports Libssh_Api Complex_Main
begin

text \<open>
  The callbacks of libssh (\<open>include/libssh/callbacks.h\<close>, and those of
  \<open>libssh.h\<close> and \<open>server.h\<close>): the type of each callback, the structures that
  hold them, and the two macros by which the structures stay compatible between
  versions, \<open>ssh_callbacks_init\<close> and \<open>ssh_callbacks_exists\<close>.

  A function pointer is an \<open>option\<close>. A callback runs on a world \<open>'w\<close> and takes the
  user's pointer \<open>'u\<close>; a pointer with the length of what it points to is one
  string of bytes. The structures are laid out as on a machine with 8-byte
  pointers and \<open>size_t\<close>.
\<close>

subsection \<open>Function types\<close>

type_synonym ('w, 'a) c_call = "'w \<Rightarrow> 'a outcome \<times> 'w"

type_synonym ssh_buffer = handle

text \<open>
  Callbacks for codes, data and messages.
\<close>

type_synonym ('w, 'u) ssh_callback_int =
  "int \<Rightarrow> 'u \<Rightarrow> ('w, unit) c_call"

type_synonym ('w, 'u) ssh_callback_data =
  "string \<Rightarrow> 'u \<Rightarrow> ('w, int) c_call"

type_synonym ('w, 'u) ssh_callback_int_int =
  "int \<Rightarrow> int \<Rightarrow> 'u \<Rightarrow> ('w, unit) c_call"

type_synonym ('w, 'u) ssh_message_callback =
  "ssh_session \<Rightarrow> ssh_message \<Rightarrow> 'u \<Rightarrow> ('w, int) c_call"

type_synonym ('w, 'u) ssh_channel_callback_int =
  "ssh_channel \<Rightarrow> int \<Rightarrow> 'u \<Rightarrow> ('w, int) c_call"

type_synonym ('w, 'u) ssh_channel_callback_data =
  "ssh_channel \<Rightarrow> int \<Rightarrow> string \<Rightarrow> 'u \<Rightarrow> ('w, int) c_call"

text \<open>
  Callbacks of a session: prompting, logging, progress, requests. The first says what it read.
\<close>

type_synonym ('w, 'u) ssh_auth_callback =
  "c_string \<Rightarrow> 64 word \<Rightarrow> bool \<Rightarrow> bool \<Rightarrow> 'u \<Rightarrow> ('w, (int \<times> string)) c_call"

type_synonym ('w, 'u) ssh_log_callback =
  "ssh_session \<Rightarrow> int \<Rightarrow> c_string \<Rightarrow> 'u \<Rightarrow> ('w, unit) c_call"

type_synonym ('w, 'u) ssh_logging_callback =
  "int \<Rightarrow> c_string \<Rightarrow> c_string \<Rightarrow> 'u \<Rightarrow> ('w, unit) c_call"

type_synonym ('w, 'u) ssh_status_callback =
  "ssh_session \<Rightarrow> rat \<Rightarrow> 'u \<Rightarrow> ('w, unit) c_call"

type_synonym ('w, 'u) ssh_global_request_callback =
  "ssh_session \<Rightarrow> ssh_message \<Rightarrow> 'u \<Rightarrow> ('w, unit) c_call"

type_synonym ('w, 'u) ssh_channel_open_request_x11_callback =
  "ssh_session \<Rightarrow> c_string \<Rightarrow> int \<Rightarrow> 'u \<Rightarrow> ('w, ssh_channel) c_call"

text \<open>
  Callbacks of a server: logins and requests of a session.
\<close>

type_synonym ('w, 'u) ssh_auth_password_callback =
  "ssh_session \<Rightarrow> c_string \<Rightarrow> c_string \<Rightarrow> 'u \<Rightarrow> ('w, int) c_call"

type_synonym ('w, 'u) ssh_auth_none_callback =
  "ssh_session \<Rightarrow> c_string \<Rightarrow> 'u \<Rightarrow> ('w, int) c_call"

type_synonym ('w, 'u) ssh_auth_gssapi_mic_callback =
  "ssh_session \<Rightarrow> c_string \<Rightarrow> c_string \<Rightarrow> 'u \<Rightarrow> ('w, int) c_call"

type_synonym ('w, 'u) ssh_auth_pubkey_callback =
  "ssh_session \<Rightarrow> c_string \<Rightarrow> ssh_key \<Rightarrow> char \<Rightarrow> 'u \<Rightarrow> ('w, int) c_call"

type_synonym ('w, 'u) ssh_service_request_callback =
  "ssh_session \<Rightarrow> c_string \<Rightarrow> 'u \<Rightarrow> ('w, int) c_call"

type_synonym ('w, 'u) ssh_channel_open_request_session_callback =
  "ssh_session \<Rightarrow> 'u \<Rightarrow> ('w, ssh_channel) c_call"

type_synonym ('w, 'u) ssh_gssapi_select_oid_callback =
  "ssh_session \<Rightarrow> c_string \<Rightarrow> ssh_string list \<Rightarrow> 'u \<Rightarrow> ('w, ssh_string) c_call"

type_synonym ('w, 'u) ssh_gssapi_accept_sec_ctx_callback =
  "ssh_session \<Rightarrow> ssh_string \<Rightarrow> 'u \<Rightarrow> ('w, (int \<times> ssh_string)) c_call"

type_synonym ('w, 'u) ssh_gssapi_verify_mic_callback =
  "ssh_session \<Rightarrow> ssh_string \<Rightarrow> string \<Rightarrow> 'u \<Rightarrow> ('w, int) c_call"

text \<open>
  Callbacks of a channel: data, and the requests of the peer.
\<close>

type_synonym ('w, 'u) ssh_channel_data_callback =
  "ssh_session \<Rightarrow> ssh_channel \<Rightarrow> string \<Rightarrow> bool \<Rightarrow> 'u \<Rightarrow> ('w, int) c_call"

type_synonym ('w, 'u) ssh_channel_eof_callback =
  "ssh_session \<Rightarrow> ssh_channel \<Rightarrow> 'u \<Rightarrow> ('w, unit) c_call"

type_synonym ('w, 'u) ssh_channel_close_callback =
  "ssh_session \<Rightarrow> ssh_channel \<Rightarrow> 'u \<Rightarrow> ('w, unit) c_call"

type_synonym ('w, 'u) ssh_channel_signal_callback =
  "ssh_session \<Rightarrow> ssh_channel \<Rightarrow> c_string \<Rightarrow> 'u \<Rightarrow> ('w, unit) c_call"

type_synonym ('w, 'u) ssh_channel_exit_status_callback =
  "ssh_session \<Rightarrow> ssh_channel \<Rightarrow> int \<Rightarrow> 'u \<Rightarrow> ('w, unit) c_call"

type_synonym ('w, 'u) ssh_channel_exit_signal_callback =
  "ssh_session \<Rightarrow> ssh_channel \<Rightarrow> c_string \<Rightarrow> int \<Rightarrow> c_string \<Rightarrow> c_string \<Rightarrow> 'u \<Rightarrow> ('w, unit) c_call"

type_synonym ('w, 'u) ssh_channel_pty_request_callback =
  "ssh_session \<Rightarrow> ssh_channel \<Rightarrow> c_string \<Rightarrow> int \<Rightarrow> int \<Rightarrow> int \<Rightarrow> int \<Rightarrow> 'u \<Rightarrow> ('w, int) c_call"

type_synonym ('w, 'u) ssh_channel_shell_request_callback =
  "ssh_session \<Rightarrow> ssh_channel \<Rightarrow> 'u \<Rightarrow> ('w, int) c_call"

type_synonym ('w, 'u) ssh_channel_auth_agent_req_callback =
  "ssh_session \<Rightarrow> ssh_channel \<Rightarrow> 'u \<Rightarrow> ('w, unit) c_call"

type_synonym ('w, 'u) ssh_channel_x11_req_callback =
  "ssh_session \<Rightarrow> ssh_channel \<Rightarrow> int \<Rightarrow> c_string \<Rightarrow> c_string \<Rightarrow> 32 word \<Rightarrow> 'u \<Rightarrow> ('w, unit) c_call"

type_synonym ('w, 'u) ssh_channel_pty_window_change_callback =
  "ssh_session \<Rightarrow> ssh_channel \<Rightarrow> int \<Rightarrow> int \<Rightarrow> int \<Rightarrow> int \<Rightarrow> 'u \<Rightarrow> ('w, int) c_call"

type_synonym ('w, 'u) ssh_channel_exec_request_callback =
  "ssh_session \<Rightarrow> ssh_channel \<Rightarrow> c_string \<Rightarrow> 'u \<Rightarrow> ('w, int) c_call"

type_synonym ('w, 'u) ssh_channel_env_request_callback =
  "ssh_session \<Rightarrow> ssh_channel \<Rightarrow> c_string \<Rightarrow> c_string \<Rightarrow> 'u \<Rightarrow> ('w, int) c_call"

type_synonym ('w, 'u) ssh_channel_subsystem_request_callback =
  "ssh_session \<Rightarrow> ssh_channel \<Rightarrow> c_string \<Rightarrow> 'u \<Rightarrow> ('w, int) c_call"

text \<open>
  Callbacks of a listener, of the packet layer and of the thread layer.
\<close>

type_synonym ('w, 'u) ssh_bind_incoming_connection_callback =
  "ssh_bind \<Rightarrow> 'u \<Rightarrow> ('w, unit) c_call"

type_synonym ('w, 'u) ssh_packet_callback =
  "ssh_session \<Rightarrow> 8 word \<Rightarrow> ssh_buffer \<Rightarrow> 'u \<Rightarrow> ('w, int) c_call"

type_synonym 'w ssh_thread_callback = "address \<Rightarrow> ('w, int \<times> address) c_call"

type_synonym 'w ssh_thread_id_callback = "('w, 64 word) c_call"

subsection \<open>Layout\<close>

text \<open>
  A structure whose first field is its own size: where its callbacks are, what
  its \<open>size\<close> field holds, and which of its function pointers are not \<open>NULL\<close>.
\<close>

record ('c, 'f) layout =
  ly_header :: nat
  ly_fields :: "'f list"
  ly_size :: "'c \<Rightarrow> 64 word"
  ly_with_size :: "64 word \<Rightarrow> 'c \<Rightarrow> 'c"
  ly_non_null :: "'c \<Rightarrow> 'f \<Rightarrow> bool"

definition POINTER_SIZE :: nat where "POINTER_SIZE = 8"

fun index_of :: "'f list \<Rightarrow> 'f \<Rightarrow> nat" where
  "index_of [] f = 0"
| "index_of (g # fs) f = (if f = g then 0 else Suc (index_of fs f))"

definition struct_sizeof :: "('c, 'f) layout \<Rightarrow> nat" where
  "struct_sizeof ly = ly_header ly + POINTER_SIZE * length (ly_fields ly)"

definition field_offset :: "('c, 'f) layout \<Rightarrow> 'f \<Rightarrow> nat" where
  "field_offset ly f = ly_header ly + POINTER_SIZE * index_of (ly_fields ly) f"

definition ssh_callbacks_init :: "('c, 'f) layout \<Rightarrow> 'c \<Rightarrow> 'c" where
  "ssh_callbacks_init ly p = ly_with_size ly (of_nat (struct_sizeof ly)) p"

definition ssh_callbacks_exists :: "('c, 'f) layout \<Rightarrow> 'c option \<Rightarrow> 'f \<Rightarrow> bool" where
  "ssh_callbacks_exists ly p f =
     (case p of
        None \<Rightarrow> False
      | Some c \<Rightarrow> field_offset ly f < unat (ly_size ly c) \<and> ly_non_null ly c f)"

locale sized_struct =
  fixes ly :: "('c, 'f) layout"
  assumes fields_distinct: "distinct (ly_fields ly)"
    and fields_complete: "f \<in> set (ly_fields ly)"
    and fits: "struct_sizeof ly < 2 ^ 64"
    and aligned: "POINTER_SIZE dvd ly_header ly"
    and size_first: "POINTER_SIZE \<le> ly_header ly"
    and size_with_size: "ly_size ly (ly_with_size ly n c) = n"
    and non_null_with_size: "ly_non_null ly (ly_with_size ly n c) f = ly_non_null ly c f"
begin

lemma index_inside: "index_of (ly_fields ly) f < length (ly_fields ly)"
proof -
  have "f \<in> set fs \<Longrightarrow> index_of fs f < length fs" for fs by (induction fs) auto
  then show ?thesis using fields_complete by blast
qed

lemma index_nth: "ly_fields ly ! index_of (ly_fields ly) f = f"
proof -
  have "f \<in> set fs \<Longrightarrow> fs ! index_of fs f = f" for fs by (induction fs) auto
  then show ?thesis using fields_complete by blast
qed

text \<open>Every field lies inside the structure, after the \<open>size\<close> field, and no two share a byte.\<close>

lemma field_inside: "POINTER_SIZE \<le> field_offset ly f" "field_offset ly f + POINTER_SIZE \<le> struct_sizeof ly"
  using index_inside [of f] size_first by (simp_all add: field_offset_def struct_sizeof_def POINTER_SIZE_def)

lemma fields_apart:
  assumes "f \<noteq> g"
  shows "field_offset ly f + POINTER_SIZE \<le> field_offset ly g \<or> field_offset ly g + POINTER_SIZE \<le> field_offset ly f"
  using assms index_nth [of f] index_nth [of g]
  by (cases "index_of (ly_fields ly) f" "index_of (ly_fields ly) g" rule: linorder_cases)
    (auto simp: field_offset_def POINTER_SIZE_def)

lemma exists_init:
  "ssh_callbacks_exists ly (Some (ssh_callbacks_init ly c)) f \<longleftrightarrow> ly_non_null ly c f"
  using field_inside(2) [of f] fits
  by (simp add: ssh_callbacks_exists_def ssh_callbacks_init_def size_with_size non_null_with_size
      POINTER_SIZE_def unsigned_of_nat take_bit_nat_eq_self)

lemma exists_unset: "ly_size ly c = 0 \<Longrightarrow> \<not> ssh_callbacks_exists ly (Some c) f"
  by (simp add: ssh_callbacks_exists_def)

text \<open>
  A structure of an older version, shorter but made of whole fields: a callback
  that exists lies within it.
\<close>

lemma exists_within:
  assumes "ssh_callbacks_exists ly (Some c) f" and "POINTER_SIZE dvd unat (ly_size ly c)"
  shows "field_offset ly f + POINTER_SIZE \<le> unat (ly_size ly c)"
proof -
  have "POINTER_SIZE dvd field_offset ly f" using aligned by (simp add: field_offset_def)
  then obtain i j where "field_offset ly f = POINTER_SIZE * i" "unat (ly_size ly c) = POINTER_SIZE * j"
    using assms(2) by (auto elim!: dvdE)
  then show ?thesis using assms(1) by (simp add: ssh_callbacks_exists_def POINTER_SIZE_def)
qed

end

subsection \<open>Callbacks of a session\<close>

record ('w, 'u) ssh_callbacks_struct =
  session_cb_size :: "64 word"
  session_cb_userdata :: 'u
  auth_function :: "(('w, 'u) ssh_auth_callback) option"
  log_function :: "(('w, 'u) ssh_log_callback) option"
  connect_status_function :: "('u \<Rightarrow> rat \<Rightarrow> ('w, unit) c_call) option"
  global_request_function :: "(('w, 'u) ssh_global_request_callback) option"
  channel_open_request_x11_function :: "(('w, 'u) ssh_channel_open_request_x11_callback) option"

datatype session_cb_field =
    Auth_function
  | Log_function
  | Connect_status_function
  | Global_request_function
  | Channel_open_request_x11_function

fun session_cb_non_null :: "('w, 'u) ssh_callbacks_struct \<Rightarrow> session_cb_field \<Rightarrow> bool" where
  "session_cb_non_null p Auth_function \<longleftrightarrow> auth_function p \<noteq> None"
| "session_cb_non_null p Log_function \<longleftrightarrow> log_function p \<noteq> None"
| "session_cb_non_null p Connect_status_function \<longleftrightarrow> connect_status_function p \<noteq> None"
| "session_cb_non_null p Global_request_function \<longleftrightarrow> global_request_function p \<noteq> None"
| "session_cb_non_null p Channel_open_request_x11_function \<longleftrightarrow> channel_open_request_x11_function p \<noteq> None"

definition session_cb_layout :: "(('w, 'u) ssh_callbacks_struct, session_cb_field) layout" where
  "session_cb_layout = \<lparr>
     ly_header = 16,
     ly_fields = [Auth_function, Log_function, Connect_status_function, Global_request_function, Channel_open_request_x11_function],
     ly_size = session_cb_size,
     ly_with_size = (\<lambda>n p. p\<lparr>session_cb_size := n\<rparr>),
     ly_non_null = session_cb_non_null\<rparr>"

interpretation session_cbs: sized_struct session_cb_layout
proof
  show "f \<in> set (ly_fields session_cb_layout)" for f by (cases f) (simp_all add: session_cb_layout_def)
  show "ly_non_null session_cb_layout (ly_with_size session_cb_layout n c) f = ly_non_null session_cb_layout c f" for n c f
    by (cases f) (simp_all add: session_cb_layout_def)
qed (simp_all add: session_cb_layout_def struct_sizeof_def POINTER_SIZE_def)

subsection \<open>Callbacks of a server\<close>

record ('w, 'u) ssh_server_callbacks_struct =
  server_cb_size :: "64 word"
  server_cb_userdata :: 'u
  auth_password_function :: "(('w, 'u) ssh_auth_password_callback) option"
  auth_none_function :: "(('w, 'u) ssh_auth_none_callback) option"
  auth_gssapi_mic_function :: "(('w, 'u) ssh_auth_gssapi_mic_callback) option"
  auth_pubkey_function :: "(('w, 'u) ssh_auth_pubkey_callback) option"
  service_request_function :: "(('w, 'u) ssh_service_request_callback) option"
  channel_open_request_session_function :: "(('w, 'u) ssh_channel_open_request_session_callback) option"
  gssapi_select_oid_function :: "(('w, 'u) ssh_gssapi_select_oid_callback) option"
  gssapi_accept_sec_ctx_function :: "(('w, 'u) ssh_gssapi_accept_sec_ctx_callback) option"
  gssapi_verify_mic_function :: "(('w, 'u) ssh_gssapi_verify_mic_callback) option"

datatype server_cb_field =
    Auth_password_function
  | Auth_none_function
  | Auth_gssapi_mic_function
  | Auth_pubkey_function
  | Service_request_function
  | Channel_open_request_session_function
  | Gssapi_select_oid_function
  | Gssapi_accept_sec_ctx_function
  | Gssapi_verify_mic_function

fun server_cb_non_null :: "('w, 'u) ssh_server_callbacks_struct \<Rightarrow> server_cb_field \<Rightarrow> bool" where
  "server_cb_non_null p Auth_password_function \<longleftrightarrow> auth_password_function p \<noteq> None"
| "server_cb_non_null p Auth_none_function \<longleftrightarrow> auth_none_function p \<noteq> None"
| "server_cb_non_null p Auth_gssapi_mic_function \<longleftrightarrow> auth_gssapi_mic_function p \<noteq> None"
| "server_cb_non_null p Auth_pubkey_function \<longleftrightarrow> auth_pubkey_function p \<noteq> None"
| "server_cb_non_null p Service_request_function \<longleftrightarrow> service_request_function p \<noteq> None"
| "server_cb_non_null p Channel_open_request_session_function \<longleftrightarrow> channel_open_request_session_function p \<noteq> None"
| "server_cb_non_null p Gssapi_select_oid_function \<longleftrightarrow> gssapi_select_oid_function p \<noteq> None"
| "server_cb_non_null p Gssapi_accept_sec_ctx_function \<longleftrightarrow> gssapi_accept_sec_ctx_function p \<noteq> None"
| "server_cb_non_null p Gssapi_verify_mic_function \<longleftrightarrow> gssapi_verify_mic_function p \<noteq> None"

definition server_cb_layout :: "(('w, 'u) ssh_server_callbacks_struct, server_cb_field) layout" where
  "server_cb_layout = \<lparr>
     ly_header = 16,
     ly_fields = [Auth_password_function, Auth_none_function, Auth_gssapi_mic_function, Auth_pubkey_function, Service_request_function, Channel_open_request_session_function, Gssapi_select_oid_function, Gssapi_accept_sec_ctx_function, Gssapi_verify_mic_function],
     ly_size = server_cb_size,
     ly_with_size = (\<lambda>n p. p\<lparr>server_cb_size := n\<rparr>),
     ly_non_null = server_cb_non_null\<rparr>"

interpretation server_cbs: sized_struct server_cb_layout
proof
  show "f \<in> set (ly_fields server_cb_layout)" for f by (cases f) (simp_all add: server_cb_layout_def)
  show "ly_non_null server_cb_layout (ly_with_size server_cb_layout n c) f = ly_non_null server_cb_layout c f" for n c f
    by (cases f) (simp_all add: server_cb_layout_def)
qed (simp_all add: server_cb_layout_def struct_sizeof_def POINTER_SIZE_def)

subsection \<open>Callbacks of a channel\<close>

record ('w, 'u) ssh_channel_callbacks_struct =
  channel_cb_size :: "64 word"
  channel_cb_userdata :: 'u
  channel_data_function :: "(('w, 'u) ssh_channel_data_callback) option"
  channel_eof_function :: "(('w, 'u) ssh_channel_eof_callback) option"
  channel_close_function :: "(('w, 'u) ssh_channel_close_callback) option"
  channel_signal_function :: "(('w, 'u) ssh_channel_signal_callback) option"
  channel_exit_status_function :: "(('w, 'u) ssh_channel_exit_status_callback) option"
  channel_exit_signal_function :: "(('w, 'u) ssh_channel_exit_signal_callback) option"
  channel_pty_request_function :: "(('w, 'u) ssh_channel_pty_request_callback) option"
  channel_shell_request_function :: "(('w, 'u) ssh_channel_shell_request_callback) option"
  channel_auth_agent_req_function :: "(('w, 'u) ssh_channel_auth_agent_req_callback) option"
  channel_x11_req_function :: "(('w, 'u) ssh_channel_x11_req_callback) option"
  channel_pty_window_change_function :: "(('w, 'u) ssh_channel_pty_window_change_callback) option"
  channel_exec_request_function :: "(('w, 'u) ssh_channel_exec_request_callback) option"
  channel_env_request_function :: "(('w, 'u) ssh_channel_env_request_callback) option"
  channel_subsystem_request_function :: "(('w, 'u) ssh_channel_subsystem_request_callback) option"

datatype channel_cb_field =
    Channel_data_function
  | Channel_eof_function
  | Channel_close_function
  | Channel_signal_function
  | Channel_exit_status_function
  | Channel_exit_signal_function
  | Channel_pty_request_function
  | Channel_shell_request_function
  | Channel_auth_agent_req_function
  | Channel_x11_req_function
  | Channel_pty_window_change_function
  | Channel_exec_request_function
  | Channel_env_request_function
  | Channel_subsystem_request_function

fun channel_cb_non_null :: "('w, 'u) ssh_channel_callbacks_struct \<Rightarrow> channel_cb_field \<Rightarrow> bool" where
  "channel_cb_non_null p Channel_data_function \<longleftrightarrow> channel_data_function p \<noteq> None"
| "channel_cb_non_null p Channel_eof_function \<longleftrightarrow> channel_eof_function p \<noteq> None"
| "channel_cb_non_null p Channel_close_function \<longleftrightarrow> channel_close_function p \<noteq> None"
| "channel_cb_non_null p Channel_signal_function \<longleftrightarrow> channel_signal_function p \<noteq> None"
| "channel_cb_non_null p Channel_exit_status_function \<longleftrightarrow> channel_exit_status_function p \<noteq> None"
| "channel_cb_non_null p Channel_exit_signal_function \<longleftrightarrow> channel_exit_signal_function p \<noteq> None"
| "channel_cb_non_null p Channel_pty_request_function \<longleftrightarrow> channel_pty_request_function p \<noteq> None"
| "channel_cb_non_null p Channel_shell_request_function \<longleftrightarrow> channel_shell_request_function p \<noteq> None"
| "channel_cb_non_null p Channel_auth_agent_req_function \<longleftrightarrow> channel_auth_agent_req_function p \<noteq> None"
| "channel_cb_non_null p Channel_x11_req_function \<longleftrightarrow> channel_x11_req_function p \<noteq> None"
| "channel_cb_non_null p Channel_pty_window_change_function \<longleftrightarrow> channel_pty_window_change_function p \<noteq> None"
| "channel_cb_non_null p Channel_exec_request_function \<longleftrightarrow> channel_exec_request_function p \<noteq> None"
| "channel_cb_non_null p Channel_env_request_function \<longleftrightarrow> channel_env_request_function p \<noteq> None"
| "channel_cb_non_null p Channel_subsystem_request_function \<longleftrightarrow> channel_subsystem_request_function p \<noteq> None"

definition channel_cb_layout :: "(('w, 'u) ssh_channel_callbacks_struct, channel_cb_field) layout" where
  "channel_cb_layout = \<lparr>
     ly_header = 16,
     ly_fields = [Channel_data_function, Channel_eof_function, Channel_close_function, Channel_signal_function, Channel_exit_status_function, Channel_exit_signal_function, Channel_pty_request_function, Channel_shell_request_function, Channel_auth_agent_req_function, Channel_x11_req_function, Channel_pty_window_change_function, Channel_exec_request_function, Channel_env_request_function, Channel_subsystem_request_function],
     ly_size = channel_cb_size,
     ly_with_size = (\<lambda>n p. p\<lparr>channel_cb_size := n\<rparr>),
     ly_non_null = channel_cb_non_null\<rparr>"

interpretation channel_cbs: sized_struct channel_cb_layout
proof
  show "f \<in> set (ly_fields channel_cb_layout)" for f by (cases f) (simp_all add: channel_cb_layout_def)
  show "ly_non_null channel_cb_layout (ly_with_size channel_cb_layout n c) f = ly_non_null channel_cb_layout c f" for n c f
    by (cases f) (simp_all add: channel_cb_layout_def)
qed (simp_all add: channel_cb_layout_def struct_sizeof_def POINTER_SIZE_def)

subsection \<open>Callbacks of a listener\<close>

record ('w, 'u) ssh_bind_callbacks_struct =
  bind_cb_size :: "64 word"
  incoming_connection :: "(('w, 'u) ssh_bind_incoming_connection_callback) option"

datatype bind_cb_field =
    Incoming_connection

fun bind_cb_non_null :: "('w, 'u) ssh_bind_callbacks_struct \<Rightarrow> bind_cb_field \<Rightarrow> bool" where
  "bind_cb_non_null p Incoming_connection \<longleftrightarrow> incoming_connection p \<noteq> None"

definition bind_cb_layout :: "(('w, 'u) ssh_bind_callbacks_struct, bind_cb_field) layout" where
  "bind_cb_layout = \<lparr>
     ly_header = 8,
     ly_fields = [Incoming_connection],
     ly_size = bind_cb_size,
     ly_with_size = (\<lambda>n p. p\<lparr>bind_cb_size := n\<rparr>),
     ly_non_null = bind_cb_non_null\<rparr>"

interpretation bind_cbs: sized_struct bind_cb_layout
proof
  show "f \<in> set (ly_fields bind_cb_layout)" for f by (cases f) (simp_all add: bind_cb_layout_def)
  show "ly_non_null bind_cb_layout (ly_with_size bind_cb_layout n c) f = ly_non_null bind_cb_layout c f" for n c f
    by (cases f) (simp_all add: bind_cb_layout_def)
qed (simp_all add: bind_cb_layout_def struct_sizeof_def POINTER_SIZE_def)

subsection \<open>Sockets, packets and threads\<close>

text \<open>
  These structures have no \<open>size\<close>; they are internal to libssh.
\<close>

record ('w, 'u) ssh_socket_callbacks_struct =
  socket_userdata :: 'u
  socket_data :: "('w, 'u) ssh_callback_data option"
  socket_controlflow :: "('w, 'u) ssh_callback_int option"
  socket_exception :: "('w, 'u) ssh_callback_int_int option"
  socket_connected :: "('w, 'u) ssh_callback_int_int option"

definition SSH_SOCKET_FLOW_WRITEWILLBLOCK :: int where "SSH_SOCKET_FLOW_WRITEWILLBLOCK = 1"
definition SSH_SOCKET_FLOW_WRITEWONTBLOCK :: int where "SSH_SOCKET_FLOW_WRITEWONTBLOCK = 2"
definition SSH_SOCKET_EXCEPTION_EOF :: int where "SSH_SOCKET_EXCEPTION_EOF = 1"
definition SSH_SOCKET_EXCEPTION_ERROR :: int where "SSH_SOCKET_EXCEPTION_ERROR = 2"
definition SSH_SOCKET_CONNECTED_OK :: int where "SSH_SOCKET_CONNECTED_OK = 1"
definition SSH_SOCKET_CONNECTED_ERROR :: int where "SSH_SOCKET_CONNECTED_ERROR = 2"
definition SSH_SOCKET_CONNECTED_TIMEOUT :: int where "SSH_SOCKET_CONNECTED_TIMEOUT = 3"

definition SSH_PACKET_USED :: int where "SSH_PACKET_USED = 1"
definition SSH_PACKET_NOT_USED :: int where "SSH_PACKET_NOT_USED = 2"

text \<open>\<open>callbacks\<close> points to \<open>n_callbacks\<close> function pointers, for the types from \<open>start\<close> on.\<close>

record ('w, 'u) ssh_packet_callbacks_struct =
  packet_start :: "8 word"
  packet_n_callbacks :: "8 word"
  packet_callbacks :: "('w, 'u) ssh_packet_callback list"
  packet_user :: 'u

record 'w ssh_threads_callbacks_struct =
  threads_type :: c_string
  mutex_init :: "'w ssh_thread_callback option"
  mutex_destroy :: "'w ssh_thread_callback option"
  mutex_lock :: "'w ssh_thread_callback option"
  mutex_unlock :: "'w ssh_thread_callback option"
  thread_id :: "'w ssh_thread_id_callback option"

subsection \<open>Setting them\<close>

text \<open>The functions that take a structure, which libssh keeps by its address.\<close>

datatype (plugins only: size) callbacks_call =
    Ssh_set_server_callbacks ssh_session address
  | Ssh_set_callbacks ssh_session address
  | Ssh_set_channel_callbacks ssh_channel address
  | Ssh_threads_set_callbacks address
  | Ssh_threads_get_pthread
  | Ssh_threads_get_noop
  | Ssh_set_log_callback address
  | Ssh_get_log_callback

fun callbacks_call_returns :: "callbacks_call \<Rightarrow> c_type" where
  "callbacks_call_returns Ssh_threads_get_pthread = RPointer"
| "callbacks_call_returns Ssh_threads_get_noop = RPointer"
| "callbacks_call_returns Ssh_get_log_callback = RPointer"
| "callbacks_call_returns _ = RInt"

subsection \<open>Structures of other versions\<close>

text \<open>A structure of a version that had the data callback only, with its own size.\<close>

definition old_channel_struct :: "64 word \<Rightarrow> (unit, unit) ssh_channel_callbacks_struct" where
  "old_channel_struct n = \<lparr>
     channel_cb_size = n, channel_cb_userdata = (),
     channel_data_function = Some (\<lambda>s c dat e ud w. (Ret (int (length dat)), w)),
     channel_eof_function = Some (\<lambda>s c ud w. (Ret (), w)),
     channel_close_function = None, channel_signal_function = None, channel_exit_status_function = None,
     channel_exit_signal_function = None, channel_pty_request_function = None,
     channel_shell_request_function = None, channel_auth_agent_req_function = None,
     channel_x11_req_function = None, channel_pty_window_change_function = None,
     channel_exec_request_function = None, channel_env_request_function = None,
     channel_subsystem_request_function = None\<rparr>"

text \<open>
  Compatibility between versions: a callback that \<open>ssh_callbacks_exists\<close> finds in
  a channel's structure lies within the size the structure states, whatever that
  size is, if it is one of whole fields; so libssh never reads a pointer that an
  older program did not have.
\<close>

theorem existing_callback_inside:
  fixes p :: "('w, 'u) ssh_channel_callbacks_struct"
  assumes "POINTER_SIZE dvd unat (channel_cb_size p)" and "ssh_callbacks_exists channel_cb_layout (Some p) f"
  shows "field_offset (channel_cb_layout :: (('w, 'u) ssh_channel_callbacks_struct, channel_cb_field) layout) f + POINTER_SIZE
    \<le> unat (channel_cb_size p)"
  using channel_cbs.exists_within [OF assms(2)] assms(1) by (simp add: channel_cb_layout_def)

theorem existing_callback_inside_witness:
  "ssh_callbacks_exists channel_cb_layout (Some (old_channel_struct 24)) Channel_data_function
   \<and> \<not> ssh_callbacks_exists channel_cb_layout (Some (old_channel_struct 24)) Channel_eof_function
   \<and> field_offset (channel_cb_layout :: ((unit, unit) ssh_channel_callbacks_struct, channel_cb_field) layout)
       Channel_data_function + POINTER_SIZE \<le> 24"
proof -
  have e: "ssh_callbacks_exists channel_cb_layout (Some (old_channel_struct 24)) Channel_data_function"
    "\<not> ssh_callbacks_exists channel_cb_layout (Some (old_channel_struct 24)) Channel_eof_function"
    by (simp_all add: ssh_callbacks_exists_def field_offset_def channel_cb_layout_def old_channel_struct_def POINTER_SIZE_def)
  show ?thesis
    using existing_callback_inside [OF _ e(1)] e by (simp add: old_channel_struct_def POINTER_SIZE_def)
qed

text \<open>With a size that ends inside a field the test lets the whole field be read.\<close>

lemma partial_field_exists:
  "ssh_callbacks_exists channel_cb_layout (Some (old_channel_struct 17)) Channel_data_function
   \<and> \<not> field_offset channel_cb_layout Channel_data_function + POINTER_SIZE \<le> unat (channel_cb_size (old_channel_struct 17))"
  by (simp add: ssh_callbacks_exists_def field_offset_def channel_cb_layout_def old_channel_struct_def POINTER_SIZE_def)

end
