(* ===== verification/Gateway_Callbacks.thy ===== *)
theory Gateway_Callbacks
  imports Gateway_Session Libssh_Callbacks
begin

text \<open>
  The two structures of function pointers that \<open>handle_session\<close> of
  \<open>src/gateway.c\<close> fills in and gives to libssh, as values of the structures of
  \<open>callbacks.h\<close>; the result that \<open>callbacks.h\<close> documents for each callback; and
  that libssh, calling through the structures, runs what \<open>invoke\<close> runs.
\<close>

subsection \<open>The structures\<close>

text \<open>
  The user's pointer is the address of one of two locals. A callback casts it; an
  access through the address of the other local is outside its object.
\<close>

datatype user_data = At_cdata | At_sdata

definition at_local :: "user_data \<Rightarrow> user_data \<Rightarrow> (world \<Rightarrow> 'a outcome \<times> world) \<Rightarrow> world \<Rightarrow> 'a outcome \<times> world" where
  "at_local wanted ud f w = (if ud = wanted then f w else (Undef OutOfBounds, w))"

text \<open>The C strings that libssh passes; a null pointer may not be read.\<close>

fun both_strings :: "c_string \<Rightarrow> c_string \<Rightarrow> (string \<Rightarrow> string \<Rightarrow> world \<Rightarrow> 'a outcome \<times> world) \<Rightarrow>
    world \<Rightarrow> 'a outcome \<times> world" where
  "both_strings (Some s) (Some t) f w = f s t w"
| "both_strings _ _ f w = (Undef NullDeref, w)"

definition channel_cb :: "env \<Rightarrow> (world, user_data) ssh_channel_callbacks_struct" where
  "channel_cb e = \<lparr>
     channel_cb_size = 0,
     channel_cb_userdata = At_cdata,
     channel_data_function = Some (\<lambda>session channel dat is_stderr ud.
       at_local At_cdata ud (\<lambda>w. int_result (data_function e dat is_stderr w))),
     channel_eof_function = None,
     channel_close_function = None,
     channel_signal_function = None,
     channel_exit_status_function = None,
     channel_exit_signal_function = None,
     channel_pty_request_function = Some (\<lambda>session channel trm cols rows py px ud.
       at_local At_cdata ud (\<lambda>w. int_result (pty_request e (case trm of None \<Rightarrow> [] | Some t \<Rightarrow> t) cols rows py px w))),
     channel_shell_request_function = Some (\<lambda>session channel ud. at_local At_cdata ud (shell_request e)),
     channel_auth_agent_req_function = None,
     channel_x11_req_function = None,
     channel_pty_window_change_function = Some (\<lambda>session channel cols rows py px ud.
       at_local At_cdata ud (\<lambda>w. int_result (pty_resize e cols rows py px w))),
     channel_exec_request_function = None,
     channel_env_request_function = None,
     channel_subsystem_request_function = None\<rparr>"

definition server_cb :: "env \<Rightarrow> (world, user_data) ssh_server_callbacks_struct" where
  "server_cb e = \<lparr>
     server_cb_size = 0,
     server_cb_userdata = At_sdata,
     auth_password_function = Some (\<lambda>session user pass ud.
       at_local At_sdata ud (both_strings user pass (auth_password e))),
     auth_none_function = None,
     auth_gssapi_mic_function = None,
     auth_pubkey_function = None,
     service_request_function = None,
     channel_open_request_session_function = Some (\<lambda>session ud.
       at_local At_sdata ud (\<lambda>w. case channel_open e w of (c, w) \<Rightarrow> (Ret c, w))),
     gssapi_select_oid_function = None,
     gssapi_accept_sec_ctx_function = None,
     gssapi_verify_mic_function = None\<rparr>"

text \<open>
  The structures as libssh has them, once \<open>handle_session\<close> has initialised them
  and set them on the session and on the channel.
\<close>

definition server_struct :: "env \<Rightarrow> world \<Rightarrow> (world, user_data) ssh_server_callbacks_struct option" where
  "server_struct e w =
     (if w_server_cb w then Some (ssh_callbacks_init server_cb_layout (server_cb e)) else None)"

definition channel_struct :: "env \<Rightarrow> world \<Rightarrow> (world, user_data) ssh_channel_callbacks_struct option" where
  "channel_struct e w =
     (if w_channel_cb w then Some (ssh_callbacks_init channel_cb_layout (channel_cb e)) else None)"

subsection \<open>Calling through the structures\<close>

text \<open>
  libssh's use of a structure: if the callback exists, it is called with the
  structure's own user pointer. \<open>None\<close> is: no call.
\<close>

definition call_field :: "('c, 'f) layout \<Rightarrow> 'c option \<Rightarrow> 'f \<Rightarrow> ('c \<Rightarrow> 'a) \<Rightarrow> 'a option" where
  "call_field ly p f k = (if ssh_callbacks_exists ly p f then map_option k p else None)"

fun libssh_calls :: "env \<Rightarrow> ssh_session \<Rightarrow> ssh_channel \<Rightarrow> callback \<Rightarrow> world \<Rightarrow> (int outcome \<times> world) option" where
  "libssh_calls e s c (CbAuthPassword u p) w =
     call_field server_cb_layout (server_struct e w) Auth_password_function
       (\<lambda>cb. the (auth_password_function cb) s (Some u) (Some p) (server_cb_userdata cb) w)"
| "libssh_calls e s c CbChannelOpen w =
     call_field server_cb_layout (server_struct e w) Channel_open_request_session_function
       (\<lambda>cb. chain (the (channel_open_request_session_function cb) s (server_cb_userdata cb) w)
          (\<lambda>r w. pointer_result (r, w)))"
| "libssh_calls e s c (CbPtyRequest trm width height pxwidth pxheight) w =
     call_field channel_cb_layout (channel_struct e w) Channel_pty_request_function
       (\<lambda>cb. the (channel_pty_request_function cb) s c (Some trm) width height pxwidth pxheight (channel_cb_userdata cb) w)"
| "libssh_calls e s c (CbWindowChange width height pxwidth pxheight) w =
     call_field channel_cb_layout (channel_struct e w) Channel_pty_window_change_function
       (\<lambda>cb. the (channel_pty_window_change_function cb) s c width height pxwidth pxheight (channel_cb_userdata cb) w)"
| "libssh_calls e s c CbShellRequest w =
     call_field channel_cb_layout (channel_struct e w) Channel_shell_request_function
       (\<lambda>cb. the (channel_shell_request_function cb) s c (channel_cb_userdata cb) w)"
| "libssh_calls e s c (CbData dat is_stderr) w =
     call_field channel_cb_layout (channel_struct e w) Channel_data_function
       (\<lambda>cb. the (channel_data_function cb) s c dat is_stderr (channel_cb_userdata cb) w)"
| "libssh_calls e s c (CbFd fd revents) w = None"

fun is_fd :: "callback \<Rightarrow> bool" where
  "is_fd (CbFd fd revents) = True"
| "is_fd _ = False"

lemma call_field_init:
  "sized_struct ly \<Longrightarrow>
   call_field ly (if b then Some (ssh_callbacks_init ly c) else None) f k =
     (if b \<and> ly_non_null ly c f then Some (k (ssh_callbacks_init ly c)) else None)"
  using sized_struct.exists_init [of ly c f] by (auto simp: call_field_def ssh_callbacks_exists_def)

lemmas call_fields = call_field_init [OF server_cbs.sized_struct_axioms] call_field_init [OF channel_cbs.sized_struct_axioms]

lemma null_fields: "ly_non_null server_cb_layout = server_cb_non_null" "ly_non_null channel_cb_layout = channel_cb_non_null"
  by (simp_all add: server_cb_layout_def channel_cb_layout_def)

lemma init_fields:
  "ssh_callbacks_init server_cb_layout c = c\<lparr>server_cb_size := 88\<rparr>"
  "ssh_callbacks_init channel_cb_layout d = d\<lparr>channel_cb_size := 128\<rparr>"
  by (simp_all add: ssh_callbacks_init_def server_cb_layout_def channel_cb_layout_def struct_sizeof_def POINTER_SIZE_def)

text \<open>
  C30: What a poll runs is what libssh runs when it calls through the structures: a
  callback is delivered if and only if its field exists in a structure that was
  set, and then it is the gateway's function, on the local it expects, with the
  arguments in the order of \<open>callbacks.h\<close>. No user pointer is cast wrongly and no
  callback is lost because a structure was not initialised.
\<close>

theorem dispatch_through_structures:
  assumes "\<not> is_fd cb"
  shows "libssh_calls e s c cb w = (if registered cb w then Some (invoke e cb w) else None)"
  using assms
  by (cases cb)
    (simp_all add: server_struct_def channel_struct_def call_fields null_fields init_fields
      server_cb_def channel_cb_def at_local_def
      int_result_def pointer_result_def split_beta)

theorem dispatch_through_structures_witness:
  "libssh_calls (sample_env []) (Some 1) (Some 2) (CbAuthPassword ''bob'' ''secret'') (init_locals blank_world) = None
   \<and> libssh_calls (sample_env []) (Some 1) (Some 2) (CbAuthPassword ''bob'' ''secret'')
       (set_server_callbacks 1 (init_locals blank_world)) =
     Some (auth_password (sample_env []) ''bob'' ''secret'' (set_server_callbacks 1 (init_locals blank_world)))"
  using dispatch_through_structures [of "CbAuthPassword ''bob'' ''secret''" "sample_env []" "Some 1" "Some 2"]
  by (simp add: set_server_callbacks_def init_locals_def)

subsection \<open>What exists\<close>

text \<open>
  Which requests the gateway answers at all. Every other callback of the two
  structures does not exist for libssh, so no \<open>exec\<close>, \<open>env\<close>, subsystem, agent or
  X11 request and no authentication method but the password ever reaches the
  gateway's code. Before they are set nothing exists, nor would anything if
  \<open>ssh_callbacks_init\<close> were left out.
\<close>

theorem only_these_callbacks_exist:
  "(ssh_callbacks_exists server_cb_layout (server_struct e w) f \<longleftrightarrow>
      w_server_cb w \<and> f \<in> {Auth_password_function, Channel_open_request_session_function})
   \<and> (ssh_callbacks_exists channel_cb_layout (channel_struct e w) g \<longleftrightarrow>
      w_channel_cb w \<and> g \<in> {Channel_data_function, Channel_pty_request_function,
        Channel_shell_request_function, Channel_pty_window_change_function})
   \<and> \<not> ssh_callbacks_exists server_cb_layout (Some (server_cb e)) f
   \<and> \<not> ssh_callbacks_exists channel_cb_layout (Some (channel_cb e)) g"
proof (intro conjI)
  have none: "\<not> ssh_callbacks_exists ly None h" for ly :: "('c, 'f) layout" and h
    by (simp add: ssh_callbacks_exists_def)
  show "ssh_callbacks_exists server_cb_layout (server_struct e w) f \<longleftrightarrow>
     w_server_cb w \<and> f \<in> {Auth_password_function, Channel_open_request_session_function}"
    by (cases f) (simp_all add: server_struct_def server_cbs.exists_init null_fields server_cb_def none)
  show "ssh_callbacks_exists channel_cb_layout (channel_struct e w) g \<longleftrightarrow>
     w_channel_cb w \<and> g \<in> {Channel_data_function, Channel_pty_request_function,
       Channel_shell_request_function, Channel_pty_window_change_function}"
    by (cases g) (simp_all add: channel_struct_def channel_cbs.exists_init null_fields channel_cb_def none)
  show "\<not> ssh_callbacks_exists server_cb_layout (Some (server_cb e)) f"
    by (rule server_cbs.exists_unset) (simp add: server_cb_layout_def server_cb_def)
  show "\<not> ssh_callbacks_exists channel_cb_layout (Some (channel_cb e)) g"
    by (rule channel_cbs.exists_unset) (simp add: channel_cb_layout_def channel_cb_def)
qed

subsection \<open>Results\<close>

text \<open>The results that \<open>callbacks.h\<close> documents.\<close>

fun documented :: "callback \<Rightarrow> int \<Rightarrow> bool" where
  "documented (CbAuthPassword u p) r \<longleftrightarrow> r \<in> ssh_auth_code ` {SSH_AUTH_SUCCESS, SSH_AUTH_PARTIAL, SSH_AUTH_DENIED}"
| "documented CbChannelOpen r \<longleftrightarrow> True"
| "documented (CbPtyRequest trm a b c d) r \<longleftrightarrow> r \<in> {0, - 1}"
| "documented (CbWindowChange a b c d) r \<longleftrightarrow> r \<in> {0, - 1}"
| "documented CbShellRequest r \<longleftrightarrow> r \<in> {0, 1}"
| "documented (CbData dat is_stderr) r \<longleftrightarrow> 0 \<le> r \<and> r \<le> int (length dat)"
| "documented (CbFd fd revents) r \<longleftrightarrow> True"

definition results_lawful :: "env \<Rightarrow> bool" where
  "results_lawful e \<longleftrightarrow> recv_lawful e \<and> (\<forall>h fd ws. e_ioctl e h fd ws \<in> {0, - 1})
     \<and> (\<forall>h fd s. - 1 \<le> e_write e h fd s \<and> e_write e h fd s \<le> int (length s))"

text \<open>
  C37: The gateway's callbacks answer what \<open>callbacks.h\<close> documents, with two
  exceptions: a refused shell request is -1 where the documentation has 1, and a
  \<open>write\<close> to the child that fails is passed on as -1, which is not a number of
  bytes.
\<close>

theorem results_documented:
  assumes "results_lawful e" and "invoke e cb w = (Ret r, w')" and "length (sd_key (w_sdata w)) = 65"
    and "\<And>dat s. cb = CbData dat s \<Longrightarrow> length dat < 2 ^ 31"
  shows "documented cb r
    \<or> cb = CbShellRequest \<and> r = - 1 \<and> (cd_pid (w_cdata w) > 0 \<or> cd_pid (w_cdata w') = - 1)
    \<or> (\<exists>dat s. cb = CbData dat s \<and> r = - 1 \<and> EWrite (cd_child_stdin (w_cdata w)) dat (- 1) \<in> set (w_hist w'))"
proof (cases cb)
  case (CbAuthPassword u p)
  then show ?thesis
    using assms auth_password_eq [OF assms(3), of e u p]
    by (auto simp: results_lawful_def split: if_splits)
next
  case (CbPtyRequest trm a b c d)
  then show ?thesis
    using assms(2) by (auto simp: int_result_def pty_request_def Let_def code_defs split: option.splits prod.splits)
next
  case (CbWindowChange a b c d)
  then show ?thesis
    using assms(1,2)
    by (auto simp: results_lawful_def int_result_def pty_resize_def sys_ioctl_winsz_def Let_def code_defs split: if_splits)
next
  case CbShellRequest
  then show ?thesis
    using assms(2)
    by (auto simp: shell_request_def exec_pty_def exec_child_def sys_defs Let_def code_defs split: if_splits option.splits)
next
  case (CbData dat s)
  have b: "- 1 \<le> e_write e h fd x \<and> e_write e h fd x \<le> int (length x)" for h fd x
    using assms(1) by (simp add: results_lawful_def)
  have "c_int (e_write e h fd dat) = e_write e h fd dat" for h fd
    using b [of h fd dat] assms(4) [OF CbData] by (intro c_int_id) auto
  moreover have "0 \<le> e_write e h fd dat \<longleftrightarrow> e_write e h fd dat \<noteq> - 1" for h fd
    using b [of h fd dat] by auto
  ultimately show ?thesis
    using CbData assms(2) b
    by (auto simp: int_result_def data_function_def sys_kill_def sys_write_def Let_def note_event_def
        linorder_not_le split: if_splits)
qed simp_all

theorem results_documented_witness:
  "documented (CbPtyRequest ''xterm'' 80 24 640 480) (SSH_OK)
   \<and> \<not> documented CbShellRequest SSH_ERROR
   \<and> (\<exists>r w'. invoke (sample_env []) (CbPtyRequest ''xterm'' 80 24 640 480) blank_world = (Ret r, w')
       \<and> documented (CbPtyRequest ''xterm'' 80 24 640 480) r)"
proof -
  have l: "results_lawful (sample_env [])"
    using sample_lawful by (simp add: results_lawful_def)
  obtain r w' where i: "invoke (sample_env []) (CbPtyRequest ''xterm'' 80 24 640 480) blank_world = (Ret r, w')"
    by (auto simp: int_result_def)
  have "documented (CbPtyRequest ''xterm'' 80 24 640 480) r"
    using results_documented [OF l i] by (simp add: key_ok_length)
  then show ?thesis using i by (simp add: code_defs)
qed

end
