(* ===== verification/Cpp_Runtime.thy ===== *)
theory Cpp_Runtime
  imports Libssh_Api
begin

text \<open>
  What the C++ wrapper \<open>include/libssh/libsshpp.hpp\<close> is written in: objects at
  addresses, calls into libssh, exceptions, and the two ways of compiling it.

  \<^item> \<open>cpp_state\<close> has the live \<open>Session\<close> and \<open>Channel\<close> objects and the log of
    what was called, freed or written to an object by libssh, newest first.
  \<^item> \<open>api\<close> is libssh, \<open>operator new\<close> and \<open>vsnprintf\<close>: parameters, as functions
    of the log so far.
  \<^item> \<open>'a cpp\<close> is a computation: a value, an exception, or undefined behaviour.
\<close>

subsection \<open>Objects and calls\<close>

record channel_object =
  co_session :: nat
  co_channel :: ssh_channel

datatype (plugins only: size) action =
    Call libssh_call c_value
  | Free c_string
  | Written ssh_session

record cpp_state =
  st_sessions :: "nat \<Rightarrow> ssh_session option"
  st_channels :: "nat \<Rightarrow> channel_object option"
  st_log :: "action list"

record api =
  a_ret :: "action list \<Rightarrow> libssh_call \<Rightarrow> c_value"
  a_new :: "action list \<Rightarrow> nat option"
  a_copied :: "action list \<Rightarrow> ssh_session \<Rightarrow> ssh_session"
  a_format :: "string \<Rightarrow> c_arg list \<Rightarrow> string"

datatype cpp_exception = Ssh_exception int string | Bad_alloc

datatype undefined = Null_string | Dead_object | Storage_in_use | Wrong_type

datatype 'a cpp_result = Value 'a | Throws cpp_exception | Undefined undefined

type_synonym 'a cpp = "cpp_state \<Rightarrow> 'a cpp_result \<times> cpp_state"

named_theorems cpp_defs "the wrapper's building blocks"

definition cpp_return :: "'a \<Rightarrow> 'a cpp" where
  [cpp_defs]: "cpp_return x s = (Value x, s)"

definition cpp_throw :: "cpp_exception \<Rightarrow> 'a cpp" where
  [cpp_defs]: "cpp_throw e s = (Throws e, s)"

definition cpp_undefined :: "undefined \<Rightarrow> 'a cpp" where
  [cpp_defs]: "cpp_undefined u s = (Undefined u, s)"

definition cpp_bind :: "'a cpp \<Rightarrow> ('a \<Rightarrow> 'b cpp) \<Rightarrow> 'b cpp" where
  [cpp_defs]: "cpp_bind p f s =
     (case p s of
        (Value x, s) \<Rightarrow> f x s
      | (Throws e, s) \<Rightarrow> (Throws e, s)
      | (Undefined u, s) \<Rightarrow> (Undefined u, s))"

lemma cpp_bind_Value: "p s = (Value x, s1) \<Longrightarrow> cpp_bind p f s = f x s1"
  by (simp add: cpp_bind_def)

lemma cpp_bind_cases:
  assumes "cpp_bind p f s = (r, s')"
  obtains x s1 where "p s = (Value x, s1)" "f x s1 = (r, s')"
    | e where "p s = (Throws e, s')" "r = Throws e"
    | u where "p s = (Undefined u, s')" "r = Undefined u"
  using assms by (auto simp: cpp_bind_def split: prod.splits cpp_result.splits)

subsection \<open>Calling libssh\<close>

definition call :: "api \<Rightarrow> libssh_call \<Rightarrow> c_value cpp" where
  [cpp_defs]: "call a c s =
     (let v = a_ret a (st_log s) c in (Value v, s\<lparr>st_log := Call c v # st_log s\<rparr>))"

definition call_int :: "api \<Rightarrow> libssh_call \<Rightarrow> int cpp" where
  [cpp_defs]: "call_int a c =
     cpp_bind (call a c) (\<lambda>v. case v of VInt n \<Rightarrow> cpp_return n | _ \<Rightarrow> cpp_undefined Wrong_type)"

definition call_pointer :: "api \<Rightarrow> libssh_call \<Rightarrow> handle cpp" where
  [cpp_defs]: "call_pointer a c =
     cpp_bind (call a c) (\<lambda>v. case v of VPointer p \<Rightarrow> cpp_return p | _ \<Rightarrow> cpp_undefined Wrong_type)"

definition call_text :: "api \<Rightarrow> libssh_call \<Rightarrow> c_string cpp" where
  [cpp_defs]: "call_text a c =
     cpp_bind (call a c) (\<lambda>v. case v of VText t \<Rightarrow> cpp_return t | _ \<Rightarrow> cpp_undefined Wrong_type)"

definition call_void :: "api \<Rightarrow> libssh_call \<Rightarrow> unit cpp" where
  [cpp_defs]: "call_void a c =
     cpp_bind (call a c) (\<lambda>v. case v of VVoid \<Rightarrow> cpp_return () | _ \<Rightarrow> cpp_undefined Wrong_type)"

text \<open>\<open>std::string(p)\<close> is undefined for a null pointer.\<close>

definition std_string :: "c_string \<Rightarrow> string cpp" where
  [cpp_defs]: "std_string t = (case t of None \<Rightarrow> cpp_undefined Null_string | Some x \<Rightarrow> cpp_return x)"

definition c_free :: "c_string \<Rightarrow> unit cpp" where
  [cpp_defs]: "c_free t s = (Value (), s\<lparr>st_log := Free t # st_log s\<rparr>)"

subsection \<open>Exceptions or error codes\<close>

text \<open>\<open>Error_codes\<close> is compiling with \<open>SSH_NO_CPP_EXCEPTIONS\<close>.\<close>

datatype mode = Exceptions | Error_codes

text \<open>What a method hands back; \<open>Nothing\<close> is the value of a \<open>void\<close> method.\<close>

datatype retval = Nothing | Int_ret int | Bool_ret bool | Text_ret c_string | String_ret string
  | Object_ret "nat option"

definition SshException :: "api \<Rightarrow> ssh_session \<Rightarrow> cpp_exception cpp" where
  [cpp_defs]: "SshException a csession =
     cpp_bind (call_int a (Session (Ssh_get_error_code csession))) (\<lambda>code.
     cpp_bind (call_text a (Session (Ssh_get_error csession))) (\<lambda>msg.
     cpp_bind (std_string msg) (\<lambda>description.
     cpp_return (Ssh_exception code description))))"

fun getCode :: "cpp_exception \<Rightarrow> int option" where
  "getCode (Ssh_exception code description) = Some code"
| "getCode Bad_alloc = None"

fun getError :: "cpp_exception \<Rightarrow> string option" where
  "getError (Ssh_exception code description) = Some description"
| "getError Bad_alloc = None"

text \<open>
  The macros: \<open>ssh_throw(x)\<close> followed by the rest of the method, and the same
  for a pointer. The session whose error is reported is looked up only then.
\<close>

definition ssh_throw :: "mode \<Rightarrow> api \<Rightarrow> ssh_session cpp \<Rightarrow> int \<Rightarrow> retval cpp \<Rightarrow> retval cpp" where
  [cpp_defs]: "ssh_throw m a getCSession x k =
     (if x = SSH_ERROR
      then (case m of
              Exceptions \<Rightarrow> cpp_bind getCSession (\<lambda>h. cpp_bind (SshException a h) cpp_throw)
            | Error_codes \<Rightarrow> cpp_return (Int_ret SSH_ERROR))
      else k)"

definition ssh_throw_null :: "mode \<Rightarrow> api \<Rightarrow> ssh_session cpp \<Rightarrow> handle \<Rightarrow> retval cpp \<Rightarrow> retval cpp" where
  [cpp_defs]: "ssh_throw_null m a getCSession x k =
     (if x = None
      then (case m of
              Exceptions \<Rightarrow> cpp_bind getCSession (\<lambda>h. cpp_bind (SshException a h) cpp_throw)
            | Error_codes \<Rightarrow> cpp_return (Object_ret None))
      else k)"

definition return_throwable :: "mode \<Rightarrow> retval cpp" where
  [cpp_defs]: "return_throwable m =
     cpp_return (case m of Exceptions \<Rightarrow> Nothing | Error_codes \<Rightarrow> Int_ret SSH_OK)"

end
