(* ===== verification/Cpp_Session.thy ===== *)
theory Cpp_Session
  imports Cpp_Runtime C_Runtime
begin

text \<open>
  The class \<open>Session\<close> of \<open>include/libssh/libsshpp.hpp\<close>: one definition per
  method, with the object's address as \<open>this\<close>. \<open>m\<close> says whether exceptions are
  compiled in.
\<close>

named_theorems cpp_methods "the methods of the wrapper"
named_theorems cpp_bodies "what the methods are made of"

text \<open>\<open>getCSession\<close>, and using the handle of an object.\<close>

definition session_handle :: "nat \<Rightarrow> ssh_session cpp" where
  [cpp_bodies]: "session_handle this s =
     (case st_sessions s this of None \<Rightarrow> (Undefined Dead_object, s) | Some h \<Rightarrow> (Value h, s))"

abbreviation on_session :: "nat \<Rightarrow> (ssh_session \<Rightarrow> 'a cpp) \<Rightarrow> 'a cpp" where
  "on_session this f \<equiv> cpp_bind (session_handle this) f"

text \<open>
  The two bodies most methods have: a call whose result is tested by
  \<open>ssh_throw\<close>, then \<open>return_throwable\<close>, or a return of the result.
\<close>

definition void_method :: "mode \<Rightarrow> api \<Rightarrow> ssh_session cpp \<Rightarrow> libssh_call \<Rightarrow> retval cpp" where
  [cpp_bodies]: "void_method m a getCSession c =
     cpp_bind (call_int a c) (\<lambda>err. ssh_throw m a getCSession err (return_throwable m))"

definition int_method :: "mode \<Rightarrow> api \<Rightarrow> ssh_session cpp \<Rightarrow> libssh_call \<Rightarrow> retval cpp" where
  [cpp_bodies]: "int_method m a getCSession c =
     cpp_bind (call_int a c) (\<lambda>ret. ssh_throw m a getCSession ret (cpp_return (Int_ret ret)))"

subsection \<open>Making and ending a session\<close>

definition Session_new :: "api \<Rightarrow> nat \<Rightarrow> unit cpp" where
  [cpp_methods]: "Session_new a this =
     cpp_bind (call_pointer a (Session Ssh_new)) (\<lambda>h. \<lambda>s.
        if st_sessions s this \<noteq> None then (Undefined Storage_in_use, s)
        else (Value (), s\<lparr>st_sessions := (st_sessions s)(this \<mapsto> h)\<rparr>))"

definition Session_delete :: "api \<Rightarrow> nat \<Rightarrow> unit cpp" where
  [cpp_methods]: "Session_delete a this =
     on_session this (\<lambda>h. cpp_bind (call_void a (Session (Ssh_free h))) (\<lambda>_. \<lambda>s.
        (Value (), s\<lparr>st_sessions := (st_sessions s)(this := None)\<rparr>)))"

subsection \<open>Options and connecting\<close>

text \<open>
  The second overload passes the address of its own parameter.
\<close>

definition setOption_text :: "mode \<Rightarrow> api \<Rightarrow> nat \<Rightarrow> ssh_options_e \<Rightarrow> c_string \<Rightarrow> retval cpp" where
  [cpp_methods]: "setOption_text m a this ty opt =
     on_session this (\<lambda>h. void_method m a (session_handle this) (Session (Ssh_options_set h ty (Text opt))))"

definition setOption_long :: "mode \<Rightarrow> api \<Rightarrow> nat \<Rightarrow> ssh_options_e \<Rightarrow> int \<Rightarrow> retval cpp" where
  [cpp_methods]: "setOption_long m a this ty opt =
     on_session this (\<lambda>h. void_method m a (session_handle this) (Session (Ssh_options_set h ty (Long_at opt))))"

definition setOption_pointer :: "mode \<Rightarrow> api \<Rightarrow> nat \<Rightarrow> ssh_options_e \<Rightarrow> address \<Rightarrow> retval cpp" where
  [cpp_methods]: "setOption_pointer m a this ty opt =
     on_session this (\<lambda>h. void_method m a (session_handle this) (Session (Ssh_options_set h ty (Raw opt))))"

definition connect :: "mode \<Rightarrow> api \<Rightarrow> nat \<Rightarrow> retval cpp" where
  [cpp_methods]: "connect m a this =
     on_session this (\<lambda>h. void_method m a (session_handle this) (Session (Ssh_connect h)))"

subsection \<open>Authentication\<close>

definition userauthPublickeyAuto :: "mode \<Rightarrow> api \<Rightarrow> nat \<Rightarrow> retval cpp" where
  [cpp_methods]: "userauthPublickeyAuto m a this =
     on_session this (\<lambda>h. int_method m a (session_handle this) (Userauth (Ssh_userauth_publickey_auto h None None)))"

definition userauthNone :: "mode \<Rightarrow> api \<Rightarrow> nat \<Rightarrow> retval cpp" where
  [cpp_methods]: "userauthNone m a this =
     on_session this (\<lambda>h. int_method m a (session_handle this) (Userauth (Ssh_userauth_none h None)))"

definition userauthPassword :: "mode \<Rightarrow> api \<Rightarrow> nat \<Rightarrow> c_string \<Rightarrow> retval cpp" where
  [cpp_methods]: "userauthPassword m a this password =
     on_session this (\<lambda>h. int_method m a (session_handle this) (Userauth (Ssh_userauth_password h None password)))"

definition userauthTryPublickey :: "mode \<Rightarrow> api \<Rightarrow> nat \<Rightarrow> ssh_key \<Rightarrow> retval cpp" where
  [cpp_methods]: "userauthTryPublickey m a this pubkey =
     on_session this (\<lambda>h. int_method m a (session_handle this) (Userauth (Ssh_userauth_try_publickey h None pubkey)))"

definition userauthPublickey :: "mode \<Rightarrow> api \<Rightarrow> nat \<Rightarrow> ssh_key \<Rightarrow> retval cpp" where
  [cpp_methods]: "userauthPublickey m a this privkey =
     on_session this (\<lambda>h. int_method m a (session_handle this) (Userauth (Ssh_userauth_publickey h None privkey)))"

definition getAuthList :: "mode \<Rightarrow> api \<Rightarrow> nat \<Rightarrow> retval cpp" where
  [cpp_methods]: "getAuthList m a this =
     on_session this (\<lambda>h. int_method m a (session_handle this) (Userauth (Ssh_userauth_list h None)))"

subsection \<open>What a session tells\<close>

definition disconnect :: "api \<Rightarrow> nat \<Rightarrow> retval cpp" where
  [cpp_methods]: "disconnect a this =
     on_session this (\<lambda>h. cpp_bind (call_void a (Session (Ssh_disconnect h))) (\<lambda>_. cpp_return Nothing))"

definition getDisconnectMessage :: "api \<Rightarrow> nat \<Rightarrow> retval cpp" where
  [cpp_methods]: "getDisconnectMessage a this =
     on_session this (\<lambda>h. cpp_bind (call_text a (Session (Ssh_get_disconnect_message h)))
        (\<lambda>msg. cpp_return (Text_ret msg)))"

definition getError_session :: "api \<Rightarrow> nat \<Rightarrow> retval cpp" where
  [cpp_methods]: "getError_session a this =
     on_session this (\<lambda>h. cpp_bind (call_text a (Session (Ssh_get_error h)))
        (\<lambda>msg. cpp_return (Text_ret msg)))"

definition getErrorCode :: "api \<Rightarrow> nat \<Rightarrow> retval cpp" where
  [cpp_methods]: "getErrorCode a this =
     on_session this (\<lambda>h. cpp_bind (call_int a (Session (Ssh_get_error_code h)))
        (\<lambda>r. cpp_return (Int_ret r)))"

definition getSocket :: "api \<Rightarrow> nat \<Rightarrow> retval cpp" where
  [cpp_methods]: "getSocket a this =
     on_session this (\<lambda>h. cpp_bind (call_int a (Session (Ssh_get_fd h))) (\<lambda>r. cpp_return (Int_ret r)))"

definition getIssueBanner :: "api \<Rightarrow> nat \<Rightarrow> retval cpp" where
  [cpp_methods]: "getIssueBanner a this =
     on_session this (\<lambda>h.
        cpp_bind (call_text a (Session (Ssh_get_issue_banner h))) (\<lambda>banner.
        cpp_bind (std_string banner) (\<lambda>r.
        cpp_bind (c_free banner) (\<lambda>_.
        cpp_return (String_ret r)))))"

definition getOpensshVersion :: "api \<Rightarrow> nat \<Rightarrow> retval cpp" where
  [cpp_methods]: "getOpensshVersion a this =
     on_session this (\<lambda>h. cpp_bind (call_int a (Session (Ssh_get_openssh_version h)))
        (\<lambda>r. cpp_return (Int_ret r)))"

definition getVersion :: "api \<Rightarrow> nat \<Rightarrow> retval cpp" where
  [cpp_methods]: "getVersion a this =
     on_session this (\<lambda>h. cpp_bind (call_int a (Session (Ssh_get_version h)))
        (\<lambda>r. cpp_return (Int_ret r)))"

definition isServerKnown :: "mode \<Rightarrow> api \<Rightarrow> nat \<Rightarrow> retval cpp" where
  [cpp_methods]: "isServerKnown m a this =
     on_session this (\<lambda>h. int_method m a (session_handle this) (Session (Ssh_is_server_known h)))"

text \<open>
  \<open>vsnprintf\<close> cuts what the format expands to so that it fits the buffer with its
  terminator; \<open>_ssh_log\<close> reads the buffer as a C string.
\<close>

definition LOG_BUFFER_SIZE :: nat where [cpp_methods]: "LOG_BUFFER_SIZE = 1024"

definition log :: "api \<Rightarrow> int \<Rightarrow> string \<Rightarrow> c_arg list \<Rightarrow> retval cpp" where
  [cpp_methods]: "log a priority format args =
     (let buffer = cstr (take (LOG_BUFFER_SIZE - 1) (cstr (a_format a format args)))
      in cpp_bind (call_void a (Session (Priv_ssh_log priority (Some ''libsshpp'') (Some ''%s'') [Text_arg (Some buffer)])))
           (\<lambda>_. cpp_return Nothing))"

subsection \<open>Copying options, known hosts, forwarding\<close>

text \<open>
  \<open>ssh_options_copy\<close> may write a session to where its second argument points, which
  is the \<open>c_session\<close> of this object.
\<close>

definition optionsCopy :: "mode \<Rightarrow> api \<Rightarrow> nat \<Rightarrow> nat \<Rightarrow> retval cpp" where
  [cpp_methods]: "optionsCopy m a this source =
     on_session source (\<lambda>src. on_session this (\<lambda>h. cpp_bind
        (call_int a (Session (Ssh_options_copy src (Some this)))) (\<lambda>r. \<lambda>s.
          let copied = a_copied a (st_log s) h;
              s = s\<lparr>st_sessions := (st_sessions s)(this \<mapsto> copied), st_log := Written copied # st_log s\<rparr>
          in ssh_throw m a (session_handle this) r (return_throwable m) s)))"

definition optionsParseConfig :: "mode \<Rightarrow> api \<Rightarrow> nat \<Rightarrow> c_string \<Rightarrow> retval cpp" where
  [cpp_methods]: "optionsParseConfig m a this file =
     on_session this (\<lambda>h. void_method m a (session_handle this) (Session (Ssh_options_parse_config h file)))"

definition silentDisconnect :: "api \<Rightarrow> nat \<Rightarrow> retval cpp" where
  [cpp_methods]: "silentDisconnect a this =
     on_session this (\<lambda>h. cpp_bind (call_void a (Transfer (Ssh_silent_disconnect h))) (\<lambda>_. cpp_return Nothing))"

definition writeKnownhost :: "mode \<Rightarrow> api \<Rightarrow> nat \<Rightarrow> retval cpp" where
  [cpp_methods]: "writeKnownhost m a this =
     on_session this (\<lambda>h. int_method m a (session_handle this) (Userauth (Ssh_write_knownhost h)))"

definition cancelForward :: "mode \<Rightarrow> api \<Rightarrow> nat \<Rightarrow> c_string \<Rightarrow> int \<Rightarrow> retval cpp" where
  [cpp_methods]: "cancelForward m a this address port =
     on_session this (\<lambda>h. void_method m a (session_handle this) (Session (Ssh_channel_cancel_forward h address port)))"

definition listenForward :: "mode \<Rightarrow> api \<Rightarrow> nat \<Rightarrow> c_string \<Rightarrow> int \<Rightarrow> address \<Rightarrow> retval cpp" where
  [cpp_methods]: "listenForward m a this address port boundport =
     on_session this (\<lambda>h. void_method m a (session_handle this) (Session (Ssh_channel_listen_forward h address port boundport)))"

text \<open>
  A channel object made by \<open>new\<close> from a handle (the private constructor).
\<close>

definition new_Channel :: "api \<Rightarrow> nat \<Rightarrow> ssh_channel \<Rightarrow> retval cpp" where
  [cpp_bodies]: "new_Channel a session c_channel s =
     (case a_new a (st_log s) of
        None \<Rightarrow> (Throws Bad_alloc, s)
      | Some p \<Rightarrow>
          if st_channels s p \<noteq> None then (Undefined Storage_in_use, s)
          else (Value (Object_ret (Some p)), s\<lparr>st_channels :=
                 (st_channels s)(p \<mapsto> \<lparr>co_session = session, co_channel = c_channel\<rparr>)\<rparr>))"

definition acceptForward :: "mode \<Rightarrow> api \<Rightarrow> nat \<Rightarrow> int \<Rightarrow> retval cpp" where
  [cpp_methods]: "acceptForward m a this timeout_ms =
     on_session this (\<lambda>h. cpp_bind
        (call_pointer a (Session (Ssh_channel_accept_forward h timeout_ms None))) (\<lambda>forward.
          ssh_throw_null m a (session_handle this) forward (new_Channel a this forward)))"

end
