(* ===== verification/Cpp_Channel.thy ===== *)
theory Cpp_Channel
  imports Cpp_Session
begin

text \<open>
  The class \<open>Channel\<close> of \<open>include/libssh/libsshpp.hpp\<close>. A channel object keeps
  the address of its session object; errors are those of that session.
\<close>

definition channel_handle :: "nat \<Rightarrow> ssh_channel cpp" where
  [cpp_bodies]: "channel_handle this s =
     (case st_channels s this of None \<Rightarrow> (Undefined Dead_object, s) | Some c \<Rightarrow> (Value (co_channel c), s))"

abbreviation on_channel :: "nat \<Rightarrow> (ssh_channel \<Rightarrow> 'a cpp) \<Rightarrow> 'a cpp" where
  "on_channel this f \<equiv> cpp_bind (channel_handle this) f"

definition getSession :: "nat \<Rightarrow> nat cpp" where
  [cpp_bodies]: "getSession this s =
     (case st_channels s this of None \<Rightarrow> (Undefined Dead_object, s) | Some c \<Rightarrow> (Value (co_session c), s))"

definition channel_session_handle :: "nat \<Rightarrow> ssh_session cpp" where
  [cpp_bodies]: "channel_session_handle this = cpp_bind (getSession this) session_handle"

subsection \<open>Making and ending a channel\<close>

definition Channel_new :: "api \<Rightarrow> nat \<Rightarrow> nat \<Rightarrow> unit cpp" where
  [cpp_methods]: "Channel_new a this session =
     on_session session (\<lambda>h. cpp_bind (call_pointer a (Channel (Ssh_channel_new h))) (\<lambda>c. \<lambda>s.
        if st_channels s this \<noteq> None then (Undefined Storage_in_use, s)
        else (Value (), s\<lparr>st_channels :=
               (st_channels s)(this \<mapsto> \<lparr>co_session = session, co_channel = c\<rparr>)\<rparr>)))"

definition Channel_delete :: "api \<Rightarrow> nat \<Rightarrow> unit cpp" where
  [cpp_methods]: "Channel_delete a this =
     on_channel this (\<lambda>c. cpp_bind (call_void a (Channel (Ssh_channel_free c))) (\<lambda>_. \<lambda>s.
        (Value (), s\<lparr>st_channels := (st_channels s)(this := None)\<rparr>)))"

subsection \<open>X11, size, closing\<close>

definition acceptX11 :: "mode \<Rightarrow> api \<Rightarrow> nat \<Rightarrow> int \<Rightarrow> retval cpp" where
  [cpp_methods]: "acceptX11 m a this timeout_ms =
     on_channel this (\<lambda>c. cpp_bind
        (call_pointer a (Channel (Ssh_channel_accept_x11 c timeout_ms))) (\<lambda>x11chan.
          ssh_throw_null m a (channel_session_handle this) x11chan
            (cpp_bind (getSession this) (\<lambda>session. new_Channel a session x11chan))))"

definition changePtySize :: "mode \<Rightarrow> api \<Rightarrow> nat \<Rightarrow> int \<Rightarrow> int \<Rightarrow> retval cpp" where
  [cpp_methods]: "changePtySize m a this cols rows =
     on_channel this (\<lambda>c. void_method m a (channel_session_handle this) (Channel (Ssh_channel_change_pty_size c cols rows)))"

definition close_channel :: "mode \<Rightarrow> api \<Rightarrow> nat \<Rightarrow> retval cpp" where
  [cpp_methods]: "close_channel m a this =
     on_channel this (\<lambda>c. void_method m a (channel_session_handle this) (Channel (Ssh_channel_close c)))"

definition getExitStatus :: "api \<Rightarrow> nat \<Rightarrow> retval cpp" where
  [cpp_methods]: "getExitStatus a this =
     on_channel this (\<lambda>c. cpp_bind (call_int a (Channel (Ssh_channel_get_exit_status c)))
        (\<lambda>r. cpp_return (Int_ret r)))"

definition isClosed :: "api \<Rightarrow> nat \<Rightarrow> retval cpp" where
  [cpp_methods]: "isClosed a this =
     on_channel this (\<lambda>c. cpp_bind (call_int a (Channel (Ssh_channel_is_closed c)))
        (\<lambda>r. cpp_return (Bool_ret (r \<noteq> 0))))"

definition isEof :: "api \<Rightarrow> nat \<Rightarrow> retval cpp" where
  [cpp_methods]: "isEof a this =
     on_channel this (\<lambda>c. cpp_bind (call_int a (Channel (Ssh_channel_is_eof c)))
        (\<lambda>r. cpp_return (Bool_ret (r \<noteq> 0))))"

definition isOpen :: "api \<Rightarrow> nat \<Rightarrow> retval cpp" where
  [cpp_methods]: "isOpen a this =
     on_channel this (\<lambda>c. cpp_bind (call_int a (Channel (Ssh_channel_is_open c)))
        (\<lambda>r. cpp_return (Bool_ret (r \<noteq> 0))))"

definition openForward :: "mode \<Rightarrow> api \<Rightarrow> nat \<Rightarrow> c_string \<Rightarrow> int \<Rightarrow> c_string \<Rightarrow> int \<Rightarrow> retval cpp" where
  [cpp_methods]: "openForward m a this remotehost remoteport sourcehost localport =
     on_channel this (\<lambda>c. int_method m a (channel_session_handle this) (Channel (Ssh_channel_open_forward c remotehost remoteport sourcehost localport)))"

definition openSession :: "mode \<Rightarrow> api \<Rightarrow> nat \<Rightarrow> retval cpp" where
  [cpp_methods]: "openSession m a this =
     on_channel this (\<lambda>c. void_method m a (channel_session_handle this) (Channel (Ssh_channel_open_session c)))"

subsection \<open>Reading\<close>

definition poll :: "mode \<Rightarrow> api \<Rightarrow> nat \<Rightarrow> bool \<Rightarrow> retval cpp" where
  [cpp_methods]: "poll m a this is_stderr =
     on_channel this (\<lambda>c. int_method m a (channel_session_handle this) (Channel (Ssh_channel_poll c (of_bool is_stderr))))"

text \<open>
  The guard of every read against \<open>count\<close> not fitting an \<open>int\<close>. The call then takes
  the \<open>size_t\<close> as a \<open>uint32_t\<close>.
\<close>

definition clamp_count :: "64 word \<Rightarrow> 64 word" where
  [cpp_methods]: "clamp_count count = (if count > 0x7fffffff then 0x7fffffff else count)"

definition read_stderr :: "mode \<Rightarrow> api \<Rightarrow> nat \<Rightarrow> address \<Rightarrow> 64 word \<Rightarrow> bool \<Rightarrow> retval cpp" where
  [cpp_methods]: "read_stderr m a this dest count is_stderr =
     on_channel this (\<lambda>c. int_method m a (channel_session_handle this) (Channel (Ssh_channel_read_timeout c dest (ucast (clamp_count count)) (of_bool is_stderr) (- 1))))"

definition read_timeout :: "mode \<Rightarrow> api \<Rightarrow> nat \<Rightarrow> address \<Rightarrow> 64 word \<Rightarrow> int \<Rightarrow> retval cpp" where
  [cpp_methods]: "read_timeout m a this dest count timeout =
     on_channel this (\<lambda>c. int_method m a (channel_session_handle this) (Channel (Ssh_channel_read_timeout c dest (ucast (clamp_count count)) 0 timeout)))"

definition read :: "mode \<Rightarrow> api \<Rightarrow> nat \<Rightarrow> address \<Rightarrow> 64 word \<Rightarrow> bool \<Rightarrow> int \<Rightarrow> retval cpp" where
  [cpp_methods]: "read m a this dest count is_stderr timeout =
     on_channel this (\<lambda>c. int_method m a (channel_session_handle this) (Channel (Ssh_channel_read_timeout c dest (ucast (clamp_count count)) (of_bool is_stderr) timeout)))"

definition readNonblocking :: "mode \<Rightarrow> api \<Rightarrow> nat \<Rightarrow> address \<Rightarrow> 64 word \<Rightarrow> bool \<Rightarrow> retval cpp" where
  [cpp_methods]: "readNonblocking m a this dest count is_stderr =
     on_channel this (\<lambda>c. int_method m a (channel_session_handle this) (Channel (Ssh_channel_read_nonblocking c dest (ucast (clamp_count count)) (of_bool is_stderr))))"

subsection \<open>Requests\<close>

definition requestEnv :: "mode \<Rightarrow> api \<Rightarrow> nat \<Rightarrow> c_string \<Rightarrow> c_string \<Rightarrow> retval cpp" where
  [cpp_methods]: "requestEnv m a this name value =
     on_channel this (\<lambda>c. void_method m a (channel_session_handle this) (Channel (Ssh_channel_request_env c name value)))"

definition requestExec :: "mode \<Rightarrow> api \<Rightarrow> nat \<Rightarrow> c_string \<Rightarrow> retval cpp" where
  [cpp_methods]: "requestExec m a this cmd =
     on_channel this (\<lambda>c. void_method m a (channel_session_handle this) (Channel (Ssh_channel_request_exec c cmd)))"

definition requestPty :: "mode \<Rightarrow> api \<Rightarrow> nat \<Rightarrow> c_string \<Rightarrow> int \<Rightarrow> int \<Rightarrow> retval cpp" where
  [cpp_methods]: "requestPty m a this term cols rows =
     on_channel this (\<lambda>c. void_method m a (channel_session_handle this)
        (Channel (if term \<noteq> None \<and> cols \<noteq> 0 \<and> rows \<noteq> 0
                  then Ssh_channel_request_pty_size c term cols rows
                  else Ssh_channel_request_pty c)))"

definition requestShell :: "mode \<Rightarrow> api \<Rightarrow> nat \<Rightarrow> retval cpp" where
  [cpp_methods]: "requestShell m a this =
     on_channel this (\<lambda>c. void_method m a (channel_session_handle this) (Channel (Ssh_channel_request_shell c)))"

definition requestSendSignal :: "mode \<Rightarrow> api \<Rightarrow> nat \<Rightarrow> c_string \<Rightarrow> retval cpp" where
  [cpp_methods]: "requestSendSignal m a this signum =
     on_channel this (\<lambda>c. void_method m a (channel_session_handle this) (Channel (Ssh_channel_request_send_signal c signum)))"

definition requestSubsystem :: "mode \<Rightarrow> api \<Rightarrow> nat \<Rightarrow> c_string \<Rightarrow> retval cpp" where
  [cpp_methods]: "requestSubsystem m a this subsystem =
     on_channel this (\<lambda>c. void_method m a (channel_session_handle this) (Channel (Ssh_channel_request_subsystem c subsystem)))"

definition requestX11 :: "mode \<Rightarrow> api \<Rightarrow> nat \<Rightarrow> bool \<Rightarrow> c_string \<Rightarrow> c_string \<Rightarrow> int \<Rightarrow> retval cpp" where
  [cpp_methods]: "requestX11 m a this single_connection protocol cookie screen_number =
     on_channel this (\<lambda>c. int_method m a (channel_session_handle this) (Channel (Ssh_channel_request_x11 c (of_bool single_connection) protocol cookie screen_number)))"

definition sendEof :: "mode \<Rightarrow> api \<Rightarrow> nat \<Rightarrow> retval cpp" where
  [cpp_methods]: "sendEof m a this =
     on_channel this (\<lambda>c. void_method m a (channel_session_handle this) (Channel (Ssh_channel_send_eof c)))"

subsection \<open>Writing\<close>

text \<open>
  Both calls take the \<open>size_t\<close> as a \<open>uint32_t\<close>; there is no guard here.
\<close>

definition write_data :: "mode \<Rightarrow> api \<Rightarrow> nat \<Rightarrow> address \<Rightarrow> 64 word \<Rightarrow> bool \<Rightarrow> retval cpp" where
  [cpp_methods]: "write_data m a this data len is_stderr =
     on_channel this (\<lambda>c. int_method m a (channel_session_handle this)
        (if is_stderr then Message (Ssh_channel_write_stderr c data (ucast len))
         else Channel (Ssh_channel_write c data (ucast len))))"

end
