(* ===== verification/Cpp_Methods.thy ===== *)
theory Cpp_Methods
  imports Cpp_Channel
begin

text \<open>
  The public interface of the two classes as data, so that what holds of every
  method can be said once; the laws of the C library the proofs use; and what the
  building blocks do under these laws.
\<close>

subsection \<open>Methods\<close>

datatype (plugins only: size) session_method =
    SetOption_text ssh_options_e c_string
  | SetOption_long ssh_options_e int
  | SetOption_pointer ssh_options_e address
  | Connect
  | UserauthPublickeyAuto
  | UserauthNone
  | UserauthPassword c_string
  | UserauthTryPublickey ssh_key
  | UserauthPublickey ssh_key
  | GetAuthList
  | Disconnect
  | GetDisconnectMessage
  | GetError
  | GetErrorCode
  | GetSocket
  | GetIssueBanner
  | GetOpensshVersion
  | GetVersion
  | IsServerKnown
  | Log int string "c_arg list"
  | OptionsCopy nat
  | OptionsParseConfig c_string
  | SilentDisconnect
  | WriteKnownhost
  | CancelForward c_string int
  | ListenForward c_string int address
  | AcceptForward int

fun run_session :: "mode \<Rightarrow> api \<Rightarrow> nat \<Rightarrow> session_method \<Rightarrow> retval cpp" where
  "run_session m a this (SetOption_text x0 x1) = setOption_text m a this x0 x1"
| "run_session m a this (SetOption_long x0 x1) = setOption_long m a this x0 x1"
| "run_session m a this (SetOption_pointer x0 x1) = setOption_pointer m a this x0 x1"
| "run_session m a this Connect = connect m a this"
| "run_session m a this UserauthPublickeyAuto = userauthPublickeyAuto m a this"
| "run_session m a this UserauthNone = userauthNone m a this"
| "run_session m a this (UserauthPassword x0) = userauthPassword m a this x0"
| "run_session m a this (UserauthTryPublickey x0) = userauthTryPublickey m a this x0"
| "run_session m a this (UserauthPublickey x0) = userauthPublickey m a this x0"
| "run_session m a this GetAuthList = getAuthList m a this"
| "run_session m a this Disconnect = disconnect a this"
| "run_session m a this GetDisconnectMessage = getDisconnectMessage a this"
| "run_session m a this GetError = getError_session a this"
| "run_session m a this GetErrorCode = getErrorCode a this"
| "run_session m a this GetSocket = getSocket a this"
| "run_session m a this GetIssueBanner = getIssueBanner a this"
| "run_session m a this GetOpensshVersion = getOpensshVersion a this"
| "run_session m a this GetVersion = getVersion a this"
| "run_session m a this IsServerKnown = isServerKnown m a this"
| "run_session m a this (Log x0 x1 x2) = log a x0 x1 x2"
| "run_session m a this (OptionsCopy x0) = optionsCopy m a this x0"
| "run_session m a this (OptionsParseConfig x0) = optionsParseConfig m a this x0"
| "run_session m a this SilentDisconnect = silentDisconnect a this"
| "run_session m a this WriteKnownhost = writeKnownhost m a this"
| "run_session m a this (CancelForward x0 x1) = cancelForward m a this x0 x1"
| "run_session m a this (ListenForward x0 x1 x2) = listenForward m a this x0 x1 x2"
| "run_session m a this (AcceptForward x0) = acceptForward m a this x0"

datatype (plugins only: size) channel_method =
    AcceptX11 int
  | ChangePtySize int int
  | Close_channel
  | GetExitStatus
  | IsClosed
  | IsEof
  | IsOpen
  | OpenForward c_string int c_string int
  | OpenSession
  | Poll bool
  | Read_stderr address "64 word" bool
  | Read_timeout address "64 word" int
  | Read address "64 word" bool int
  | ReadNonblocking address "64 word" bool
  | RequestEnv c_string c_string
  | RequestExec c_string
  | RequestPty c_string int int
  | RequestShell
  | RequestSendSignal c_string
  | RequestSubsystem c_string
  | RequestX11 bool c_string c_string int
  | SendEof
  | Write_data address "64 word" bool

fun run_channel :: "mode \<Rightarrow> api \<Rightarrow> nat \<Rightarrow> channel_method \<Rightarrow> retval cpp" where
  "run_channel m a this (AcceptX11 x0) = acceptX11 m a this x0"
| "run_channel m a this (ChangePtySize x0 x1) = changePtySize m a this x0 x1"
| "run_channel m a this Close_channel = close_channel m a this"
| "run_channel m a this GetExitStatus = getExitStatus a this"
| "run_channel m a this IsClosed = isClosed a this"
| "run_channel m a this IsEof = isEof a this"
| "run_channel m a this IsOpen = isOpen a this"
| "run_channel m a this (OpenForward x0 x1 x2 x3) = openForward m a this x0 x1 x2 x3"
| "run_channel m a this OpenSession = openSession m a this"
| "run_channel m a this (Poll x0) = poll m a this x0"
| "run_channel m a this (Read_stderr x0 x1 x2) = read_stderr m a this x0 x1 x2"
| "run_channel m a this (Read_timeout x0 x1 x2) = read_timeout m a this x0 x1 x2"
| "run_channel m a this (Read x0 x1 x2 x3) = read m a this x0 x1 x2 x3"
| "run_channel m a this (ReadNonblocking x0 x1 x2) = readNonblocking m a this x0 x1 x2"
| "run_channel m a this (RequestEnv x0 x1) = requestEnv m a this x0 x1"
| "run_channel m a this (RequestExec x0) = requestExec m a this x0"
| "run_channel m a this (RequestPty x0 x1 x2) = requestPty m a this x0 x1 x2"
| "run_channel m a this RequestShell = requestShell m a this"
| "run_channel m a this (RequestSendSignal x0) = requestSendSignal m a this x0"
| "run_channel m a this (RequestSubsystem x0) = requestSubsystem m a this x0"
| "run_channel m a this (RequestX11 x0 x1 x2 x3) = requestX11 m a this x0 x1 x2 x3"
| "run_channel m a this SendEof = sendEof m a this"
| "run_channel m a this (Write_data x0 x1 x2) = write_data m a this x0 x1 x2"

text \<open>The methods that test a result with \<open>ssh_throw\<close> or \<open>ssh_throw_null\<close>, and those
  declared \<open>void_throwable\<close>.\<close>

fun session_checked :: "session_method \<Rightarrow> bool" where
  "session_checked Disconnect = False"
| "session_checked GetDisconnectMessage = False"
| "session_checked GetError = False"
| "session_checked GetErrorCode = False"
| "session_checked GetSocket = False"
| "session_checked GetIssueBanner = False"
| "session_checked GetOpensshVersion = False"
| "session_checked GetVersion = False"
| "session_checked (Log _ _ _) = False"
| "session_checked SilentDisconnect = False"
| "session_checked _ = True"

fun session_void :: "session_method \<Rightarrow> bool" where
  "session_void (SetOption_text _ _) = True"
| "session_void (SetOption_long _ _) = True"
| "session_void (SetOption_pointer _ _) = True"
| "session_void Connect = True"
| "session_void (OptionsCopy _) = True"
| "session_void (OptionsParseConfig _) = True"
| "session_void (CancelForward _ _) = True"
| "session_void (ListenForward _ _ _) = True"
| "session_void _ = False"

fun channel_checked :: "channel_method \<Rightarrow> bool" where
  "channel_checked GetExitStatus = False"
| "channel_checked IsClosed = False"
| "channel_checked IsEof = False"
| "channel_checked IsOpen = False"
| "channel_checked _ = True"

fun channel_void :: "channel_method \<Rightarrow> bool" where
  "channel_void (ChangePtySize _ _) = True"
| "channel_void Close_channel = True"
| "channel_void OpenSession = True"
| "channel_void (RequestEnv _ _) = True"
| "channel_void (RequestExec _) = True"
| "channel_void (RequestPty _ _ _) = True"
| "channel_void RequestShell = True"
| "channel_void (RequestSendSignal _) = True"
| "channel_void (RequestSubsystem _) = True"
| "channel_void SendEof = True"
| "channel_void _ = False"

subsection \<open>Laws of libssh\<close>

text \<open>Every function returns a value of its declared type.\<close>

definition typed :: "api \<Rightarrow> bool" where
  "typed a \<longleftrightarrow> (\<forall>l c. value_type (a_ret a l c) = call_returns c)"

text \<open>There always is an error message (\<open>ssh_get_error\<close> returns a static string).\<close>

definition explains :: "api \<Rightarrow> bool" where
  "explains a \<longleftrightarrow> (\<forall>l h. a_ret a l (Session (Ssh_get_error h)) \<noteq> VText None)"

lemma value_type_iff:
  "value_type v = RVoid \<longleftrightarrow> v = VVoid" "value_type v = RInt \<longleftrightarrow> (\<exists>n. v = VInt n)"
  "value_type v = RPointer \<longleftrightarrow> (\<exists>p. v = VPointer p)" "value_type v = RText \<longleftrightarrow> (\<exists>t. v = VText t)"
  by (cases v; simp)+

subsection \<open>Calls of the declared type\<close>

lemma typed_ret:
  assumes "typed a"
  shows "call_returns c = RVoid \<Longrightarrow> a_ret a l c = VVoid"
    and "call_returns c = RInt \<Longrightarrow> \<exists>n. a_ret a l c = VInt n"
    and "call_returns c = RPointer \<Longrightarrow> \<exists>p. a_ret a l c = VPointer p"
    and "call_returns c = RText \<Longrightarrow> \<exists>t. a_ret a l c = VText t"
  using assms value_type_iff [of "a_ret a l c"] by (auto simp: typed_def)

lemma call_typed:
  "a_ret a (st_log s) c = VVoid \<Longrightarrow>
     call_void a c s = (Value (), s\<lparr>st_log := Call c VVoid # st_log s\<rparr>)"
  "a_ret a (st_log s) c = VInt n \<Longrightarrow>
     call_int a c s = (Value n, s\<lparr>st_log := Call c (VInt n) # st_log s\<rparr>)"
  "a_ret a (st_log s) c = VPointer p \<Longrightarrow>
     call_pointer a c s = (Value p, s\<lparr>st_log := Call c (VPointer p) # st_log s\<rparr>)"
  "a_ret a (st_log s) c = VText t \<Longrightarrow>
     call_text a c s = (Value t, s\<lparr>st_log := Call c (VText t) # st_log s\<rparr>)"
  by (simp_all add: cpp_defs Let_def)

lemma bind_call_typed:
  "a_ret a (st_log s) c = VVoid \<Longrightarrow>
     cpp_bind (call_void a c) f1 s = f1 () (s\<lparr>st_log := Call c VVoid # st_log s\<rparr>)"
  "a_ret a (st_log s) c = VInt n \<Longrightarrow>
     cpp_bind (call_int a c) f2 s = f2 n (s\<lparr>st_log := Call c (VInt n) # st_log s\<rparr>)"
  "a_ret a (st_log s) c = VPointer p \<Longrightarrow>
     cpp_bind (call_pointer a c) f3 s = f3 p (s\<lparr>st_log := Call c (VPointer p) # st_log s\<rparr>)"
  "a_ret a (st_log s) c = VText t \<Longrightarrow>
     cpp_bind (call_text a c) f4 s = f4 t (s\<lparr>st_log := Call c (VText t) # st_log s\<rparr>)"
  by (simp_all add: call_typed cpp_bind_def)

text \<open>A computation that never goes wrong for the type of a result.\<close>

definition well_typed :: "'a cpp \<Rightarrow> bool" where
  "well_typed p \<longleftrightarrow> (\<forall>s. fst (p s) \<noteq> Undefined Wrong_type)"

named_theorems typing "well-typed building blocks"

lemma well_typed_basic [typing]:
  "well_typed (cpp_return x)" "well_typed (cpp_throw e)"
  "well_typed (session_handle this)" "well_typed (channel_handle c)" "well_typed (getSession c)"
  "well_typed (return_throwable m)" "well_typed (std_string t)" "well_typed (c_free t)"
  "well_typed (new_Channel a session h)"
  by (auto simp: well_typed_def cpp_defs cpp_bodies Let_def split: option.splits mode.splits)

lemma well_typed_bind [typing]:
  "well_typed p \<Longrightarrow> (\<And>x. well_typed (f x)) \<Longrightarrow> well_typed (cpp_bind p f)"
  unfolding well_typed_def cpp_bind_def
  by (auto split: prod.splits cpp_result.splits) (metis fst_conv)+

lemma well_typed_call [typing]:
  assumes "typed a"
  shows "call_returns c = RVoid \<Longrightarrow> well_typed (call_void a c)"
    and "call_returns c = RInt \<Longrightarrow> well_typed (call_int a c)"
    and "call_returns c = RPointer \<Longrightarrow> well_typed (call_pointer a c)"
    and "call_returns c = RText \<Longrightarrow> well_typed (call_text a c)"
  using typed_ret [OF assms] call_typed unfolding well_typed_def by (metis cpp_result.distinct(3) fst_conv)+

lemma well_typed_throw [typing]:
  assumes "typed a" and "well_typed gets"
  shows "well_typed k \<Longrightarrow> well_typed (ssh_throw m a gets x k)"
    and "well_typed k \<Longrightarrow> well_typed (ssh_throw_null m a gets y k)"
  using assms by (auto simp: ssh_throw_def ssh_throw_null_def SshException_def
      intro!: typing split: mode.splits)

lemma well_typed_methods [typing]:
  assumes "typed a" and "well_typed gets" and "call_returns c = RInt"
  shows "well_typed (void_method m a gets c)" "well_typed (int_method m a gets c)"
  using assms by (auto simp: void_method_def int_method_def intro!: typing)

lemma well_typed_channel_session [typing]: "well_typed (channel_session_handle c)"
  by (auto simp: channel_session_handle_def intro!: typing)

subsection \<open>The log only grows\<close>

definition log_grows :: "'a cpp \<Rightarrow> bool" where
  "log_grows p \<longleftrightarrow> (\<forall>s. \<exists>es. st_log (snd (p s)) = es @ st_log s)"

named_theorems growing "building blocks that only add to the log"

lemma log_growsD:
  assumes "log_grows p" "p s = (r, s')"
  obtains es where "st_log s' = es @ st_log s"
  using assms unfolding log_grows_def by (metis snd_conv)

lemma log_grows_basic [growing]:
  "log_grows (cpp_return x)" "log_grows (cpp_throw e)" "log_grows (cpp_undefined u)"
  "log_grows (session_handle this)" "log_grows (channel_handle c)" "log_grows (getSession c)"
  "log_grows (return_throwable m)" "log_grows (std_string t)" "log_grows (c_free t)"
  "log_grows (new_Channel a session h)" "log_grows (call a lc)"
  by (auto simp: log_grows_def cpp_defs cpp_bodies Let_def split: option.splits mode.splits)

lemma log_grows_bind [growing]:
  assumes "log_grows p" and "\<And>x. log_grows (f x)"
  shows "log_grows (cpp_bind p f)"
  unfolding log_grows_def
proof
  fix s
  obtain r s1 where p: "p s = (r, s1)" by fastforce
  obtain es where es: "st_log s1 = es @ st_log s" using log_growsD [OF assms(1) p] .
  have "\<exists>es. st_log (snd (f x s1)) = es @ st_log s1" for x using assms(2) unfolding log_grows_def by blast
  then show "\<exists>es. st_log (snd (cpp_bind p f s)) = es @ st_log s"
    using p es by (cases r) (auto simp: cpp_bind_def, metis append_assoc)
qed

lemma log_grows_call [growing]:
  "log_grows (call_int a c)" "log_grows (call_pointer a c)" "log_grows (call_text a c)" "log_grows (call_void a c)"
  unfolding call_int_def call_pointer_def call_text_def call_void_def
  by (intro growing; auto intro: growing split: c_value.splits)+

lemma log_grows_throw [growing]:
  assumes "log_grows gets"
  shows "log_grows k \<Longrightarrow> log_grows (ssh_throw m a gets x k)"
    and "log_grows k \<Longrightarrow> log_grows (ssh_throw_null m a gets y k)"
  using assms by (auto simp: ssh_throw_def ssh_throw_null_def SshException_def
      intro!: growing split: mode.splits)

lemma log_grows_channel_session [growing]: "log_grows (channel_session_handle c)"
  by (auto simp: channel_session_handle_def intro!: growing)

lemma call_logged:
  assumes "call_int a c s = (r, s1)"
  shows "\<exists>v. st_log s1 = Call c v # st_log s"
  using assms by (auto simp: cpp_defs Let_def split: c_value.splits)

lemma int_method_calls:
  assumes "log_grows gets" and "int_method m a gets c s = (r, s')"
  shows "\<exists>v es. st_log s' = es @ Call c v # st_log s"
  using assms(2) unfolding int_method_def
proof (rule cpp_bind_cases)
  fix n s1
  assume i: "call_int a c s = (Value n, s1)" and k: "ssh_throw m a gets n (cpp_return (Int_ret n)) s1 = (r, s')"
  have "log_grows (ssh_throw m a gets n (cpp_return (Int_ret n)))"
    using assms(1) by (intro growing)
  from log_growsD [OF this k] call_logged [OF i] show ?thesis by metis
qed (use call_logged append_Nil in metis)+

end
