(* ===== verification/Cpp_Properties.thy ===== *)
theory Cpp_Properties
  imports Cpp_Methods
begin

text \<open>
  What holds of the C++ wrapper: no method mistakes the type of a result; the two
  ways of compiling it agree; reads never ask for more than an \<open>int\<close> can report
  and writes do; and what becomes of banners, log messages and results that are
  neither success nor error.
\<close>

subsection \<open>Types\<close>

lemma session_methods_typed: "typed a \<Longrightarrow> well_typed (run_session m a this sm)"
proof (cases sm)
  case (OptionsCopy x)
  have shift: "well_typed p \<Longrightarrow> well_typed (\<lambda>s. p (f s))" for p :: "retval cpp" and f
    by (simp add: well_typed_def)
  assume "typed a"
  then show ?thesis
    unfolding OptionsCopy run_session.simps optionsCopy_def Let_def
    by (intro typing shift) simp_all
qed (auto simp: cpp_methods intro!: typing)

lemma channel_methods_typed: "typed a \<Longrightarrow> well_typed (run_channel m a this cm)"
  by (cases cm) (auto simp: cpp_methods intro!: typing)


text \<open>A libssh for the witnesses: every result is 0, a fresh handle or a text.\<close>

definition sample_api :: api where
  "sample_api = \<lparr>
     a_ret = (\<lambda>l c. case call_returns c of
        RVoid \<Rightarrow> VVoid | RInt \<Rightarrow> VInt 0 | RUint32 \<Rightarrow> VUint32 0 | RUint64 \<Rightarrow> VUint64 0
      | RPointer \<Rightarrow> VPointer (Some (length l)) | RText \<Rightarrow> VText (Some ''text'')),
     a_new = (\<lambda>l. Some (length l)),
     a_copied = (\<lambda>l h. Some (length l)),
     a_format = (\<lambda>f args. format_s f (concat (map (\<lambda>x. case x of Text_arg (Some t) \<Rightarrow> [t] | _ \<Rightarrow> []) args)))\<rparr>"

lemma sample_api_typed [simp]: "typed sample_api" "explains sample_api"
  by (auto simp: typed_def explains_def sample_api_def split: c_type.split)

definition answering :: "int \<Rightarrow> api" where
  "answering n = sample_api\<lparr>a_ret := \<lambda>l c.
     if call_returns c = RInt then VInt n else a_ret sample_api l c\<rparr>"

lemma answering_typed [simp]: "typed (answering n)" "explains (answering n)"
  using sample_api_typed by (auto simp: typed_def explains_def answering_def)

definition one_session :: cpp_state where
  "one_session = \<lparr>st_sessions = [10 \<mapsto> Some 7],
     st_channels = [20 \<mapsto> \<lparr>co_session = 10, co_channel = Some 8\<rparr>], st_log = []\<rparr>"


subsection \<open>Exceptions against error codes\<close>

text \<open>
  What the two modes do from the same state. Where the error-code version
  returns \<open>SSH_ERROR\<close> or \<open>NULL\<close>, the other one throws, after asking the session
  for its error; a \<open>void\<close> method's \<open>SSH_OK\<close> is nothing; all else is the same.
\<close>

definition failed :: "retval cpp_result \<Rightarrow> bool" where
  "failed r \<longleftrightarrow> r = Value (Int_ret SSH_ERROR) \<or> r = Value (Object_ret None)"

definition reports :: "ssh_session \<Rightarrow> cpp_state \<Rightarrow> retval cpp_result \<times> cpp_state \<Rightarrow> bool" where
  "reports h s out \<longleftrightarrow> (\<exists>code description.
     out = (Throws (Ssh_exception code description),
            s\<lparr>st_log := Call (Session (Ssh_get_error h)) (VText (Some description)) #
                        Call (Session (Ssh_get_error_code h)) (VInt code) # st_log s\<rparr>))"

definition agree :: "bool \<Rightarrow> ssh_session \<Rightarrow> retval cpp_result \<times> cpp_state \<Rightarrow>
    retval cpp_result \<times> cpp_state \<Rightarrow> bool" where
  "agree is_void h oc oe \<longleftrightarrow>
     (if failed (fst oc) then reports h (snd oc) oe
      else if is_void \<and> fst oc = Value (Int_ret SSH_OK) then oe = (Value Nothing, snd oc)
      else oe = oc)"

lemma exception_reports:
  assumes "typed a" "explains a" and "gets s = (Value h, s)"
  shows "reports h s (cpp_bind gets (\<lambda>h. cpp_bind (SshException a h) cpp_throw) s)"
proof -
  obtain code where c: "a_ret a (st_log s) (Session (Ssh_get_error_code h)) = VInt code"
    using typed_ret(2) [OF assms(1)] by force
  define s1 where "s1 = s\<lparr>st_log := Call (Session (Ssh_get_error_code h)) (VInt code) # st_log s\<rparr>"
  obtain d where d: "a_ret a (st_log s1) (Session (Ssh_get_error h)) = VText (Some d)"
    using typed_ret(4) [OF assms(1), of "Session (Ssh_get_error h)" "st_log s1"] assms(2)
    by (force simp: explains_def)
  show ?thesis
    using call_typed(2) [OF c] call_typed(4) [OF d] assms(3)
    by (simp add: reports_def SshException_def std_string_def cpp_bind_def cpp_return_def
        cpp_throw_def s1_def)
qed

lemma methods_agree:
  assumes "typed a" "explains a" and "call_returns c = RInt"
    and "\<And>l. gets (s\<lparr>st_log := l\<rparr>) = (Value h, s\<lparr>st_log := l\<rparr>)"
  shows "agree True h (void_method Error_codes a gets c s) (void_method Exceptions a gets c s)"
    and "agree False h (int_method Error_codes a gets c s) (int_method Exceptions a gets c s)"
proof -
  obtain n where n: "a_ret a (st_log s) c = VInt n" using typed_ret(2) [OF assms(1,3)] by force
  have e: "reports h (s\<lparr>st_log := l\<rparr>)
      (cpp_bind gets (\<lambda>h. cpp_bind (SshException a h) cpp_throw) (s\<lparr>st_log := l\<rparr>))" for l
    using exception_reports [OF assms(1,2)] assms(4) by blast
  show "agree True h (void_method Error_codes a gets c s) (void_method Exceptions a gets c s)"
    and "agree False h (int_method Error_codes a gets c s) (int_method Exceptions a gets c s)"
    using e [of "Call c (VInt n) # st_log s"]
    by (auto simp: void_method_def int_method_def bind_call_typed(2) [OF n] agree_def
        failed_def ssh_throw_def return_throwable_def cpp_return_def code_defs)
qed

lemma on_live:
  "st_sessions s this = Some h \<Longrightarrow> cpp_bind (session_handle this) f s = f h s"
  "st_channels s this = Some c \<Longrightarrow> cpp_bind (channel_handle this) g s = g (co_channel c) s"
  "st_channels s this = Some c \<Longrightarrow> cpp_bind (getSession this) k s = k (co_session c) s"
  by (simp_all add: cpp_bind_def session_handle_def channel_handle_def getSession_def)

lemma handles_kept:
  "st_sessions s this = Some h \<Longrightarrow> session_handle this (s\<lparr>st_log := l\<rparr>) = (Value h, s\<lparr>st_log := l\<rparr>)"
  "st_channels s c = Some co \<Longrightarrow> st_sessions s (co_session co) = Some h \<Longrightarrow>
     channel_session_handle c (s\<lparr>st_log := l\<rparr>) = (Value h, s\<lparr>st_log := l\<rparr>)"
  by (simp_all add: session_handle_def channel_session_handle_def cpp_bind_def getSession_def)

lemma methods_keep_objects:
  assumes "typed a" and "call_returns c = RInt"
  shows "st_sessions (snd (void_method Error_codes a gets c s)) = st_sessions s"
    and "st_sessions (snd (int_method Error_codes a gets c s)) = st_sessions s"
proof -
  obtain n where n: "a_ret a (st_log s) c = VInt n" using typed_ret(2) [OF assms] by force
  show "st_sessions (snd (void_method Error_codes a gets c s)) = st_sessions s"
    and "st_sessions (snd (int_method Error_codes a gets c s)) = st_sessions s"
    by (simp_all add: void_method_def int_method_def bind_call_typed(2) [OF n]
        ssh_throw_def return_throwable_def cpp_return_def)
qed

lemma accepts_agree:
  assumes "typed a" "explains a" and "call_returns c = RPointer"
    and "\<And>l. gets (s\<lparr>st_log := l\<rparr>) = (Value h, s\<lparr>st_log := l\<rparr>)"
    and "\<And>l x. \<not> failed (fst (k x (s\<lparr>st_log := l\<rparr>)))"
  shows "agree False h
      (cpp_bind (call_pointer a c) (\<lambda>x. ssh_throw_null Error_codes a gets x (k x)) s)
      (cpp_bind (call_pointer a c) (\<lambda>x. ssh_throw_null Exceptions a gets x (k x)) s)"
proof -
  obtain x where x: "a_ret a (st_log s) c = VPointer x" using typed_ret(3) [OF assms(1,3)] by force
  have e: "reports h (s\<lparr>st_log := l\<rparr>)
      (cpp_bind gets (\<lambda>h. cpp_bind (SshException a h) cpp_throw) (s\<lparr>st_log := l\<rparr>))" for l
    using exception_reports [OF assms(1,2)] assms(4) by blast
  show ?thesis
    using e [of "Call c (VPointer x) # st_log s"] assms(5) [of x "Call c (VPointer x) # st_log s"]
    by (auto simp: bind_call_typed(3) [OF x] agree_def ssh_throw_null_def
        cpp_return_def failed_def)
qed

lemma new_Channel_not_failed: "\<not> failed (fst (new_Channel a session c s))"
  by (auto simp: new_Channel_def failed_def split: option.splits)

lemma accept_keeps_sessions:
  assumes "typed a" and "call_returns c = RPointer"
  shows "st_sessions (snd (cpp_bind (call_pointer a c) (\<lambda>x. ssh_throw_null Error_codes a gets x
      (new_Channel a session x)) s)) = st_sessions s"
proof -
  obtain x where x: "a_ret a (st_log s) c = VPointer x" using typed_ret(3) [OF assms] by force
  show ?thesis
    by (auto simp: bind_call_typed(3) [OF x] ssh_throw_null_def cpp_return_def new_Channel_def
        split: option.splits)
qed

lemma optionsCopy_agree:
  assumes "typed a" "explains a" and "st_sessions s this = Some h"
  shows "\<exists>h. st_sessions (snd (optionsCopy Error_codes a this source s)) this = Some h
    \<and> agree True h (optionsCopy Error_codes a this source s) (optionsCopy Exceptions a this source s)"
proof (cases "st_sessions s source")
  case None
  then have "optionsCopy m a this source s = (Undefined Dead_object, s)" for m
    by (simp add: optionsCopy_def cpp_bind_def session_handle_def)
  then show ?thesis using assms(3) by (auto simp: agree_def failed_def)
next
  case (Some src)
  obtain r where r: "a_ret a (st_log s) (Session (Ssh_options_copy src (Some this))) = VInt r"
    using typed_ret(2) [OF assms(1)] by force
  define s1 where "s1 = s\<lparr>st_log := Call (Session (Ssh_options_copy src (Some this))) (VInt r) # st_log s\<rparr>"
  define h' where "h' = a_copied a (st_log s1) h"
  define s2 where "s2 = s1\<lparr>st_sessions := (st_sessions s1)(this \<mapsto> h'), st_log := Written h' # st_log s1\<rparr>"
  have run: "optionsCopy m a this source s = ssh_throw m a (session_handle this) r (return_throwable m) s2" for m
    by (simp add: optionsCopy_def on_live(1) [OF Some] on_live(1) [OF assms(3)]
        bind_call_typed(2) [OF r] s1_def s2_def h'_def Let_def)
  have "session_handle this s2 = (Value h', s2)" by (simp add: session_handle_def s2_def)
  then have "reports h' s2 (cpp_bind (session_handle this) (\<lambda>h. cpp_bind (SshException a h) cpp_throw) s2)"
    using exception_reports assms(1,2) by blast
  then have "agree True h' (optionsCopy Error_codes a this source s) (optionsCopy Exceptions a this source s)"
    by (auto simp: run ssh_throw_def return_throwable_def cpp_return_def agree_def failed_def code_defs)
  moreover have "st_sessions (snd (optionsCopy Error_codes a this source s)) this = Some h'"
    by (simp add: run ssh_throw_def return_throwable_def cpp_return_def s2_def)
  ultimately show ?thesis by blast
qed

lemma session_modes:
  assumes "typed a" "explains a" and "st_sessions s this = Some h" and "session_checked sm"
  shows "\<exists>h. st_sessions (snd (run_session Error_codes a this sm s)) this = Some h
    \<and> agree (session_void sm) h (run_session Error_codes a this sm s) (run_session Exceptions a this sm s)"
proof (cases sm)
  case (AcceptForward t)
  then show ?thesis
    using accepts_agree [OF assms(1,2) _ handles_kept(1) [OF assms(3)] new_Channel_not_failed]
    by (simp add: acceptForward_def on_live(1) [OF assms(3)] assms(3)
        accept_keeps_sessions [OF assms(1)])
next
  case (OptionsCopy source)
  then show ?thesis using optionsCopy_agree [OF assms(1-3)] by simp
qed (use assms in \<open>auto simp: cpp_methods on_live methods_agree handles_kept methods_keep_objects\<close>)

lemma channel_modes:
  assumes "typed a" "explains a" and "st_channels s this = Some c"
    and "st_sessions s (co_session c) = Some h" and "channel_checked cm"
  shows "agree (channel_void cm) h (run_channel Error_codes a this cm s) (run_channel Exceptions a this cm s)"
proof (cases cm)
  case (AcceptX11 t)
  note kept = handles_kept(2) [OF assms(3,4)]
  have "\<not> failed (fst (cpp_bind (getSession this) (\<lambda>session. new_Channel a session x) (s\<lparr>st_log := l\<rparr>)))" for x l
    using assms(3) new_Channel_not_failed by (simp add: on_live(3))
  then show ?thesis
    using accepts_agree [OF assms(1,2) _ kept,
        of "Channel (Ssh_channel_accept_x11 (co_channel c) t)"
           "\<lambda>x. cpp_bind (getSession this) (\<lambda>session. new_Channel a session x)"]
    by (simp add: AcceptX11 acceptX11_def on_live(2) [OF assms(3)])
qed (use assms in \<open>auto simp: cpp_methods on_live methods_agree handles_kept\<close>)

text \<open>
  C33: Sessions: an application compiled with exceptions and one compiled without see
  the same calls and the same results, except that a method which returns
  \<open>SSH_ERROR\<close> (or \<open>NULL\<close>) without them throws with them, an exception that carries
  the error code and the message of the object's session at that moment. A
  method that is not checked is the same in both.
\<close>

theorem session_modes_agree:
  assumes "typed a" "explains a" and "st_sessions s this = Some h"
  shows "if session_checked sm
    then \<exists>h. st_sessions (snd (run_session Error_codes a this sm s)) this = Some h
      \<and> agree (session_void sm) h (run_session Error_codes a this sm s) (run_session Exceptions a this sm s)
    else run_session Exceptions a this sm s = run_session Error_codes a this sm s"
proof (cases "session_checked sm")
  case True
  then show ?thesis using session_modes [OF assms True] by simp
next
  case False
  then show ?thesis by (cases sm) auto
qed

lemma one_session_live:
  "st_sessions one_session 10 = Some (Some 7)"
  "st_channels one_session 20 = Some \<lparr>co_session = 10, co_channel = Some 8\<rparr>"
  by (simp_all add: one_session_def)

lemma one_session_log [simp]: "st_log one_session = []"
  by (simp add: one_session_def)

lemma answering_int: "call_returns c = RInt \<Longrightarrow> a_ret (answering n) l c = VInt n"
  by (simp add: answering_def)

theorem session_modes_agree_witness:
  "\<exists>code d s. run_session Exceptions (answering (- 1)) 10 Connect one_session = (Throws (Ssh_exception code d), s)"
proof -
  have "fst (run_session Error_codes (answering (- 1)) 10 Connect one_session) = Value (Int_ret SSH_ERROR)"
    by (simp add: connect_def on_live(1) [OF one_session_live(1)] void_method_def ssh_throw_def cpp_return_def
        bind_call_typed(2) [OF answering_int] code_defs)
  moreover obtain h where "agree True h (run_session Error_codes (answering (- 1)) 10 Connect one_session)
      (run_session Exceptions (answering (- 1)) 10 Connect one_session)"
    using session_modes_agree [OF answering_typed one_session_live(1), where sm = Connect] by auto
  ultimately show ?thesis by (auto simp: agree_def failed_def reports_def)
qed

text \<open>
  Channels: the methods of a channel do and return the same with exceptions and
  without, but that a returned \<open>SSH_ERROR\<close> or \<open>NULL\<close> is an exception with the
  error of the channel's session, as long as that session object is alive.
\<close>

theorem channel_modes_agree:
  assumes "typed a" "explains a" and "st_channels s this = Some c"
    and "st_sessions s (co_session c) = Some h"
  shows "if channel_checked cm
    then agree (channel_void cm) h (run_channel Error_codes a this cm s) (run_channel Exceptions a this cm s)
    else run_channel Exceptions a this cm s = run_channel Error_codes a this cm s"
proof (cases "channel_checked cm")
  case True
  then show ?thesis using channel_modes [OF assms True] by simp
next
  case False
  then show ?thesis by (cases cm) auto
qed

theorem channel_modes_agree_witness:
  "\<exists>code d s. run_channel Exceptions (answering (- 1)) 20 SendEof one_session = (Throws (Ssh_exception code d), s)"
proof -
  have "fst (run_channel Error_codes (answering (- 1)) 20 SendEof one_session) = Value (Int_ret SSH_ERROR)"
    by (simp add: sendEof_def on_live(2) [OF one_session_live(2)] void_method_def ssh_throw_def cpp_return_def
        bind_call_typed(2) [OF answering_int] code_defs)
  moreover have "agree True (Some 7) (run_channel Error_codes (answering (- 1)) 20 SendEof one_session)
      (run_channel Exceptions (answering (- 1)) 20 SendEof one_session)"
    using channel_modes_agree [OF answering_typed one_session_live(2), where cm = SendEof]
      one_session_live(1) by simp
  ultimately show ?thesis by (auto simp: agree_def failed_def reports_def)
qed

subsection \<open>Reading and writing\<close>

text \<open>The count a read method is given, and the call it makes with the count it passes on.\<close>

fun read_call :: "channel_method \<Rightarrow> ssh_channel \<Rightarrow> (64 word \<times> (32 word \<Rightarrow> channel_call)) option" where
  "read_call (Read_stderr dest n e) c = Some (n, \<lambda>k. Ssh_channel_read_timeout c dest k (of_bool e) (- 1))"
| "read_call (Read_timeout dest n t) c = Some (n, \<lambda>k. Ssh_channel_read_timeout c dest k 0 t)"
| "read_call (Read dest n e t) c = Some (n, \<lambda>k. Ssh_channel_read_timeout c dest k (of_bool e) t)"
| "read_call (ReadNonblocking dest n e) c = Some (n, \<lambda>k. Ssh_channel_read_nonblocking c dest k (of_bool e))"
| "read_call _ c = None"

lemma clamp_count_small: "unat (ucast (clamp_count n) :: 32 word) = min (unat n) 0x7fffffff"
proof -
  have "unat (clamp_count n) = min (unat n) 0x7fffffff"
    by (auto simp: clamp_count_def min_def word_less_nat_alt word_le_nat_alt)
  then show ?thesis by (simp add: unsigned_ucast_eq take_bit_nat_eq_self)
qed

text \<open>
  C38: Reads are bounded. Whatever 64-bit count a caller gives, each of the four read
  methods makes one call that asks for the smaller of it and \<open>2 ^ 31 - 1\<close> bytes:
  the conversion to \<open>uint32_t\<close> loses nothing, and the number of bytes read fits
  the \<open>int\<close> that is returned.
\<close>

theorem reads_bounded:
  assumes "st_channels s this = Some c" and "run_channel m a this cm s = (r, s')"
    and "read_call cm (co_channel c) = Some (n, f)"
  shows "\<exists>k v es. st_log s' = es @ Call (Channel (f k)) v # st_log s \<and> unat k = min (unat n) (2 ^ 31 - 1)"
proof -
  define k :: "32 word" where "k = ucast (clamp_count n)"
  have "log_grows (channel_session_handle this)" by (rule growing)
  moreover have "int_method m a (channel_session_handle this) (Channel (f k)) s = (r, s')"
    using assms(2,3)
    by (cases cm) (auto simp: read_stderr_def read_timeout_def read_def readNonblocking_def
        on_live(2) [OF assms(1)] k_def)
  moreover have "unat k = min (unat n) (2 ^ 31 - 1)" using clamp_count_small [of n] by (simp add: k_def)
  ultimately show ?thesis using int_method_calls by metis
qed

theorem reads_bounded_witness:
  "\<exists>k v es. st_log (snd (run_channel Exceptions sample_api 20 (Read (Some 1) 0x100000000 False 0) one_session))
      = es @ [Call (Channel (Ssh_channel_read_timeout (Some 8) (Some 1) k 0 0)) v] \<and> unat k = 2 ^ 31 - 1"
proof -
  obtain r s' where r: "run_channel Exceptions sample_api 20 (Read (Some 1) 0x100000000 False 0) one_session = (r, s')"
    by fastforce
  have "unat (0x100000000 :: 64 word) = 2 ^ 32" by simp
  then show ?thesis
    using reads_bounded [OF one_session_live(2) r] r by simp
qed

text \<open>
  Writes are not bounded like reads: the 64-bit length is passed modulo \<open>2 ^ 32\<close>. So a write of at
  least 4 GiB offers fewer bytes than asked for, and one of exactly 4 GiB none.
\<close>

theorem writes_truncated:
  assumes "st_channels s this = Some c" and "run_channel m a this (Write_data dat n e) s = (r, s')"
  shows "\<exists>k call v es. st_log s' = es @ Call call v # st_log s
    \<and> call = (if e then Message (Ssh_channel_write_stderr (co_channel c) dat k)
              else Channel (Ssh_channel_write (co_channel c) dat k))
    \<and> unat k = unat n mod 2 ^ 32"
proof -
  define k :: "32 word" where "k = ucast n"
  have "log_grows (channel_session_handle this)" by (rule growing)
  moreover have "int_method m a (channel_session_handle this)
      (if e then Message (Ssh_channel_write_stderr (co_channel c) dat k)
       else Channel (Ssh_channel_write (co_channel c) dat k)) s = (r, s')"
    using assms by (cases e) (simp_all add: write_data_def on_live(2) [OF assms(1)] k_def)
  moreover have "unat k = unat n mod 2 ^ 32"
    by (simp add: k_def unsigned_ucast_eq take_bit_eq_mod)
  ultimately show ?thesis using int_method_calls by metis
qed

theorem writes_truncated_witness:
  "\<exists>v es. st_log (snd (run_channel Error_codes sample_api 20 (Write_data (Some 1) 0x100000000 False) one_session))
      = es @ [Call (Channel (Ssh_channel_write (Some 8) (Some 1) 0)) v]"
proof -
  define n :: "64 word" where "n = 0x100000000"
  have n: "unat n mod 2 ^ 32 = 0" by (simp add: n_def)
  obtain r s' where r: "run_channel Error_codes sample_api 20 (Write_data (Some 1) n False) one_session = (r, s')"
    by fastforce
  show ?thesis
    using writes_truncated [OF one_session_live(2) r] r n unfolding n_def [symmetric] by (auto simp: unat_eq_0)
qed

subsection \<open>Results that are neither success nor error\<close>

text \<open>
  A \<open>void\<close> method keeps only one bit of what libssh said: any result other than
  \<open>SSH_ERROR\<close> ends the same way, with nothing or \<open>SSH_OK\<close>. A nonblocking
  \<open>ssh_connect\<close> that returns \<open>SSH_AGAIN\<close> thus looks connected.
\<close>

theorem again_looks_like_success:
  assumes "st_sessions s this = Some h" and "a_ret a (st_log s) (Session (Ssh_connect h)) = VInt n"
    and "n \<noteq> SSH_ERROR"
  shows "fst (run_session m a this Connect s) = Value (case m of Exceptions \<Rightarrow> Nothing | Error_codes \<Rightarrow> Int_ret SSH_OK)"
  using assms
  by (simp add: connect_def on_live(1) void_method_def bind_call_typed(2) ssh_throw_def
      return_throwable_def cpp_return_def)

theorem again_looks_like_success_witness:
  "fst (run_session Error_codes (answering SSH_AGAIN) 10 Connect one_session) = Value (Int_ret SSH_OK)"
  using again_looks_like_success [OF one_session_live(1) answering_int, of SSH_AGAIN Error_codes]
  by (simp add: code_defs)

text \<open>
  The banner: a text is returned and freed, once; \<open>NULL\<close>, which
  \<open>ssh_get_issue_banner\<close> is declared to be able to return, is undefined.
\<close>

theorem issue_banner:
  assumes "st_sessions s this = Some h"
    and "a_ret a (st_log s) (Session (Ssh_get_issue_banner h)) = VText b"
  shows "run_session m a this GetIssueBanner s =
    (case b of
       None \<Rightarrow> (Undefined Null_string, s\<lparr>st_log := Call (Session (Ssh_get_issue_banner h)) (VText b) # st_log s\<rparr>)
     | Some t \<Rightarrow> (Value (String_ret t),
         s\<lparr>st_log := Free b # Call (Session (Ssh_get_issue_banner h)) (VText b) # st_log s\<rparr>))"
  unfolding run_session.simps getIssueBanner_def on_live(1) [OF assms(1)] bind_call_typed(4) [OF assms(2)]
  by (simp add: std_string_def c_free_def cpp_bind_def cpp_return_def cpp_undefined_def split: option.split)

theorem issue_banner_witness:
  "\<exists>s. run_session Exceptions sample_api 10 GetIssueBanner one_session = (Value (String_ret ''text''), s)
     \<and> length (filter (\<lambda>x. case x of Free _ \<Rightarrow> True | _ \<Rightarrow> False) (st_log s)) = 1"
proof -
  have "a_ret sample_api (st_log one_session) (Session (Ssh_get_issue_banner (Some 7))) = VText (Some ''text'')"
    by (simp add: sample_api_def)
  from issue_banner [OF one_session_live(1) this] show ?thesis by (simp add: one_session_def)
qed

text \<open>
  Log messages: \<open>Session::log\<close> hands libssh at most the first 1023 characters of
  the formatted text, as an argument and never as a format.
\<close>

lemma cstr_take: "cstr (take n (cstr t)) = take n (cstr t)"
proof -
  have "NUL \<notin> set (cstr t)" by (auto simp: cstr_def dest: set_takeWhileD)
  then have "NUL \<notin> set (take n (cstr t))" using in_set_takeD by metis
  then show ?thesis by (auto simp: cstr_def [of "take n (cstr t)"] takeWhile_eq_all_conv)
qed

theorem log_truncates:
  assumes "typed a"
  shows "\<exists>s' msg. run_session m a this (Log priority fmt args) s = (Value Nothing, s')
    \<and> st_log s' = Call (Session (Priv_ssh_log priority (Some ''libsshpp'') (Some ''%s'')
        [Text_arg (Some msg)])) VVoid # st_log s
    \<and> msg = take 1023 (cstr (a_format a fmt args)) \<and> length msg < LOG_BUFFER_SIZE"
proof -
  define msg where "msg = take 1023 (cstr (a_format a fmt args))"
  let ?c = "Session (Priv_ssh_log priority (Some ''libsshpp'') (Some ''%s'') [Text_arg (Some msg)])"
  have v: "a_ret a (st_log s) ?c = VVoid" using typed_ret(1) [OF assms, of ?c] by simp
  have "cstr msg = msg" by (simp add: msg_def cstr_take)
  then have "run_session m a this (Log priority fmt args) s =
      (Value Nothing, s\<lparr>st_log := Call ?c VVoid # st_log s\<rparr>)"
    using bind_call_typed(1) [OF v, of "\<lambda>_. cpp_return Nothing"]
    by (simp add: log_def LOG_BUFFER_SIZE_def msg_def [symmetric] Let_def cpp_return_def)
  moreover have "length msg < LOG_BUFFER_SIZE" by (simp add: msg_def LOG_BUFFER_SIZE_def)
  ultimately show ?thesis
    using msg_def by (intro exI [of _ "s\<lparr>st_log := Call ?c VVoid # st_log s\<rparr>"] exI [of _ msg]) simp
qed

theorem log_truncates_witness:
  "\<exists>s'. run_session Exceptions sample_api 10 (Log 1 ''%s'' [Text_arg (Some ''hi'')]) one_session = (Value Nothing, s')
     \<and> st_log s' = [Call (Session (Priv_ssh_log 1 (Some ''libsshpp'') (Some ''%s'') [Text_arg (Some ''hi'')])) VVoid]"
proof -
  have "cstr (a_format sample_api ''%s'' [Text_arg (Some ''hi'')]) = ''hi''"
    by (simp add: sample_api_def cstr_def)
  then have m: "take 1023 (cstr (a_format sample_api ''%s'' [Text_arg (Some ''hi'')])) = ''hi''"
    by simp
  show ?thesis
    using log_truncates [OF sample_api_typed(1), of Exceptions 10 1 "''%s''" "[Text_arg (Some ''hi'')]" one_session]
    unfolding m one_session_log by blast
qed

end
