(* ===== verification/Cpp_Ownership.thy ===== *)
theory Cpp_Ownership
  imports Cpp_Properties
begin

text \<open>
  Who frees what: programs that make, use and delete objects of the wrapper, and
  the ownership of libssh's handles by the objects. The locale is stated once,
  for any kind of handle, and interpreted for sessions and for channels.
\<close>

subsection \<open>Programs\<close>

datatype (plugins only: size) statement =
    New_session nat
  | Delete_session nat
  | New_channel nat nat
  | Delete_channel nat
  | On_session nat session_method
  | On_channel nat channel_method

fun is_undefined :: "'a cpp_result \<Rightarrow> bool" where
  "is_undefined (Undefined u) \<longleftrightarrow> True"
| "is_undefined _ \<longleftrightarrow> False"

fun exec :: "mode \<Rightarrow> api \<Rightarrow> statement \<Rightarrow> cpp_state \<Rightarrow> bool \<times> cpp_state" where
  "exec m a (New_session x) s = (case Session_new a x s of (r, s) \<Rightarrow> (is_undefined r, s))"
| "exec m a (Delete_session x) s = (case Session_delete a x s of (r, s) \<Rightarrow> (is_undefined r, s))"
| "exec m a (New_channel x y) s = (case Channel_new a x y s of (r, s) \<Rightarrow> (is_undefined r, s))"
| "exec m a (Delete_channel x) s = (case Channel_delete a x s of (r, s) \<Rightarrow> (is_undefined r, s))"
| "exec m a (On_session x sm) s = (case run_session m a x sm s of (r, s) \<Rightarrow> (is_undefined r, s))"
| "exec m a (On_channel x cm) s = (case run_channel m a x cm s of (r, s) \<Rightarrow> (is_undefined r, s))"

text \<open>
  A program goes on after an exception (it is caught) and stops at undefined
  behaviour.
\<close>

fun program :: "mode \<Rightarrow> api \<Rightarrow> statement list \<Rightarrow> cpp_state \<Rightarrow> cpp_state" where
  "program m a [] s = s"
| "program m a (st # sts) s =
     (case exec m a st s of (stop, s) \<Rightarrow> if stop then s else program m a sts s)"

definition no_objects :: cpp_state where
  "no_objects = \<lparr>st_sessions = \<lambda>_. None, st_channels = \<lambda>_. None, st_log = []\<rparr>"

subsection \<open>Ownership\<close>

text \<open>The handles that the actions of a log gave out, and those they took back, newest first.\<close>

fun all_given :: "(action \<Rightarrow> handle) \<Rightarrow> action list \<Rightarrow> nat list" where
  "all_given given [] = []"
| "all_given given (x # l) = (case given x of None \<Rightarrow> all_given given l | Some h \<Rightarrow> h # all_given given l)"

text \<open>
  \<open>L\<close> below is a set of lost handles: given out, never freed, in no object.
  \<open>held\<close> is the handle in the object at an address, if there is one; \<open>given\<close> and
  \<open>freed\<close> read from an action which handle libssh gave out or took back.
\<close>

locale owned_handles =
  fixes held :: "cpp_state \<Rightarrow> nat \<Rightarrow> handle option"
    and given :: "action \<Rightarrow> handle" and freed :: "action \<Rightarrow> handle"
  assumes held_log: "held (s\<lparr>st_log := l\<rparr>) = held s"
    and quiet_free: "given (Free t) = None" "freed (Free t) = None"
    and quiet_errors: "given (Call (Session (Ssh_get_error_code h)) v) = None"
      "freed (Call (Session (Ssh_get_error_code h)) v) = None"
      "given (Call (Session (Ssh_get_error h)) v) = None"
      "freed (Call (Session (Ssh_get_error h)) v) = None"
begin

definition owned :: "nat set \<Rightarrow> cpp_state \<Rightarrow> bool" where
  "owned L s \<longleftrightarrow> distinct (all_given freed (st_log s)) \<and> set (all_given freed (st_log s)) \<subseteq> set (all_given given (st_log s))
    \<and> (\<forall>x h. held s x = Some (Some h) \<longrightarrow> h \<in> set (all_given given (st_log s)) \<and> h \<notin> set (all_given freed (st_log s)))
    \<and> (\<forall>x y h. held s x = Some (Some h) \<longrightarrow> held s y = Some (Some h) \<longrightarrow> x = y)
    \<and> (\<forall>h \<in> L. h \<in> set (all_given given (st_log s)) \<and> h \<notin> set (all_given freed (st_log s)) \<and> (\<forall>x. held s x \<noteq> Some (Some h)))"

lemma ownedD:
  assumes "owned L s"
  shows "distinct (all_given freed (st_log s))" "set (all_given freed (st_log s)) \<subseteq> set (all_given given (st_log s))"
    and "held s x = Some (Some h) \<Longrightarrow> h \<in> set (all_given given (st_log s)) \<and> h \<notin> set (all_given freed (st_log s))"
    and "held s x = Some (Some h) \<Longrightarrow> held s y = Some (Some h) \<Longrightarrow> x = y"
    and "h \<in> L \<Longrightarrow> h \<in> set (all_given given (st_log s)) \<and> h \<notin> set (all_given freed (st_log s)) \<and> held s x \<noteq> Some (Some h)"
  using assms unfolding owned_def by metis+

text \<open>Any other action leaves the balance as it is.\<close>

lemma owned_other:
  "given x = None \<Longrightarrow> freed x = None \<Longrightarrow> owned L (s\<lparr>st_log := x # st_log s\<rparr>) = owned L s"
  by (simp add: owned_def held_log)

text \<open>A new handle, or \<open>NULL\<close>, that an object takes or that nobody keeps.\<close>

lemma owned_take:
  assumes "owned L s" and "st_log t = e # st_log s" and "given e = h" and "freed e = None"
    and "\<And>n. h = Some n \<Longrightarrow> n \<notin> set (all_given given (st_log s))"
    and "held t = (held s)(x \<mapsto> h) \<or> held t = held s"
  shows "owned L t"
proof -
  note o = ownedD [OF assms(1)]
  have f: "all_given freed (st_log t) = all_given freed (st_log s)" using assms(2,4) by simp
  have g: "set (all_given given (st_log s)) \<subseteq> set (all_given given (st_log t))" using assms(2) by (auto split: option.splits)
  have new: "n \<in> set (all_given given (st_log t)) \<and> n \<notin> set (all_given given (st_log s))" if "h = Some n" for n
    using that assms(2,3,5) by simp
  have old: "held t y = Some (Some n) \<Longrightarrow> held s y = Some (Some n) \<or> y = x \<and> h = Some n" for y n
    using assms(6) by (auto split: if_splits)
  show ?thesis
    unfolding owned_def f
  proof (intro conjI allI impI ballI)
    show "set (all_given freed (st_log s)) \<subseteq> set (all_given given (st_log t))" using o(2) g by blast
    show "n \<in> set (all_given given (st_log t))" if "held t y = Some (Some n)" for y n
      using old [OF that] o(3) g new by blast
    show "n \<notin> set (all_given freed (st_log s))" if "held t y = Some (Some n)" for y n
      using old [OF that] o(2,3) new by blast
    show "y = z" if "held t y = Some (Some n)" "held t z = Some (Some n)" for y z n
      using old [OF that(1)] old [OF that(2)] o(3,4) new by metis
  next
    show "k \<in> set (all_given given (st_log t))" if "k \<in> L" for k using o(5) [OF that] g by blast
    show "k \<notin> set (all_given freed (st_log s))" if "k \<in> L" for k using o(5) [OF that] by blast
    show "held t y \<noteq> Some (Some k)" if "k \<in> L" for k y
      using o(5) [OF that, of y] old [of y k] new [of k] by blast
  qed (rule o(1))
qed

text \<open>Freeing the handle of an object that then is gone.\<close>

lemma owned_release:
  assumes "owned L s" and "held s x = Some h" and "st_log t = e # st_log s"
    and "given e = None" and "freed e = h" and "held t = (held s)(x := None)"
  shows "owned L t"
proof -
  note o = ownedD [OF assms(1)]
  have g: "set (all_given given (st_log t)) = set (all_given given (st_log s))" using assms(3,4) by simp
  have f: "set (all_given freed (st_log t)) \<subseteq> insert n (set (all_given freed (st_log s)))" if "h = Some n" for n
    using that assms(3,5) by simp
  have old: "held t y = Some (Some n) \<Longrightarrow> held s y = Some (Some n) \<and> y \<noteq> x" for y n
    using assms(6) by (auto split: if_splits)
  show ?thesis
    unfolding owned_def g
  proof (intro conjI allI impI ballI)
    show "distinct (all_given freed (st_log t))"
      using assms(2,3,5) o(1,3) by (cases h) auto
    show "set (all_given freed (st_log t)) \<subseteq> set (all_given given (st_log s))"
      using assms(2,3,5) o(2,3) by (cases h) auto
    show "n \<in> set (all_given given (st_log s))" if "held t y = Some (Some n)" for y n
      using old [OF that] o(3) by blast
    show "n \<notin> set (all_given freed (st_log t))" if "held t y = Some (Some n)" for y n
    proof (cases h)
      case (Some k)
      then have "k \<noteq> n" using old [OF that] o(4) assms(2) by metis
      then show ?thesis using old [OF that] o(3) f [OF Some] by blast
    qed (use old [OF that] o(3) assms(3,5) in auto)
    show "y = z" if "held t y = Some (Some n)" "held t z = Some (Some n)" for y z n
      using old [OF that(1)] old [OF that(2)] o(4) by blast
  next
    show "k \<in> set (all_given given (st_log s))" if "k \<in> L" for k using o(5) [OF that] by blast
    show "held t y \<noteq> Some (Some k)" if "k \<in> L" for k y using o(5) [OF that] old by blast
    show "k \<notin> set (all_given freed (st_log t))" if "k \<in> L" for k
      using o(5) [OF that, of x] assms(2,3,5) by (cases h) auto
  qed
qed

lemma owned_cong: "held t = held s \<Longrightarrow> st_log t = st_log s \<Longrightarrow> owned L t = owned L s"
  by (simp add: owned_def)

text \<open>A computation that keeps the balance.\<close>

definition neutral :: "nat set \<Rightarrow> 'a cpp \<Rightarrow> bool" where
  "neutral L p \<longleftrightarrow> (\<forall>s. owned L s \<longrightarrow> owned L (snd (p s)))"

lemma neutralD: "neutral L p \<Longrightarrow> owned L s \<Longrightarrow> p s = (r, s') \<Longrightarrow> owned L s'"
  unfolding neutral_def by (metis snd_conv)

lemma neutral_same: "(\<And>s. snd (p s) = s) \<Longrightarrow> neutral L p"
  by (simp add: neutral_def)

lemma neutral_keeps:
  assumes "\<And>s. held (snd (p s)) = held s" and "\<And>s. st_log (snd (p s)) = st_log s"
  shows "neutral L p"
  unfolding neutral_def using owned_cong [OF assms] by blast

lemma neutral_basic:
  "neutral L (cpp_return x)" "neutral L (cpp_throw e)" "neutral L (cpp_undefined u)"
  "neutral L (session_handle this)" "neutral L (channel_handle c)" "neutral L (getSession c)"
  "neutral L (return_throwable m)" "neutral L (std_string t)"
  by (rule neutral_same; simp add: cpp_defs cpp_bodies split: option.splits mode.splits)+

lemma neutral_c_free: "neutral L (c_free t)"
  by (simp add: neutral_def c_free_def owned_other quiet_free)

lemma neutral_bind: "neutral L p \<Longrightarrow> (\<And>x. neutral L (f x)) \<Longrightarrow> neutral L (cpp_bind p f)"
  unfolding neutral_def cpp_bind_def by (auto split: prod.splits cpp_result.splits)

lemma neutral_call:
  assumes "\<And>v. given (Call c v) = None" "\<And>v. freed (Call c v) = None"
  shows "neutral L (call_int a c)" "neutral L (call_pointer a c)" "neutral L (call_text a c)" "neutral L (call_void a c)"
proof -
  have c: "neutral L (call a c)" using assms by (simp add: neutral_def call_def Let_def owned_other)
  show "neutral L (call_int a c)" "neutral L (call_pointer a c)" "neutral L (call_text a c)" "neutral L (call_void a c)"
    unfolding call_int_def call_pointer_def call_text_def call_void_def
    by (rule neutral_bind [OF c]; auto intro: neutral_basic split: c_value.splits)+
qed

lemma neutral_channel_session: "neutral L (channel_session_handle c)"
  unfolding channel_session_handle_def by (intro neutral_bind neutral_basic)

lemma neutral_exception: "neutral L (SshException a h)"
  unfolding SshException_def
  by (intro neutral_bind neutral_basic neutral_call quiet_errors)

lemma neutral_throw:
  assumes "neutral L gets" and "neutral L k"
  shows "neutral L (ssh_throw m a gets x k)" "neutral L (ssh_throw_null m a gets y k)"
  using assms unfolding ssh_throw_def ssh_throw_null_def
  by (auto intro!: neutral_bind neutral_basic neutral_exception split: mode.splits)

lemma neutral_methods:
  assumes "neutral L gets" and "\<And>v. given (Call c v) = None" "\<And>v. freed (Call c v) = None"
  shows "neutral L (void_method m a gets c)" "neutral L (int_method m a gets c)"
  using assms unfolding void_method_def int_method_def
  by (auto intro!: neutral_bind neutral_basic neutral_throw neutral_call)

lemmas neutral_rules = neutral_basic neutral_c_free neutral_bind neutral_call neutral_channel_session
  neutral_exception neutral_throw neutral_methods

end

subsection \<open>Sessions and channels\<close>

definition session_given :: "action \<Rightarrow> handle" where
  "session_given x = (case x of
     Call c v \<Rightarrow> (if c = Session Ssh_new then (case v of VPointer h \<Rightarrow> h | _ \<Rightarrow> None) else None)
   | Free t \<Rightarrow> None
   | Written h \<Rightarrow> h)"

definition session_freed :: "action \<Rightarrow> handle" where
  "session_freed x = (case x of Call (Session (Ssh_free h)) v \<Rightarrow> h | _ \<Rightarrow> None)"

definition gives_channel :: "libssh_call \<Rightarrow> bool" where
  "gives_channel c \<longleftrightarrow> (case c of
     Channel (Ssh_channel_new h) \<Rightarrow> True
   | Channel (Ssh_channel_accept_x11 h t) \<Rightarrow> True
   | Session (Ssh_channel_accept_forward h t p) \<Rightarrow> True
   | _ \<Rightarrow> False)"

definition channel_given :: "action \<Rightarrow> handle" where
  "channel_given x = (case x of
     Call c v \<Rightarrow> (if gives_channel c then (case v of VPointer h \<Rightarrow> h | _ \<Rightarrow> None) else None)
   | _ \<Rightarrow> None)"

definition channel_freed :: "action \<Rightarrow> handle" where
  "channel_freed x = (case x of Call (Channel (Ssh_channel_free h)) v \<Rightarrow> h | _ \<Rightarrow> None)"

definition channel_held :: "cpp_state \<Rightarrow> nat \<Rightarrow> handle option" where
  "channel_held s x = map_option co_channel (st_channels s x)"

lemmas role_defs = session_given_def session_freed_def channel_given_def channel_freed_def gives_channel_def

interpretation sessions: owned_handles st_sessions session_given session_freed
  by unfold_locales (simp_all add: role_defs)

interpretation channels: owned_handles channel_held channel_given channel_freed
  by unfold_locales (simp_all add: role_defs channel_held_def fun_eq_iff)

text \<open>
  The laws: a handle that libssh makes is not one it has made before in this run.
  \<open>ssh_options_copy\<close> may also leave the target alone.
\<close>

definition fresh_sessions :: "api \<Rightarrow> bool" where
  "fresh_sessions a \<longleftrightarrow>
     (\<forall>l h. a_ret a l (Session Ssh_new) = VPointer (Some h) \<longrightarrow> h \<notin> set (all_given session_given l))
   \<and> (\<forall>l h n. a_copied a l h = Some n \<longrightarrow> h \<noteq> Some n \<longrightarrow> n \<notin> set (all_given session_given l))"

definition fresh_channels :: "api \<Rightarrow> bool" where
  "fresh_channels a \<longleftrightarrow> (\<forall>l c h. gives_channel c \<longrightarrow> a_ret a l c = VPointer (Some h) \<longrightarrow>
     h \<notin> set (all_given channel_given l))"

subsection \<open>Sessions are freed once\<close>

lemma new_Channel_keeps_sessions: "sessions.neutral L (new_Channel a session h)"
  by (rule sessions.neutral_keeps) (auto simp: new_Channel_def split: option.splits)

text \<open>The state after the store by \<open>ssh_options_copy\<close>, before the result is tested.\<close>

definition options_stored :: "api \<Rightarrow> nat \<Rightarrow> ssh_session \<Rightarrow> ssh_session \<Rightarrow> cpp_state \<Rightarrow> cpp_state" where
  "options_stored a this src h s =
     (let c = Session (Ssh_options_copy src (Some this));
          l = Call c (a_ret a (st_log s) c) # st_log s;
          w = a_copied a l h
      in s\<lparr>st_sessions := (st_sessions s)(this \<mapsto> w), st_log := Written w # l\<rparr>)"

lemma optionsCopy_steps:
  assumes "typed a" and "st_sessions s source = Some src" "st_sessions s this = Some h"
  obtains r where "optionsCopy m a this source s =
    ssh_throw m a (session_handle this) r (return_throwable m) (options_stored a this src h s)"
proof -
  let ?c = "Session (Ssh_options_copy src (Some this))"
  obtain r where r: "a_ret a (st_log s) ?c = VInt r"
    using typed_ret(2) [OF assms(1), of ?c "st_log s"] by auto
  show thesis
    by (rule that [of r])
      (simp add: optionsCopy_def on_live(1) [OF assms(2)] on_live(1) [OF assms(3)] bind_call_typed(2) [OF r]
        options_stored_def Let_def r)
qed

lemma options_stored_owned:
  assumes "fresh_sessions a" and "sessions.owned L s" and "st_sessions s this = Some h"
  shows "sessions.owned L (options_stored a this src h s)"
proof -
  define c where "c = Session (Ssh_options_copy src (Some this))"
  define s1 where "s1 = s\<lparr>st_log := Call c (a_ret a (st_log s) c) # st_log s\<rparr>"
  define w where "w = a_copied a (st_log s1) h"
  define s2 where "s2 = s1\<lparr>st_sessions := (st_sessions s1)(this \<mapsto> w), st_log := Written w # st_log s1\<rparr>"
  have s2: "options_stored a this src h s = s2"
    by (simp add: options_stored_def Let_def s2_def s1_def w_def c_def)
  have o1: "sessions.owned L s1"
    using assms(2) by (simp add: s1_def c_def sessions.owned_other role_defs)
  show ?thesis
    unfolding s2
  proof (cases "w = h")
    case True
    have same: "(st_sessions s1)(this \<mapsto> h) = st_sessions s1" using assms(3) by (auto simp: s1_def)
    have "h = Some n \<Longrightarrow> n \<in> set (all_given session_given (st_log s1))" for n
      using sessions.ownedD(3) [OF o1, of this n] assms(3) by (simp add: s1_def)
    then show "sessions.owned L s2"
      using o1 same True unfolding sessions.owned_def
      by (cases h) (simp_all add: s2_def session_given_def session_freed_def insert_absorb)
  next
    case False
    show "sessions.owned L s2"
      by (rule sessions.owned_take [OF o1, where e = "Written w" and h = w and x = this])
        (use assms(1) False in \<open>auto simp: s2_def session_given_def session_freed_def fresh_sessions_def w_def\<close>)
  qed
qed

lemma optionsCopy_owned:
  assumes "typed a" and "fresh_sessions a" and "sessions.owned L s"
  shows "sessions.owned L (snd (optionsCopy m a this source s))"
proof (cases "st_sessions s source = None \<or> st_sessions s this = None")
  case True
  then show ?thesis using assms(3)
    by (auto simp: optionsCopy_def cpp_bind_def session_handle_def split: option.splits)
next
  case False
  then obtain src h where h: "st_sessions s source = Some src" "st_sessions s this = Some h" by auto
  obtain r where "optionsCopy m a this source s =
      ssh_throw m a (session_handle this) r (return_throwable m) (options_stored a this src h s)"
    using optionsCopy_steps [OF assms(1) h] .
  moreover have "sessions.neutral L (ssh_throw m a (session_handle this) r (return_throwable m))"
    by (intro sessions.neutral_rules)
  ultimately show ?thesis
    using options_stored_owned [OF assms(2,3) h(2)] by (simp add: sessions.neutral_def)
qed

lemma session_methods_owned:
  assumes "typed a" and "fresh_sessions a"
  shows "sessions.neutral L (run_session m a this sm)"
proof (cases sm)
  case (OptionsCopy source)
  then show ?thesis using optionsCopy_owned [OF assms] by (simp add: sessions.neutral_def)
qed (auto simp: cpp_methods Let_def role_defs intro!: sessions.neutral_rules new_Channel_keeps_sessions)

lemma channel_methods_keep_sessions: "sessions.neutral L (run_channel m a this cm)"
  by (cases cm) (auto simp: cpp_methods Let_def role_defs intro!: sessions.neutral_rules new_Channel_keeps_sessions)

subsection \<open>Channels are freed once\<close>

lemma accept_owned:
  assumes "typed a" "fresh_channels a" and "gives_channel c" "call_returns c = RPointer"
    and "channels.neutral L gets" and f: "\<And>w. channel_freed (Call c w) = None"
    and k: "\<And>x s. (\<exists>y. k x s = new_Channel a y x s) \<or> (\<exists>u. k x s = (Undefined u, s))"
  shows "channels.neutral L (cpp_bind (call_pointer a c) (\<lambda>x. ssh_throw_null m a gets x (k x)))"
  unfolding channels.neutral_def
proof (intro allI impI)
  fix s assume o: "channels.owned L s"
  obtain h where h: "a_ret a (st_log s) c = VPointer h" using typed_ret(3) [OF assms(1,4)] by force
  define s1 where "s1 = s\<lparr>st_log := Call c (VPointer h) # st_log s\<rparr>"
  have new: "n \<notin> set (all_given channel_given (st_log s))" if "h = Some n" for n
    using that h assms(2,3) by (auto simp: fresh_channels_def)
  have g: "channel_given (Call c (VPointer h)) = h" using assms(3) by (simp add: channel_given_def)
  note take = channels.owned_take [OF o, where e = "Call c (VPointer h)" and h = h, OF _ g f new]
  have o1: "channels.owned L s1"
    by (rule take) (simp_all add: s1_def channels.held_log)
  have "channels.owned L (snd (ssh_throw_null m a gets h (k h) s1))"
  proof (cases h)
    case None
    have "channels.neutral L (ssh_throw_null m a gets None (cpp_return Nothing))"
      by (intro channels.neutral_rules assms(5))
    then show ?thesis using o1 None by (simp add: channels.neutral_def ssh_throw_null_def)
  next
    case (Some n)
    consider "snd (k h s1) = s1"
      | p y where "snd (k h s1) = s1\<lparr>st_channels := (st_channels s1)(p \<mapsto> \<lparr>co_session = y, co_channel = h\<rparr>)\<rparr>"
      using k [of h s1] by (auto simp: new_Channel_def split: option.splits if_splits)
    then show ?thesis
    proof cases
      case 1
      then show ?thesis using o1 Some by (simp add: ssh_throw_null_def)
    next
      case (2 p y)
      have "channels.owned L (s1\<lparr>st_channels := (st_channels s1)(p \<mapsto> \<lparr>co_session = y, co_channel = h\<rparr>)\<rparr>)"
        by (rule take [where x = p]) (simp_all add: s1_def channel_held_def fun_eq_iff)
      then show ?thesis using Some 2 by (simp add: ssh_throw_null_def)
    qed
  qed
  then show "channels.owned L (snd (cpp_bind (call_pointer a c) (\<lambda>x. ssh_throw_null m a gets x (k x)) s))"
    by (simp add: bind_call_typed(3) [OF h] s1_def)
qed

lemma channel_methods_owned:
  assumes "typed a" "fresh_channels a"
  shows "channels.neutral L (run_channel m a this cm)"
proof (cases cm)
  case (AcceptX11 t)
  have k: "(\<exists>y. cpp_bind (getSession this) (\<lambda>session. new_Channel a session x) s = new_Channel a y x s)
      \<or> (\<exists>u. cpp_bind (getSession this) (\<lambda>session. new_Channel a session x) s = (Undefined u, s))" for x s
    by (auto simp: cpp_bind_def getSession_def split: option.splits)
  show ?thesis
    unfolding AcceptX11 run_channel.simps acceptX11_def
    by (intro channels.neutral_bind channels.neutral_basic accept_owned [OF assms] k)
      (auto simp: role_defs intro: channels.neutral_rules)
qed (auto simp: cpp_methods Let_def role_defs intro!: channels.neutral_rules)

lemma session_methods_keep_channels:
  assumes "typed a" "fresh_channels a"
  shows "channels.neutral L (run_session m a this sm)"
proof (cases sm)
  case (AcceptForward t)
  show ?thesis
    unfolding AcceptForward run_session.simps acceptForward_def
    by (intro channels.neutral_bind channels.neutral_basic accept_owned [OF assms])
      (auto simp: role_defs intro: channels.neutral_rules)
next
  case (OptionsCopy source)
  have shift: "channels.neutral L (\<lambda>s. p (s\<lparr>st_sessions := f s, st_log := Written (g s) # st_log s\<rparr>))"
    if "channels.neutral L p" for p :: "retval cpp" and f g
  proof -
    have "channels.owned L (s\<lparr>st_sessions := f s, st_log := Written (g s) # st_log s\<rparr>) = channels.owned L s" for s
      using channels.owned_other [of "Written (g s)" L "s\<lparr>st_sessions := f s\<rparr>"]
        channels.owned_cong [of "s\<lparr>st_sessions := f s\<rparr>" s L]
      by (simp add: role_defs channel_held_def fun_eq_iff)
    then show ?thesis using that by (simp add: channels.neutral_def)
  qed
  show ?thesis
    unfolding OptionsCopy run_session.simps optionsCopy_def Let_def
    by (intro channels.neutral_bind channels.neutral_basic shift channels.neutral_rules)
      (simp_all add: role_defs)
qed (auto simp: cpp_methods Let_def role_defs intro!: channels.neutral_rules)

subsection \<open>Making and deleting objects\<close>

lemma Session_new_owned:
  assumes "typed a" "fresh_sessions a" "sessions.owned L s"
  shows "sessions.owned L (snd (Session_new a this s))"
proof -
  obtain h where h: "a_ret a (st_log s) (Session Ssh_new) = VPointer h"
    using typed_ret(3) [OF assms(1), of "Session Ssh_new"] by force
  show ?thesis
    by (rule sessions.owned_take [OF assms(3), where e = "Call (Session Ssh_new) (VPointer h)" and h = h and x = this])
      (use assms(2) h in \<open>auto simp: Session_new_def bind_call_typed(3) [OF h] role_defs fresh_sessions_def\<close>)
qed

lemma Session_delete_owned:
  assumes "typed a" "sessions.owned L s"
  shows "sessions.owned L (snd (Session_delete a this s))"
proof (cases "st_sessions s this")
  case None
  then show ?thesis using assms(2) by (simp add: Session_delete_def cpp_bind_def session_handle_def)
next
  case (Some h)
  have v: "a_ret a l (Session (Ssh_free h)) = VVoid" for l using typed_ret(1) [OF assms(1)] by simp
  show ?thesis
    by (rule sessions.owned_release [OF assms(2) Some, where e = "Call (Session (Ssh_free h)) VVoid"])
      (simp_all add: Session_delete_def on_live(1) [OF Some] bind_call_typed(1) [OF v] role_defs)
qed

lemma Channel_new_owned:
  assumes "typed a" "fresh_channels a" "channels.owned L s"
  shows "channels.owned L (snd (Channel_new a this session s))"
proof (cases "st_sessions s session")
  case None
  then show ?thesis using assms(3) by (simp add: Channel_new_def cpp_bind_def session_handle_def)
next
  case (Some y)
  obtain h where h: "a_ret a (st_log s) (Channel (Ssh_channel_new y)) = VPointer h"
    using typed_ret(3) [OF assms(1), of "Channel (Ssh_channel_new y)"] by force
  have "gives_channel (Channel (Ssh_channel_new y))" by (simp add: gives_channel_def)
  then have "\<And>n. h = Some n \<Longrightarrow> n \<notin> set (all_given channel_given (st_log s))"
    using assms(2) h unfolding fresh_channels_def by metis
  then show ?thesis
    by (intro channels.owned_take [OF assms(3), where e = "Call (Channel (Ssh_channel_new y)) (VPointer h)"
          and h = h and x = this])
      (auto simp: Channel_new_def on_live(1) [OF Some] bind_call_typed(3) [OF h] role_defs channel_held_def fun_eq_iff)
qed

lemma Channel_delete_owned:
  assumes "typed a" "channels.owned L s"
  shows "channels.owned L (snd (Channel_delete a this s))"
proof (cases "st_channels s this")
  case None
  then show ?thesis using assms(2) by (simp add: Channel_delete_def cpp_bind_def channel_handle_def)
next
  case (Some c)
  let ?c = "Channel (Ssh_channel_free (co_channel c))"
  have v: "a_ret a l ?c = VVoid" for l using typed_ret(1) [OF assms(1)] by simp
  have held: "channel_held s this = Some (co_channel c)" using Some by (simp add: channel_held_def)
  show ?thesis
    by (rule channels.owned_release [OF assms(2) held, where e = "Call ?c VVoid"])
      (simp_all add: Channel_delete_def on_live(2) [OF Some] bind_call_typed(1) [OF v] role_defs channel_held_def fun_eq_iff)
qed

text \<open>The other kind of object is not concerned.\<close>

lemma Channel_new_keeps_sessions: "sessions.neutral L (Channel_new a this session)"
  unfolding Channel_new_def
  by (intro sessions.neutral_bind sessions.neutral_rules)
    (auto simp: role_defs intro: sessions.neutral_keeps)

lemma Channel_delete_keeps_sessions: "sessions.neutral L (Channel_delete a this)"
  unfolding Channel_delete_def
  by (intro sessions.neutral_bind sessions.neutral_rules)
    (auto simp: role_defs intro: sessions.neutral_keeps)

lemma Session_new_keeps_channels: "channels.neutral L (Session_new a this)"
  unfolding Session_new_def
  by (intro channels.neutral_bind channels.neutral_rules)
    (auto simp: role_defs channel_held_def fun_eq_iff intro: channels.neutral_keeps)

lemma Session_delete_keeps_channels: "channels.neutral L (Session_delete a this)"
  unfolding Session_delete_def
  by (intro channels.neutral_bind channels.neutral_rules)
    (auto simp: role_defs channel_held_def fun_eq_iff intro: channels.neutral_keeps)

subsection \<open>Whole programs\<close>

lemma exec_owned:
  assumes "typed a" "fresh_sessions a" "fresh_channels a" and "sessions.owned L s \<and> channels.owned M s"
  shows "sessions.owned L (snd (exec m a st s)) \<and> channels.owned M (snd (exec m a st s))"
  using assms(4) Session_new_owned [OF assms(1,2)] Session_delete_owned [OF assms(1)]
    Channel_new_owned [OF assms(1,3)] Channel_delete_owned [OF assms(1)]
    Session_new_keeps_channels Session_delete_keeps_channels
    Channel_new_keeps_sessions Channel_delete_keeps_sessions
    session_methods_owned [OF assms(1,2)] session_methods_keep_channels [OF assms(1,3)]
    channel_methods_keep_sessions channel_methods_owned [OF assms(1,3)]
  by (cases st) (simp_all add: split_beta sessions.neutral_def channels.neutral_def)

lemma program_owned:
  assumes "typed a" "fresh_sessions a" "fresh_channels a" and "sessions.owned L s \<and> channels.owned M s"
  shows "sessions.owned L (program m a sts s) \<and> channels.owned M (program m a sts s)"
  using assms(4)
proof (induction sts arbitrary: s)
  case (Cons st sts)
  show ?case
    using exec_owned [OF assms(1-3) Cons.prems, of m st] Cons.IH by (simp add: split_beta)
qed simp

lemma no_objects_owned: "sessions.owned {} no_objects \<and> channels.owned {} no_objects"
  by (simp add: sessions.owned_def channels.owned_def no_objects_def channel_held_def)

text \<open>A libssh for the witnesses: every call succeeds, and every handle is new.\<close>

definition next_handle :: "action list \<Rightarrow> nat" where
  "next_handle l = Suc (sum_list (all_given session_given l) + sum_list (all_given channel_given l))"

definition new_api :: api where
  "new_api = sample_api\<lparr>
     a_ret := \<lambda>l c. if call_returns c = RPointer then VPointer (Some (next_handle l)) else a_ret sample_api l c,
     a_copied := \<lambda>l h. Some (if h = Some (next_handle l) then Suc (next_handle l) else next_handle l)\<rparr>"

lemma next_handle_new:
  assumes "next_handle l \<le> n"
  shows "n \<notin> set (all_given session_given l)" "n \<notin> set (all_given channel_given l)"
proof -
  have "x \<in> set (all_given session_given l) \<Longrightarrow> x < n" "x \<in> set (all_given channel_given l) \<Longrightarrow> x < n" for x
    using member_le_sum_list [of x "all_given session_given l"] member_le_sum_list [of x "all_given channel_given l"]
      assms by (simp_all add: next_handle_def)
  then show "n \<notin> set (all_given session_given l)" "n \<notin> set (all_given channel_given l)" by blast+
qed

lemma new_api_laws: "typed new_api" "fresh_sessions new_api" "fresh_channels new_api"
  "a_copied new_api l h \<noteq> h"
proof -
  show "typed new_api" using sample_api_typed(1) by (simp add: typed_def new_api_def)
  show "fresh_sessions new_api"
    using next_handle_new(1) by (auto simp: fresh_sessions_def new_api_def split: if_splits)
  have "gives_channel c \<Longrightarrow> call_returns c = RPointer" for c
    by (auto simp: gives_channel_def split: libssh_call.splits channel_call.splits session_call.splits)
  then show "fresh_channels new_api"
    using next_handle_new(2) by (auto simp: fresh_channels_def new_api_def)
  show "a_copied new_api l h \<noteq> h" by (auto simp: new_api_def)
qed


text \<open>
  Copying options into a session object loses the session it had: libssh stores a
  new one in the object, and no object has the old one any more, so nothing that
  the program does afterwards frees it.
\<close>

theorem optionsCopy_leaks:
  assumes "typed a" "fresh_sessions a" "fresh_channels a" and "program m a before no_objects = s"
    and "st_sessions s this = Some (Some h)" "st_sessions s source = Some src"
    and "\<And>l. a_copied a l (Some h) \<noteq> Some h"
    and "s' = program m a (On_session this (OptionsCopy source) # after) s"
  shows "h \<in> set (all_given session_given (st_log s))
    \<and> h \<notin> set (all_given session_freed (st_log s')) \<and> (\<forall>x. st_sessions s' x \<noteq> Some (Some h))"
proof -
  note o = program_owned [OF assms(1-3) no_objects_owned, of m before, unfolded assms(4)]
  let ?t = "options_stored a this src (Some h) s"
  note h = sessions.ownedD(3,4) [OF conjunct1 [OF o] assms(5)]
  have lost: "h \<in> set (all_given session_given (st_log ?t)) \<and> h \<notin> set (all_given session_freed (st_log ?t))
      \<and> st_sessions ?t x \<noteq> Some (Some h)" for x
    using h assms(7) by (auto simp: options_stored_def Let_def role_defs split: option.splits)
  then have t: "sessions.owned {h} ?t"
    using options_stored_owned [OF assms(2) conjunct1 [OF o] assms(5), of src] by (simp add: sessions.owned_def)
  obtain r where r: "optionsCopy m a this source s =
      ssh_throw m a (session_handle this) r (return_throwable m) ?t"
    using optionsCopy_steps [OF assms(1,6,5)] .
  have "sessions.neutral {h} (ssh_throw m a (session_handle this) r (return_throwable m))"
    by (intro sessions.neutral_rules)
  then have "sessions.owned {h} (snd (exec m a (On_session this (OptionsCopy source)) s))"
    using t r by (simp add: split_beta sessions.neutral_def)
  then have "sessions.owned {h} s'"
    using program_owned [OF assms(1-3) conjI, of "{h}" _ "{}" m after]
      exec_owned [OF assms(1-3) o, of m "On_session this (OptionsCopy source)"]
    by (simp add: split_beta assms(8))
  then show ?thesis using sessions.ownedD(5) h(1) by blast
qed

definition copying :: "statement list" where
  "copying = [New_session 10, New_session 11, New_channel 20 10]"


theorem optionsCopy_leaks_witness:
  "1 \<in> set (all_given session_given (st_log (program Exceptions new_api copying no_objects)))
   \<and> 1 \<notin> set (all_given session_freed (st_log (program Exceptions new_api
     (On_session 10 (OptionsCopy 11) # [Delete_session 10, Delete_session 11])
     (program Exceptions new_api copying no_objects))))"
proof -
  have "st_sessions (program Exceptions new_api copying no_objects) 10 = Some (Some 1)"
    "st_sessions (program Exceptions new_api copying no_objects) 11 = Some (Some 2)"
    by (simp_all add: copying_def no_objects_def Session_new_def Channel_new_def session_handle_def cpp_defs
        new_api_def next_handle_def role_defs Let_def)
  from optionsCopy_leaks [OF new_api_laws(1-3) refl this new_api_laws(4) refl] show ?thesis by blast
qed

end
