(* ===== verification/Session_Enums.thy ===== *)
theory Session_Enums
  imports Enum_Tables
begin

text \<open>
  The states and flags that libssh keeps for a session, a channel, an
  authentication and a transfer: the enumerations of \<open>session.h\<close>,
  \<open>channels.h\<close>, \<open>auth.h\<close>, \<open>packet.h\<close>, \<open>wrapper.h\<close>, \<open>crypto.h\<close>, \<open>scp.h\<close> and
  \<open>pcap.h\<close> under \<open>include/libssh\<close>.
\<close>

subsection \<open>A session\<close>

datatype (plugins only: code size) ssh_session_state_e =
    SSH_SESSION_STATE_NONE | SSH_SESSION_STATE_CONNECTING | SSH_SESSION_STATE_SOCKET_CONNECTED
  | SSH_SESSION_STATE_BANNER_RECEIVED | SSH_SESSION_STATE_INITIAL_KEX
  | SSH_SESSION_STATE_KEXINIT_RECEIVED | SSH_SESSION_STATE_DH
  | SSH_SESSION_STATE_AUTHENTICATING | SSH_SESSION_STATE_AUTHENTICATED
  | SSH_SESSION_STATE_ERROR | SSH_SESSION_STATE_DISCONNECTED

definition ssh_session_state_enum :: "ssh_session_state_e enum_table" where
  [enum_tables]: "ssh_session_state_enum =
    [(SSH_SESSION_STATE_NONE, Some 0), (SSH_SESSION_STATE_CONNECTING, None),
     (SSH_SESSION_STATE_SOCKET_CONNECTED, None), (SSH_SESSION_STATE_BANNER_RECEIVED, None),
     (SSH_SESSION_STATE_INITIAL_KEX, None), (SSH_SESSION_STATE_KEXINIT_RECEIVED, None),
     (SSH_SESSION_STATE_DH, None), (SSH_SESSION_STATE_AUTHENTICATING, None),
     (SSH_SESSION_STATE_AUTHENTICATED, None), (SSH_SESSION_STATE_ERROR, None),
     (SSH_SESSION_STATE_DISCONNECTED, None)]"

interpretation session_states: c_enum ssh_session_state_enum
  by (rule c_enumI, rename_tac a, case_tac a) (simp_all add: enum_tables)

datatype (plugins only: code size) ssh_dh_state_e =
    DH_STATE_INIT | DH_STATE_INIT_SENT | DH_STATE_NEWKEYS_SENT | DH_STATE_FINISHED

definition ssh_dh_state_enum :: "ssh_dh_state_e enum_table" where
  [enum_tables]: "ssh_dh_state_enum =
    [(DH_STATE_INIT, Some 0), (DH_STATE_INIT_SENT, None), (DH_STATE_NEWKEYS_SENT, None),
     (DH_STATE_FINISHED, None)]"

interpretation dh_states: c_enum ssh_dh_state_enum
  by (rule c_enumI, rename_tac a, case_tac a) (simp_all add: enum_tables)

datatype (plugins only: code size) ssh_pending_call_e =
    SSH_PENDING_CALL_NONE | SSH_PENDING_CALL_CONNECT | SSH_PENDING_CALL_AUTH_NONE
  | SSH_PENDING_CALL_AUTH_PASSWORD | SSH_PENDING_CALL_AUTH_OFFER_PUBKEY
  | SSH_PENDING_CALL_AUTH_PUBKEY | SSH_PENDING_CALL_AUTH_AGENT
  | SSH_PENDING_CALL_AUTH_KBDINT_INIT | SSH_PENDING_CALL_AUTH_KBDINT_SEND
  | SSH_PENDING_CALL_AUTH_GSSAPI_MIC

definition ssh_pending_call_enum :: "ssh_pending_call_e enum_table" where
  [enum_tables]: "ssh_pending_call_enum =
    [(SSH_PENDING_CALL_NONE, Some 0), (SSH_PENDING_CALL_CONNECT, None),
     (SSH_PENDING_CALL_AUTH_NONE, None), (SSH_PENDING_CALL_AUTH_PASSWORD, None),
     (SSH_PENDING_CALL_AUTH_OFFER_PUBKEY, None), (SSH_PENDING_CALL_AUTH_PUBKEY, None),
     (SSH_PENDING_CALL_AUTH_AGENT, None), (SSH_PENDING_CALL_AUTH_KBDINT_INIT, None),
     (SSH_PENDING_CALL_AUTH_KBDINT_SEND, None), (SSH_PENDING_CALL_AUTH_GSSAPI_MIC, None)]"

interpretation pending_calls: c_enum ssh_pending_call_enum
  by (rule c_enumI, rename_tac a, case_tac a) (simp_all add: enum_tables)

datatype (plugins only: code size) session_flag =
    SSH_SESSION_FLAG_BLOCKING | SSH_SESSION_FLAG_AUTHENTICATED

definition session_flag_table :: "session_flag enum_table" where
  [enum_tables]: "session_flag_table =
    [(SSH_SESSION_FLAG_BLOCKING, Some 1), (SSH_SESSION_FLAG_AUTHENTICATED, Some 2)]"

interpretation session_flags: bit_flags session_flag_table
  by (rule bit_flagsI, rename_tac a, case_tac a) (simp_all add: enum_tables)

datatype (plugins only: code size) session_timeout =
    SSH_TIMEOUT_INFINITE | SSH_TIMEOUT_USER | SSH_TIMEOUT_DEFAULT | SSH_TIMEOUT_NONBLOCKING

definition session_timeout_table :: "session_timeout enum_table" where
  [enum_tables]: "session_timeout_table =
    [(SSH_TIMEOUT_INFINITE, Some (-1)), (SSH_TIMEOUT_USER, Some (-2)),
     (SSH_TIMEOUT_DEFAULT, Some (-3)), (SSH_TIMEOUT_NONBLOCKING, Some 0)]"

interpretation session_timeouts: c_enum session_timeout_table
  by (rule c_enumI, rename_tac a, case_tac a) (simp_all add: enum_tables)

subsection \<open>A channel\<close>

datatype (plugins only: code size) ssh_channel_request_state_e =
    SSH_CHANNEL_REQ_STATE_NONE | SSH_CHANNEL_REQ_STATE_PENDING
  | SSH_CHANNEL_REQ_STATE_ACCEPTED | SSH_CHANNEL_REQ_STATE_DENIED
  | SSH_CHANNEL_REQ_STATE_ERROR

definition ssh_channel_request_state_enum :: "ssh_channel_request_state_e enum_table" where
  [enum_tables]: "ssh_channel_request_state_enum =
    [(SSH_CHANNEL_REQ_STATE_NONE, Some 0), (SSH_CHANNEL_REQ_STATE_PENDING, None),
     (SSH_CHANNEL_REQ_STATE_ACCEPTED, None), (SSH_CHANNEL_REQ_STATE_DENIED, None),
     (SSH_CHANNEL_REQ_STATE_ERROR, None)]"

interpretation channel_request_states: c_enum ssh_channel_request_state_enum
  by (rule c_enumI, rename_tac a, case_tac a) (simp_all add: enum_tables)

datatype (plugins only: code size) ssh_channel_state_e =
    SSH_CHANNEL_STATE_NOT_OPEN | SSH_CHANNEL_STATE_OPENING | SSH_CHANNEL_STATE_OPEN_DENIED
  | SSH_CHANNEL_STATE_OPEN | SSH_CHANNEL_STATE_CLOSED

definition ssh_channel_state_enum :: "ssh_channel_state_e enum_table" where
  [enum_tables]: "ssh_channel_state_enum =
    [(SSH_CHANNEL_STATE_NOT_OPEN, Some 0), (SSH_CHANNEL_STATE_OPENING, None),
     (SSH_CHANNEL_STATE_OPEN_DENIED, None), (SSH_CHANNEL_STATE_OPEN, None),
     (SSH_CHANNEL_STATE_CLOSED, None)]"

interpretation channel_states: c_enum ssh_channel_state_enum
  by (rule c_enumI, rename_tac a, case_tac a) (simp_all add: enum_tables)

datatype (plugins only: code size) channel_flag =
    SSH_CHANNEL_FLAG_CLOSED_REMOTE | SSH_CHANNEL_FLAG_FREED_LOCAL | SSH_CHANNEL_FLAG_NOT_BOUND

definition channel_flag_table :: "channel_flag enum_table" where
  [enum_tables]: "channel_flag_table =
    [(SSH_CHANNEL_FLAG_CLOSED_REMOTE, Some 0x1), (SSH_CHANNEL_FLAG_FREED_LOCAL, Some 0x2),
     (SSH_CHANNEL_FLAG_NOT_BOUND, Some 0x4)]"

interpretation channel_flags: bit_flags channel_flag_table
  by (rule bit_flagsI, rename_tac a, case_tac a) (simp_all add: enum_tables)

subsection \<open>Authentication on the client side\<close>

datatype (plugins only: code size) ssh_auth_state_e =
    SSH_AUTH_STATE_NONE | SSH_AUTH_STATE_PARTIAL | SSH_AUTH_STATE_SUCCESS
  | SSH_AUTH_STATE_FAILED | SSH_AUTH_STATE_ERROR | SSH_AUTH_STATE_INFO | SSH_AUTH_STATE_PK_OK
  | SSH_AUTH_STATE_KBDINT_SENT | SSH_AUTH_STATE_GSSAPI_REQUEST_SENT
  | SSH_AUTH_STATE_GSSAPI_TOKEN | SSH_AUTH_STATE_GSSAPI_MIC_SENT

definition ssh_auth_state_enum :: "ssh_auth_state_e enum_table" where
  [enum_tables]: "ssh_auth_state_enum =
    [(SSH_AUTH_STATE_NONE, Some 0), (SSH_AUTH_STATE_PARTIAL, None),
     (SSH_AUTH_STATE_SUCCESS, None), (SSH_AUTH_STATE_FAILED, None),
     (SSH_AUTH_STATE_ERROR, None), (SSH_AUTH_STATE_INFO, None), (SSH_AUTH_STATE_PK_OK, None),
     (SSH_AUTH_STATE_KBDINT_SENT, None), (SSH_AUTH_STATE_GSSAPI_REQUEST_SENT, None),
     (SSH_AUTH_STATE_GSSAPI_TOKEN, None), (SSH_AUTH_STATE_GSSAPI_MIC_SENT, None)]"

interpretation auth_states: c_enum ssh_auth_state_enum
  by (rule c_enumI, rename_tac a, case_tac a) (simp_all add: enum_tables)

datatype (plugins only: code size) ssh_auth_service_state_e =
    SSH_AUTH_SERVICE_NONE | SSH_AUTH_SERVICE_SENT | SSH_AUTH_SERVICE_ACCEPTED
  | SSH_AUTH_SERVICE_DENIED | SSH_AUTH_SERVICE_USER_SENT

definition ssh_auth_service_state_enum :: "ssh_auth_service_state_e enum_table" where
  [enum_tables]: "ssh_auth_service_state_enum =
    [(SSH_AUTH_SERVICE_NONE, Some 0), (SSH_AUTH_SERVICE_SENT, None),
     (SSH_AUTH_SERVICE_ACCEPTED, None), (SSH_AUTH_SERVICE_DENIED, None),
     (SSH_AUTH_SERVICE_USER_SENT, None)]"

interpretation auth_service_states: c_enum ssh_auth_service_state_enum
  by (rule c_enumI, rename_tac a, case_tac a) (simp_all add: enum_tables)

subsection \<open>Packets and algorithms\<close>

datatype (plugins only: code size) ssh_packet_state_e =
    PACKET_STATE_INIT | PACKET_STATE_SIZEREAD | PACKET_STATE_PROCESSING

definition ssh_packet_state_enum :: "ssh_packet_state_e enum_table" where
  [enum_tables]: "ssh_packet_state_enum =
    [(PACKET_STATE_INIT, None), (PACKET_STATE_SIZEREAD, None), (PACKET_STATE_PROCESSING, None)]"

interpretation packet_states: c_enum ssh_packet_state_enum
  by (rule c_enumI, rename_tac a, case_tac a) (simp_all add: enum_tables)

datatype (plugins only: code size) ssh_mac_e =
    SSH_MAC_SHA1 | SSH_MAC_SHA256 | SSH_MAC_SHA384 | SSH_MAC_SHA512

definition ssh_mac_enum :: "ssh_mac_e enum_table" where
  [enum_tables]: "ssh_mac_enum =
    [(SSH_MAC_SHA1, Some 1), (SSH_MAC_SHA256, None), (SSH_MAC_SHA384, None),
     (SSH_MAC_SHA512, None)]"

interpretation macs: c_enum ssh_mac_enum
  by (rule c_enumI, rename_tac a, case_tac a) (simp_all add: enum_tables)

datatype (plugins only: code size) ssh_hmac_e =
    SSH_HMAC_SHA1 | SSH_HMAC_SHA256 | SSH_HMAC_SHA384 | SSH_HMAC_SHA512 | SSH_HMAC_MD5

definition ssh_hmac_enum :: "ssh_hmac_e enum_table" where
  [enum_tables]: "ssh_hmac_enum =
    [(SSH_HMAC_SHA1, Some 1), (SSH_HMAC_SHA256, None), (SSH_HMAC_SHA384, None),
     (SSH_HMAC_SHA512, None), (SSH_HMAC_MD5, None)]"

interpretation hmacs: c_enum ssh_hmac_enum
  by (rule c_enumI, rename_tac a, case_tac a) (simp_all add: enum_tables)

datatype (plugins only: code size) ssh_des_e =
    SSH_3DES | SSH_DES

definition ssh_des_enum :: "ssh_des_e enum_table" where
  [enum_tables]: "ssh_des_enum =
    [(SSH_3DES, None), (SSH_DES, None)]"

interpretation des_types: c_enum ssh_des_enum
  by (rule c_enumI, rename_tac a, case_tac a) (simp_all add: enum_tables)

datatype (plugins only: code size) ssh_key_exchange_e =
    SSH_KEX_DH_GROUP1_SHA1 | SSH_KEX_DH_GROUP14_SHA1 | SSH_KEX_ECDH_SHA2_NISTP256
  | SSH_KEX_CURVE25519_SHA256_LIBSSH_ORG

definition ssh_key_exchange_enum :: "ssh_key_exchange_e enum_table" where
  [enum_tables]: "ssh_key_exchange_enum =
    [(SSH_KEX_DH_GROUP1_SHA1, Some 1), (SSH_KEX_DH_GROUP14_SHA1, None),
     (SSH_KEX_ECDH_SHA2_NISTP256, None), (SSH_KEX_CURVE25519_SHA256_LIBSSH_ORG, None)]"

interpretation key_exchanges: c_enum ssh_key_exchange_enum
  by (rule c_enumI, rename_tac a, case_tac a) (simp_all add: enum_tables)

subsection \<open>Files\<close>

datatype (plugins only: code size) ssh_scp_states =
    SSH_SCP_NEW | SSH_SCP_WRITE_INITED | SSH_SCP_WRITE_WRITING | SSH_SCP_READ_INITED
  | SSH_SCP_READ_REQUESTED | SSH_SCP_READ_READING | SSH_SCP_ERROR | SSH_SCP_TERMINATED

definition ssh_scp_states_enum :: "ssh_scp_states enum_table" where
  [enum_tables]: "ssh_scp_states_enum =
    [(SSH_SCP_NEW, None), (SSH_SCP_WRITE_INITED, None), (SSH_SCP_WRITE_WRITING, None),
     (SSH_SCP_READ_INITED, None), (SSH_SCP_READ_REQUESTED, None), (SSH_SCP_READ_READING, None),
     (SSH_SCP_ERROR, None), (SSH_SCP_TERMINATED, None)]"

interpretation scp_states: c_enum ssh_scp_states_enum
  by (rule c_enumI, rename_tac a, case_tac a) (simp_all add: enum_tables)

datatype (plugins only: code size) ssh_pcap_direction =
    SSH_PCAP_DIR_IN | SSH_PCAP_DIR_OUT

definition ssh_pcap_direction_enum :: "ssh_pcap_direction enum_table" where
  [enum_tables]: "ssh_pcap_direction_enum =
    [(SSH_PCAP_DIR_IN, None), (SSH_PCAP_DIR_OUT, None)]"

interpretation pcap_directions: c_enum ssh_pcap_direction_enum
  by (rule c_enumI, rename_tac a, case_tac a) (simp_all add: enum_tables)

end
