(* ===== verification/Wire_Codes.thy ===== *)
theory Wire_Codes
  imports Enum_Tables
begin

text \<open>
  The message numbers and flags of the protocols: SSH 1 and 2 (\<open>ssh1.h\<close>,
  \<open>ssh2.h\<close>), SFTP (\<open>sftp.h\<close>) and the authentication agent (\<open>agent.h\<close>), all under
  \<open>include/libssh\<close>. A table that is interpreted as \<open>c_enum\<close> reads its numbers
  back; one that is only \<open>c_codes\<close> gives some number twice.
\<close>

subsection \<open>SSH 1 messages\<close>

datatype (plugins only: code size) ssh1_msg =
    SSH_MSG_NONE | SSH_MSG_DISCONNECT | SSH_SMSG_PUBLIC_KEY | SSH_CMSG_SESSION_KEY
  | SSH_CMSG_USER | SSH_CMSG_AUTH_RHOSTS | SSH_CMSG_AUTH_RSA | SSH_SMSG_AUTH_RSA_CHALLENGE
  | SSH_CMSG_AUTH_RSA_RESPONSE | SSH_CMSG_AUTH_PASSWORD | SSH_CMSG_REQUEST_PTY
  | SSH_CMSG_WINDOW_SIZE | SSH_CMSG_EXEC_SHELL | SSH_CMSG_EXEC_CMD | SSH_SMSG_SUCCESS
  | SSH_SMSG_FAILURE | SSH_CMSG_STDIN_DATA | SSH_SMSG_STDOUT_DATA | SSH_SMSG_STDERR_DATA
  | SSH_CMSG_EOF | SSH_SMSG_EXITSTATUS | SSH_MSG_CHANNEL_OPEN_CONFIRMATION
  | SSH_MSG_CHANNEL_OPEN_FAILURE | SSH_MSG_CHANNEL_DATA | SSH_MSG_CHANNEL_CLOSE
  | SSH_MSG_CHANNEL_CLOSE_CONFIRMATION | SSH_SMSG_X11_OPEN | SSH_CMSG_PORT_FORWARD_REQUEST
  | SSH_MSG_PORT_OPEN | SSH_CMSG_AGENT_REQUEST_FORWARDING | SSH_SMSG_AGENT_OPEN
  | SSH_MSG_IGNORE | SSH_CMSG_EXIT_CONFIRMATION | SSH_CMSG_X11_REQUEST_FORWARDING
  | SSH_CMSG_AUTH_RHOSTS_RSA | SSH_MSG_DEBUG | SSH_CMSG_REQUEST_COMPRESSION
  | SSH_CMSG_MAX_PACKET_SIZE | SSH_CMSG_AUTH_TIS | SSH_SMSG_AUTH_TIS_CHALLENGE
  | SSH_CMSG_AUTH_TIS_RESPONSE | SSH_CMSG_AUTH_KERBEROS | SSH_SMSG_AUTH_KERBEROS_RESPONSE
  | SSH_CMSG_HAVE_KERBEROS_TGT | SSH_CMSG_HAVE_AFS_TOKEN

definition ssh1_msg_table :: "ssh1_msg enum_table" where
  [enum_tables]: "ssh1_msg_table =
    [(SSH_MSG_NONE, Some 0), (SSH_MSG_DISCONNECT, Some 1), (SSH_SMSG_PUBLIC_KEY, Some 2),
     (SSH_CMSG_SESSION_KEY, Some 3), (SSH_CMSG_USER, Some 4), (SSH_CMSG_AUTH_RHOSTS, Some 5),
     (SSH_CMSG_AUTH_RSA, Some 6), (SSH_SMSG_AUTH_RSA_CHALLENGE, Some 7),
     (SSH_CMSG_AUTH_RSA_RESPONSE, Some 8), (SSH_CMSG_AUTH_PASSWORD, Some 9),
     (SSH_CMSG_REQUEST_PTY, Some 10), (SSH_CMSG_WINDOW_SIZE, Some 11),
     (SSH_CMSG_EXEC_SHELL, Some 12), (SSH_CMSG_EXEC_CMD, Some 13), (SSH_SMSG_SUCCESS, Some 14),
     (SSH_SMSG_FAILURE, Some 15), (SSH_CMSG_STDIN_DATA, Some 16),
     (SSH_SMSG_STDOUT_DATA, Some 17), (SSH_SMSG_STDERR_DATA, Some 18), (SSH_CMSG_EOF, Some 19),
     (SSH_SMSG_EXITSTATUS, Some 20), (SSH_MSG_CHANNEL_OPEN_CONFIRMATION, Some 21),
     (SSH_MSG_CHANNEL_OPEN_FAILURE, Some 22), (SSH_MSG_CHANNEL_DATA, Some 23),
     (SSH_MSG_CHANNEL_CLOSE, Some 24), (SSH_MSG_CHANNEL_CLOSE_CONFIRMATION, Some 25),
     (SSH_SMSG_X11_OPEN, Some 27), (SSH_CMSG_PORT_FORWARD_REQUEST, Some 28),
     (SSH_MSG_PORT_OPEN, Some 29), (SSH_CMSG_AGENT_REQUEST_FORWARDING, Some 30),
     (SSH_SMSG_AGENT_OPEN, Some 31), (SSH_MSG_IGNORE, Some 32),
     (SSH_CMSG_EXIT_CONFIRMATION, Some 33), (SSH_CMSG_X11_REQUEST_FORWARDING, Some 34),
     (SSH_CMSG_AUTH_RHOSTS_RSA, Some 35), (SSH_MSG_DEBUG, Some 36),
     (SSH_CMSG_REQUEST_COMPRESSION, Some 37), (SSH_CMSG_MAX_PACKET_SIZE, Some 38),
     (SSH_CMSG_AUTH_TIS, Some 39), (SSH_SMSG_AUTH_TIS_CHALLENGE, Some 40),
     (SSH_CMSG_AUTH_TIS_RESPONSE, Some 41), (SSH_CMSG_AUTH_KERBEROS, Some 42),
     (SSH_SMSG_AUTH_KERBEROS_RESPONSE, Some 43), (SSH_CMSG_HAVE_KERBEROS_TGT, Some 44),
     (SSH_CMSG_HAVE_AFS_TOKEN, Some 65)]"

interpretation ssh1_msgs: c_enum ssh1_msg_table
  by (rule c_enumI, rename_tac a, case_tac a) (simp_all add: enum_tables)

text \<open>Version 1.5 gives two of the numbers a second name.\<close>


definition ssh1_msg_overloads :: "(string \<times> ssh1_msg) list" where
  "ssh1_msg_overloads = [(''SSH_MSG_CHANNEL_INPUT_EOF'', SSH_MSG_CHANNEL_CLOSE),
     (''SSH_MSG_CHANNEL_OUTPUT_CLOSE'', SSH_MSG_CHANNEL_CLOSE_CONFIRMATION)]"

datatype (plugins only: code size) ssh1_auth =
    SSH_AUTH_RHOSTS | SSH_AUTH_RSA | SSH_AUTH_PASSWORD | SSH_AUTH_RHOSTS_RSA | SSH_AUTH_TIS
  | SSH_AUTH_KERBEROS | SSH_PASS_KERBEROS_TGT | SSH_PASS_AFS_TOKEN

definition ssh1_auth_table :: "ssh1_auth enum_table" where
  [enum_tables]: "ssh1_auth_table =
    [(SSH_AUTH_RHOSTS, Some 1), (SSH_AUTH_RSA, Some 2), (SSH_AUTH_PASSWORD, Some 3),
     (SSH_AUTH_RHOSTS_RSA, Some 4), (SSH_AUTH_TIS, Some 5), (SSH_AUTH_KERBEROS, Some 6),
     (SSH_PASS_KERBEROS_TGT, Some 7), (SSH_PASS_AFS_TOKEN, Some 21)]"

interpretation ssh1_auths: c_enum ssh1_auth_table
  by (rule c_enumI, rename_tac a, case_tac a) (simp_all add: enum_tables)

datatype (plugins only: code size) ssh1_protoflag =
    SSH_PROTOFLAG_SCREEN_NUMBER | SSH_PROTOFLAG_HOST_IN_FWD_OPEN

definition ssh1_protoflag_table :: "ssh1_protoflag enum_table" where
  [enum_tables]: "ssh1_protoflag_table =
    [(SSH_PROTOFLAG_SCREEN_NUMBER, Some 1), (SSH_PROTOFLAG_HOST_IN_FWD_OPEN, Some 2)]"

interpretation ssh1_protoflags: bit_flags ssh1_protoflag_table
  by (rule bit_flagsI, rename_tac a, case_tac a) (simp_all add: enum_tables)

datatype (plugins only: code size) ssh1_cipher =
    SSH_CIPHER_NONE | SSH_CIPHER_IDEA | SSH_CIPHER_DES | SSH_CIPHER_3DES | SSH_CIPHER_RC4
  | SSH_CIPHER_BLOWFISH

definition ssh1_cipher_table :: "ssh1_cipher enum_table" where
  [enum_tables]: "ssh1_cipher_table =
    [(SSH_CIPHER_NONE, Some 0), (SSH_CIPHER_IDEA, Some 1), (SSH_CIPHER_DES, Some 2),
     (SSH_CIPHER_3DES, Some 3), (SSH_CIPHER_RC4, Some 5), (SSH_CIPHER_BLOWFISH, Some 6)]"

interpretation ssh1_ciphers: c_enum ssh1_cipher_table
  by (rule c_enumI, rename_tac a, case_tac a) (simp_all add: enum_tables)

subsection \<open>SSH 2 messages\<close>

text \<open>Some numbers mean different messages in different key exchanges and in
  different authentication methods, so this table is not a code of numbers.\<close>

datatype (plugins only: code size) ssh2_msg =
    SSH2_MSG_DISCONNECT | SSH2_MSG_IGNORE | SSH2_MSG_UNIMPLEMENTED | SSH2_MSG_DEBUG
  | SSH2_MSG_SERVICE_REQUEST | SSH2_MSG_SERVICE_ACCEPT | SSH2_MSG_KEXINIT | SSH2_MSG_NEWKEYS
  | SSH2_MSG_KEXDH_INIT | SSH2_MSG_KEXDH_REPLY | SSH2_MSG_KEX_ECDH_INIT
  | SSH2_MSG_KEX_ECDH_REPLY | SSH2_MSG_ECMQV_INIT | SSH2_MSG_ECMQV_REPLY
  | SSH2_MSG_KEX_DH_GEX_REQUEST_OLD | SSH2_MSG_KEX_DH_GEX_GROUP | SSH2_MSG_KEX_DH_GEX_INIT
  | SSH2_MSG_KEX_DH_GEX_REPLY | SSH2_MSG_KEX_DH_GEX_REQUEST | SSH2_MSG_USERAUTH_REQUEST
  | SSH2_MSG_USERAUTH_FAILURE | SSH2_MSG_USERAUTH_SUCCESS | SSH2_MSG_USERAUTH_BANNER
  | SSH2_MSG_USERAUTH_PK_OK | SSH2_MSG_USERAUTH_PASSWD_CHANGEREQ
  | SSH2_MSG_USERAUTH_INFO_REQUEST | SSH2_MSG_USERAUTH_GSSAPI_RESPONSE
  | SSH2_MSG_USERAUTH_INFO_RESPONSE | SSH2_MSG_USERAUTH_GSSAPI_TOKEN
  | SSH2_MSG_USERAUTH_GSSAPI_EXCHANGE_COMPLETE | SSH2_MSG_USERAUTH_GSSAPI_ERROR
  | SSH2_MSG_USERAUTH_GSSAPI_ERRTOK | SSH2_MSG_USERAUTH_GSSAPI_MIC | SSH2_MSG_GLOBAL_REQUEST
  | SSH2_MSG_REQUEST_SUCCESS | SSH2_MSG_REQUEST_FAILURE | SSH2_MSG_CHANNEL_OPEN
  | SSH2_MSG_CHANNEL_OPEN_CONFIRMATION | SSH2_MSG_CHANNEL_OPEN_FAILURE
  | SSH2_MSG_CHANNEL_WINDOW_ADJUST | SSH2_MSG_CHANNEL_DATA | SSH2_MSG_CHANNEL_EXTENDED_DATA
  | SSH2_MSG_CHANNEL_EOF | SSH2_MSG_CHANNEL_CLOSE | SSH2_MSG_CHANNEL_REQUEST
  | SSH2_MSG_CHANNEL_SUCCESS | SSH2_MSG_CHANNEL_FAILURE

definition ssh2_msg_table :: "ssh2_msg enum_table" where
  [enum_tables]: "ssh2_msg_table =
    [(SSH2_MSG_DISCONNECT, Some 1), (SSH2_MSG_IGNORE, Some 2),
     (SSH2_MSG_UNIMPLEMENTED, Some 3), (SSH2_MSG_DEBUG, Some 4),
     (SSH2_MSG_SERVICE_REQUEST, Some 5), (SSH2_MSG_SERVICE_ACCEPT, Some 6),
     (SSH2_MSG_KEXINIT, Some 20), (SSH2_MSG_NEWKEYS, Some 21), (SSH2_MSG_KEXDH_INIT, Some 30),
     (SSH2_MSG_KEXDH_REPLY, Some 31), (SSH2_MSG_KEX_ECDH_INIT, Some 30),
     (SSH2_MSG_KEX_ECDH_REPLY, Some 31), (SSH2_MSG_ECMQV_INIT, Some 30),
     (SSH2_MSG_ECMQV_REPLY, Some 31), (SSH2_MSG_KEX_DH_GEX_REQUEST_OLD, Some 30),
     (SSH2_MSG_KEX_DH_GEX_GROUP, Some 31), (SSH2_MSG_KEX_DH_GEX_INIT, Some 32),
     (SSH2_MSG_KEX_DH_GEX_REPLY, Some 33), (SSH2_MSG_KEX_DH_GEX_REQUEST, Some 34),
     (SSH2_MSG_USERAUTH_REQUEST, Some 50), (SSH2_MSG_USERAUTH_FAILURE, Some 51),
     (SSH2_MSG_USERAUTH_SUCCESS, Some 52), (SSH2_MSG_USERAUTH_BANNER, Some 53),
     (SSH2_MSG_USERAUTH_PK_OK, Some 60), (SSH2_MSG_USERAUTH_PASSWD_CHANGEREQ, Some 60),
     (SSH2_MSG_USERAUTH_INFO_REQUEST, Some 60), (SSH2_MSG_USERAUTH_GSSAPI_RESPONSE, Some 60),
     (SSH2_MSG_USERAUTH_INFO_RESPONSE, Some 61), (SSH2_MSG_USERAUTH_GSSAPI_TOKEN, Some 61),
     (SSH2_MSG_USERAUTH_GSSAPI_EXCHANGE_COMPLETE, Some 63),
     (SSH2_MSG_USERAUTH_GSSAPI_ERROR, Some 64), (SSH2_MSG_USERAUTH_GSSAPI_ERRTOK, Some 65),
     (SSH2_MSG_USERAUTH_GSSAPI_MIC, Some 66), (SSH2_MSG_GLOBAL_REQUEST, Some 80),
     (SSH2_MSG_REQUEST_SUCCESS, Some 81), (SSH2_MSG_REQUEST_FAILURE, Some 82),
     (SSH2_MSG_CHANNEL_OPEN, Some 90), (SSH2_MSG_CHANNEL_OPEN_CONFIRMATION, Some 91),
     (SSH2_MSG_CHANNEL_OPEN_FAILURE, Some 92), (SSH2_MSG_CHANNEL_WINDOW_ADJUST, Some 93),
     (SSH2_MSG_CHANNEL_DATA, Some 94), (SSH2_MSG_CHANNEL_EXTENDED_DATA, Some 95),
     (SSH2_MSG_CHANNEL_EOF, Some 96), (SSH2_MSG_CHANNEL_CLOSE, Some 97),
     (SSH2_MSG_CHANNEL_REQUEST, Some 98), (SSH2_MSG_CHANNEL_SUCCESS, Some 99),
     (SSH2_MSG_CHANNEL_FAILURE, Some 100)]"

interpretation ssh2_msgs: c_codes ssh2_msg_table
  by (rule c_codesI, rename_tac a, case_tac a) (simp_all add: enum_tables)

datatype (plugins only: code size) ssh2_disconnect =
    SSH2_DISCONNECT_HOST_NOT_ALLOWED_TO_CONNECT | SSH2_DISCONNECT_PROTOCOL_ERROR
  | SSH2_DISCONNECT_KEY_EXCHANGE_FAILED | SSH2_DISCONNECT_HOST_AUTHENTICATION_FAILED
  | SSH2_DISCONNECT_RESERVED | SSH2_DISCONNECT_MAC_ERROR | SSH2_DISCONNECT_COMPRESSION_ERROR
  | SSH2_DISCONNECT_SERVICE_NOT_AVAILABLE | SSH2_DISCONNECT_PROTOCOL_VERSION_NOT_SUPPORTED
  | SSH2_DISCONNECT_HOST_KEY_NOT_VERIFIABLE | SSH2_DISCONNECT_CONNECTION_LOST
  | SSH2_DISCONNECT_BY_APPLICATION | SSH2_DISCONNECT_TOO_MANY_CONNECTIONS
  | SSH2_DISCONNECT_AUTH_CANCELLED_BY_USER | SSH2_DISCONNECT_NO_MORE_AUTH_METHODS_AVAILABLE
  | SSH2_DISCONNECT_ILLEGAL_USER_NAME

definition ssh2_disconnect_table :: "ssh2_disconnect enum_table" where
  [enum_tables]: "ssh2_disconnect_table =
    [(SSH2_DISCONNECT_HOST_NOT_ALLOWED_TO_CONNECT, Some 1),
     (SSH2_DISCONNECT_PROTOCOL_ERROR, Some 2), (SSH2_DISCONNECT_KEY_EXCHANGE_FAILED, Some 3),
     (SSH2_DISCONNECT_HOST_AUTHENTICATION_FAILED, Some 4), (SSH2_DISCONNECT_RESERVED, Some 4),
     (SSH2_DISCONNECT_MAC_ERROR, Some 5), (SSH2_DISCONNECT_COMPRESSION_ERROR, Some 6),
     (SSH2_DISCONNECT_SERVICE_NOT_AVAILABLE, Some 7),
     (SSH2_DISCONNECT_PROTOCOL_VERSION_NOT_SUPPORTED, Some 8),
     (SSH2_DISCONNECT_HOST_KEY_NOT_VERIFIABLE, Some 9),
     (SSH2_DISCONNECT_CONNECTION_LOST, Some 10), (SSH2_DISCONNECT_BY_APPLICATION, Some 11),
     (SSH2_DISCONNECT_TOO_MANY_CONNECTIONS, Some 12),
     (SSH2_DISCONNECT_AUTH_CANCELLED_BY_USER, Some 13),
     (SSH2_DISCONNECT_NO_MORE_AUTH_METHODS_AVAILABLE, Some 14),
     (SSH2_DISCONNECT_ILLEGAL_USER_NAME, Some 15)]"

interpretation ssh2_disconnects: c_codes ssh2_disconnect_table
  by (rule c_codesI, rename_tac a, case_tac a) (simp_all add: enum_tables)

datatype (plugins only: code size) ssh2_open_failure =
    SSH2_OPEN_ADMINISTRATIVELY_PROHIBITED | SSH2_OPEN_CONNECT_FAILED
  | SSH2_OPEN_UNKNOWN_CHANNEL_TYPE | SSH2_OPEN_RESOURCE_SHORTAGE

definition ssh2_open_failure_table :: "ssh2_open_failure enum_table" where
  [enum_tables]: "ssh2_open_failure_table =
    [(SSH2_OPEN_ADMINISTRATIVELY_PROHIBITED, Some 1), (SSH2_OPEN_CONNECT_FAILED, Some 2),
     (SSH2_OPEN_UNKNOWN_CHANNEL_TYPE, Some 3), (SSH2_OPEN_RESOURCE_SHORTAGE, Some 4)]"

interpretation ssh2_open_failures: c_enum ssh2_open_failure_table
  by (rule c_enumI, rename_tac a, case_tac a) (simp_all add: enum_tables)

subsection \<open>SFTP\<close>

datatype (plugins only: code size) ssh_fxp =
    SSH_FXP_INIT | SSH_FXP_VERSION | SSH_FXP_OPEN | SSH_FXP_CLOSE | SSH_FXP_READ
  | SSH_FXP_WRITE | SSH_FXP_LSTAT | SSH_FXP_FSTAT | SSH_FXP_SETSTAT | SSH_FXP_FSETSTAT
  | SSH_FXP_OPENDIR | SSH_FXP_READDIR | SSH_FXP_REMOVE | SSH_FXP_MKDIR | SSH_FXP_RMDIR
  | SSH_FXP_REALPATH | SSH_FXP_STAT | SSH_FXP_RENAME | SSH_FXP_READLINK | SSH_FXP_SYMLINK
  | SSH_FXP_STATUS | SSH_FXP_HANDLE | SSH_FXP_DATA | SSH_FXP_NAME | SSH_FXP_ATTRS
  | SSH_FXP_EXTENDED | SSH_FXP_EXTENDED_REPLY

definition ssh_fxp_table :: "ssh_fxp enum_table" where
  [enum_tables]: "ssh_fxp_table =
    [(SSH_FXP_INIT, Some 1), (SSH_FXP_VERSION, Some 2), (SSH_FXP_OPEN, Some 3),
     (SSH_FXP_CLOSE, Some 4), (SSH_FXP_READ, Some 5), (SSH_FXP_WRITE, Some 6),
     (SSH_FXP_LSTAT, Some 7), (SSH_FXP_FSTAT, Some 8), (SSH_FXP_SETSTAT, Some 9),
     (SSH_FXP_FSETSTAT, Some 10), (SSH_FXP_OPENDIR, Some 11), (SSH_FXP_READDIR, Some 12),
     (SSH_FXP_REMOVE, Some 13), (SSH_FXP_MKDIR, Some 14), (SSH_FXP_RMDIR, Some 15),
     (SSH_FXP_REALPATH, Some 16), (SSH_FXP_STAT, Some 17), (SSH_FXP_RENAME, Some 18),
     (SSH_FXP_READLINK, Some 19), (SSH_FXP_SYMLINK, Some 20), (SSH_FXP_STATUS, Some 101),
     (SSH_FXP_HANDLE, Some 102), (SSH_FXP_DATA, Some 103), (SSH_FXP_NAME, Some 104),
     (SSH_FXP_ATTRS, Some 105), (SSH_FXP_EXTENDED, Some 200), (SSH_FXP_EXTENDED_REPLY, Some 201)]"

interpretation fxps: c_enum ssh_fxp_table
  by (rule c_enumI, rename_tac a, case_tac a) (simp_all add: enum_tables)

text \<open>Two attribute flags are the same bit, as the source says of the drafts.\<close>

datatype (plugins only: code size) filexfer_attr =
    SSH_FILEXFER_ATTR_SIZE | SSH_FILEXFER_ATTR_PERMISSIONS | SSH_FILEXFER_ATTR_ACCESSTIME
  | SSH_FILEXFER_ATTR_ACMODTIME | SSH_FILEXFER_ATTR_CREATETIME | SSH_FILEXFER_ATTR_MODIFYTIME
  | SSH_FILEXFER_ATTR_ACL | SSH_FILEXFER_ATTR_OWNERGROUP | SSH_FILEXFER_ATTR_SUBSECOND_TIMES
  | SSH_FILEXFER_ATTR_EXTENDED | SSH_FILEXFER_ATTR_UIDGID

definition filexfer_attr_table :: "filexfer_attr enum_table" where
  [enum_tables]: "filexfer_attr_table =
    [(SSH_FILEXFER_ATTR_SIZE, Some 0x00000001),
     (SSH_FILEXFER_ATTR_PERMISSIONS, Some 0x00000004),
     (SSH_FILEXFER_ATTR_ACCESSTIME, Some 0x00000008),
     (SSH_FILEXFER_ATTR_ACMODTIME, Some 0x00000008),
     (SSH_FILEXFER_ATTR_CREATETIME, Some 0x00000010),
     (SSH_FILEXFER_ATTR_MODIFYTIME, Some 0x00000020), (SSH_FILEXFER_ATTR_ACL, Some 0x00000040),
     (SSH_FILEXFER_ATTR_OWNERGROUP, Some 0x00000080),
     (SSH_FILEXFER_ATTR_SUBSECOND_TIMES, Some 0x00000100),
     (SSH_FILEXFER_ATTR_EXTENDED, Some 0x80000000), (SSH_FILEXFER_ATTR_UIDGID, Some 0x00000002)]"

interpretation filexfer_attrs: c_codes filexfer_attr_table
  by (rule c_codesI, rename_tac a, case_tac a) (simp_all add: enum_tables)

datatype (plugins only: code size) filexfer_type =
    SSH_FILEXFER_TYPE_REGULAR | SSH_FILEXFER_TYPE_DIRECTORY | SSH_FILEXFER_TYPE_SYMLINK
  | SSH_FILEXFER_TYPE_SPECIAL | SSH_FILEXFER_TYPE_UNKNOWN

definition filexfer_type_table :: "filexfer_type enum_table" where
  [enum_tables]: "filexfer_type_table =
    [(SSH_FILEXFER_TYPE_REGULAR, Some 1), (SSH_FILEXFER_TYPE_DIRECTORY, Some 2),
     (SSH_FILEXFER_TYPE_SYMLINK, Some 3), (SSH_FILEXFER_TYPE_SPECIAL, Some 4),
     (SSH_FILEXFER_TYPE_UNKNOWN, Some 5)]"

interpretation filexfer_types: c_enum filexfer_type_table
  by (rule c_enumI, rename_tac a, case_tac a) (simp_all add: enum_tables)

datatype (plugins only: code size) ssh_fx =
    SSH_FX_OK | SSH_FX_EOF | SSH_FX_NO_SUCH_FILE | SSH_FX_PERMISSION_DENIED | SSH_FX_FAILURE
  | SSH_FX_BAD_MESSAGE | SSH_FX_NO_CONNECTION | SSH_FX_CONNECTION_LOST | SSH_FX_OP_UNSUPPORTED
  | SSH_FX_INVALID_HANDLE | SSH_FX_NO_SUCH_PATH | SSH_FX_FILE_ALREADY_EXISTS
  | SSH_FX_WRITE_PROTECT | SSH_FX_NO_MEDIA

definition ssh_fx_table :: "ssh_fx enum_table" where
  [enum_tables]: "ssh_fx_table =
    [(SSH_FX_OK, Some 0), (SSH_FX_EOF, Some 1), (SSH_FX_NO_SUCH_FILE, Some 2),
     (SSH_FX_PERMISSION_DENIED, Some 3), (SSH_FX_FAILURE, Some 4),
     (SSH_FX_BAD_MESSAGE, Some 5), (SSH_FX_NO_CONNECTION, Some 6),
     (SSH_FX_CONNECTION_LOST, Some 7), (SSH_FX_OP_UNSUPPORTED, Some 8),
     (SSH_FX_INVALID_HANDLE, Some 9), (SSH_FX_NO_SUCH_PATH, Some 10),
     (SSH_FX_FILE_ALREADY_EXISTS, Some 11), (SSH_FX_WRITE_PROTECT, Some 12),
     (SSH_FX_NO_MEDIA, Some 13)]"

interpretation fx_responses: c_enum ssh_fx_table
  by (rule c_enumI, rename_tac a, case_tac a) (simp_all add: enum_tables)

datatype (plugins only: code size) ssh_fxf =
    SSH_FXF_READ | SSH_FXF_WRITE | SSH_FXF_APPEND | SSH_FXF_CREAT | SSH_FXF_TRUNC
  | SSH_FXF_EXCL | SSH_FXF_TEXT

definition ssh_fxf_table :: "ssh_fxf enum_table" where
  [enum_tables]: "ssh_fxf_table =
    [(SSH_FXF_READ, Some 0x01), (SSH_FXF_WRITE, Some 0x02), (SSH_FXF_APPEND, Some 0x04),
     (SSH_FXF_CREAT, Some 0x08), (SSH_FXF_TRUNC, Some 0x10), (SSH_FXF_EXCL, Some 0x20),
     (SSH_FXF_TEXT, Some 0x40)]"

interpretation fxf_flags: bit_flags ssh_fxf_table
  by (rule bit_flagsI, rename_tac a, case_tac a) (simp_all add: enum_tables)

datatype (plugins only: code size) ssh_fxf_rename =
    SSH_FXF_RENAME_OVERWRITE | SSH_FXF_RENAME_ATOMIC | SSH_FXF_RENAME_NATIVE

definition ssh_fxf_rename_table :: "ssh_fxf_rename enum_table" where
  [enum_tables]: "ssh_fxf_rename_table =
    [(SSH_FXF_RENAME_OVERWRITE, Some 0x00000001), (SSH_FXF_RENAME_ATOMIC, Some 0x00000002),
     (SSH_FXF_RENAME_NATIVE, Some 0x00000004)]"

interpretation rename_flags: bit_flags ssh_fxf_rename_table
  by (rule bit_flagsI, rename_tac a, case_tac a) (simp_all add: enum_tables)

datatype (plugins only: code size) sftp_command =
    SFTP_OPEN | SFTP_CLOSE | SFTP_READ | SFTP_WRITE | SFTP_LSTAT | SFTP_FSTAT | SFTP_SETSTAT
  | SFTP_FSETSTAT | SFTP_OPENDIR | SFTP_READDIR | SFTP_REMOVE | SFTP_MKDIR | SFTP_RMDIR
  | SFTP_REALPATH | SFTP_STAT | SFTP_RENAME | SFTP_READLINK | SFTP_SYMLINK

fun sftp_command_fxp :: "sftp_command \<Rightarrow> ssh_fxp" where
  "sftp_command_fxp SFTP_OPEN = SSH_FXP_OPEN"
| "sftp_command_fxp SFTP_CLOSE = SSH_FXP_CLOSE"
| "sftp_command_fxp SFTP_READ = SSH_FXP_READ"
| "sftp_command_fxp SFTP_WRITE = SSH_FXP_WRITE"
| "sftp_command_fxp SFTP_LSTAT = SSH_FXP_LSTAT"
| "sftp_command_fxp SFTP_FSTAT = SSH_FXP_FSTAT"
| "sftp_command_fxp SFTP_SETSTAT = SSH_FXP_SETSTAT"
| "sftp_command_fxp SFTP_FSETSTAT = SSH_FXP_FSETSTAT"
| "sftp_command_fxp SFTP_OPENDIR = SSH_FXP_OPENDIR"
| "sftp_command_fxp SFTP_READDIR = SSH_FXP_READDIR"
| "sftp_command_fxp SFTP_REMOVE = SSH_FXP_REMOVE"
| "sftp_command_fxp SFTP_MKDIR = SSH_FXP_MKDIR"
| "sftp_command_fxp SFTP_RMDIR = SSH_FXP_RMDIR"
| "sftp_command_fxp SFTP_REALPATH = SSH_FXP_REALPATH"
| "sftp_command_fxp SFTP_STAT = SSH_FXP_STAT"
| "sftp_command_fxp SFTP_RENAME = SSH_FXP_RENAME"
| "sftp_command_fxp SFTP_READLINK = SSH_FXP_READLINK"
| "sftp_command_fxp SFTP_SYMLINK = SSH_FXP_SYMLINK"

datatype (plugins only: code size) statvfs_flag =
    SSH_FXE_STATVFS_ST_RDONLY | SSH_FXE_STATVFS_ST_NOSUID

definition statvfs_flag_table :: "statvfs_flag enum_table" where
  [enum_tables]: "statvfs_flag_table =
    [(SSH_FXE_STATVFS_ST_RDONLY, Some 0x1), (SSH_FXE_STATVFS_ST_NOSUID, Some 0x2)]"

interpretation statvfs_flags: bit_flags statvfs_flag_table
  by (rule bit_flagsI, rename_tac a, case_tac a) (simp_all add: enum_tables)

subsection \<open>The authentication agent\<close>

datatype (plugins only: code size) ssh_agent_msg =
    SSH_AGENTC_REQUEST_RSA_IDENTITIES | SSH_AGENT_RSA_IDENTITIES_ANSWER
  | SSH_AGENTC_RSA_CHALLENGE | SSH_AGENT_RSA_RESPONSE | SSH_AGENT_FAILURE | SSH_AGENT_SUCCESS
  | SSH_AGENTC_ADD_RSA_IDENTITY | SSH_AGENTC_REMOVE_RSA_IDENTITY
  | SSH_AGENTC_REMOVE_ALL_RSA_IDENTITIES | SSH2_AGENTC_REQUEST_IDENTITIES
  | SSH2_AGENT_IDENTITIES_ANSWER | SSH2_AGENTC_SIGN_REQUEST | SSH2_AGENT_SIGN_RESPONSE
  | SSH2_AGENTC_ADD_IDENTITY | SSH2_AGENTC_REMOVE_IDENTITY | SSH2_AGENTC_REMOVE_ALL_IDENTITIES
  | SSH_AGENTC_ADD_SMARTCARD_KEY | SSH_AGENTC_REMOVE_SMARTCARD_KEY | SSH_AGENTC_LOCK
  | SSH_AGENTC_UNLOCK | SSH_AGENTC_ADD_RSA_ID_CONSTRAINED | SSH2_AGENTC_ADD_ID_CONSTRAINED
  | SSH_AGENTC_ADD_SMARTCARD_KEY_CONSTRAINED | SSH2_AGENT_FAILURE | SSH_COM_AGENT2_FAILURE

definition ssh_agent_msg_table :: "ssh_agent_msg enum_table" where
  [enum_tables]: "ssh_agent_msg_table =
    [(SSH_AGENTC_REQUEST_RSA_IDENTITIES, Some 1), (SSH_AGENT_RSA_IDENTITIES_ANSWER, Some 2),
     (SSH_AGENTC_RSA_CHALLENGE, Some 3), (SSH_AGENT_RSA_RESPONSE, Some 4),
     (SSH_AGENT_FAILURE, Some 5), (SSH_AGENT_SUCCESS, Some 6),
     (SSH_AGENTC_ADD_RSA_IDENTITY, Some 7), (SSH_AGENTC_REMOVE_RSA_IDENTITY, Some 8),
     (SSH_AGENTC_REMOVE_ALL_RSA_IDENTITIES, Some 9), (SSH2_AGENTC_REQUEST_IDENTITIES, Some 11),
     (SSH2_AGENT_IDENTITIES_ANSWER, Some 12), (SSH2_AGENTC_SIGN_REQUEST, Some 13),
     (SSH2_AGENT_SIGN_RESPONSE, Some 14), (SSH2_AGENTC_ADD_IDENTITY, Some 17),
     (SSH2_AGENTC_REMOVE_IDENTITY, Some 18), (SSH2_AGENTC_REMOVE_ALL_IDENTITIES, Some 19),
     (SSH_AGENTC_ADD_SMARTCARD_KEY, Some 20), (SSH_AGENTC_REMOVE_SMARTCARD_KEY, Some 21),
     (SSH_AGENTC_LOCK, Some 22), (SSH_AGENTC_UNLOCK, Some 23),
     (SSH_AGENTC_ADD_RSA_ID_CONSTRAINED, Some 24), (SSH2_AGENTC_ADD_ID_CONSTRAINED, Some 25),
     (SSH_AGENTC_ADD_SMARTCARD_KEY_CONSTRAINED, Some 26), (SSH2_AGENT_FAILURE, Some 30),
     (SSH_COM_AGENT2_FAILURE, Some 102)]"

interpretation agent_msgs: c_enum ssh_agent_msg_table
  by (rule c_enumI, rename_tac a, case_tac a) (simp_all add: enum_tables)

datatype (plugins only: code size) agent_constraint =
    SSH_AGENT_CONSTRAIN_LIFETIME | SSH_AGENT_CONSTRAIN_CONFIRM

definition agent_constraint_table :: "agent_constraint enum_table" where
  [enum_tables]: "agent_constraint_table =
    [(SSH_AGENT_CONSTRAIN_LIFETIME, Some 1), (SSH_AGENT_CONSTRAIN_CONFIRM, Some 2)]"

interpretation agent_constraints: c_enum agent_constraint_table
  by (rule c_enumI, rename_tac a, case_tac a) (simp_all add: enum_tables)

end
