(* ===== verification/Libssh_Macros.thy ===== *)
theory Libssh_Macros
  imports C_Runtime Wire_Codes Libssh_Enums
begin

text \<open>
  The macros of \<open>include/libssh/libssh.h\<close> and \<open>include/libssh/priv.h\<close> that
  compute: version numbers and texts, the limits, and the macros that clear
  memory; and which message numbers of \<open>ssh2.h\<close> mean one thing.
\<close>

subsection \<open>Versions\<close>

definition SSH_VERSION_INT :: "int \<Rightarrow> int \<Rightarrow> int \<Rightarrow> int" where
  "SSH_VERSION_INT a b c = or (or (push_bit 16 a) (push_bit 8 b)) c"

text \<open>Token pasting of three decimal numbers.\<close>

definition SSH_VERSION :: "string \<Rightarrow> string \<Rightarrow> string \<Rightarrow> string" where
  "SSH_VERSION a b c = a @ ''.'' @ b @ ''.'' @ c"

definition LIBSSH_VERSION_MAJOR :: int where "LIBSSH_VERSION_MAJOR = 0"
definition LIBSSH_VERSION_MINOR :: int where "LIBSSH_VERSION_MINOR = 6"
definition LIBSSH_VERSION_MICRO :: int where "LIBSSH_VERSION_MICRO = 0"

definition LIBSSH_VERSION_INT :: int where
  "LIBSSH_VERSION_INT = SSH_VERSION_INT LIBSSH_VERSION_MAJOR LIBSSH_VERSION_MINOR LIBSSH_VERSION_MICRO"

definition LIBSSH_VERSION :: string where
  "LIBSSH_VERSION = SSH_VERSION ''0'' ''6'' ''0''"

definition CLIENTBANNER1 :: string where "CLIENTBANNER1 = ''SSH-1.5-libssh-'' @ LIBSSH_VERSION"
definition CLIENTBANNER2 :: string where "CLIENTBANNER2 = ''SSH-2.0-libssh-'' @ LIBSSH_VERSION"

text \<open>The version of the package, in \<open>src/config.h\<close>.\<close>

definition VERSION :: string where "VERSION = ''0.7.0''"

text \<open>The header's version is not the package's.\<close>

lemma versions_differ: "LIBSSH_VERSION = ''0.6.0'' \<and> LIBSSH_VERSION \<noteq> VERSION"
  by (simp add: LIBSSH_VERSION_def SSH_VERSION_def VERSION_def)

lemma or_disjoint:
  fixes a b :: int
  assumes "0 \<le> b" and "b < 2 ^ n"
  shows "or (push_bit n a) b = 2 ^ n * a + b"
proof -
  have "concat_bit n b a = b + push_bit n a" using assms by (simp add: concat_bit_eq take_bit_int_eq_self)
  moreover have "concat_bit n b a = or b (push_bit n a)" using assms by (simp add: concat_bit_def take_bit_int_eq_self)
  ultimately show ?thesis by (simp add: or.commute push_bit_eq_mult)
qed

text \<open>The lexicographic order of two digits.\<close>

lemma digits_order:
  fixes a b a' b' n :: int
  assumes "0 \<le> b" "b < n" "0 \<le> b'" "b' < n"
  shows "n * a + b < n * a' + b' \<longleftrightarrow> a < a' \<or> a = a' \<and> b < b'"
    and "n * a + b = n * a' + b' \<longleftrightarrow> a = a' \<and> b = b'"
proof -
  have less: "n * x + y < n * x' + y'" if "x < x'" "y < n" "0 \<le> y'" for x x' y y' :: int
  proof -
    have "n * (x + 1) \<le> n * x'" using that(1) assms(1,2) by (intro mult_left_mono) auto
    then show ?thesis using that(2,3) by (simp add: distrib_left)
  qed
  show "n * a + b < n * a' + b' \<longleftrightarrow> a < a' \<or> a = a' \<and> b < b'"
    using less [of a a' b b'] less [of a' a b' b] assms by (cases a a' rule: linorder_cases) auto
  show "n * a + b = n * a' + b' \<longleftrightarrow> a = a' \<and> b = b'"
    using less [of a a' b b'] less [of a' a b' b] assms by (cases a a' rule: linorder_cases) auto
qed

lemma SSH_VERSION_INT_value:
  assumes "0 \<le> b" "b < 256" "0 \<le> c" "c < 256"
  shows "SSH_VERSION_INT a b c = 65536 * a + 256 * b + c"
proof -
  have "SSH_VERSION_INT a b c = or (push_bit 16 a) (or (push_bit 8 b) c)"
    by (simp add: SSH_VERSION_INT_def or.assoc)
  also have "or (push_bit 8 b) c = 256 * b + c" using or_disjoint [of c 8 b] assms by simp
  finally show ?thesis using or_disjoint [of "256 * b + c" 16 a] assms by simp
qed

text \<open>
  Versions compare as numbers the way they compare as triples, as long as the
  minor and the micro version fit in a byte. Beyond that they do not: 0.1.0 and
  0.0.256 are the same number.
\<close>

theorem version_order:
  assumes "0 \<le> b" "b < 256" "0 \<le> c" "c < 256" "0 \<le> b'" "b' < 256" "0 \<le> c'" "c' < 256"
  shows "(SSH_VERSION_INT a b c < SSH_VERSION_INT a' b' c' \<longleftrightarrow>
      a < a' \<or> a = a' \<and> (b < b' \<or> b = b' \<and> c < c'))
    \<and> (SSH_VERSION_INT a b c = SSH_VERSION_INT a' b' c' \<longleftrightarrow> (a, b, c) = (a', b', c'))
    \<and> SSH_VERSION_INT 0 1 0 = SSH_VERSION_INT 0 0 256"
proof -
  have v: "SSH_VERSION_INT a b c = 65536 * a + (256 * b + c)" "SSH_VERSION_INT a' b' c' = 65536 * a' + (256 * b' + c')"
    using assms SSH_VERSION_INT_value by simp_all
  have r: "0 \<le> 256 * b + c" "256 * b + c < 65536" "0 \<le> 256 * b' + c'" "256 * b' + c' < 65536"
    using assms by simp_all
  have "SSH_VERSION_INT 0 1 0 = SSH_VERSION_INT 0 0 256" by (simp add: SSH_VERSION_INT_def)
  then show ?thesis
    unfolding v digits_order [OF r] using digits_order [OF assms(3,4,7,8)] by simp
qed

theorem version_order_witness: "LIBSSH_VERSION_INT < SSH_VERSION_INT 0 7 0"
  using version_order [of 6 0 7 0 0 0]
  by (simp add: LIBSSH_VERSION_INT_def LIBSSH_VERSION_MAJOR_def LIBSSH_VERSION_MINOR_def LIBSSH_VERSION_MICRO_def)

subsection \<open>Limits\<close>

definition MAX_PACKET_LEN :: int where "MAX_PACKET_LEN = 262144"
definition ERROR_BUFFERLEN :: int where "ERROR_BUFFERLEN = 1024"
definition KBDINT_MAX_PROMPT :: int where "KBDINT_MAX_PROMPT = 256"
definition MAX_BUF_SIZE :: int where "MAX_BUF_SIZE = 4096"

text \<open>\<open>MIN\<close>, whose name is syntax here.\<close>

definition c_MIN :: "int \<Rightarrow> int \<Rightarrow> int" where
  "c_MIN a b = (if a < b then a else b)"

definition ARRAY_SIZE :: "nat \<Rightarrow> nat \<Rightarrow> nat" where
  "ARRAY_SIZE size_of_array size_of_element = size_of_array div size_of_element"

text \<open>An error: its code, and the text in its buffer.\<close>

record error_struct =
  err_code :: int
  err_buffer :: buffer

subsection \<open>Clearing memory\<close>

text \<open>
  A pointer to an object is the object's bytes, or \<open>None\<close> for \<open>NULL\<close>. The outer
  \<open>option\<close> is \<open>None\<close> when the macro leaves the object.
\<close>

definition BURN_BUFFER :: "buffer option \<Rightarrow> nat \<Rightarrow> buffer option option" where
  "BURN_BUFFER x n = (case x of None \<Rightarrow> Some None | Some b \<Rightarrow> map_option Some (memset b NUL n))"

definition BURN_STRING :: "buffer option \<Rightarrow> buffer option option" where
  "BURN_STRING x =
     (case x of
        None \<Rightarrow> Some None
      | Some b \<Rightarrow> (case buf_cstr b of None \<Rightarrow> None | Some s \<Rightarrow> map_option Some (memset b NUL (length s))))"

definition ZERO_STRUCT :: "buffer \<Rightarrow> buffer option" where
  "ZERO_STRUCT x = memset x NUL (length x)"

definition ZERO_STRUCTP :: "buffer option \<Rightarrow> buffer option option" where
  "ZERO_STRUCTP x = (case x of None \<Rightarrow> Some None | Some b \<Rightarrow> map_option Some (memset b NUL (length b)))"

text \<open>\<open>free\<close> and forget: the pointer afterwards, and what was freed.\<close>

definition SAFE_FREE :: "nat option \<Rightarrow> nat option \<times> nat list" where
  "SAFE_FREE x = (case x of None \<Rightarrow> (None, []) | Some p \<Rightarrow> (None, [p]))"

lemma SAFE_FREE_twice: "SAFE_FREE (fst (SAFE_FREE x)) = (None, [])"
  by (simp add: SAFE_FREE_def split: option.split)

lemma buf_cstr_split:
  "buf_cstr b = Some s \<longleftrightarrow> (\<exists>r. b = map Some s @ Some NUL # r) \<and> NUL \<notin> set s"
proof (induction b arbitrary: s rule: buf_cstr.induct)
  case (3 c b)
  then show ?case by (cases s) (auto simp: Cons_eq_append_conv)
qed (auto simp: Cons_eq_append_conv)

text \<open>
  \<open>BURN_STRING\<close> overwrites the whole secret and nothing else: the bytes up to the
  terminator are cleared, what follows the terminator is left, and it stays in
  its object for every buffer that holds a C string.
\<close>

theorem burn_string_clears:
  assumes "b = map Some s @ Some NUL # r" and "NUL \<notin> set s"
  shows "BURN_STRING (Some b) = Some (Some (replicate (length s) (Some NUL) @ Some NUL # r))"
proof -
  have "buf_cstr b = Some s" using assms by (auto simp: buf_cstr_split)
  then show ?thesis by (simp add: BURN_STRING_def memset_def assms(1))
qed

theorem burn_string_clears_witness:
  "BURN_STRING (Some (map Some ''key'' @ Some NUL # [None])) =
     Some (Some (replicate 3 (Some NUL) @ Some NUL # [None]))"
  using burn_string_clears [of "map Some ''key'' @ Some NUL # [None]" "''key''" "[None]"] by (simp add: numeral_3_eq_3)

subsection \<open>Message numbers\<close>

text \<open>
  Two messages of SSH-2 have one number only where the protocol tells them apart
  by the key exchange (30 and 31) or by the authentication method (60 and 61);
  every other number is one message.
\<close>

theorem ssh2_numbers_shared:
  assumes "enum_code ssh2_msg_table a = enum_code ssh2_msg_table b" and "a \<noteq> b"
  shows "enum_code ssh2_msg_table a \<in> {30, 31, 60, 61}"
proof (rule ccontr)
  let ?own = "filter (\<lambda>x. snd x \<notin> {30, 31, 60, 61}) (enum_values 0 ssh2_msg_table)"
  assume c: "enum_code ssh2_msg_table a \<notin> {30, 31, 60, 61}"
  have "distinct (map snd ?own)" by (simp add: enum_tables)
  then have d: "inj_on snd (set ?own)" by (simp add: distinct_map)
  have "(a, enum_code ssh2_msg_table a) \<in> set ?own" "(b, enum_code ssh2_msg_table b) \<in> set ?own"
    using c assms(1) ssh2_msgs.code_in [of a] ssh2_msgs.code_in [of b] by simp_all
  then show False using inj_onD [OF d] assms by fastforce
qed

theorem ssh2_numbers_shared_witness:
  "enum_code ssh2_msg_table SSH2_MSG_KEXDH_INIT = enum_code ssh2_msg_table SSH2_MSG_KEX_ECDH_INIT
   \<and> enum_code ssh2_msg_table SSH2_MSG_KEXDH_INIT \<in> {30, 31, 60, 61}"
proof -
  have "enum_code ssh2_msg_table SSH2_MSG_KEXDH_INIT = enum_code ssh2_msg_table SSH2_MSG_KEX_ECDH_INIT"
    by (simp add: enum_tables)
  then show ?thesis using ssh2_numbers_shared by blast
qed

text \<open>The mask that the gateway offers its clients has the password method and no other.\<close>

lemma only_password_offered:
  "has_flag Libssh_Codes.SSH_AUTH_METHOD_PASSWORD (enum_code auth_method_flags m) \<longleftrightarrow>
     m = auth_method.SSH_AUTH_METHOD_PASSWORD"
  by (cases m) (simp_all add: has_flag_def enum_tables Libssh_Codes.SSH_AUTH_METHOD_PASSWORD_def)

end
