(* ===== verification/Js_Values.thy ===== *)
theory Js_Values
  imports Main "HOL-Library.Char_ord"
begin

text \<open>
  The values of JavaScript that the BBS handles (\<open>server.js\<close>,
  \<open>client/client.js\<close>), and the parts of the language and its standard library
  the code relies on: truth values, conversions, comparisons and property access.

  Text is ASCII, where a byte, a \<open>char\<close> and a unit of a JavaScript string are the
  same. A number is an exact decimal \<open>m * 10 ^ e\<close>, an infinity or \<open>NaN\<close>; rounding
  to 53 bits is not modelled. A conversion that throws a \<open>TypeError\<close> is \<open>None\<close>.
\<close>

named_theorems js_simps

subsection \<open>Values\<close>

datatype number = Dec int int | Infinite bool | NaN

text \<open>
  \<open>JFun\<close> is a function of the object prototype, \<open>JProto\<close> the prototype itself:
  both are found when a plain object is used as a table and the key is one of
  the prototype's names.
\<close>

datatype js =
    JUndefined
  | JNull
  | JBool bool
  | JNum number
  | JStr string
  | JArr "js list"
  | JObj "(string \<times> js) list"
  | JFun string
  | JProto

definition prototype_functions :: "string list" where
  "prototype_functions =
     [''constructor'', ''__defineGetter__'', ''__defineSetter__'', ''hasOwnProperty'',
      ''__lookupGetter__'', ''__lookupSetter__'', ''isPrototypeOf'', ''propertyIsEnumerable'',
      ''toString'', ''valueOf'', ''toLocaleString'']"

definition prototype_get :: "string \<Rightarrow> js" where
  "prototype_get k =
     (if k \<in> set prototype_functions then JFun k else if k = ''__proto__'' then JProto else JUndefined)"

definition in_prototype :: "string \<Rightarrow> bool" where
  "in_prototype k \<longleftrightarrow> k \<in> set prototype_functions \<or> k = ''__proto__''"

subsection \<open>Digits\<close>

text \<open>The digits of a number in a base up to 36, most significant first.\<close>

definition digit_char :: "nat \<Rightarrow> char" where
  "digit_char d = char_of (if d < 10 then 48 + d else 87 + d)"

definition char_digit :: "char \<Rightarrow> nat option" where
  "char_digit c =
     (let n = of_char c :: nat
      in if 48 \<le> n \<and> n < 58 then Some (n - 48)
         else if 97 \<le> n \<and> n < 123 then Some (n - 87)
         else if 65 \<le> n \<and> n < 91 then Some (n - 55) else None)"

function to_base :: "nat \<Rightarrow> nat \<Rightarrow> string" where
  "to_base b n = (if b < 2 \<or> n < b then [digit_char n] else to_base b (n div b) @ [digit_char (n mod b)])"
  by pat_completeness auto

termination to_base
  by (relation "measure snd") (auto intro: div_less_dividend)

declare to_base.simps [simp del]

definition decimal_digit :: "char \<Rightarrow> bool" where
  "decimal_digit c \<longleftrightarrow> 48 \<le> (of_char c :: nat) \<and> (of_char c :: nat) < 58"

text \<open>What a string of digits stands for.\<close>

definition from_base :: "nat \<Rightarrow> string \<Rightarrow> nat" where
  "from_base b s = foldl (\<lambda>n c. b * n + (case char_digit c of Some d \<Rightarrow> d | None \<Rightarrow> 0)) 0 s"

abbreviation show_nat :: "nat \<Rightarrow> string" where
  "show_nat \<equiv> to_base 10"

definition show_int :: "int \<Rightarrow> string" where
  "show_int i = (if i < 0 then CHR ''-'' # show_nat (nat (- i)) else show_nat (nat i))"

subsection \<open>Numbers\<close>

text \<open>A decimal without trailing zeros in its mantissa.\<close>

function mk_dec :: "int \<Rightarrow> int \<Rightarrow> number" where
  "mk_dec m e =
     (if m = 0 then Dec 0 0
      else if m mod 10 = 0 then mk_dec (m div 10) (e + 1)
      else Dec m e)"
  by pat_completeness auto

termination mk_dec
proof (relation "measure (\<lambda>(m, e). nat \<bar>m\<bar>)")
  fix m e :: int
  assume nz: "m \<noteq> 0" and "m mod 10 = 0"
  then obtain q where q: "m = 10 * q"
    by auto
  then have "\<bar>m div 10\<bar> < \<bar>m\<bar>"
    using nz by simp
  then show "((m div 10, e + 1), m, e) \<in> measure (\<lambda>(m, e). nat \<bar>m\<bar>)"
    by simp
qed simp

declare mk_dec.simps [simp del]

definition js_int :: "int \<Rightarrow> js" where
  "js_int i = JNum (mk_dec i 0)"

text \<open>\<open>Number::toString\<close>, the shortest decimal form.\<close>

definition show_decimal :: "nat \<Rightarrow> int \<Rightarrow> string" where
  "show_decimal m e =
     (let s = show_nat m; k = int (length s); n = e + k
      in if k \<le> n \<and> n \<le> 21 then s @ replicate (nat (n - k)) CHR ''0''
         else if 0 < n \<and> n \<le> 21 then take (nat n) s @ CHR ''.'' # drop (nat n) s
         else if - 6 < n \<and> n \<le> 0 then ''0.'' @ replicate (nat (- n)) CHR ''0'' @ s
         else (if k = 1 then s else hd s # CHR ''.'' # tl s) @
              CHR ''e'' # (if n - 1 < 0 then CHR ''-'' else CHR ''+'') # show_nat (nat \<bar>n - 1\<bar>))"

fun show_number :: "number \<Rightarrow> string" where
  "show_number (Dec m e) =
     (if m = 0 then ''0''
      else if m < 0 then CHR ''-'' # show_decimal (nat (- m)) e else show_decimal (nat m) e)"
| "show_number (Infinite neg) = (if neg then ''-Infinity'' else ''Infinity'')"
| "show_number NaN = ''NaN''"

text \<open>\<open>x < n\<close>; every comparison with \<open>NaN\<close> is false.\<close>

fun number_less :: "number \<Rightarrow> int \<Rightarrow> bool" where
  "number_less (Dec m e) n \<longleftrightarrow> (if 0 \<le> e then m * 10 ^ nat e < n else m < n * 10 ^ nat (- e))"
| "number_less (Infinite neg) n \<longleftrightarrow> neg"
| "number_less NaN n \<longleftrightarrow> False"

subsection \<open>Conversions\<close>

fun truthy :: "js \<Rightarrow> bool" where
  "truthy JUndefined \<longleftrightarrow> False"
| "truthy JNull \<longleftrightarrow> False"
| "truthy (JBool b) \<longleftrightarrow> b"
| "truthy (JNum n) \<longleftrightarrow> n \<noteq> NaN \<and> n \<noteq> Dec 0 0"
| "truthy (JStr s) \<longleftrightarrow> s \<noteq> []"
| "truthy _ \<longleftrightarrow> True"

fun join :: "string \<Rightarrow> string list \<Rightarrow> string" where
  "join sep [] = []"
| "join sep [s] = s"
| "join sep (s # t # ts) = s @ sep @ join sep (t # ts)"

text \<open>\<open>s.split(c)\<close>\<close>

fun split_on :: "char \<Rightarrow> string \<Rightarrow> string list" where
  "split_on c [] = [[]]"
| "split_on c (d # s) =
     (if d = c then [] # split_on c s
      else case split_on c s of [] \<Rightarrow> [[d]] | l # ls \<Rightarrow> (d # l) # ls)"

fun those_all :: "'a option list \<Rightarrow> 'a list option" where
  "those_all [] = Some []"
| "those_all (None # xs) = None"
| "those_all (Some x # xs) = map_option (Cons x) (those_all xs)"

definition has_own :: "(string \<times> 'v) list \<Rightarrow> string \<Rightarrow> bool" where
  "has_own ps k \<longleftrightarrow> k \<in> fst ` set ps"

text \<open>
  \<open>ToString\<close>. An object parsed from JSON has no callable \<open>toString\<close> of its own, so
  one that has the property at all cannot be converted.
\<close>

fun to_str :: "js \<Rightarrow> string option" where
  "to_str JUndefined = Some ''undefined''"
| "to_str JNull = Some ''null''"
| "to_str (JBool b) = Some (if b then ''true'' else ''false'')"
| "to_str (JNum n) = Some (show_number n)"
| "to_str (JStr s) = Some s"
| "to_str (JArr xs) =
     map_option (join '','')
       (those_all (map (\<lambda>x. if x = JUndefined \<or> x = JNull then Some [] else to_str x) xs))"
| "to_str (JObj ps) = (if has_own ps ''toString'' then None else Some ''[object Object]'')"
| "to_str (JFun f) = Some (''function '' @ f @ ''() { [native code] }'')"
| "to_str JProto = Some ''[object Object]''"

text \<open>
  The string a value compares to with \<open>==\<close> against a string that is no number:
  \<open>Some None\<close> is a value that equals no such string.
\<close>

fun as_text :: "js \<Rightarrow> string option option" where
  "as_text JUndefined = Some None"
| "as_text JNull = Some None"
| "as_text (JBool _) = Some None"
| "as_text (JNum _) = Some None"
| "as_text v = map_option Some (to_str v)"

subsection \<open>Strings to numbers\<close>

definition js_space :: "char \<Rightarrow> bool" where
  "js_space c \<longleftrightarrow> c \<in> {CHR '' '', CHR 0x09, CHR 0x0A, CHR 0x0B, CHR 0x0C, CHR 0x0D, CHR 0xA0}"

definition trim :: "string \<Rightarrow> string" where
  "trim s = rev (dropWhile js_space (rev (dropWhile js_space s)))"

fun split_sign :: "string \<Rightarrow> bool \<times> string" where
  "split_sign (c # s) = (if c = CHR ''-'' then (True, s) else if c = CHR ''+'' then (False, s) else (False, c # s))"
| "split_sign [] = (False, [])"

text \<open>Integer digits, fraction digits and exponent of an unsigned decimal, and what follows.\<close>

fun split_fraction :: "string \<Rightarrow> string \<times> string" where
  "split_fraction (c # s) =
     (if c = CHR ''.'' then (takeWhile decimal_digit s, dropWhile decimal_digit s) else ([], c # s))"
| "split_fraction [] = ([], [])"

definition with_sign :: "bool \<Rightarrow> int \<Rightarrow> int" where
  "with_sign neg i = (if neg then - i else i)"

fun split_exponent :: "string \<Rightarrow> int \<times> string" where
  "split_exponent (c # s) =
     (if c = CHR ''e'' \<or> c = CHR ''E'' then
        let (neg, t) = split_sign s; ds = takeWhile decimal_digit t
        in if ds = [] then (0, c # s)
           else (with_sign neg (int (from_base 10 ds)), dropWhile decimal_digit t)
      else (0, c # s))"
| "split_exponent [] = (0, [])"

definition decimal_value :: "bool \<Rightarrow> string \<Rightarrow> string \<Rightarrow> int \<Rightarrow> number" where
  "decimal_value neg ds fs e = mk_dec (with_sign neg (int (from_base 10 (ds @ fs)))) (e - int (length fs))"

definition is_digit_of :: "nat \<Rightarrow> char \<Rightarrow> bool" where
  "is_digit_of b c \<longleftrightarrow> (case char_digit c of Some d \<Rightarrow> d < b | None \<Rightarrow> False)"

fun radix_prefix :: "string \<Rightarrow> nat option" where
  "radix_prefix (z # x # s) =
     (if z \<noteq> CHR ''0'' then None
      else if x \<in> {CHR ''x'', CHR ''X''} then Some 16
      else if x \<in> {CHR ''o'', CHR ''O''} then Some 8
      else if x \<in> {CHR ''b'', CHR ''B''} then Some 2 else None)"
| "radix_prefix _ = None"

text \<open>\<open>StringToNumber\<close>\<close>

definition string_number :: "string \<Rightarrow> number" where
  "string_number s =
     (let t = trim s in
      if t = [] then Dec 0 0
      else case radix_prefix t of
        Some b \<Rightarrow>
          (let ds = drop 2 t in if ds \<noteq> [] \<and> list_all (is_digit_of b) ds then mk_dec (int (from_base b ds)) 0 else NaN)
      | None \<Rightarrow>
          (let (neg, t) = split_sign t in
           if t = ''Infinity'' then Infinite neg
           else let ds = takeWhile decimal_digit t; (fs, t) = split_fraction (dropWhile decimal_digit t);
                    (e, t) = split_exponent t
                in if ds @ fs = [] \<or> t \<noteq> [] then NaN else decimal_value neg ds fs e))"

fun to_number :: "js \<Rightarrow> number option" where
  "to_number JUndefined = Some NaN"
| "to_number JNull = Some (Dec 0 0)"
| "to_number (JBool b) = Some (if b then Dec 1 0 else Dec 0 0)"
| "to_number (JNum n) = Some n"
| "to_number v = map_option string_number (to_str v)"

text \<open>\<open>v < n\<close>, \<open>v == 0\<close> and \<open>parseInt(v)\<close>\<close>

definition less_than :: "js \<Rightarrow> int \<Rightarrow> bool option" where
  "less_than v n = map_option (\<lambda>x. number_less x n) (to_number v)"

fun equals_zero :: "js \<Rightarrow> bool option" where
  "equals_zero JUndefined = Some False"
| "equals_zero JNull = Some False"
| "equals_zero v = map_option (\<lambda>x. x = Dec 0 0) (to_number v)"

definition parse_int :: "string \<Rightarrow> number" where
  "parse_int s =
     (let (neg, t) = split_sign (dropWhile js_space s);
          b = (if radix_prefix t = Some 16 then 16 else 10);
          ds = takeWhile (is_digit_of b) (if b = 16 then drop 2 t else t)
      in if ds = [] then NaN else mk_dec (with_sign neg (int (from_base b ds))) 0)"

subsection \<open>Objects\<close>

text \<open>
  Property access on a value that is neither \<open>undefined\<close> nor \<open>null\<close>, for the names
  the code uses: none of them is a property of a string or array but \<open>length\<close>.
\<close>

fun own_get :: "(string \<times> js) list \<Rightarrow> string \<Rightarrow> js" where
  "own_get ps k = (case map_of ps k of Some v \<Rightarrow> v | None \<Rightarrow> prototype_get k)"

fun get_prop :: "js \<Rightarrow> string \<Rightarrow> js" where
  "get_prop (JObj ps) k = own_get ps k"
| "get_prop (JStr s) k = (if k = ''length'' then js_int (int (length s)) else JUndefined)"
| "get_prop (JArr xs) k = (if k = ''length'' then js_int (int (length xs)) else JUndefined)"
| "get_prop _ k = JUndefined"

definition nullish :: "js \<Rightarrow> bool" where
  "nullish v \<longleftrightarrow> v = JUndefined \<or> v = JNull"

text \<open>
  Setting a property: a new one goes last, but the ones that are array indices
  come first, in ascending order.
\<close>

definition is_index :: "string \<Rightarrow> bool" where
  "is_index k \<longleftrightarrow> k \<noteq> [] \<and> list_all decimal_digit k \<and> (k = ''0'' \<or> hd k \<noteq> CHR ''0'') \<and>
     from_base 10 k < 4294967295"

definition key_before :: "string \<Rightarrow> string \<Rightarrow> bool" where
  "key_before k l \<longleftrightarrow> is_index k \<and> (is_index l \<longrightarrow> from_base 10 k < from_base 10 l)"

fun put :: "(string \<times> 'v) list \<Rightarrow> string \<Rightarrow> 'v \<Rightarrow> (string \<times> 'v) list" where
  "put [] k v = [(k, v)]"
| "put ((l, w) # ps) k v =
     (if l = k then (k, v) # ps
      else if key_before k l then (k, v) # (l, w) # ps else (l, w) # put ps k v)"

definition remove_prop :: "(string \<times> 'v) list \<Rightarrow> string \<Rightarrow> (string \<times> 'v) list" where
  "remove_prop ps k = filter (\<lambda>(l, _). l \<noteq> k) ps"

lemma map_of_put: "map_of (put ps k v) = (map_of ps)(k \<mapsto> v)"
  by (induction ps) (auto simp: fun_eq_iff)

lemma map_of_remove_prop: "map_of (remove_prop ps k) l = (if l = k then None else map_of ps l)"
  by (induction ps) (auto simp: remove_prop_def)

lemma has_own_iff: "has_own ps k \<longleftrightarrow> map_of ps k \<noteq> None"
  by (simp add: has_own_def map_of_eq_None_iff)

subsection \<open>Splitting and joining\<close>

lemma split_on_not_Nil [simp]: "split_on c s \<noteq> []"
  by (induction s) (auto split: list.split)

lemma split_on_one: "c \<notin> set s \<Longrightarrow> split_on c s = [s]"
  by (induction s) auto

lemma split_on_append: "c \<notin> set s \<Longrightarrow> split_on c (s @ c # t) = s # split_on c t"
  by (induction s) auto

lemma join_split_on: "join [c] (split_on c s) = s"
proof (induction s)
  case (Cons d s)
  obtain l ls where "split_on c s = l # ls"
    by (cases "split_on c s") simp_all
  then show ?case
    using Cons by (cases ls) auto
qed simp

end
