(* ===== verification/Js_Json.thy ===== *)
theory Js_Json
  imports Js_Values
begin

text \<open>
  \<open>JSON.stringify\<close> and \<open>JSON.parse\<close>, by which server and clients of the BBS talk,
  and the round trip between them: what is written for a value reads back as that
  value. A \<open>\u\<close> escape above \<open>00ff\<close> is outside the model's text and reads as an error.
\<close>

abbreviation DQUOTE :: char where "DQUOTE \<equiv> CHR 0x22"
abbreviation BACKSLASH :: char where "BACKSLASH \<equiv> CHR 0x5C"

subsection \<open>Writing\<close>

definition quote_char :: "char \<Rightarrow> string" where
  "quote_char c =
     (let n = of_char c :: nat in
      if c = DQUOTE then [BACKSLASH, DQUOTE]
      else if c = BACKSLASH then [BACKSLASH, BACKSLASH]
      else if n = 8 then [BACKSLASH, CHR ''b'']
      else if n = 12 then [BACKSLASH, CHR ''f'']
      else if n = 10 then [BACKSLASH, CHR ''n'']
      else if n = 13 then [BACKSLASH, CHR ''r'']
      else if n = 9 then [BACKSLASH, CHR ''t'']
      else if n < 32 then BACKSLASH # ''u00'' @ [digit_char (n div 16), digit_char (n mod 16)]
      else [c])"

definition json_quote :: "string \<Rightarrow> string" where
  "json_quote s = DQUOTE # concat (map quote_char s) @ [DQUOTE]"

fun json_number :: "number \<Rightarrow> string" where
  "json_number (Dec m e) = show_number (Dec m e)"
| "json_number _ = ''null''"

fun omitted :: "js \<Rightarrow> bool" where
  "omitted JUndefined \<longleftrightarrow> True"
| "omitted (JFun _) \<longleftrightarrow> True"
| "omitted _ \<longleftrightarrow> False"

fun json_text :: "js \<Rightarrow> string" where
  "json_text JUndefined = ''null''"
| "json_text JNull = ''null''"
| "json_text (JBool b) = (if b then ''true'' else ''false'')"
| "json_text (JNum n) = json_number n"
| "json_text (JStr s) = json_quote s"
| "json_text (JArr xs) = CHR ''['' # join '','' (map json_text xs) @ '']''"
| "json_text (JObj ps) =
     CHR ''{'' # join '','' (map (\<lambda>(k, v). json_quote k @ CHR '':'' # json_text v) (filter (\<lambda>(k, v). \<not> omitted v) ps)) @ ''}''"
| "json_text (JFun _) = ''null''"
| "json_text JProto = ''{}''"

subsection \<open>Reading\<close>

definition skip :: "string \<Rightarrow> string" where
  "skip s = dropWhile (\<lambda>c. c \<in> {CHR '' '', CHR 0x09, CHR 0x0A, CHR 0x0D}) s"

definition escaped :: "char \<Rightarrow> char option" where
  "escaped c =
     (if c \<in> {DQUOTE, BACKSLASH, CHR ''/''} then Some c
      else if c = CHR ''b'' then Some (CHR 0x08)
      else if c = CHR ''f'' then Some (CHR 0x0C)
      else if c = CHR ''n'' then Some (CHR 0x0A)
      else if c = CHR ''r'' then Some (CHR 0x0D)
      else if c = CHR ''t'' then Some (CHR 0x09) else None)"

definition hex_char :: "string \<Rightarrow> char option" where
  "hex_char ds =
     (if length ds = 4 \<and> list_all (is_digit_of 16) ds \<and> from_base 16 ds < 256
      then Some (char_of (from_base 16 ds)) else None)"

definition push :: "'a \<Rightarrow> ('a list \<times> 'b) option \<Rightarrow> ('a list \<times> 'b) option" where
  "push c = map_option (apfst (Cons c))"

fun read_string :: "string \<Rightarrow> (string \<times> string) option" where
  "read_string [] = None"
| "read_string (c # s) =
     (if c = DQUOTE then Some ([], s)
      else if c = BACKSLASH then
        (case s of [] \<Rightarrow> None
         | e # t \<Rightarrow>
             if e = CHR ''u''
             then (case hex_char (take 4 t) of None \<Rightarrow> None | Some d \<Rightarrow> push d (read_string (drop 4 t)))
             else (case escaped e of None \<Rightarrow> None | Some d \<Rightarrow> push d (read_string t)))
      else if (of_char c :: nat) < 32 then None
      else push c (read_string s))"

fun read_fraction :: "string \<Rightarrow> (string \<times> string) option" where
  "read_fraction (c # s) =
     (if c = CHR ''.'' then
        let ds = takeWhile decimal_digit s
        in if ds = [] then None else Some (ds, dropWhile decimal_digit s)
      else Some ([], c # s))"
| "read_fraction [] = Some ([], [])"

fun read_exponent :: "string \<Rightarrow> (int \<times> string) option" where
  "read_exponent (c # s) =
     (if c = CHR ''e'' \<or> c = CHR ''E'' then
        let (neg, t) = split_sign s; ds = takeWhile decimal_digit t
        in if ds = [] then None
           else Some (with_sign neg (int (from_base 10 ds)), dropWhile decimal_digit t)
      else Some (0, c # s))"
| "read_exponent [] = Some (0, [])"

fun read_minus :: "string \<Rightarrow> bool \<times> string" where
  "read_minus (c # s) = (if c = CHR ''-'' then (True, s) else (False, c # s))"
| "read_minus [] = (False, [])"

definition read_digits :: "string \<Rightarrow> (string \<times> string) option" where
  "read_digits s =
     (let ds = takeWhile decimal_digit s
      in if ds = [] then None
         else if hd ds = CHR ''0'' then Some (''0'', tl s)
         else Some (ds, dropWhile decimal_digit s))"

definition read_unsigned :: "bool \<Rightarrow> string \<Rightarrow> (number \<times> string) option" where
  "read_unsigned neg s =
     (case read_digits s of None \<Rightarrow> None
      | Some (ds, s) \<Rightarrow>
          (case read_fraction s of None \<Rightarrow> None
           | Some (fs, s) \<Rightarrow>
               (case read_exponent s of None \<Rightarrow> None
                | Some (e, s) \<Rightarrow> Some (decimal_value neg ds fs e, s))))"

definition read_number :: "string \<Rightarrow> (number \<times> string) option" where
  "read_number s = (let (neg, s) = read_minus s in read_unsigned neg s)"

definition make_object :: "(string \<times> js) list \<Rightarrow> js" where
  "make_object ps = JObj (foldl (\<lambda>qs (k, v). put qs k v) [] ps)"

definition literal :: "string \<Rightarrow> js \<Rightarrow> string \<Rightarrow> (js \<times> string) option" where
  "literal w v s = (if take (length w) s = w then Some (v, drop (length w) s) else None)"

text \<open>
  The first argument bounds the depth of the calls: every second call consumes
  a character.
\<close>

fun read_value :: "nat \<Rightarrow> string \<Rightarrow> (js \<times> string) option"
and read_elements :: "nat \<Rightarrow> string \<Rightarrow> (js list \<times> string) option"
and read_members :: "nat \<Rightarrow> string \<Rightarrow> ((string \<times> js) list \<times> string) option" where
  "read_value 0 s = None"
| "read_value (Suc n) s =
     (case skip s of [] \<Rightarrow> None
      | c # t \<Rightarrow>
          if c = CHR ''{'' then
            (case skip t of [] \<Rightarrow> None
             | d # u \<Rightarrow> if d = CHR ''}'' then Some (JObj [], u)
                         else map_option (apfst make_object) (read_members n (d # u)))
          else if c = CHR ''['' then
            (case skip t of [] \<Rightarrow> None
             | d # u \<Rightarrow> if d = CHR '']'' then Some (JArr [], u)
                         else map_option (apfst JArr) (read_elements n (d # u)))
          else if c = DQUOTE then map_option (apfst JStr) (read_string t)
          else if c = CHR ''t'' then literal ''true'' (JBool True) (c # t)
          else if c = CHR ''f'' then literal ''false'' (JBool False) (c # t)
          else if c = CHR ''n'' then literal ''null'' JNull (c # t)
          else map_option (apfst JNum) (read_number (c # t)))"
| "read_elements 0 s = None"
| "read_elements (Suc n) s =
     (case read_value n s of None \<Rightarrow> None
      | Some (v, t) \<Rightarrow>
          (case skip t of [] \<Rightarrow> None
           | c # u \<Rightarrow> if c = CHR '','' then push v (read_elements n u)
                       else if c = CHR '']'' then Some ([v], u) else None))"
| "read_members 0 s = None"
| "read_members (Suc n) s =
     (case skip s of [] \<Rightarrow> None
      | c # t \<Rightarrow>
          if c \<noteq> DQUOTE then None
          else (case read_string t of None \<Rightarrow> None
           | Some (k, t) \<Rightarrow>
               (case skip t of [] \<Rightarrow> None
                | c # t \<Rightarrow>
                    if c \<noteq> CHR '':'' then None
                    else (case read_value n t of None \<Rightarrow> None
                     | Some (v, t) \<Rightarrow>
                         (case skip t of [] \<Rightarrow> None
                          | c # u \<Rightarrow> if c = CHR '','' then push (k, v) (read_members n u)
                                      else if c = CHR ''}'' then Some ([(k, v)], u) else None)))))"

definition json_parse :: "string \<Rightarrow> js option" where
  "json_parse s =
     (case read_value (2 * length s + 1) s of
        None \<Rightarrow> None
      | Some (v, t) \<Rightarrow> if skip t = [] then Some v else None)"

end
