(* ===== verification/Js_Roundtrip.thy ===== *)
theory Js_Roundtrip
  imports Js_Json
begin

text \<open>
  Facts about \<open>JSON.stringify\<close> and \<open>JSON.parse\<close>: the depth bound of the parser is
  enough, and a value that is written reads back.
\<close>

subsection \<open>Digits\<close>

lemma digit_char_code: "d < 36 \<Longrightarrow> of_char (digit_char d) = (if d < 10 then 48 + d else 87 + d :: nat)"
  by (simp add: digit_char_def)

lemma char_digit_char [simp]: "d < 36 \<Longrightarrow> char_digit (digit_char d) = Some d"
  by (simp add: char_digit_def digit_char_code)

lemma decimal_digit_char: "d < 10 \<Longrightarrow> decimal_digit (digit_char d)"
  by (simp add: decimal_digit_def digit_char_code)

lemma from_base_Nil [simp]: "from_base b [] = 0"
  by (simp add: from_base_def)

lemma from_base_snoc [simp]:
  "from_base b (s @ [c]) = b * from_base b s + (case char_digit c of Some d \<Rightarrow> d | None \<Rightarrow> 0)"
  by (simp add: from_base_def)

lemma from_base_append: "from_base b (s @ t) = from_base b s * b ^ length t + from_base b t"
proof (induction t rule: rev_induct)
  case (snoc c t)
  then show ?case
    by (simp flip: append_assoc add: algebra_simps)
qed simp

lemma from_base_zeros [simp]: "from_base b (replicate n CHR ''0'') = 0"
proof (induction n)
  case (Suc n)
  have "from_base b (replicate (Suc n) CHR ''0'') = from_base b (replicate n CHR ''0'' @ [CHR ''0''])"
    by (simp add: replicate_append_same)
  also have "\<dots> = 0"
    using Suc by (simp add: char_digit_def)
  finally show ?case .
qed simp

lemma from_base_zero_Cons: "from_base b (CHR ''0'' # s) = from_base b s"
  by (simp add: from_base_def char_digit_def)

lemma to_base_not_Nil [simp]: "to_base b n \<noteq> []"
  by (subst to_base.simps) simp

lemma from_to_base: "2 \<le> b \<Longrightarrow> b \<le> 36 \<Longrightarrow> from_base b (to_base b n) = n"
proof (induction b n rule: to_base.induct)
  case (1 b n)
  show ?case
  proof (cases "n < b")
    case True
    then show ?thesis
      using 1 by (subst to_base.simps) (simp add: from_base_def)
  next
    case False
    moreover have "n mod b < b"
      using 1(2) by simp
    then have "n mod b < 36"
      using 1(3) by simp
    ultimately show ?thesis
      using 1 by (subst to_base.simps) simp
  qed
qed

lemma show_nat_digits: "list_all decimal_digit (show_nat n)"
proof (induction "10::nat" n rule: to_base.induct)
  case (1 n)
  show ?case
  proof (cases "n < 10")
    case True
    then show ?thesis
      by (subst to_base.simps) (simp add: decimal_digit_char)
  next
    case False
    then show ?thesis
      using 1 by (subst to_base.simps) (simp add: decimal_digit_char)
  qed
qed

lemma show_nat_head: "0 < n \<Longrightarrow> hd (show_nat n) \<noteq> CHR ''0''"
proof (induction "10::nat" n rule: to_base.induct)
  case (1 n)
  show ?case
  proof (cases "n < 10")
    case True
    have "of_char (digit_char n) \<noteq> (of_char (CHR ''0'') :: nat)"
      using 1 True by (simp add: digit_char_code)
    then have "digit_char n \<noteq> CHR ''0''"
      by metis
    then show ?thesis
      using True by (subst to_base.simps) simp
  next
    case False
    then show ?thesis
      using 1 by (subst to_base.simps) simp
  qed
qed

lemma takeWhile_digits:
  "list_all decimal_digit s \<Longrightarrow> r = [] \<or> \<not> decimal_digit (hd r) \<Longrightarrow>
    takeWhile decimal_digit (s @ r) = s \<and> dropWhile decimal_digit (s @ r) = r"
  by (induction s) (cases r; simp)+

lemma zeros_digits: "list_all decimal_digit (replicate n CHR ''0'')"
  by (simp add: list_all_length decimal_digit_def)

lemma length_show_nat: "0 < length (show_nat n)"
  by simp

subsection \<open>Numbers\<close>

fun number_ok :: "number \<Rightarrow> bool" where
  "number_ok (Dec m e) \<longleftrightarrow> mk_dec m e = Dec m e"
| "number_ok _ \<longleftrightarrow> False"

lemma mk_dec_zero [simp]: "mk_dec 0 e = Dec 0 0"
  by (simp add: mk_dec.simps)

lemma mk_dec_times10: "m \<noteq> 0 \<Longrightarrow> mk_dec (m * 10 ^ k) e = mk_dec m (e + int k)"
proof (induction k arbitrary: e)
  case (Suc k)
  have "mk_dec (m * 10 ^ Suc k) e = mk_dec (m * 10 ^ k) (e + 1)"
    using Suc.prems by (subst mk_dec.simps) simp
  then show ?case
    using Suc by (simp add: add.commute add.left_commute)
qed simp

lemma mk_dec_idem: "mk_dec m e = Dec m' e' \<Longrightarrow> mk_dec m' e' = Dec m' e'"
proof (induction m e rule: mk_dec.induct)
  case (1 m e)
  show ?case
  proof (cases "m \<noteq> 0 \<and> m mod 10 = 0")
    case True
    then show ?thesis
      using 1 by (subst (asm) (2) mk_dec.simps) simp
  next
    case False
    then show ?thesis
      using 1(2) by (auto simp: mk_dec.simps [of m e] split: if_splits) (simp add: mk_dec.simps)
  qed
qed

lemma mk_dec_Dec: "\<exists>m' e'. mk_dec m e = Dec m' e'"
  by (induction m e rule: mk_dec.induct) (subst mk_dec.simps, simp)

lemma number_ok_mk_dec: "number_ok (mk_dec m e)"
  using mk_dec_Dec [of m e] mk_dec_idem [of m e] by auto

text \<open>What may follow a number: the end of the text, or the end of an element.\<close>

definition ends :: "string \<Rightarrow> bool" where
  "ends r \<longleftrightarrow> r = [] \<or> hd r \<in> {CHR '','', CHR '']'', CHR ''}''}"

lemma ends_no_digit: "ends r \<Longrightarrow> r = [] \<or> \<not> decimal_digit (hd r)"
  by (auto simp: ends_def decimal_digit_def)

lemma read_digits_append:
  assumes "list_all decimal_digit ds" and "ds \<noteq> []" and "hd ds \<noteq> CHR ''0''" and "t = [] \<or> \<not> decimal_digit (hd t)"
  shows "read_digits (ds @ t) = Some (ds, t)"
  using assms takeWhile_digits [of ds t] by (simp add: read_digits_def)

lemma read_fraction_append:
  "list_all decimal_digit ds \<Longrightarrow> ds \<noteq> [] \<Longrightarrow> t = [] \<or> \<not> decimal_digit (hd t) \<Longrightarrow>
    read_fraction (CHR ''.'' # ds @ t) = Some (ds, t)"
  using takeWhile_digits [of ds t] by simp

lemma read_fraction_none: "t = [] \<or> hd t \<noteq> CHR ''.'' \<Longrightarrow> read_fraction t = Some ([], t)"
  by (cases t) auto

lemma read_exponent_none: "t = [] \<or> hd t \<notin> {CHR ''e'', CHR ''E''} \<Longrightarrow> read_exponent t = Some (0, t)"
  by (cases t) auto

lemma read_exponent_append:
  assumes "ends t"
  shows "read_exponent (CHR ''e'' # (if neg then CHR ''-'' else CHR ''+'') # show_nat n @ t) =
    Some (with_sign neg (int n), t)"
  using takeWhile_digits [OF show_nat_digits ends_no_digit [OF assms], of n]
  by (cases neg) (simp_all add: from_to_base)

lemma ends_plain: "ends r \<Longrightarrow> read_fraction r = Some ([], r) \<and> read_exponent r = Some (0, r)"
  by (intro conjI read_fraction_none read_exponent_none) (auto simp: ends_def)

lemma show_decimal_head: "show_decimal m e \<noteq> [] \<and> decimal_digit (hd (show_decimal m e))"
proof -
  have "decimal_digit (hd (show_nat m))" "show_nat m \<noteq> []" "decimal_digit (CHR ''0'')"
    using show_nat_digits [of m] by (cases "show_nat m"; simp add: decimal_digit_def)+
  then show ?thesis
    by (auto simp: show_decimal_def Let_def hd_append)
qed

lemma read_show_decimal:
  assumes m: "0 < m" and r: "ends r"
  shows "read_unsigned neg (show_decimal m e @ r) = Some (mk_dec (with_sign neg (int m)) e, r)"
proof -
  define s where "s = show_nat m"
  define k where "k = int (length s)"
  define n where "n = e + k"
  have s: "list_all decimal_digit s" "s \<noteq> []" "hd s \<noteq> CHR ''0''" "from_base 10 s = m"
    using m by (simp_all add: s_def show_nat_digits show_nat_head from_to_base)
  have k: "0 < k"
    using s by (simp add: k_def)
  have sgn: "with_sign neg (int m) \<noteq> 0"
    using m by (simp add: with_sign_def)
  have dec: "show_decimal m e =
     (if k \<le> n \<and> n \<le> 21 then s @ replicate (nat (n - k)) CHR ''0''
      else if 0 < n \<and> n \<le> 21 then take (nat n) s @ CHR ''.'' # drop (nat n) s
      else if - 6 < n \<and> n \<le> 0 then ''0.'' @ replicate (nat (- n)) CHR ''0'' @ s
      else (if k = 1 then s else hd s # CHR ''.'' # tl s) @
           CHR ''e'' # (if n - 1 < 0 then CHR ''-'' else CHR ''+'') # show_nat (nat \<bar>n - 1\<bar>))"
    by (simp add: show_decimal_def Let_def s_def k_def n_def)
  consider (zeros) "k \<le> n" "n \<le> 21" | (point) "n < k" "0 < n" "n \<le> 21" | (small) "- 6 < n" "n \<le> 0"
    | (expo) "n \<le> - 6 \<or> 21 < n"
    by linarith
  then show ?thesis
  proof cases
    case zeros
    let ?z = "replicate (nat (n - k)) CHR ''0''"
    have "read_digits ((s @ ?z) @ r) = Some (s @ ?z, r)"
      using s r by (intro read_digits_append) (simp_all add: zeros_digits ends_no_digit)
    moreover have "decimal_value neg (s @ ?z) [] 0 = mk_dec (with_sign neg (int m) * 10 ^ nat (n - k)) 0"
      using s by (simp add: decimal_value_def from_base_append with_sign_def)
    ultimately show ?thesis
      using zeros dec ends_plain [OF r] mk_dec_times10 [OF sgn, of "nat (n - k)" 0]
      by (simp add: read_unsigned_def n_def)
  next
    case point
    let ?i = "take (nat n) s" and ?f = "drop (nat n) s"
    have len: "nat n < length s" "0 < nat n"
      using point k_def by linarith+
    have i: "list_all decimal_digit ?i" "?i \<noteq> []" "hd ?i \<noteq> CHR ''0''"
      and f: "list_all decimal_digit ?f" "?f \<noteq> []"
      using s len by (auto simp: list_all_iff dest: in_set_takeD in_set_dropD)
    have "read_digits (?i @ CHR ''.'' # ?f @ r) = Some (?i, CHR ''.'' # ?f @ r)"
      using i by (intro read_digits_append) (simp_all add: decimal_digit_def)
    moreover have "read_fraction (CHR ''.'' # ?f @ r) = Some (?f, r)"
      using f r by (intro read_fraction_append) (simp_all add: ends_no_digit)
    moreover have "decimal_value neg ?i ?f 0 = mk_dec (with_sign neg (int m)) e"
      using s len by (simp add: decimal_value_def n_def k_def)
    moreover have "show_decimal m e = ?i @ CHR ''.'' # ?f"
      using point dec by simp
    ultimately show ?thesis
      using ends_plain [OF r] by (simp add: read_unsigned_def)
  next
    case small
    let ?z = "replicate (nat (- n)) CHR ''0''"
    have "read_digits (CHR ''0'' # CHR ''.'' # ?z @ s @ r) = Some (''0'', CHR ''.'' # ?z @ s @ r)"
      by (simp add: read_digits_def decimal_digit_def)
    moreover have "read_fraction (CHR ''.'' # (?z @ s) @ r) = Some (?z @ s, r)"
      using s r by (intro read_fraction_append) (simp_all add: zeros_digits ends_no_digit)
    moreover have "from_base 10 (''0'' @ ?z @ s) = m"
      using s by (simp add: from_base_zero_Cons from_base_append)
    then have "decimal_value neg ''0'' (?z @ s) 0 = mk_dec (with_sign neg (int m)) e"
      using small by (simp add: decimal_value_def n_def k_def)
    moreover have "show_decimal m e = CHR ''0'' # CHR ''.'' # ?z @ s"
      using small k dec by simp
    ultimately show ?thesis
      using ends_plain [OF r] by (simp add: read_unsigned_def)
  next
    case expo
    define x where "x = CHR ''e'' # (if n - 1 < 0 then CHR ''-'' else CHR ''+'') # show_nat (nat \<bar>n - 1\<bar>)"
    have x: "read_exponent (x @ r) = Some (n - 1, r)"
      using read_exponent_append [OF r, of "n - 1 < 0" "nat \<bar>n - 1\<bar>"] by (simp add: x_def with_sign_def del: read_exponent.simps)
    have hx: "x @ r = [] \<or> \<not> decimal_digit (hd (x @ r))" "hd (x @ r) \<noteq> CHR ''.''"
      by (simp_all add: x_def decimal_digit_def)
    show ?thesis
    proof (cases "k = 1")
      case True
      have "read_digits (s @ x @ r) = Some (s, x @ r)"
        using s hx by (intro read_digits_append) simp_all
      moreover have "read_fraction (x @ r) = Some ([], x @ r)"
        using hx by (intro read_fraction_none) simp
      moreover have "decimal_value neg s [] (n - 1) = mk_dec (with_sign neg (int m)) e"
        using s True by (simp add: decimal_value_def n_def)
      moreover have "show_decimal m e = s @ x"
        using expo True dec by (auto simp: x_def)
      ultimately show ?thesis
        using x by (simp add: read_unsigned_def)
    next
      case False
      then have tl: "tl s \<noteq> []"
        using k s by (cases s) (auto simp: k_def)
      have hs: "s = hd s # tl s" "list_all decimal_digit (tl s)" "decimal_digit (hd s)"
        using s by (cases s; simp)+
      have "read_digits ([hd s] @ CHR ''.'' # tl s @ x @ r) = Some ([hd s], CHR ''.'' # tl s @ x @ r)"
        using s hs by (intro read_digits_append) (simp_all add: decimal_digit_def)
      moreover have "read_fraction (CHR ''.'' # tl s @ x @ r) = Some (tl s, x @ r)"
        using hs tl hx by (intro read_fraction_append) simp_all
      moreover have "decimal_value neg [hd s] (tl s) (n - 1) = mk_dec (with_sign neg (int m)) e"
      proof -
        have "from_base 10 ([hd s] @ tl s) = m" "int (length (tl s)) = k - 1"
          using s k by (simp_all add: k_def of_nat_diff Suc_leI)
        then show ?thesis
          by (simp add: decimal_value_def n_def del: length_tl append_Cons append_Nil)
      qed
      moreover have "show_decimal m e = hd s # CHR ''.'' # tl s @ x"
        using expo False k dec by (auto simp: x_def)
      ultimately show ?thesis
        using x by (simp add: read_unsigned_def)
    qed
  qed
qed

lemma read_show_number:
  assumes "number_ok n" and r: "ends r"
  shows "read_number (json_number n @ r) = Some (n, r)"
proof (cases n)
  case (Dec m e)
  then have n: "mk_dec m e = Dec m e"
    using assms by simp
  consider (zero) "m = 0" | (neg) "m < 0" | (pos) "0 < m"
    by linarith
  then show ?thesis
  proof cases
    case zero
    then show ?thesis
      using n Dec ends_plain [OF r]
      by (simp add: read_number_def read_unsigned_def read_digits_def decimal_digit_def decimal_value_def
          from_base_def char_digit_def with_sign_def)
  next
    case neg
    then show ?thesis
      using n Dec read_show_decimal [of "nat (- m)" r True e] r
      by (simp add: read_number_def with_sign_def)
  next
    case pos
    have "read_minus (show_decimal (nat m) e @ r) = (False, show_decimal (nat m) e @ r)"
      using show_decimal_head [of "nat m" e] by (cases "show_decimal (nat m) e") (auto simp: decimal_digit_def)
    then show ?thesis
      using n pos Dec read_show_decimal [of "nat m" r False e] r
      by (simp add: read_number_def with_sign_def)
  qed
qed (use assms in auto)

subsection \<open>Strings\<close>

lemma push_simps [simp]: "push c None = None" "push c (Some (s, r)) = Some (c # s, r)"
  by (simp_all add: push_def)

lemma special_chars:
  "(of_char c :: nat) = 8 \<Longrightarrow> c = CHR 0x08" "(of_char c :: nat) = 9 \<Longrightarrow> c = CHR 0x09"
  "(of_char c :: nat) = 10 \<Longrightarrow> c = CHR 0x0A" "(of_char c :: nat) = 12 \<Longrightarrow> c = CHR 0x0C"
  "(of_char c :: nat) = 13 \<Longrightarrow> c = CHR 0x0D"
  using of_char_eq_iff [of c "CHR 0x08", where 'a = nat] of_char_eq_iff [of c "CHR 0x09", where 'a = nat]
    of_char_eq_iff [of c "CHR 0x0A", where 'a = nat] of_char_eq_iff [of c "CHR 0x0C", where 'a = nat]
    of_char_eq_iff [of c "CHR 0x0D", where 'a = nat]
  by simp_all

lemma hex_char_digits:
  assumes "n < 32"
  shows "hex_char (''00'' @ [digit_char (n div 16), digit_char (n mod 16)]) = Some (char_of n)"
proof -
  have d: "n div 16 < 16" "n mod 16 < 16"
    using assms by simp_all
  have z: "char_digit CHR ''0'' = Some 0"
    by (simp add: char_digit_def)
  show ?thesis
    using d assms by (simp add: hex_char_def is_digit_of_def from_base_def z)
qed

lemma read_quote_char: "read_string (quote_char c @ t) = push c (read_string t)"
proof -
  define n where "n = (of_char c :: nat)"
  have c: "char_of n = c"
    by (simp add: n_def)
  consider (plain) "32 \<le> n" | (special) "n \<in> {8, 9, 10, 12, 13}" | (control) "n < 32" "n \<notin> {8, 9, 10, 12, 13}"
    by fastforce
  then show ?thesis
  proof cases
    case plain
    then show ?thesis
      by (auto simp: quote_char_def escaped_def n_def Let_def)
  next
    case special
    then have "c = CHR 0x08 \<or> c = CHR 0x09 \<or> c = CHR 0x0A \<or> c = CHR 0x0C \<or> c = CHR 0x0D"
      using special_chars [of c] by (auto simp: n_def)
    then show ?thesis
      by (elim disjE) (simp_all add: quote_char_def escaped_def)
  next
    case control
    then have "quote_char c = BACKSLASH # ''u00'' @ [digit_char (n div 16), digit_char (n mod 16)]"
      by (auto simp: quote_char_def n_def Let_def)
    then show ?thesis
      using hex_char_digits [OF control(1)] c by simp
  qed
qed

lemma read_quoted: "read_string (concat (map quote_char s) @ DQUOTE # r) = Some (s, r)"
proof (induction s)
  case (Cons c s)
  then show ?case
    using read_quote_char [of c "concat (map quote_char s) @ DQUOTE # r"] by simp
qed simp

subsection \<open>Objects\<close>

text \<open>Properties in the order in which JavaScript keeps them, each name once.\<close>

definition props_ok :: "(string \<times> 'v) list \<Rightarrow> bool" where
  "props_ok ps \<longleftrightarrow> distinct (map fst ps) \<and> sorted_wrt (\<lambda>k l. \<not> key_before l k) (map fst ps)"

lemma key_before_past: "key_before k l \<Longrightarrow> \<not> key_before l' l \<Longrightarrow> \<not> key_before l' k"
  by (auto simp: key_before_def)

lemma fst_put: "fst ` set (put ps k v) = insert k (fst ` set ps)"
  by (induction ps k v rule: put.induct) (simp_all add: insert_commute)

lemma put_last: "k \<notin> fst ` set ps \<Longrightarrow> \<forall>l \<in> fst ` set ps. \<not> key_before k l \<Longrightarrow> put ps k v = ps @ [(k, v)]"
  by (induction ps) auto

lemma key_before_irrefl: "\<not> key_before k k"
  by (simp add: key_before_def)

lemma props_ok_put: "props_ok ps \<Longrightarrow> props_ok (put ps k v)"
proof (induction ps)
  case (Cons p ps)
  obtain l w where p: "p = (l, w)"
    by (cases p)
  have ps: "props_ok ps" "l \<notin> fst ` set ps" "\<forall>m \<in> fst ` set ps. \<not> key_before m l"
    using Cons.prems p by (auto simp: props_ok_def)
  have IH: "props_ok (put ps k v)"
    using Cons.IH ps by simp
  consider (same) "l = k" | (before) "l \<noteq> k" "key_before k l" | (after) "l \<noteq> k" "\<not> key_before k l"
    by auto
  then show ?case
  proof cases
    case same
    then show ?thesis
      using Cons.prems p by (simp add: props_ok_def)
  next
    case before
    then have "k \<notin> fst ` set ps" "\<forall>m \<in> fst ` set ps. \<not> key_before m k" "\<not> key_before l k"
      using ps by (auto dest: key_before_past) (auto simp: key_before_def)
    then show ?thesis
      using before Cons.prems p by (simp add: props_ok_def image_iff)
  next
    case after
    have "set (map fst (put ps k v)) = insert k (fst ` set ps)"
      using fst_put [of ps k v] by simp
    then show ?thesis
      using after p ps IH by (auto simp: props_ok_def)
  qed
qed (simp add: props_ok_def)

lemma foldl_put_append: "props_ok (ps @ qs) \<Longrightarrow> foldl (\<lambda>qs (k, v). put qs k v) ps qs = ps @ qs"
proof (induction qs arbitrary: ps)
  case (Cons q qs)
  have "put ps (fst q) (snd q) = ps @ [q]"
    using Cons.prems by (subst put_last) (auto simp: props_ok_def sorted_wrt_append)
  then show ?case
    using Cons.IH [of "ps @ [q]"] Cons.prems by (simp add: case_prod_beta)
qed simp

lemma make_object_ok: "props_ok ps \<Longrightarrow> make_object ps = JObj ps"
  using foldl_put_append [of "[]" ps] by (simp add: make_object_def)

lemma props_ok_foldl: "props_ok qs \<Longrightarrow> props_ok (foldl (\<lambda>qs (k, v). put qs k v) qs ps)"
  by (induction ps arbitrary: qs) (auto simp: props_ok_put)

lemma snd_put: "set (put ps k v) \<subseteq> insert (k, v) (set ps)"
  by (induction ps k v rule: put.induct) (auto split: if_splits)

lemma snd_foldl: "set (foldl (\<lambda>qs (k, v). put qs k v) qs ps) \<subseteq> set qs \<union> set ps"
proof (induction ps arbitrary: qs)
  case (Cons p ps)
  then show ?case
    using snd_put [of qs "fst p" "snd p"] by (cases p) fastforce
qed simp

subsection \<open>Values\<close>

text \<open>The values JSON can carry.\<close>

fun js_ok :: "js \<Rightarrow> bool" where
  "js_ok JNull \<longleftrightarrow> True"
| "js_ok (JBool _) \<longleftrightarrow> True"
| "js_ok (JNum n) \<longleftrightarrow> number_ok n"
| "js_ok (JStr _) \<longleftrightarrow> True"
| "js_ok (JArr xs) \<longleftrightarrow> (\<forall>x \<in> set xs. js_ok x)"
| "js_ok (JObj ps) \<longleftrightarrow> props_ok ps \<and> (\<forall>(k, v) \<in> set ps. js_ok v)"
| "js_ok _ \<longleftrightarrow> False"

lemma js_ok_not_omitted: "js_ok v \<Longrightarrow> \<not> omitted v"
  by (cases v) auto

definition white :: "char set" where
  "white = {CHR '' '', CHR 0x09, CHR 0x0A, CHR 0x0D}"

lemma skip_solid: "s = [] \<or> hd s \<notin> white \<Longrightarrow> skip s = s"
  by (cases s) (auto simp: skip_def white_def)

lemma json_number_head: "number_ok n \<Longrightarrow> json_number n \<noteq> [] \<and> (decimal_digit (hd (json_number n)) \<or> hd (json_number n) = CHR ''-'')"
  using show_decimal_head by (cases n) (auto simp: decimal_digit_def)

lemma digit_plain:
  "decimal_digit c \<or> c = CHR ''-'' \<Longrightarrow>
    c \<notin> white \<union> {CHR '']'', CHR ''}'', CHR ''{'', CHR ''['', DQUOTE, CHR ''t'', CHR ''f'', CHR ''n''}"
  by (auto simp: decimal_digit_def white_def)

lemma json_text_head:
  "js_ok v \<Longrightarrow> json_text v \<noteq> [] \<and> hd (json_text v) \<notin> white \<union> {CHR '']'', CHR ''}''}"
proof (cases v)
  case (JNum n)
  moreover assume "js_ok v"
  ultimately show ?thesis
    using json_number_head [of n] digit_plain by auto
qed (auto simp: white_def json_quote_def)

definition reads :: "js \<Rightarrow> bool" where
  "reads v \<longleftrightarrow> (\<forall>n r. ends r \<longrightarrow> 2 * length (json_text v) + 1 \<le> n \<longrightarrow>
     read_value n (json_text v @ r) = Some (v, r))"

lemma ends_sep: "ends (c # r) \<longleftrightarrow> c \<in> {CHR '','', CHR '']'', CHR ''}''}"
  by (simp add: ends_def)

lemma skip_sep: "c \<in> {CHR '','', CHR '']'', CHR ''}'', CHR '':'', DQUOTE} \<Longrightarrow> skip (c # r) = c # r"
  by (rule skip_solid) (auto simp: white_def)

lemma reads_elements:
  assumes "xs \<noteq> []" and "\<forall>x \<in> set xs. reads x" and "2 * length (join '','' (map json_text xs)) + 2 \<le> n"
  shows "read_elements n (join '','' (map json_text xs) @ CHR '']'' # r) = Some (xs, r)"
  using assms
proof (induction xs arbitrary: n)
  case (Cons x xs)
  obtain m where n: "n = Suc m"
    using Cons.prems by (cases n) auto
  show ?case
  proof (cases xs)
    case Nil
    have "read_value m (json_text x @ CHR '']'' # r) = Some (x, CHR '']'' # r)"
      using Cons.prems n Nil by (simp add: reads_def ends_sep)
    then show ?thesis
      by (simp add: n Nil skip_sep)
  next
    case (Cons y ys)
    let ?t = "join '','' (map json_text xs) @ CHR '']'' # r"
    have "read_value m (json_text x @ CHR '','' # ?t) = Some (x, CHR '','' # ?t)"
      using Cons.prems n Cons by (simp add: reads_def ends_sep)
    moreover have "read_elements m ?t = Some (xs, r)"
      using Cons.prems n Cons by (intro Cons.IH) auto
    ultimately show ?thesis
      using Cons by (simp add: n skip_sep)
  qed
qed simp

abbreviation member_text :: "string \<times> js \<Rightarrow> string" where
  "member_text \<equiv> \<lambda>(k, v). json_quote k @ CHR '':'' # json_text v"

lemma read_quote: "read_string (tl (json_quote k) @ r) = Some (k, r)"
  using read_quoted [of k r] by (simp add: json_quote_def)

lemma json_quote_Cons: "json_quote k = DQUOTE # tl (json_quote k)"
  by (simp add: json_quote_def)

lemma reads_member:
  assumes "reads v" and "2 * length (member_text (k, v)) \<le> n" and "ends (c # r)"
  shows "read_members (Suc n) (member_text (k, v) @ c # r) =
    (if c = CHR '','' then push (k, v) (read_members n r) else if c = CHR ''}'' then Some ([(k, v)], r) else None)"
proof -
  have "read_value n (json_text v @ c # r) = Some (v, c # r)"
    using assms by (simp add: reads_def)
  moreover have "skip (member_text (k, v) @ c # r) = DQUOTE # tl (json_quote k) @ CHR '':'' # json_text v @ c # r"
    using skip_sep [of DQUOTE] json_quote_Cons [of k] by (metis append.assoc append_Cons insertCI case_prod_conv)
  moreover have "skip (c # r) = c # r"
    using assms(3) by (intro skip_sep) (auto simp: ends_sep)
  ultimately show ?thesis
    by (simp add: read_quote skip_sep)
qed

lemma reads_members:
  assumes "ps \<noteq> []" and "\<forall>(k, v) \<in> set ps. reads v" and "2 * length (join '','' (map member_text ps)) + 2 \<le> n"
  shows "read_members n (join '','' (map member_text ps) @ CHR ''}'' # r) = Some (ps, r)"
  using assms
proof (induction ps arbitrary: n)
  case (Cons p ps)
  obtain k v where p: "p = (k, v)"
    by (cases p)
  obtain m where n: "n = Suc m"
    using Cons.prems by (cases n) auto
  have v: "reads v"
    using Cons.prems p by auto
  show ?case
  proof (cases ps)
    case Nil
    then show ?thesis
      using reads_member [OF v, of k m "CHR ''}''" r] Cons.prems n p by (simp add: ends_sep del: read_members.simps)
  next
    case (Cons q qs)
    let ?t = "join '','' (map member_text ps) @ CHR ''}'' # r"
    have "read_members m ?t = Some (ps, r)"
      using Cons.prems n Cons p by (intro Cons.IH) auto
    then show ?thesis
      using reads_member [OF v, of k m "CHR '',''" ?t] Cons.prems n p Cons by (simp add: ends_sep del: read_members.simps)
  qed
qed simp

lemma read_value_solid: "s \<noteq> [] \<Longrightarrow> hd s \<notin> white \<Longrightarrow> skip s = hd s # tl s"
  using skip_solid [of s] by simp

lemma read_value_number:
  assumes "number_ok m" and "ends r"
  shows "read_value (Suc n) (json_number m @ r) = Some (JNum m, r)"
proof -
  obtain c s where cs: "json_number m = c # s" "decimal_digit c \<or> c = CHR ''-''"
    using json_number_head [OF assms(1)] by (cases "json_number m") auto
  have "skip (c # s @ r) = c # s @ r"
    using digit_plain [OF cs(2)] by (intro skip_solid) simp
  then show ?thesis
    using digit_plain [OF cs(2)] read_show_number [OF assms] cs(1) by simp
qed

lemma reads_SucI:
  assumes "\<And>n r. ends r \<Longrightarrow> 2 * length (json_text v) \<le> n \<Longrightarrow> read_value (Suc n) (json_text v @ r) = Some (v, r)"
  shows "reads v"
proof -
  have "read_value n (json_text v @ r) = Some (v, r)" if "ends r" "2 * length (json_text v) + 1 \<le> n" for n r
    using assms [of r "n - 1"] that by (cases n) auto
  then show ?thesis
    by (simp add: reads_def)
qed

lemma skip_hd: "c \<notin> white \<Longrightarrow> skip (c # s) = c # s"
  by (rule skip_solid) simp

lemma join_head: "xs \<noteq> [] \<Longrightarrow> hd xs \<noteq> [] \<Longrightarrow> join sep xs \<noteq> [] \<and> hd (join sep xs @ r) = hd (hd xs)"
  by (cases "(sep, xs)" rule: join.cases) auto

lemma reads_array:
  assumes "js_ok (JArr xs)" and "\<forall>x \<in> set xs. reads x"
  shows "reads (JArr xs)"
proof (rule reads_SucI)
  fix n r
  assume r: "ends r" and n: "2 * length (json_text (JArr xs)) \<le> n"
  show "read_value (Suc n) (json_text (JArr xs) @ r) = Some (JArr xs, r)"
  proof (cases "xs = []")
    case True
    then show ?thesis
      by (simp add: skip_hd white_def)
  next
    case False
    let ?t = "join '','' (map json_text xs) @ CHR '']'' # r"
    have "json_text (hd xs) \<noteq> [] \<and> hd (json_text (hd xs)) \<notin> white \<union> {CHR '']'', CHR ''}''}"
      using assms False by (intro json_text_head) simp
    then have "?t \<noteq> []" "hd ?t \<notin> white \<union> {CHR '']''}"
      using False join_head [of "map json_text xs" "'',''" "CHR '']'' # r"] by (simp_all add: hd_map)
    moreover have "read_elements n ?t = Some (xs, r)"
      using assms n False by (intro reads_elements) auto
    ultimately show ?thesis
      using read_value_solid [of ?t] by (cases ?t) (auto simp: skip_hd white_def)
  qed
qed

lemma filter_all: "\<forall>x \<in> set xs. P x \<Longrightarrow> filter P xs = xs"
  by (induction xs) auto

lemma reads_object:
  assumes ok: "js_ok (JObj ps)" and "\<forall>(k, v) \<in> set ps. reads v"
  shows "reads (JObj ps)"
proof (rule reads_SucI)
  fix n r
  assume r: "ends r" and n: "2 * length (json_text (JObj ps)) \<le> n"
  let ?t = "join '','' (map member_text ps) @ CHR ''}'' # r"
  have "filter (\<lambda>(k, v). \<not> omitted v) ps = ps"
    using ok js_ok_not_omitted by (intro filter_all) auto
  then have printed: "json_text (JObj ps) @ r = CHR ''{'' # ?t"
    by simp
  show "read_value (Suc n) (json_text (JObj ps) @ r) = Some (JObj ps, r)"
  proof (cases "ps = []")
    case True
    then show ?thesis
      by (simp add: skip_hd white_def)
  next
    case False
    have "hd ?t = DQUOTE" "?t \<noteq> []"
      using False join_head [of "map member_text ps" "'',''" "CHR ''}'' # r"]
      by (cases "hd ps"; simp add: hd_map json_quote_def)+
    then have t: "skip ?t = ?t" "hd ?t = DQUOTE"
      by (auto intro!: skip_solid simp: white_def)
    have "read_members n ?t = Some (ps, r)"
      using assms n False printed by (intro reads_members) auto
    then show ?thesis
      unfolding printed using t make_object_ok [of ps] ok by (cases ?t) (auto simp: skip_hd white_def)
  qed
qed

lemma js_ok_reads: "js_ok v \<Longrightarrow> reads v"
proof (induction v)
  case (JNum m)
  then show ?case
    by (intro reads_SucI) (simp add: read_value_number del: read_value.simps)
next
  case (JStr s)
  show ?case
  proof (intro reads_SucI)
    fix n r
    have "read_value (Suc n) (DQUOTE # tl (json_quote s) @ r) = Some (JStr s, r)"
      by (simp add: skip_hd white_def read_quote)
    then show "read_value (Suc n) (json_text (JStr s) @ r) = Some (JStr s, r)"
      using json_quote_Cons [of s] by (metis append_Cons json_text.simps(5))
  qed
next
  case (JArr xs)
  then show ?case
    by (intro reads_array) auto
next
  case (JObj ps)
  then show ?case
    by (intro reads_object) force+
qed (auto intro!: reads_SucI simp: skip_hd white_def literal_def)

theorem json_roundtrip: "js_ok v \<Longrightarrow> json_parse (json_text v) = Some v"
proof -
  assume "js_ok v"
  then have "reads v"
    by (rule js_ok_reads)
  then have "read_value (2 * length (json_text v) + 1) (json_text v @ []) = Some (v, [])"
    unfolding reads_def by (simp only: ends_def simp_thms order_refl)
  then show "json_parse (json_text v) = Some v"
    by (simp add: json_parse_def skip_def del: read_value.simps)
qed

subsection \<open>The depth bound\<close>

lemma length_skip: "length (skip s) \<le> length s"
  by (simp add: skip_def length_dropWhile_le)

lemma length_read_string: "read_string s = Some (v, t) \<Longrightarrow> length t < length s"
proof (induction s arbitrary: v t rule: read_string.induct)
  case (2 c s)
  then show ?case
    by (fastforce simp: push_def split: if_splits list.splits option.splits)
qed simp

lemma length_read_digits: "read_digits s = Some (ds, t) \<Longrightarrow> length t < length s"
proof -
  assume a: "read_digits s = Some (ds, t)"
  then have "takeWhile decimal_digit s \<noteq> []"
    by (auto simp: read_digits_def Let_def split: if_splits)
  then obtain c u where "s = c # u" "decimal_digit c"
    by (cases s) (auto split: if_splits)
  then show ?thesis
    using a length_dropWhile_le [of decimal_digit u] by (auto simp: read_digits_def Let_def split: if_splits)
qed

lemma length_split_sign: "split_sign s = (b, t) \<Longrightarrow> length t \<le> length s"
  by (cases s) (auto split: if_splits)

lemma length_read_fraction: "read_fraction s = Some (ds, t) \<Longrightarrow> length t \<le> length s"
  using length_dropWhile_le [of decimal_digit "tl s"] by (cases s) (auto simp: Let_def split: if_splits)

lemma length_read_exponent: "read_exponent s = Some (x, t) \<Longrightarrow> length t \<le> length s"
proof (cases s)
  case (Cons c u)
  moreover assume "read_exponent s = Some (x, t)"
  ultimately show ?thesis
    using length_dropWhile_le [of decimal_digit "snd (split_sign u)"] length_split_sign [of u]
    by (cases "split_sign u") (auto simp: Let_def split: if_splits)
qed simp

lemma length_read_number: "read_number s = Some (v, t) \<Longrightarrow> length t < length s"
proof -
  have "length u \<le> length s" if "read_minus s = (b, u)" for b u
    using that by (cases s) (auto split: if_splits)
  moreover assume "read_number s = Some (v, t)"
  ultimately show ?thesis
    by (auto simp: read_number_def read_unsigned_def split: prod.splits option.splits
        dest!: length_read_digits length_read_fraction length_read_exponent)
qed

lemma length_literal: "literal w v s = Some (x, t) \<Longrightarrow> w \<noteq> [] \<Longrightarrow> length t < length s"
  by (cases s; cases w) (auto simp: literal_def split: if_splits)

lemma skip_Cons: "skip s = c # t \<Longrightarrow> length t < length s"
  using length_skip [of s] by simp

lemma read_shorter:
  "(\<forall>s v t. read_value n s = Some (v, t) \<longrightarrow> length t < length s) \<and>
   (\<forall>s v t. read_elements n s = Some (v, t) \<longrightarrow> length t < length s) \<and>
   (\<forall>s v t. read_members n s = Some (v, t) \<longrightarrow> length t < length s)"
proof (induction n)
  case (Suc n)
  have "length t < length s" if "read_value (Suc n) s = Some (v, t)" for s v t
    using that Suc
    by (fastforce split: list.splits if_splits dest!: skip_Cons length_read_string length_read_number length_literal)
  moreover have "length t < length s" if "read_elements (Suc n) s = Some (v, t)" for s v t
    using that Suc
    by (fastforce simp: push_def split: list.splits if_splits option.splits dest!: skip_Cons)
  moreover have "length t < length s" if "read_members (Suc n) s = Some (v, t)" for s v t
    using that Suc
    by (fastforce simp: push_def split: list.splits if_splits option.splits dest!: skip_Cons length_read_string)
  ultimately show ?case
    by blast
qed simp

lemmas read_value_Suc = read_value.simps(2)
lemmas read_elements_Suc = read_elements.simps(2)
lemmas read_members_Suc = read_members.simps(2)

definition deep_enough :: "nat \<Rightarrow> bool" where
  "deep_enough n \<longleftrightarrow>
     (\<forall>s. 2 * length s + 1 \<le> n \<longrightarrow> read_value (Suc n) s = read_value n s) \<and>
     (\<forall>s. 2 * length s + 2 \<le> n \<longrightarrow> read_elements (Suc n) s = read_elements n s) \<and>
     (\<forall>s. 2 * length s + 2 \<le> n \<longrightarrow> read_members (Suc n) s = read_members n s)"

lemma deeper_value:
  assumes "deep_enough n" and "2 * length s + 1 \<le> Suc n"
  shows "read_value (Suc (Suc n)) s = read_value (Suc n) s"
proof -
  have "read_members (Suc n) (d # u) = read_members n (d # u) \<and> read_elements (Suc n) (d # u) = read_elements n (d # u)"
    if "skip s = c # t" "skip t = d # u" for c t d u
  proof -
    have "Suc (length t) \<le> length s" "Suc (length u) \<le> length t"
      using that length_skip [of s] length_skip [of t] by simp_all
    then have "2 * length (d # u) + 2 \<le> n"
      using assms(2) by simp
    then show ?thesis
      using assms(1) by (simp add: deep_enough_def del: read_members.simps read_elements.simps)
  qed
  then show ?thesis
    unfolding read_value_Suc by (simp del: read_value.simps read_members.simps read_elements.simps split: list.split)
qed

lemma deeper_elements:
  assumes "deep_enough n" and "2 * length s + 2 \<le> Suc n"
  shows "read_elements (Suc (Suc n)) s = read_elements (Suc n) s"
proof -
  have v: "read_value (Suc n) s = read_value n s"
    using assms by (simp add: deep_enough_def del: read_value.simps)
  have "read_elements (Suc n) u = read_elements n u"
    if "read_value n s = Some (v, t)" "skip t = c # u" for v t c u
  proof -
    have "length t < length s" "Suc (length u) \<le> length t"
      using that read_shorter [of n] length_skip [of t] by auto
    then have "2 * length u + 2 \<le> n"
      using assms(2) by simp
    then show ?thesis
      using assms(1) by (simp add: deep_enough_def del: read_elements.simps)
  qed
  then show ?thesis
    by (subst (1 2) read_elements_Suc)
      (simp add: v del: read_value.simps read_elements.simps split: list.split option.split)
qed

lemma deeper_members:
  assumes "deep_enough n" and "2 * length s + 2 \<le> Suc n"
  shows "read_members (Suc (Suc n)) s = read_members (Suc n) s"
proof -
  have v: "read_value (Suc n) y = read_value n y"
    if "skip s = c # t" "read_string t = Some (k, x)" "skip x = d # y" for c t k x d y
  proof -
    have "Suc (length t) \<le> length s" "length x < length t" "Suc (length y) \<le> length x"
      using that length_skip [of s] length_skip [of x] length_read_string by auto
    then have "2 * length y + 1 \<le> n"
      using assms(2) by simp
    then show ?thesis
      using assms(1) by (simp add: deep_enough_def del: read_value.simps)
  qed
  have m: "read_members (Suc n) u = read_members n u"
    if "skip s = c # t" "read_string t = Some (k, x)" "skip x = d # y" "read_value n y = Some (w, z)" "skip z = e # u"
    for c t k x d y w z e u
  proof -
    have "Suc (length t) \<le> length s" "length x < length t" "Suc (length y) \<le> length x" "length z < length y"
        "Suc (length u) \<le> length z"
      using that length_skip [of s] length_skip [of x] length_skip [of z] length_read_string read_shorter [of n] by auto
    then have "2 * length u + 2 \<le> n"
      using assms(2) by simp
    then show ?thesis
      using assms(1) by (simp add: deep_enough_def del: read_members.simps)
  qed
  show ?thesis
    by (subst (1 2) read_members_Suc)
      (simp add: v m del: read_value.simps read_members.simps split: list.split option.split)
qed

lemma deep_enough: "deep_enough n"
proof (induction n)
  case (Suc n)
  then show ?case
    using deeper_value [OF Suc] deeper_elements [OF Suc] deeper_members [OF Suc]
    by (simp add: deep_enough_def [of "Suc n"] del: read_value.simps read_members.simps read_elements.simps)
qed (simp add: deep_enough_def)

text \<open>No text needs a greater depth than \<open>json_parse\<close> allows.\<close>

theorem depth_enough:
  assumes "2 * length s + 1 \<le> n"
  shows "read_value n s = read_value (2 * length s + 1) s"
  using assms
proof (induction n rule: dec_induct)
  case (step n)
  then show ?case
    using deep_enough [of n] by (simp add: deep_enough_def del: read_value.simps)
qed simp

subsection \<open>What is read\<close>

lemma read_number_ok: "read_number s = Some (v, t) \<Longrightarrow> number_ok v"
  by (auto simp: read_number_def read_unsigned_def decimal_value_def number_ok_mk_dec
      split: prod.splits option.splits)

lemma js_ok_make_object: "\<forall>(k, v) \<in> set ps. js_ok v \<Longrightarrow> js_ok (make_object ps)"
  using snd_foldl [of "[]" ps] props_ok_foldl [of "[]" ps] by (auto simp: make_object_def props_ok_def)

lemma read_ok:
  "(\<forall>s v t. read_value n s = Some (v, t) \<longrightarrow> js_ok v) \<and>
   (\<forall>s v t. read_elements n s = Some (v, t) \<longrightarrow> (\<forall>x \<in> set v. js_ok x)) \<and>
   (\<forall>s v t. read_members n s = Some (v, t) \<longrightarrow> (\<forall>(k, x) \<in> set v. js_ok x))"
proof (induction n)
  case (Suc n)
  have "js_ok v" if "read_value (Suc n) s = Some (v, t)" for s v t
    using that Suc
    by (auto simp: literal_def props_ok_def split: list.splits if_splits dest!: read_number_ok intro!: js_ok_make_object) blast+
  moreover have "\<forall>x \<in> set v. js_ok x" if "read_elements (Suc n) s = Some (v, t)" for s v t
    using that Suc by (fastforce simp: push_def split: list.splits if_splits option.splits)
  moreover have "\<forall>(k, x) \<in> set v. js_ok x" if "read_members (Suc n) s = Some (v, t)" for s v t
    using that Suc by (fastforce simp: push_def split: list.splits if_splits option.splits)
  ultimately show ?case
    by blast
qed simp

lemma json_parse_ok: "json_parse s = Some v \<Longrightarrow> js_ok v"
proof -
  assume "json_parse s = Some v"
  then obtain t where "read_value (2 * length s + 1) s = Some (v, t)"
    by (auto simp: json_parse_def simp del: read_value.simps split: option.splits if_splits)
  then show ?thesis
    using read_ok by blast
qed

subsection \<open>One line each\<close>

text \<open>What is written holds no newline, so that a newline separates the messages.\<close>

abbreviation NEWLINE :: char where "NEWLINE \<equiv> CHR 0x0A"

lemma newline_not_digit: "decimal_digit c \<Longrightarrow> c \<noteq> NEWLINE"
  by (auto simp: decimal_digit_def)

lemma show_nat_no_newline: "NEWLINE \<notin> set (show_nat n)"
  using show_nat_digits [of n] newline_not_digit by (auto simp: list_all_iff)

lemma show_decimal_no_newline: "NEWLINE \<notin> set (show_decimal m e)"
proof -
  have "NEWLINE \<noteq> hd (show_nat m)" "NEWLINE \<notin> set (tl (show_nat m))"
    using show_nat_no_newline [of m] by (cases "show_nat m"; simp)+
  then show ?thesis
    using show_nat_no_newline by (auto simp: show_decimal_def Let_def dest!: in_set_takeD in_set_dropD)
qed

lemma json_number_no_newline: "NEWLINE \<notin> set (json_number n)"
  using show_decimal_no_newline by (cases n) auto

lemma digit_char_no_newline: "d < 36 \<Longrightarrow> digit_char d \<noteq> NEWLINE"
proof
  assume "d < 36" "digit_char d = NEWLINE"
  then have "(of_char (CHR 0x0A) :: nat) = (if d < 10 then 48 + d else 87 + d)"
    using digit_char_code [of d] by metis
  then show False
    by (simp split: if_splits)
qed

lemma quote_char_no_newline: "NEWLINE \<notin> set (quote_char c)"
proof -
  have "NEWLINE \<noteq> digit_char (n div 16) \<and> NEWLINE \<noteq> digit_char (n mod 16)" if "n < 32" for n :: nat
    using that by (intro conjI digit_char_no_newline [THEN not_sym]) simp_all
  note h = this [of "of_char c"]
  show ?thesis
  proof (cases "c = NEWLINE")
    case False
    then show ?thesis
      unfolding quote_char_def Let_def using h by (simp split: if_split)
  qed (simp add: quote_char_def)
qed

lemma json_quote_no_newline: "NEWLINE \<notin> set (json_quote s)"
  using quote_char_no_newline by (auto simp: json_quote_def)

lemma join_no_newline: "NEWLINE \<notin> set sep \<Longrightarrow> \<forall>x \<in> set xs. NEWLINE \<notin> set x \<Longrightarrow> NEWLINE \<notin> set (join sep xs)"
  by (induction sep xs rule: join.induct) auto

theorem json_text_no_newline: "NEWLINE \<notin> set (json_text v)"
proof (induction v)
  case (JArr xs)
  then show ?case
    by (auto simp: join_no_newline)
next
  case (JObj ps)
  show ?case
  proof -
    have "NEWLINE \<notin> set (json_text w)" if "(k, w) \<in> set ps" for k w
      using JObj [of "(k, w)" w] that by simp
    then have "\<forall>x \<in> set (map member_text (filter (\<lambda>(k, v). \<not> omitted v) ps)). NEWLINE \<notin> set x"
      by (auto simp: json_quote_no_newline)
    then have "NEWLINE \<notin> set (join '','' (map member_text (filter (\<lambda>(k, v). \<not> omitted v) ps)))"
      by (intro join_no_newline) (simp, assumption)
    then show ?thesis
      by simp
  qed
qed (auto simp: json_number_no_newline json_quote_no_newline)

end
