(* ===== verification/Bbs_Server.thy ===== *)
theory Bbs_Server
  imports Js_Roundtrip Complex_Main
begin

text \<open>
  The BBS server (\<open>server.js\<close>): logins and one-time keys, chat, boards and password
  changes, as the process that node's event loop drives.

  \<^item> \<open>server\<close> is the state of the process: the module's variables, one \<open>socket_state\<close> per
    connection, the lock file, what has been asked of the database and the timers.
  \<^item> \<open>node\<close> is the environment: the clock, \<open>Math.random\<close>, the database of \<open>level\<close>
    and the functions of \<open>bcrypt\<close>. \<open>None\<close> as an answer of \<open>bcrypt\<close> is an exception.
  \<^item> A handler runs to its end or throws (\<open>Thrown\<close>); what it did before stays done.

  A value that came with a message is paired with the number of the message:
  objects of different messages are different objects even when they look the same.
\<close>

subsection \<open>State\<close>

type_synonym js_value = "js \<times> nat"

record socket_state =
  so_open :: bool
  so_authenticated :: bool
  so_username :: js_value
  so_key :: js
  so_state :: string

record thread =
  th_id :: int
  th_username :: js_value
  th_title :: string
  th_body :: js
  th_ttl :: number
  th_created :: int
  th_messages :: "(js_value \<times> js) list"

text \<open>
  What waits for the database: a login (user name and password), and the two
  halves of a password change (the entry asked for; current and new password).
\<close>

datatype pending =
    Auth_get nat js_value js
  | Change_get nat string js js
  | Change_put nat string string

text \<open>What the process does to the world, in the order it is done.\<close>

datatype effect =
    Wrote nat string
  | Destroyed nat
  | Logon js_value js
  | Db_get string
  | Db_put string string
  | Set_timeout string js_value
  | Uncaught

record server =
  sv_start :: int
  sv_clients :: "nat list"
  sv_keys :: "(string \<times> js_value) list"
  sv_threads :: "(string \<times> thread) list"
  sv_next_id :: int
  sv_connections :: nat
  sv_sockets :: "nat \<Rightarrow> socket_state"
  sv_lock :: bool
  sv_pending :: "pending list"
  sv_timers :: "(nat \<times> string \<times> js_value) list"
  sv_messages :: nat
  sv_draws :: nat
  sv_reads :: nat
  sv_down :: bool
  sv_out :: "effect list"

record node =
  nd_random :: "nat \<Rightarrow> rat"
  nd_now :: "nat \<Rightarrow> int"
  nd_db_key :: "js \<Rightarrow> string"
  nd_db_get :: "effect list \<Rightarrow> string \<Rightarrow> string option"
  nd_db_put_error :: "effect list \<Rightarrow> string \<Rightarrow> string \<Rightarrow> bool"
  nd_compare :: "js \<Rightarrow> string \<Rightarrow> bool option"
  nd_hash :: "nat \<Rightarrow> js \<Rightarrow> string option"

datatype completion = Normal | Thrown

definition keyWindow :: int where "keyWindow = 1000"
definition maxThreadTitle :: nat where "maxThreadTitle = 40"
definition minPasswordLength :: int where "minPasswordLength = 8"

definition closed_socket :: socket_state where
  "closed_socket = \<lparr>so_open = False, so_authenticated = False, so_username = (JBool False, 0),
     so_key = JBool False, so_state = ''''\<rparr>"

definition server_init :: "int \<Rightarrow> bool \<Rightarrow> server" where
  "server_init start locked =
     \<lparr>sv_start = start, sv_clients = [], sv_keys = [], sv_threads = [], sv_next_id = 1,
      sv_connections = 0, sv_sockets = (\<lambda>_. closed_socket), sv_lock = locked, sv_pending = [],
      sv_timers = [], sv_messages = 0, sv_draws = 0, sv_reads = 0, sv_down = False, sv_out = []\<rparr>"

abbreviation emit :: "effect \<Rightarrow> server \<Rightarrow> server" where
  "emit x \<equiv> sv_out_update (Cons x)"

abbreviation upd_socket :: "nat \<Rightarrow> (socket_state \<Rightarrow> socket_state) \<Rightarrow> server \<Rightarrow> server" where
  "upd_socket s f \<equiv> sv_sockets_update (\<lambda>ss. ss(s := f (ss s)))"

text \<open>\<open>===\<close> on values\<close>

fun same_value :: "js_value \<Rightarrow> js_value \<Rightarrow> bool" where
  "same_value (JArr xs, i) (w, j) \<longleftrightarrow> JArr xs = w \<and> i = j"
| "same_value (JObj ps, i) (w, j) \<longleftrightarrow> JObj ps = w \<and> i = j"
| "same_value (JNum NaN, i) (w, j) \<longleftrightarrow> False"
| "same_value (v, i) (w, j) \<longleftrightarrow> v = w"

subsection \<open>Sockets and clients\<close>

definition send :: "nat \<Rightarrow> js \<Rightarrow> server \<Rightarrow> server" where
  "send s v sv = emit (Wrote s (json_text v @ [NEWLINE])) sv"

definition broadcast :: "nat \<Rightarrow> js \<Rightarrow> server \<Rightarrow> server" where
  "broadcast from_s v sv = fold (\<lambda>s sv. if s = from_s then sv else send s v sv) (sv_clients sv) sv"

definition destroy :: "nat \<Rightarrow> server \<Rightarrow> server" where
  "destroy s sv = upd_socket s (so_open_update (\<lambda>_. False)) (emit (Destroyed s) sv)"

definition removeSocket :: "nat \<Rightarrow> server \<Rightarrow> server" where
  "removeSocket s sv = sv\<lparr>sv_clients := remove1 s (sv_clients sv)\<rparr>"

definition getSocketByUsername :: "js_value \<Rightarrow> server \<Rightarrow> nat option" where
  "getSocketByUsername u sv = find (\<lambda>s. same_value (so_username (sv_sockets sv s)) u) (sv_clients sv)"

definition delete_key :: "js \<Rightarrow> server \<Rightarrow> server" where
  "delete_key k sv =
     (case to_str k of Some name \<Rightarrow> sv\<lparr>sv_keys := remove_prop (sv_keys sv) name\<rparr> | None \<Rightarrow> sv)"

definition kill :: "nat \<Rightarrow> string \<Rightarrow> server \<Rightarrow> server" where
  "kill s message sv =
     (let sv = delete_key (so_key (sv_sockets sv s)) (removeSocket s (destroy s sv));
          so = sv_sockets sv s;
          sv = (if so_authenticated so
                then broadcast s (JObj [(''type'', JStr ''quit''), (''nick'', fst (so_username so)), (''body'', JStr message)]) sv
                else sv)
      in upd_socket s (\<lambda>so. so\<lparr>so_authenticated := False, so_username := (JBool False, 0), so_key := JBool False\<rparr>) sv)"

subsection \<open>Logins\<close>

text \<open>Sixteen numbers from 65536 up, in base 36.\<close>

definition generateKey :: "node \<Rightarrow> nat \<Rightarrow> string" where
  "generateKey nd d = concat (map (\<lambda>i. to_base 36 (nat \<lfloor>(1 + nd_random nd (d + i)) * 65536\<rfloor>)) [0..<16])"

definition auth :: "node \<Rightarrow> nat \<Rightarrow> js_value \<Rightarrow> js \<Rightarrow> server \<Rightarrow> server" where
  "auth nd s username password sv =
     (if sv_lock sv then destroy s sv
      else let k = nd_db_key nd (fst username)
           in emit (Db_get k) (sv\<lparr>sv_lock := True, sv_pending := sv_pending sv @ [Auth_get s username password]\<rparr>))"

text \<open>The callback of \<open>auth\<close> with \<open>true\<close>.\<close>

definition auth_granted :: "node \<Rightarrow> nat \<Rightarrow> js_value \<Rightarrow> server \<Rightarrow> server" where
  "auth_granted nd s username sv =
     (let key = generateKey nd (sv_draws sv);
          sv = upd_socket s (so_state_update (\<lambda>_. ''WAIT-KEY'')) sv;
          sv = sv\<lparr>sv_draws := sv_draws sv + 16, sv_keys := put (sv_keys sv) key username\<rparr>;
          sv = destroy s (emit (Wrote s key) sv)
      in emit (Set_timeout key username) (sv\<lparr>sv_timers := sv_timers sv @ [(s, key, username)]\<rparr>))"

text \<open>
  The callback of \<open>db.get\<close> in \<open>auth\<close>: the lock goes first. An exception of
  \<open>compareSync\<close> is caught by nobody and ends the process.
\<close>

definition auth_answered :: "node \<Rightarrow> nat \<Rightarrow> js_value \<Rightarrow> js \<Rightarrow> string option \<Rightarrow> server \<Rightarrow> server" where
  "auth_answered nd s username password answer sv =
     (let sv = sv\<lparr>sv_lock := False\<rparr> in
      case answer of
        None \<Rightarrow> destroy s sv
      | Some hash \<Rightarrow>
          (case nd_compare nd password hash of
             None \<Rightarrow> emit Uncaught (sv\<lparr>sv_down := True\<rparr>)
           | Some ok \<Rightarrow> if ok then auth_granted nd s username sv else destroy s sv))"

definition key_timeout :: "nat \<Rightarrow> string \<Rightarrow> js_value \<Rightarrow> server \<Rightarrow> server" where
  "key_timeout s key username sv =
     (let sv = upd_socket s (so_state_update (\<lambda>_. ''KEY-TIMEOUT'')) sv
      in if getSocketByUsername username sv = None
         then sv\<lparr>sv_keys := remove_prop (sv_keys sv) key\<rparr> else sv)"

definition sendStatus :: "node \<Rightarrow> nat \<Rightarrow> server \<Rightarrow> server" where
  "sendStatus nd s sv =
     send s (JObj [(''type'', JStr ''status''),
                   (''uptime'', js_int ((nd_now nd (sv_reads sv) - sv_start sv) div 1000)),
                   (''users'', js_int (int (length (sv_clients sv))))])
       (sv\<lparr>sv_reads := sv_reads sv + 1\<rparr>)"

definition key_known :: "server \<Rightarrow> string \<Rightarrow> bool" where
  "key_known sv k \<longleftrightarrow> has_own (sv_keys sv) k \<or> in_prototype k"

definition key_user :: "server \<Rightarrow> string \<Rightarrow> js_value" where
  "key_user sv k = (case map_of (sv_keys sv) k of Some u \<Rightarrow> u | None \<Rightarrow> (prototype_get k, 0))"

definition log_on :: "node \<Rightarrow> nat \<Rightarrow> js \<Rightarrow> string \<Rightarrow> server \<Rightarrow> server" where
  "log_on nd s key name sv =
     (let u = key_user sv name;
          sv = upd_socket s (\<lambda>so. so\<lparr>so_state := ''AUTHED'', so_authenticated := True, so_username := u, so_key := key\<rparr>) sv;
          sv = sv\<lparr>sv_keys := remove_prop (sv_keys sv) name, sv_clients := sv_clients sv @ [s]\<rparr>;
          sv = emit (Logon u key) sv;
          sv = send s (JObj [(''type'', JStr ''user''), (''username'', fst u)]) sv;
          sv = send s (JObj [(''type'', JStr ''join''), (''nick'', fst u)]) sv;
          sv = sendStatus nd s sv
      in broadcast s (JObj [(''type'', JStr ''join''), (''nick'', fst u)]) sv)"

definition handleNew :: "node \<Rightarrow> nat \<Rightarrow> js \<Rightarrow> nat \<Rightarrow> server \<Rightarrow> server \<times> completion" where
  "handleNew nd s msg i sv =
     (let sv = upd_socket s (so_state_update (\<lambda>_. ''NO-AUTH'')) sv in
      if nullish msg then (sv, Thrown)
      else case as_text (get_prop msg ''type'') of
        None \<Rightarrow> (sv, Thrown)
      | Some t \<Rightarrow>
          if t = Some ''key'' \<and> truthy (get_prop msg ''key'') then
            (let key = get_prop msg ''key'' in
             case to_str key of
               None \<Rightarrow> (sv, Thrown)
             | Some name \<Rightarrow>
                 let sv = (if as_text key = Some (Some ''debug'')
                           then sv\<lparr>sv_keys := put (sv_keys sv) ''debug'' (JStr ''DEBUG-OPER'', 0)\<rparr> else sv)
                 in if key_known sv name then (log_on nd s key name sv, Normal) else (destroy s sv, Normal))
          else if t = Some ''auth'' \<and> truthy (get_prop msg ''username'') \<and> truthy (get_prop msg ''password'') then
            (auth nd s (get_prop msg ''username'', i) (get_prop msg ''password'') sv, Normal)
          else (destroy s sv, Normal))"

subsection \<open>Password changes\<close>

definition notice :: "nat \<Rightarrow> string \<Rightarrow> server \<Rightarrow> server" where
  "notice s message sv = send s (JObj [(''type'', JStr ''notice''), (''body'', JStr message)]) sv"

definition changePassword :: "node \<Rightarrow> nat \<Rightarrow> js \<Rightarrow> server \<Rightarrow> server \<times> completion" where
  "changePassword nd s msg sv =
     (let current = get_prop msg ''current''; password = get_prop msg ''password'' in
      if truthy current \<and> truthy password then
        (case less_than (get_prop password ''length'') minPasswordLength of
           None \<Rightarrow> (sv, Thrown)
         | Some short \<Rightarrow>
             if short then (notice s ''Unable to change password: password is too short.'' sv, Normal)
             else if sv_lock sv then (notice s ''Unable to change password (database locked).'' sv, Normal)
             else let k = nd_db_key nd (fst (so_username (sv_sockets sv s)))
                  in (emit (Db_get k) (sv\<lparr>sv_lock := True,
                        sv_pending := sv_pending sv @ [Change_get s k current password]\<rparr>), Normal))
      else (notice s ''Malformed password change request.'' sv, Normal))"

text \<open>
  The callback of \<open>db.get\<close>: the entry that is written is the one of the user
  name the socket has by now.
\<close>

definition change_answered :: "node \<Rightarrow> nat \<Rightarrow> js \<Rightarrow> js \<Rightarrow> string option \<Rightarrow> server \<Rightarrow> server" where
  "change_answered nd s current password answer sv =
     (case answer of
        None \<Rightarrow> (notice s ''Unable to change password: no such user.'' sv)\<lparr>sv_lock := False\<rparr>
      | Some hash \<Rightarrow>
          (case nd_compare nd current hash of
             None \<Rightarrow> emit Uncaught (sv\<lparr>sv_down := True\<rparr>)
           | Some False \<Rightarrow>
               (notice s ''Unable to change password: current password not correct.'' sv)\<lparr>sv_lock := False\<rparr>
           | Some True \<Rightarrow>
               (case nd_hash nd (sv_draws sv) password of
                  None \<Rightarrow> emit Uncaught (sv\<lparr>sv_down := True\<rparr>)
                | Some h \<Rightarrow>
                    let k = nd_db_key nd (fst (so_username (sv_sockets sv s)))
                    in emit (Db_put k h) (sv\<lparr>sv_draws := sv_draws sv + 1,
                         sv_pending := sv_pending sv @ [Change_put s k h]\<rparr>))))"

definition change_stored :: "nat \<Rightarrow> bool \<Rightarrow> server \<Rightarrow> server" where
  "change_stored s err sv =
     (let sv = sv\<lparr>sv_lock := False\<rparr>
      in if err then notice s ''Unable to change password (database I/O error).'' sv
         else notice s ''Password changed.'' sv)"

subsection \<open>Users and boards\<close>

text \<open>
  \<open>users[name]++\<close> on a plain object: a name that only the prototype has starts from
  a function, so that the count becomes \<open>NaN\<close>; assigning to \<open>__proto__\<close> has no effect.
\<close>

definition count_user :: "(string \<times> int option) list \<Rightarrow> string \<Rightarrow> (string \<times> int option) list" where
  "count_user users name =
     (case map_of users name of
        Some c \<Rightarrow> put users name (map_option (\<lambda>n. n + 1) c)
      | None \<Rightarrow>
          if name = ''__proto__'' then users
          else if in_prototype name then put users name None
          else put users name (Some 1))"

definition sendUsers :: "nat \<Rightarrow> server \<Rightarrow> server \<times> completion" where
  "sendUsers s sv =
     (case those_all (map (\<lambda>c. to_str (fst (so_username (sv_sockets sv c)))) (sv_clients sv)) of
        None \<Rightarrow> (sv, Thrown)
      | Some names \<Rightarrow>
          (send s (JObj [(''type'', JStr ''users''),
             (''users'', JObj (map (\<lambda>(name, c). (name, case c of Some n \<Rightarrow> js_int n | None \<Rightarrow> JNum NaN))
               (foldl count_user [] names)))]) sv, Normal))"

definition post_js :: "js_value \<times> js \<Rightarrow> js" where
  "post_js = (\<lambda>(u, m). JObj [(''username'', fst u), (''message'', m)])"

definition thread_js :: "thread \<Rightarrow> js" where
  "thread_js th =
     JObj [(''id'', js_int (th_id th)), (''username'', fst (th_username th)), (''title'', JStr (th_title th)),
           (''body'', th_body th), (''ttl'', JNum (th_ttl th)), (''created'', js_int (th_created th)),
           (''messages'', JArr (map post_js (th_messages th)))]"

text \<open>\<open>v.length < 1\<close>; \<open>None\<close> when the comparison throws.\<close>

definition empty_length :: "js \<Rightarrow> bool option" where
  "empty_length v = less_than (get_prop v ''length'') 1"

fun throwing_or :: "bool option list \<Rightarrow> bool option" where
  "throwing_or [] = Some False"
| "throwing_or (None # bs) = None"
| "throwing_or (Some True # bs) = Some True"
| "throwing_or (Some False # bs) = throwing_or bs"

text \<open>
  \<open>Some None\<close> is the result \<open>false\<close>, \<open>None\<close> an exception. The identifier is taken
  before the title is cut, and a title that is no string has no \<open>substring\<close>.
\<close>

definition createNewThread ::
    "node \<Rightarrow> js_value \<Rightarrow> js \<Rightarrow> js \<Rightarrow> js \<Rightarrow> server \<Rightarrow> server \<times> thread option option" where
  "createNewThread nd username title body ttl sv =
     (case to_str ttl of
        None \<Rightarrow> (sv, None)
      | Some t \<Rightarrow>
          let ttl = parse_int t in
          (case throwing_or [empty_length title, empty_length body, Some (number_less ttl 1)] of
             None \<Rightarrow> (sv, None)
           | Some True \<Rightarrow> (sv, Some None)
           | Some False \<Rightarrow>
               let tid = sv_next_id sv; sv = sv\<lparr>sv_next_id := tid + 1\<rparr> in
               (case title of
                  JStr s \<Rightarrow>
                    (sv\<lparr>sv_reads := sv_reads sv + 1\<rparr>,
                     Some (Some \<lparr>th_id = tid, th_username = username, th_title = take maxThreadTitle s,
                       th_body = body, th_ttl = ttl, th_created = nd_now nd (sv_reads sv), th_messages = []\<rparr>))
                | _ \<Rightarrow> (sv, None))))"

text \<open>
  \<open>postMessage\<close> on a thread: \<open>None\<close> is an exception, \<open>Some None\<close> the result \<open>false\<close>.
  A thread found in the prototype has no \<open>messages\<close>.
\<close>

definition postMessage :: "thread option \<Rightarrow> js_value \<Rightarrow> js \<Rightarrow> thread option option" where
  "postMessage th username message =
     (case equals_zero (get_prop message ''length'') of
        None \<Rightarrow> None
      | Some True \<Rightarrow> Some None
      | Some False \<Rightarrow>
          (case th of
             None \<Rightarrow> None
           | Some th \<Rightarrow> Some (Some (th\<lparr>th_messages := th_messages th @ [(username, message)]\<rparr>))))"

definition in_threads :: "server \<Rightarrow> string \<Rightarrow> bool" where
  "in_threads sv k \<longleftrightarrow> has_own (sv_threads sv) k \<or> in_prototype k"

text \<open>
  The remaining time of a thread, and the order of the list: the comparison
  function is never above 0 for a \<open>NaN\<close>, so that such a thread stays where it is.
\<close>

fun remaining :: "int \<Rightarrow> thread \<Rightarrow> int option" where
  "remaining now th =
     (case th_ttl th of Dec m e \<Rightarrow> Some ((if 0 \<le> e then m * 10 ^ nat e else m div 10 ^ nat (- e)) - (now - th_created th))
      | _ \<Rightarrow> None)"

definition no_later :: "int \<Rightarrow> thread \<Rightarrow> thread \<Rightarrow> bool" where
  "no_later now a b \<longleftrightarrow>
     (case (remaining now a, remaining now b) of (Some x, Some y) \<Rightarrow> x \<le> y | _ \<Rightarrow> True)"

fun insert_topic :: "int \<Rightarrow> thread \<Rightarrow> thread list \<Rightarrow> thread list" where
  "insert_topic now a [] = [a]"
| "insert_topic now a (b # bs) = (if no_later now a b then a # b # bs else b # insert_topic now a bs)"

definition sort_topics :: "int \<Rightarrow> thread list \<Rightarrow> thread list" where
  "sort_topics now ts = foldr (insert_topic now) ts []"

definition error_js :: "string \<Rightarrow> js" where
  "error_js message = JObj [(''type'', JStr ''error''), (''body'', JStr message)]"

text \<open>The handlers of \<open>handleMessage\<close> that look into the message.\<close>

definition handle_privmsg :: "nat \<Rightarrow> js \<Rightarrow> nat \<Rightarrow> server \<Rightarrow> server \<times> completion" where
  "handle_privmsg s msg i sv =
     (if truthy (get_prop msg ''target'') then
        (case getSocketByUsername (get_prop msg ''target'', i) sv of
           Some target \<Rightarrow>
             (send target (JObj [(''type'', JStr ''privmsg''), (''nick'', fst (so_username (sv_sockets sv s))),
                (''body'', get_prop msg ''body'')]) sv, Normal)
         | None \<Rightarrow> (send s (error_js ''No such user'') sv, Normal))
      else (sv, Normal))"

definition handle_threads :: "node \<Rightarrow> nat \<Rightarrow> server \<Rightarrow> server \<times> completion" where
  "handle_threads nd s sv =
     (send s (JObj [(''type'', JStr ''threads''),
        (''body'', JArr (map thread_js (sort_topics (nd_now nd (sv_reads sv)) (map snd (sv_threads sv)))))])
       (sv\<lparr>sv_reads := sv_reads sv + 1\<rparr>), Normal)"

definition handle_thread :: "nat \<Rightarrow> js \<Rightarrow> server \<Rightarrow> server \<times> completion" where
  "handle_thread s msg sv =
     (let t = get_prop msg ''thread'' in
      if \<not> truthy t then (send s (error_js ''No such thread'') sv, Normal)
      else case to_str t of
        None \<Rightarrow> (sv, Thrown)
      | Some k \<Rightarrow>
          if in_threads sv k
          then (send s (JObj [(''type'', JStr ''thread''),
                  (''body'', case map_of (sv_threads sv) k of Some th \<Rightarrow> thread_js th | None \<Rightarrow> prototype_get k)]) sv, Normal)
          else (send s (error_js ''No such thread'') sv, Normal))"

definition handle_new :: "node \<Rightarrow> nat \<Rightarrow> js \<Rightarrow> server \<Rightarrow> server \<times> completion" where
  "handle_new nd s msg sv =
     (if \<not> truthy (get_prop msg ''title'') \<or> \<not> truthy (get_prop msg ''body'') \<or> \<not> truthy (get_prop msg ''ttl'')
      then (send s (error_js ''Cannot create thread: invalid parameters'') sv, Normal)
      else case createNewThread nd (so_username (sv_sockets sv s)) (get_prop msg ''title'') (get_prop msg ''body'')
                  (get_prop msg ''ttl'') sv of
        (sv, None) \<Rightarrow> (sv, Thrown)
      | (sv, Some (Some th)) \<Rightarrow>
          (send s (JObj [(''type'', JStr ''thread''), (''body'', thread_js th)])
             (sv\<lparr>sv_threads := put (sv_threads sv) (show_int (th_id th)) th\<rparr>), Normal)
      | (sv, Some None) \<Rightarrow> (send s (error_js ''Could not create thread'') sv, Normal))"

definition handle_delete :: "nat \<Rightarrow> js \<Rightarrow> server \<Rightarrow> server \<times> completion" where
  "handle_delete s msg sv =
     (let t = get_prop msg ''thread'' in
      if \<not> truthy t then (send s (error_js ''No such thread'') sv, Normal)
      else case to_str t of
        None \<Rightarrow> (sv, Thrown)
      | Some k \<Rightarrow>
          if in_threads sv k then
            (let owner = (case map_of (sv_threads sv) k of Some th \<Rightarrow> th_username th | None \<Rightarrow> (JUndefined, 0)) in
             if same_value owner (so_username (sv_sockets sv s))
             then (send s (JObj [(''type'', JStr ''delete''), (''body'', JStr ''Thread deleted'')])
                     (sv\<lparr>sv_threads := remove_prop (sv_threads sv) k\<rparr>), Normal)
             else (send s (error_js ''Cannot delete thread: no privileges'') sv, Normal))
          else (send s (error_js ''No such thread'') sv, Normal))"

definition handle_post :: "nat \<Rightarrow> js \<Rightarrow> server \<Rightarrow> server \<times> completion" where
  "handle_post s msg sv =
     (let t = get_prop msg ''thread''; body = get_prop msg ''body'' in
      if \<not> truthy t then (send s (error_js ''No such thread'') sv, Normal)
      else case to_str t of
        None \<Rightarrow> (sv, Thrown)
      | Some k \<Rightarrow>
          if in_threads sv k \<and> truthy body then
            (case postMessage (map_of (sv_threads sv) k) (so_username (sv_sockets sv s)) body of
               None \<Rightarrow> (sv, Thrown)
             | Some None \<Rightarrow> (send s (error_js ''Cannot post to thread'') sv, Normal)
             | Some (Some th) \<Rightarrow>
                 (send s (JObj [(''type'', JStr ''thread''), (''body'', thread_js th)])
                    (sv\<lparr>sv_threads := put (sv_threads sv) k th\<rparr>), Normal))
          else (send s (error_js ''No such thread'') sv, Normal))"

subsection \<open>Messages\<close>

definition handleMessage :: "node \<Rightarrow> nat \<Rightarrow> js \<Rightarrow> nat \<Rightarrow> server \<Rightarrow> server \<times> completion" where
  "handleMessage nd s msg i sv =
     (if \<not> so_authenticated (sv_sockets sv s) then handleNew nd s msg i sv
      else if nullish msg then (sv, Thrown)
      else case as_text (get_prop msg ''type'') of
        None \<Rightarrow> (sv, Thrown)
      | Some t \<Rightarrow>
          if t = Some ''quit'' then (kill s ''Quit'' sv, Normal)
          else if t = Some ''users'' then sendUsers s sv
          else if t = Some ''status'' then (sendStatus nd s sv, Normal)
          else if t = Some ''password'' then changePassword nd s msg sv
          else if t = Some ''pubmsg'' then
            (broadcast s (JObj [(''type'', JStr ''pubmsg''), (''nick'', fst (so_username (sv_sockets sv s))),
               (''body'', get_prop msg ''body'')]) sv, Normal)
          else if t = Some ''privmsg'' then handle_privmsg s msg i sv
          else if t = Some ''threads'' then handle_threads nd s sv
          else if t = Some ''thread'' then handle_thread s msg sv
          else if t = Some ''new'' then handle_new nd s msg sv
          else if t = Some ''delete'' then handle_delete s msg sv
          else if t = Some ''post'' then handle_post s msg sv
          else (sv, Normal))"

abbreviation split_lines :: "string \<Rightarrow> string list" where
  "split_lines \<equiv> split_on NEWLINE"

definition handle_line :: "node \<Rightarrow> nat \<Rightarrow> string \<Rightarrow> server \<Rightarrow> server" where
  "handle_line nd s line sv =
     (if line = [] then sv
      else case json_parse line of
        None \<Rightarrow> kill s ''Killed: indecent hacking'' sv
      | Some msg \<Rightarrow>
          (case handleMessage nd s msg (sv_messages sv) (sv\<lparr>sv_messages := sv_messages sv + 1\<rparr>) of
             (sv, Normal) \<Rightarrow> sv
           | (sv, Thrown) \<Rightarrow> kill s ''Killed: indecent hacking'' sv))"

definition on_data :: "node \<Rightarrow> nat \<Rightarrow> string \<Rightarrow> server \<Rightarrow> server" where
  "on_data nd s data sv = fold (handle_line nd s) (split_lines data) sv"

subsection \<open>The event loop\<close>

text \<open>
  What node delivers: a connection, data, the end of a connection (no more than
  that from a socket that was destroyed), an error, the answer to the \<open>n\<close>-th
  database call that waits, a timer.
\<close>

datatype bbs_event =
    Connected
  | Data nat string
  | Ended nat
  | Failed nat
  | Db_answer nat
  | Timer nat

definition on_connect :: "server \<Rightarrow> server" where
  "on_connect sv =
     (upd_socket (sv_connections sv) (\<lambda>_. \<lparr>so_open = True, so_authenticated = False, so_username = (JBool False, 0),
        so_key = JBool False, so_state = ''CREATED''\<rparr>) sv)\<lparr>sv_connections := sv_connections sv + 1\<rparr>"

definition delete_nth :: "nat \<Rightarrow> 'a list \<Rightarrow> 'a list" where
  "delete_nth n xs = take n xs @ drop (Suc n) xs"

definition on_answer :: "node \<Rightarrow> pending \<Rightarrow> server \<Rightarrow> server" where
  "on_answer nd p sv =
     (case p of
        Auth_get s u pw \<Rightarrow> auth_answered nd s u pw (nd_db_get nd (sv_out sv) (nd_db_key nd (fst u))) sv
      | Change_get s k cur pw \<Rightarrow> change_answered nd s cur pw (nd_db_get nd (sv_out sv) k) sv
      | Change_put s k h \<Rightarrow> change_stored s (nd_db_put_error nd (sv_out sv) k h) sv)"

definition bbs_step :: "node \<Rightarrow> bbs_event \<Rightarrow> server \<Rightarrow> server" where
  "bbs_step nd ev sv =
     (if sv_down sv then sv
      else case ev of
        Connected \<Rightarrow> on_connect sv
      | Data s data \<Rightarrow> if so_open (sv_sockets sv s) then on_data nd s data sv else sv
      | Ended s \<Rightarrow> if so_open (sv_sockets sv s) then kill s ''Connection terminated'' sv else sv
      | Failed s \<Rightarrow> if s < sv_connections sv then kill s ''Connection error'' sv else sv
      | Db_answer n \<Rightarrow>
          if n < length (sv_pending sv)
          then on_answer nd (sv_pending sv ! n) (sv\<lparr>sv_pending := delete_nth n (sv_pending sv)\<rparr>) else sv
      | Timer n \<Rightarrow>
          if n < length (sv_timers sv)
          then (case sv_timers sv ! n of
                  (s, key, u) \<Rightarrow> key_timeout s key u (sv\<lparr>sv_timers := delete_nth n (sv_timers sv)\<rparr>)) else sv)"

definition bbs_run :: "node \<Rightarrow> bbs_event list \<Rightarrow> server \<Rightarrow> server" where
  "bbs_run nd evs sv = fold (bbs_step nd) evs sv"

end
