(* ===== verification/Bbs_Client.thy ===== *)
theory Bbs_Client
  imports Bbs_Server
begin

text \<open>
  The network side of the BBS client (\<open>bbs.js\<close>, \<open>client/client.js\<close>) and how
  messages travel between client and server: one line of JSON each.
\<close>

subsection \<open>The client\<close>

text \<open>
  The key from the command line: with another number of arguments the client
  keeps \<open>debug\<close>, and a key of the wrong length ends it.
\<close>

definition bbs_key :: "string list \<Rightarrow> string option" where
  "bbs_key argv =
     (if length argv = 3 then (if length (argv ! 2) = 64 then Some (argv ! 2) else None)
      else Some ''debug'')"

definition client_send :: "js \<Rightarrow> string" where
  "client_send v = json_text v @ [NEWLINE]"

definition key_message :: "string \<Rightarrow> js" where
  "key_message k = JObj [(''type'', JStr ''key''), (''key'', JStr k)]"

text \<open>What the client sends once it is connected.\<close>

definition client_hello :: "string \<Rightarrow> string" where
  "client_hello k = client_send (key_message k)"

text \<open>
  The messages in a chunk of data, \<open>None\<close> for a line that does not parse.
\<close>

definition client_receive :: "string \<Rightarrow> js option list" where
  "client_receive data = map json_parse (filter (\<lambda>l. l \<noteq> []) (split_lines data))"

subsection \<open>Lines\<close>

lemma json_text_not_Nil: "js_ok v \<Longrightarrow> json_text v \<noteq> []"
  using json_text_head by blast

text \<open>
  What a receiver of lines relies on: an encoded value has no newline, is not empty,
  and is decoded again.
\<close>

locale line_codec =
  fixes good :: "'a \<Rightarrow> bool" and enc :: "'a \<Rightarrow> string" and dec :: "string \<Rightarrow> 'a option"
  assumes no_newline: "good v \<Longrightarrow> NEWLINE \<notin> set (enc v)"
    and not_empty: "good v \<Longrightarrow> enc v \<noteq> []"
    and decoded: "good v \<Longrightarrow> dec (enc v) = Some v"
begin

lemma lines_decoded:
  "list_all good vs \<Longrightarrow>
   map dec (filter (\<lambda>l. l \<noteq> []) (split_lines (concat (map (\<lambda>v. enc v @ [NEWLINE]) vs)))) = map Some vs"
proof (induction vs)
  case (Cons v vs)
  then show ?case
    using split_on_append [OF no_newline, of v] not_empty [of v] decoded [of v] by simp
qed simp

text \<open>A last line without its newline is received as well.\<close>

lemma last_line_decoded: "good v \<Longrightarrow> map dec (filter (\<lambda>l. l \<noteq> []) (split_lines (enc v))) = [Some v]"
  using split_on_one [OF no_newline, of v] not_empty [of v] decoded [of v] by simp

end

interpretation json_lines: line_codec js_ok json_text json_parse
  by unfold_locales (simp_all add: json_text_no_newline json_text_not_Nil json_roundtrip)

text \<open>C28: What was sent, in one chunk, is what is received.\<close>

theorem messages_received:
  "\<forall>v \<in> set vs. js_ok v \<Longrightarrow> client_receive (concat (map client_send vs)) = map Some vs"
  using json_lines.lines_decoded [of vs] by (simp add: client_receive_def client_send_def [abs_def] list_all_iff)

theorem messages_received_witness:
  "client_receive (concat (map client_send [JNull, JStr [NEWLINE], JArr [js_int 7, JBool True]])) =
   map Some [JNull, JStr [NEWLINE], JArr [js_int 7, JBool True]]"
  by (rule messages_received) (simp add: js_int_def number_ok_mk_dec)

subsection \<open>A message at the server\<close>

definition handled :: "node \<Rightarrow> nat \<Rightarrow> js \<Rightarrow> server \<Rightarrow> server" where
  "handled nd s msg sv =
     (case handleMessage nd s msg (sv_messages sv) (sv\<lparr>sv_messages := sv_messages sv + 1\<rparr>) of
        (sv, Normal) \<Rightarrow> sv
      | (sv, Thrown) \<Rightarrow> kill s ''Killed: indecent hacking'' sv)"

lemma handle_line_text: "js_ok v \<Longrightarrow> handle_line nd s (json_text v) sv = handled nd s v sv"
  by (simp add: handle_line_def handled_def json_roundtrip json_text_not_Nil)

text \<open>The server handles what a client sends, with the newline or without.\<close>

lemma on_data_sent: "js_ok v \<Longrightarrow> on_data nd s (client_send v) sv = handled nd s v sv"
  using split_on_append [OF json_text_no_newline, of v "[]"]
  by (simp add: on_data_def client_send_def handle_line_text) (simp add: handle_line_def)

lemma on_data_text: "js_ok v \<Longrightarrow> on_data nd s (json_text v) sv = handled nd s v sv"
  using split_on_one [OF json_text_no_newline, of v] by (simp add: on_data_def handle_line_text)

lemma key_before_names: "\<not> decimal_digit (hd k) \<Longrightarrow> \<not> key_before k l"
  by (cases k) (auto simp: key_before_def is_index_def)

lemma key_message_ok: "js_ok (key_message k)"
  by (simp add: key_message_def props_ok_def key_before_names decimal_digit_def)

lemma key_message_fields:
  "get_prop (key_message k) ''type'' = JStr ''key''" "get_prop (key_message k) ''key'' = JStr k"
  "\<not> nullish (key_message k)"
  by (simp_all add: key_message_def nullish_def)

text \<open>Presenting a key.\<close>

lemma present_key:
  assumes "\<not> so_authenticated (sv_sockets sv s)" and "k \<noteq> []"
  shows "on_data nd s (client_hello k) sv =
    (let sv = upd_socket s (so_state_update (\<lambda>_. ''NO-AUTH'')) (sv\<lparr>sv_messages := sv_messages sv + 1\<rparr>);
         sv = (if k = ''debug'' then sv\<lparr>sv_keys := put (sv_keys sv) ''debug'' (JStr ''DEBUG-OPER'', 0)\<rparr> else sv)
     in if key_known sv k then log_on nd s (JStr k) k sv else destroy s sv)"
  using assms unfolding client_hello_def on_data_sent [OF key_message_ok] handled_def handleMessage_def handleNew_def Let_def
  by (simp add: key_message_fields)

end
