(* ===== verification/Bbs_Screen.thy ===== *)
theory Bbs_Screen
  imports Bbs_Client
begin

text \<open>
  What the BBS client shows and sends (\<open>bbs.js\<close>, \<open>client/client.js\<close>,
  \<open>client/chat.js\<close>, \<open>client/boards.js\<close>, \<open>client/tabmenu.js\<close>,
  \<open>client/statusbar.js\<close>): the handlers of messages from the server and of keys.

  \<open>ui\<close> has the contents of the widgets as the code sets them; how \<open>blessed\<close> draws
  them is not modelled. \<open>ui_sent\<close> are the messages given to \<open>Client.send\<close>, in order.
  A handler can throw (\<open>Thrown\<close>); what it did before stays done.
\<close>

subsection \<open>State\<close>

record ui =
  ui_username :: js
  ui_lines :: "string list"
  ui_users :: "string list"
  ui_selected :: nat
  ui_command :: string
  ui_topics :: "string list"
  ui_title :: string
  ui_status :: string
  ui_tabs :: "string \<times> string"
  ui_current :: nat
  ui_chat_shown :: bool
  ui_boards_shown :: bool
  ui_sent :: "js list"
  ui_reads :: nat
  ui_leaving :: bool

definition addLine :: "string \<Rightarrow> ui \<Rightarrow> ui" where
  "addLine t = ui_lines_update (\<lambda>ls. ls @ [t])"

definition ui_send :: "js \<Rightarrow> ui \<Rightarrow> ui" where
  "ui_send v = ui_sent_update (\<lambda>vs. vs @ [v])"

definition request :: "string \<Rightarrow> js" where
  "request t = JObj [(''type'', JStr t)]"

text \<open>The status bar and the tabs.\<close>

definition set_status :: "string \<Rightarrow> ui \<Rightarrow> ui" where
  "set_status t = ui_status_update (\<lambda>_. ''{bold}2600 ni youkoso{/bold} | '' @ t)"

definition tab_style :: "string \<Rightarrow> bool \<Rightarrow> string" where
  "tab_style name active = (if active then ''{bold}'' @ name @ ''{/bold}'' else name)"

definition setActive :: "string \<Rightarrow> ui \<Rightarrow> ui" where
  "setActive tab ui =
     ui\<lparr>ui_tabs := (tab_style ''Chat'' (tab = ''chat''), tab_style ''BBS'' (tab = ''bbs'')),
        ui_current := (if tab = ''chat'' then 0 else if tab = ''bbs'' then 1 else ui_current ui)\<rparr>"

definition setTitle :: "string \<Rightarrow> ui \<Rightarrow> ui" where
  "setTitle t = ui_title_update (\<lambda>_. '' '' @ t @ '' '')"

definition activate_chat :: "ui \<Rightarrow> ui" where
  "activate_chat ui =
     (set_status ''ESC: Exit | TAB: Change tab | PGUP/PGDN: Scroll | /help'' ui)\<lparr>ui_chat_shown := True\<rparr>"

definition activate_boards :: "ui \<Rightarrow> ui" where
  "activate_boards ui =
     (ui_send (request ''threads'') (setTitle ''Loading...'' (set_status ''ESC: Exit | TAB: Change tab | CTRL-R: Reload'' ui)))
       \<lparr>ui_boards_shown := True\<rparr>"

text \<open>What \<open>bbs.js\<close> has built when it waits for the first event.\<close>

definition ui_init :: ui where
  "ui_init = activate_chat
     \<lparr>ui_username = JStr ''--Disconnected--'', ui_lines = [], ui_users = [], ui_selected = 0, ui_command = [],
      ui_topics = [], ui_title = '' Loading... '', ui_status = [], ui_tabs = (tab_style ''Chat'' True, tab_style ''BBS'' False),
      ui_current = 0, ui_chat_shown = True, ui_boards_shown = False, ui_sent = [], ui_reads = 0, ui_leaving = False\<rparr>"

subsection \<open>The list of users\<close>

text \<open>\<open>x > n\<close>, and \<open>k == v\<close> for a string \<open>k\<close>\<close>

fun number_more :: "number \<Rightarrow> int \<Rightarrow> bool" where
  "number_more (Dec m e) n \<longleftrightarrow> (if 0 \<le> e then n < m * 10 ^ nat e else n * 10 ^ nat (- e) < m)"
| "number_more (Infinite neg) n \<longleftrightarrow> \<not> neg"
| "number_more NaN n \<longleftrightarrow> False"

fun equals_text :: "string \<Rightarrow> js \<Rightarrow> bool option" where
  "equals_text k JUndefined = Some False"
| "equals_text k JNull = Some False"
| "equals_text k (JBool b) = Some (string_number k = (if b then Dec 1 0 else Dec 0 0))"
| "equals_text k (JNum n) = Some (n \<noteq> NaN \<and> string_number k = n)"
| "equals_text k v = map_option (\<lambda>s. s = k) (to_str v)"

text \<open>What \<open>for (k in v)\<close> runs through, with \<open>v[k]\<close>.\<close>

fun entries :: "js \<Rightarrow> (string \<times> js) list" where
  "entries (JObj ps) = ps"
| "entries (JArr xs) = zip (map show_nat [0..<length xs]) xs"
| "entries (JStr s) = zip (map show_nat [0..<length s]) (map (\<lambda>c. JStr [c]) s)"
| "entries _ = []"

definition more_than_one :: "js \<Rightarrow> bool option" where
  "more_than_one v = map_option (\<lambda>x. number_more x 1) (to_number v)"

text \<open>Adds the items; \<open>None\<close> when a conversion throws, else the index to select.\<close>

fun list_users :: "js \<Rightarrow> nat \<Rightarrow> nat \<Rightarrow> (string \<times> js) list \<Rightarrow> ui \<Rightarrow> ui \<times> nat option" where
  "list_users me i index [] ui = (ui, Some index)"
| "list_users me i index ((nick, v) # ps) ui =
     (case equals_text nick me of
        None \<Rightarrow> (ui, None)
      | Some same \<Rightarrow>
          let index = (if same then i else index) in
          (case more_than_one v of
             None \<Rightarrow> (ui, None)
           | Some False \<Rightarrow> list_users me (i + 1) index ps (ui\<lparr>ui_users := ui_users ui @ [nick]\<rparr>)
           | Some True \<Rightarrow>
               (case to_str v of
                  None \<Rightarrow> (ui, None)
                | Some t \<Rightarrow> list_users me (i + 1) index ps
                    (ui\<lparr>ui_users := ui_users ui @ [nick @ '' {red-fg}('' @ t @ ''){/red-fg}'']\<rparr>))))"

definition updateUsers :: "js \<Rightarrow> ui \<Rightarrow> ui \<times> completion" where
  "updateUsers users ui =
     (case list_users (ui_username ui) 0 0 (entries users) (ui\<lparr>ui_users := []\<rparr>) of
        (ui, None) \<Rightarrow> (ui, Thrown)
      | (ui, Some index) \<Rightarrow> (ui\<lparr>ui_selected := index\<rparr>, Normal))"

definition user_label :: "string \<times> js \<Rightarrow> string option" where
  "user_label = (\<lambda>(user, v).
     case more_than_one v of
       None \<Rightarrow> None
     | Some False \<Rightarrow> Some (''{bold}'' @ user @ ''{/bold} '')
     | Some True \<Rightarrow> map_option (\<lambda>t. ''{bold}'' @ user @ ''{/bold}{red-fg}('' @ t @ ''){/red-fg} '') (to_str v))"

definition show_users :: "js \<Rightarrow> ui \<Rightarrow> ui \<times> completion" where
  "show_users users ui =
     (case updateUsers users ui of
        (ui, Thrown) \<Rightarrow> (ui, Thrown)
      | (ui, Normal) \<Rightarrow>
          (case those_all (map user_label (entries users)) of
             None \<Rightarrow> (ui, Thrown)
           | Some ls \<Rightarrow>
               (addLine (''  '' @ concat ls) (addLine ''{magenta-fg}Users:{/magenta-fg}'' ui), Normal)))"

subsection \<open>Boards\<close>

fun number_minus :: "number \<Rightarrow> number \<Rightarrow> number" where
  "number_minus (Dec m e) (Dec n f) =
     mk_dec (m * 10 ^ nat (e - min e f) - n * 10 ^ nat (f - min e f)) (min e f)"
| "number_minus (Infinite a) (Infinite b) = (if a = b then NaN else Infinite a)"
| "number_minus (Infinite a) (Dec n f) = Infinite a"
| "number_minus (Dec m e) (Infinite b) = Infinite (\<not> b)"
| "number_minus NaN y = NaN"
| "number_minus x NaN = NaN"

text \<open>\<open>Math.floor(ms / 1000)\<close>\<close>

definition whole_seconds :: "int \<Rightarrow> int \<Rightarrow> int" where
  "whole_seconds m e = (if 3 \<le> e then m * 10 ^ nat (e - 3) else m div 10 ^ nat (3 - e))"

definition coloured :: "string \<Rightarrow> string \<Rightarrow> string" where
  "coloured c t = ''{'' @ c @ ''-fg}'' @ t @ ''{/'' @ c @ ''-fg}''"

definition day_colour :: "int \<Rightarrow> string" where
  "day_colour days = (if days = 1 then ''cyan'' else if days < 5 then ''blue'' else ''green'')"

definition show_whole :: "int \<Rightarrow> string" where
  "show_whole x = show_number (mk_dec x 0)"

definition format_seconds :: "int \<Rightarrow> string" where
  "format_seconds x =
     (let seconds = x mod 60; x = x div 60; minutes = x mod 60; x = x div 60; hours = x mod 24; days = x div 24
      in if 0 < days then coloured (day_colour days) (''TTL: '' @ show_whole days @ ''d '' @ show_whole hours @ ''h'')
         else if 0 < hours then coloured ''cyan'' (''TTL: '' @ show_whole hours @ ''h '' @ show_whole minutes @ ''m'')
         else coloured ''red'' (''TTL: '' @ show_whole minutes @ ''m '' @ show_whole seconds @ ''s''))"

definition EXPIRED :: string where
  "EXPIRED = ''{red-bg}{white-fg}TTL: EXPIRED{/white-fg}{/red-bg}''"

fun formatRemainingTime :: "number \<Rightarrow> string" where
  "formatRemainingTime (Dec m e) = (if m \<le> 0 then EXPIRED else format_seconds (whole_seconds m e))"
| "formatRemainingTime (Infinite neg) = (if neg then EXPIRED else coloured ''green'' ''TTL: Infinityd NaNh'')"
| "formatRemainingTime NaN = coloured ''red'' ''TTL: NaNm NaNs''"

text \<open>One line of the list.\<close>

definition topic_line :: "int \<Rightarrow> js \<Rightarrow> string option" where
  "topic_line now thread =
     (case (to_number (get_prop thread ''ttl''), to_number (get_prop thread ''created''),
            to_number (get_prop thread ''id''), to_str (get_prop thread ''title'')) of
        (Some ttl, Some created, Some tid, Some title) \<Rightarrow>
          Some (CHR ''#'' # show_number tid @ CHR 0x09 #
                formatRemainingTime (number_minus ttl (number_minus (mk_dec now 0) created)) @
                [CHR 0x09, CHR 0x09, CHR 0x09] @ ''{bold}'' @ title @ ''{/bold}'')
      | _ \<Rightarrow> None)"

text \<open>
  \<open>threads[0]\<close>, \<open>threads[1]\<close> and so on up to \<open>threads.length\<close>. An object that claims
  more elements than it can have is cut behind the first that is missing.
\<close>

fun count_below :: "number \<Rightarrow> nat option" where
  "count_below (Dec m e) = Some (nat (if 0 \<le> e then m * 10 ^ nat e else - ((- m) div 10 ^ nat (- e))))"
| "count_below (Infinite neg) = (if neg then Some 0 else None)"
| "count_below NaN = Some 0"

fun elements :: "js \<Rightarrow> js list option" where
  "elements (JArr xs) = Some xs"
| "elements (JStr s) = Some (map (\<lambda>c. JStr [c]) s)"
| "elements (JObj ps) =
     (case to_number (own_get ps ''length'') of
        None \<Rightarrow> None
      | Some x \<Rightarrow>
          let known = length ps + 1; n = (case count_below x of Some n \<Rightarrow> min n known | None \<Rightarrow> known)
          in Some (map (\<lambda>i. own_get ps (show_nat i)) [0..<n]))"
| "elements _ = Some []"

fun list_topics :: "(nat \<Rightarrow> int) \<Rightarrow> js list \<Rightarrow> ui \<Rightarrow> ui \<times> string list option" where
  "list_topics clock [] ui = (ui, Some [])"
| "list_topics clock (th # ths) ui =
     (if nullish th then (ui, None)
      else case topic_line (clock (ui_reads ui)) th of
        None \<Rightarrow> (ui\<lparr>ui_reads := ui_reads ui + 1\<rparr>, None)
      | Some l \<Rightarrow> apsnd (map_option (Cons l)) (list_topics clock ths (ui\<lparr>ui_reads := ui_reads ui + 1\<rparr>)))"

definition setThreads :: "(nat \<Rightarrow> int) \<Rightarrow> js \<Rightarrow> ui \<Rightarrow> ui \<times> completion" where
  "setThreads clock threads ui =
     (let ui = ui\<lparr>ui_topics := []\<rparr> in
      case elements threads of
        None \<Rightarrow> (ui, Thrown)
      | Some ths \<Rightarrow>
          (case list_topics clock ths ui of
             (ui, None) \<Rightarrow> (ui, Thrown)
           | (ui, Some topics) \<Rightarrow> (setTitle ''Topics'' (ui\<lparr>ui_topics := topics\<rparr>), Normal)))"

text \<open>
  The keys of the list: a topic was picked (or the choice was left), reload, tab.
  A topic is \<open>#\<close>, digits and a tab.
\<close>

definition topic_number :: "string \<Rightarrow> string option" where
  "topic_number l =
     (case l of [] \<Rightarrow> None
      | c # t \<Rightarrow>
          let ds = takeWhile decimal_digit t
          in if c = CHR ''#'' \<and> ds \<noteq> [] \<and> take 1 (dropWhile decimal_digit t) = [CHR 0x09] then Some ds else None)"

definition on_pick :: "string option \<Rightarrow> ui \<Rightarrow> ui" where
  "on_pick selected ui =
     (case Option.bind selected topic_number of
        None \<Rightarrow> activate_boards ui
      | Some ds \<Rightarrow> ui_send (JObj [(''type'', JStr ''thread''), (''thread'', JNum (parse_int ds))]) ui)"

definition on_reload :: "ui \<Rightarrow> ui" where
  "on_reload ui = ui_send (request ''threads'') (setTitle ''Loading...'' (ui\<lparr>ui_topics := []\<rparr>))"

definition on_boards_tab :: "ui \<Rightarrow> ui" where
  "on_boards_tab ui = activate_chat ((setActive ''chat'' ui)\<lparr>ui_boards_shown := False\<rparr>)"

subsection \<open>Commands\<close>

definition commands :: "(string \<times> string \<times> string option) list" where
  "commands =
     [(''/passwd'', ''Changes password'',
       Some (CHR 0x09 # ''Usage: {cyan-fg}/passwd <current password> <new password>{/cyan-fg}'')),
      (''/users'', ''Shows connected users'', None),
      (''/msg'', ''Send private message to user'', Some (CHR 0x09 # ''Usage: {cyan-fg}/msg <nick> <text>{/cyan-fg}'')),
      (''/quit'', ''Disconnect (shortcut: ESC)'', None),
      (''/help'', ''Shows this message'', None)]"

text \<open>Every callback gives the new state and whether it asks for its usage line.\<close>

definition onHelp :: "ui \<Rightarrow> ui \<times> bool" where
  "onHelp ui =
     (let ui = addLine ''=== Help ===================================================================='' (addLine [] ui);
          ui = fold (\<lambda>(cmd, text, _). addLine (CHR 0x09 # ''{cyan-fg}'' @ cmd @ ''{/cyan-fg} - '' @ text)) commands ui
      in (addLine [] (addLine ''============================================================================='' ui), False))"

definition onUsers :: "ui \<Rightarrow> ui \<times> bool" where
  "onUsers ui = (ui_send (request ''users'') (addLine ''{cyan-fg}* Requesing userlist...{/cyan-fg}'' ui), False)"

definition private_message :: "string \<Rightarrow> string \<Rightarrow> js" where
  "private_message nick text = JObj [(''type'', JStr ''privmsg''), (''target'', JStr nick), (''body'', JStr text)]"

definition onMsg :: "string list \<Rightarrow> ui \<Rightarrow> ui \<times> bool" where
  "onMsg args ui =
     (if length args < 2 then (ui, True)
      else let nick = hd args; text = join '' '' (tl args)
           in (ui_send (private_message nick text) (addLine (''{bold}>{red-fg}'' @ nick @ ''{/red-fg}<{/bold} '' @ text) ui), False))"

definition onQuit :: "ui \<Rightarrow> ui \<times> bool" where
  "onQuit ui = ((ui_send (request ''quit'') ui)\<lparr>ui_leaving := True\<rparr>, False)"

definition onPasswd :: "string list \<Rightarrow> ui \<Rightarrow> ui \<times> bool" where
  "onPasswd args ui =
     (if length args \<noteq> 2 then (ui, True)
      else (ui_send (JObj [(''type'', JStr ''password''), (''current'', JStr (args ! 0)), (''password'', JStr (args ! 1))])
              (addLine ''{bold}* {red-fg}Requesing password change...{/red-fg}{/bold}'' ui), False))"

definition call_command :: "string \<Rightarrow> string list \<Rightarrow> ui \<Rightarrow> ui \<times> bool" where
  "call_command cmd args =
     (if cmd = ''/passwd'' then onPasswd args
      else if cmd = ''/users'' then onUsers
      else if cmd = ''/msg'' then onMsg args
      else if cmd = ''/quit'' then onQuit else onHelp)"

text \<open>A name of the object prototype is found in the table, but has no callback.\<close>

definition handleCommand :: "string \<Rightarrow> ui \<Rightarrow> ui \<times> completion" where
  "handleCommand text ui =
     (let ws = split_on CHR '' '' text; cmd = hd ws in
      case map_of commands cmd of
        None \<Rightarrow> if in_prototype cmd then (ui, Thrown)
                else (addLine ''{magenta-fg}*{/magenta-fg} No such command.'' ui, Normal)
      | Some (_, usage) \<Rightarrow>
          (case (call_command cmd (tl ws) ui, usage) of
             ((ui, True), Some l) \<Rightarrow> (addLine l ui, Normal)
           | ((ui, _), _) \<Rightarrow> (ui, Normal)))"

subsection \<open>Keys of the chat\<close>

definition with_texts :: "js list \<Rightarrow> (string list \<Rightarrow> ui \<Rightarrow> ui) \<Rightarrow> ui \<Rightarrow> ui \<times> completion" where
  "with_texts vs f ui = (case those_all (map to_str vs) of None \<Rightarrow> (ui, Thrown) | Some ts \<Rightarrow> (f ts ui, Normal))"

definition chat_text :: "string \<Rightarrow> ui \<Rightarrow> ui \<times> completion" where
  "chat_text text ui =
     with_texts [ui_username ui] (\<lambda>ts ui. ui_send (JObj [(''type'', JStr ''pubmsg''), (''body'', JStr text)])
       (addLine (''{bold}<'' @ hd ts @ ''>{/bold} '' @ text) ui)) ui"

definition on_enter :: "ui \<Rightarrow> ui \<times> completion" where
  "on_enter ui =
     (let text = ui_command ui in
      case (if text = [] then (ui, Normal)
            else if hd text = CHR ''/'' then handleCommand text ui else chat_text text ui) of
        (ui, Thrown) \<Rightarrow> (ui, Thrown)
      | (ui, Normal) \<Rightarrow> (ui\<lparr>ui_command := []\<rparr>, Normal))"

text \<open>Escape and Control-C.\<close>

definition on_escape :: "ui \<Rightarrow> ui" where
  "on_escape ui = fst (onQuit ui)"

definition completions :: "string \<Rightarrow> string list" where
  "completions text = filter (\<lambda>c. take (length text) c = text) (map fst commands)"

definition on_tab :: "ui \<Rightarrow> ui" where
  "on_tab ui =
     (let text = butlast (ui_command ui); ui = ui\<lparr>ui_command := text\<rparr> in
      if text \<noteq> [] \<and> hd text = CHR ''/'' then
        (let cs = completions text;
             ui = addLine (''{magenta-fg}DEBUG:{/magenta-fg} command = '' @ json_text (JStr text)) ui;
             ui = addLine (''{magenta-fg}DEBUG:{/magenta-fg} candidates = '' @ json_text (JArr (map JStr cs))) ui
         in if cs = [] then ui
            else if length cs = 1 then ui\<lparr>ui_command := hd cs @ '' ''\<rparr>
            else addLine (CHR 0x09 # join '' '' cs) ui)
      else addLine ''{red-fg}Sorry, BBS part is disabled until it is usable.{/red-fg}'' ui)"

subsection \<open>Messages from the server\<close>

definition field :: "js \<Rightarrow> string \<Rightarrow> bool" where
  "field msg k \<longleftrightarrow> truthy (get_prop msg k)"

definition show_message :: "(nat \<Rightarrow> int) \<Rightarrow> js \<Rightarrow> ui \<Rightarrow> ui \<times> completion" where
  "show_message clock msg ui =
     (if nullish msg then (ui, Thrown)
      else case as_text (get_prop msg ''type'') of
        None \<Rightarrow> (ui, Thrown)
      | Some t \<Rightarrow>
          let nick = get_prop msg ''nick''; body = get_prop msg ''body'' in
          if t = Some ''user'' \<and> field msg ''username'' then
            with_texts [get_prop msg ''username'']
              (\<lambda>ts ui. (addLine (''{magenta-fg}Logon:{/magenta-fg} {bold}{cyan-fg}'' @ hd ts @ ''{/}'') ui)
                 \<lparr>ui_username := get_prop msg ''username''\<rparr>) ui
          else if t = Some ''users'' then show_users (get_prop msg ''users'') ui
          else if t = Some ''status'' then
            (addLine (''{magenta-fg}STATUS:{/magenta-fg} '' @ json_text msg) ui, Normal)
          else if t = Some ''error'' \<and> truthy body then
            with_texts [body] (\<lambda>ts. addLine (''{red-fg}Error:{/red-fg} '' @ hd ts)) ui
          else if t = Some ''notice'' \<and> truthy body then
            with_texts [body] (\<lambda>ts. addLine (''{magenta-fg}Notice:{/magenta-fg} '' @ hd ts)) ui
          else if t = Some ''join'' \<and> truthy nick then
            with_texts [nick]
              (\<lambda>ts ui. ui_send (request ''users'') (addLine (''Join {bold}{cyan-fg}'' @ hd ts @ ''{/}'') ui)) ui
          else if t = Some ''pubmsg'' \<and> truthy nick \<and> truthy body then
            with_texts [nick, body] (\<lambda>ts. addLine (''{bold}<'' @ ts ! 0 @ ''>{/bold} '' @ ts ! 1)) ui
          else if t = Some ''privmsg'' \<and> truthy nick \<and> truthy body then
            with_texts [nick, body] (\<lambda>ts. addLine (''{red-fg}{bold}*'' @ ts ! 0 @ ''*{/bold} {/red-fg}'' @ ts ! 1)) ui
          else if t = Some ''quit'' \<and> truthy nick \<and> truthy body then
            with_texts [nick, body]
              (\<lambda>ts ui. ui_send (request ''users'') (addLine (''Quit {bold}'' @ ts ! 0 @ ''{/bold} ('' @ ts ! 1 @ '')'') ui)) ui
          else if t = Some ''threads'' \<and> truthy body then
            (case setThreads clock body ui of
               (ui, Thrown) \<Rightarrow> (ui, Thrown)
             | (ui, Normal) \<Rightarrow> (addLine (''{magenta-fg}THREADS:{/magenta-fg} '' @ json_text body) ui, Normal))
          else if t = Some ''thread'' \<and> truthy body then
            (addLine (''{magenta-fg}THREAD:{/magenta-fg} '' @ json_text body) ui, Normal)
          else (ui, Normal))"

text \<open>A chunk of data from the server: a line that fails leaves the others alone.\<close>

definition ui_line :: "(nat \<Rightarrow> int) \<Rightarrow> string \<Rightarrow> ui \<Rightarrow> ui" where
  "ui_line clock l ui =
     (if l = [] then ui
      else case json_parse l of None \<Rightarrow> ui | Some msg \<Rightarrow> fst (show_message clock msg ui))"

definition ui_data :: "(nat \<Rightarrow> int) \<Rightarrow> string \<Rightarrow> ui \<Rightarrow> ui" where
  "ui_data clock data ui = fold (ui_line clock) (split_lines data) ui"

end
