(* ===== verification/Bbs_Steps.thy ===== *)
theory Bbs_Steps
  imports Bbs_Server
begin

text \<open>
  What one event does to the BBS server, taken apart: every event is a sequence
  of a few kinds of small steps (\<open>bbs_atom\<close>), so that an invariant of logins and
  keys is proved once for each kind.
\<close>

subsection \<open>Writing\<close>

lemma send_out: "send s v = sv_out_update (Cons (Wrote s (json_text v @ [NEWLINE])))"
  by (simp add: fun_eq_iff send_def)

lemma fold_send:
  "fold (\<lambda>s sv. if s = f then sv else send s v sv) cs sv =
     sv_out_update (\<lambda>w. rev (map (\<lambda>s. Wrote s (json_text v @ [NEWLINE])) (filter (\<lambda>s. s \<noteq> f) cs)) @ w) sv"
  by (induction cs arbitrary: sv) (simp_all add: send_out comp_def)

lemma broadcast_out:
  "broadcast f v sv = sv_out_update (\<lambda>w. rev (map (\<lambda>s. Wrote s (json_text v @ [NEWLINE]))
     (filter (\<lambda>s. s \<noteq> f) (sv_clients sv))) @ w) sv"
  by (simp add: broadcast_def fold_send)

lemmas writing = send_out broadcast_out notice_def

subsection \<open>Steps that leave logins alone\<close>

fun harmless :: "effect \<Rightarrow> bool" where
  "harmless (Wrote _ _) \<longleftrightarrow> True"
| "harmless (Db_get _) \<longleftrightarrow> True"
| "harmless (Db_put _ _) \<longleftrightarrow> True"
| "harmless Uncaught \<longleftrightarrow> True"
| "harmless _ \<longleftrightarrow> False"

definition quiet :: "server \<Rightarrow> server \<Rightarrow> bool" where
  "quiet sv sv' \<longleftrightarrow> sv_clients sv' = sv_clients sv \<and> sv_sockets sv' = sv_sockets sv \<and>
     sv_connections sv' = sv_connections sv \<and> sv_keys sv' = sv_keys sv \<and>
     (\<forall>s u pw. Auth_get s u pw \<in> set (sv_pending sv') \<longrightarrow> Auth_get s u pw \<in> set (sv_pending sv)) \<and>
     (\<exists>w. sv_out sv' = w @ sv_out sv \<and> list_all harmless w)"

named_theorems quiet_rules

lemma quiet_refl [quiet_rules]: "quiet sv sv"
  by (simp add: quiet_def)

lemma quiet_trans: "quiet a b \<Longrightarrow> quiet b c \<Longrightarrow> quiet a c"
  by (auto simp: quiet_def)

lemma quiet_send [quiet_rules]: "quiet a b \<Longrightarrow> quiet a (send s v b)"
  by (auto simp: quiet_def send_out)

lemma quiet_broadcast [quiet_rules]: "quiet a b \<Longrightarrow> quiet a (broadcast s v b)"
  by (auto simp: quiet_def broadcast_out list_all_iff)

lemma quiet_notice [quiet_rules]: "quiet a b \<Longrightarrow> quiet a (notice s m b)"
  by (simp add: notice_def quiet_send)

lemma quiet_fields [quiet_rules]:
  "quiet a b \<Longrightarrow> quiet a (b\<lparr>sv_lock := l\<rparr>)"
  "quiet a b \<Longrightarrow> quiet a (b\<lparr>sv_timers := t\<rparr>)" "quiet a b \<Longrightarrow> quiet a (b\<lparr>sv_messages := m\<rparr>)"
  "quiet a b \<Longrightarrow> quiet a (b\<lparr>sv_draws := m\<rparr>)" "quiet a b \<Longrightarrow> quiet a (b\<lparr>sv_reads := m\<rparr>)"
  "quiet a b \<Longrightarrow> quiet a (b\<lparr>sv_threads := th\<rparr>)" "quiet a b \<Longrightarrow> quiet a (b\<lparr>sv_next_id := m'\<rparr>)"
  "quiet a b \<Longrightarrow> quiet a (b\<lparr>sv_down := d\<rparr>)"
  "quiet a b \<Longrightarrow> harmless x \<Longrightarrow> quiet a (emit x b)"
  by (auto simp: quiet_def)

lemma quiet_pending [quiet_rules]:
  "quiet a b \<Longrightarrow> \<forall>s u pw. Auth_get s u pw \<in> set p \<longrightarrow> Auth_get s u pw \<in> set (sv_pending a) \<Longrightarrow>
    quiet a (b\<lparr>sv_pending := p\<rparr>)"
  by (auto simp: quiet_def)

lemma set_delete_nth: "x \<in> set (delete_nth n xs) \<Longrightarrow> x \<in> set xs"
  by (auto simp: delete_nth_def dest: in_set_takeD in_set_dropD)

lemma quiet_sendStatus [quiet_rules]: "quiet a b \<Longrightarrow> quiet a (sendStatus nd s b)"
  by (simp add: sendStatus_def quiet_rules)

lemma quiet_sendUsers: "quiet sv (fst (sendUsers s sv))"
  by (auto simp: sendUsers_def quiet_rules split: option.split)

lemma quiet_changePassword: "quiet sv (fst (changePassword nd s msg sv))"
  by (auto simp: changePassword_def Let_def split: option.split intro!: quiet_rules)

lemma quiet_privmsg: "quiet sv (fst (handle_privmsg s msg i sv))"
  by (auto simp: handle_privmsg_def split: option.split intro!: quiet_rules)

lemma quiet_threads: "quiet sv (fst (handle_threads nd s sv))"
  by (auto simp: handle_threads_def intro!: quiet_rules)

lemma quiet_thread: "quiet sv (fst (handle_thread s msg sv))"
  by (auto simp: handle_thread_def Let_def split: option.split intro!: quiet_rules)

lemma quiet_createNewThread: "quiet sv (fst (createNewThread nd u t b ttl sv))"
  by (auto simp: createNewThread_def Let_def split: option.split bool.split js.split intro!: quiet_rules)

lemma quiet_new: "quiet sv (fst (handle_new nd s msg sv))"
proof -
  let ?c = "createNewThread nd (so_username (sv_sockets sv s)) (get_prop msg ''title'') (get_prop msg ''body'')
              (get_prop msg ''ttl'') sv"
  obtain sv' r where c: "?c = (sv', r)"
    by (cases ?c)
  then have "quiet sv sv'"
    using quiet_createNewThread by (metis fst_conv)
  then show ?thesis
    by (auto simp: handle_new_def c split: option.split intro!: quiet_rules)
qed

lemma quiet_delete: "quiet sv (fst (handle_delete s msg sv))"
  by (auto simp: handle_delete_def Let_def split: option.split intro!: quiet_rules)

lemma quiet_post: "quiet sv (fst (handle_post s msg sv))"
  by (auto simp: handle_post_def Let_def split: option.split intro!: quiet_rules)

lemmas quiet_handlers = quiet_sendUsers quiet_changePassword quiet_privmsg quiet_threads quiet_thread
  quiet_new quiet_delete quiet_post

subsection \<open>Small steps\<close>

text \<open>
  \<open>asked s u pw\<close> says that socket \<open>s\<close> has asked for a login of \<open>u\<close> with the password \<open>pw\<close>.
\<close>

type_synonym asked = "nat \<Rightarrow> js_value \<Rightarrow> js \<Rightarrow> bool"

inductive bbs_atom :: "node \<Rightarrow> asked \<Rightarrow> server \<Rightarrow> server \<Rightarrow> bool" for nd :: node and asked :: asked where
  Quiet: "quiet sv sv' \<Longrightarrow> bbs_atom nd asked sv sv'"
| Ask: "asked s u pw \<Longrightarrow> bbs_atom nd asked sv (emit (Db_get k)
    (sv\<lparr>sv_lock := True, sv_pending := sv_pending sv @ [Auth_get s u pw]\<rparr>))"
| Destroy: "bbs_atom nd asked sv (destroy s sv)"
| State: "bbs_atom nd asked sv (upd_socket s (so_state_update f) sv)"
| Connect: "bbs_atom nd asked sv (on_connect sv)"
| Debug: "bbs_atom nd asked sv (sv\<lparr>sv_keys := put (sv_keys sv) ''debug'' (JStr ''DEBUG-OPER'', 0)\<rparr>)"
| Log_on: "s < sv_connections sv \<Longrightarrow> \<not> so_authenticated (sv_sockets sv s) \<Longrightarrow> to_str key = Some name \<Longrightarrow>
    key_known sv name \<Longrightarrow> bbs_atom nd asked sv (log_on nd s key name sv)"
| Kill: "s < sv_connections sv \<Longrightarrow> bbs_atom nd asked sv (kill s m sv)"
| Grant: "nd_db_get nd (sv_out sv) (nd_db_key nd (fst u)) = Some hash \<Longrightarrow> nd_compare nd pw hash = Some True \<Longrightarrow>
    asked s u pw \<Longrightarrow> bbs_atom nd asked sv (auth_granted nd s u sv)"
| Expire: "bbs_atom nd asked sv (sv\<lparr>sv_keys := remove_prop (sv_keys sv) k\<rparr>)"

abbreviation bbs_atoms :: "node \<Rightarrow> asked \<Rightarrow> server \<Rightarrow> server \<Rightarrow> bool" where
  "bbs_atoms nd asked \<equiv> (bbs_atom nd asked)\<^sup>*\<^sup>*"

lemma one_atom: "bbs_atom nd asked a b \<Longrightarrow> bbs_atoms nd asked a b"
  by (rule r_into_rtranclp)

lemma then_atom: "bbs_atoms nd asked a b \<Longrightarrow> bbs_atom nd asked b c \<Longrightarrow> bbs_atoms nd asked a c"
  by (rule rtranclp.rtrancl_into_rtrancl)

lemma then_quiet: "bbs_atoms nd asked a b \<Longrightarrow> quiet b c \<Longrightarrow> bbs_atoms nd asked a c"
  by (rule then_atom [OF _ Quiet])

text \<open>Connections are only ever added.\<close>

lemma connections_atom: "bbs_atom nd asked a b \<Longrightarrow> sv_connections a \<le> sv_connections b"
  by (induction rule: bbs_atom.induct)
    (auto simp: quiet_def destroy_def on_connect_def log_on_def sendStatus_def writing kill_def removeSocket_def
      delete_key_def auth_granted_def Let_def split: option.split)

lemma connections_atoms: "bbs_atoms nd asked a b \<Longrightarrow> sv_connections a \<le> sv_connections b"
  by (induction rule: rtranclp_induct) (auto dest: connections_atom)

text \<open>What a login and a kill write, and what is left of the keys.\<close>

lemma list_all_Wrote: "list_all harmless (rev (map (\<lambda>s. Wrote s x) cs))" "list_all harmless (map (\<lambda>s. Wrote s x) cs)"
  by (auto simp: list_all_iff)

lemma log_on_effect:
  obtains w where "list_all harmless w"
    and "sv_out (log_on nd s key name sv) = w @ Logon (key_user sv name) key # sv_out sv"
    and "sv_keys (log_on nd s key name sv) = remove_prop (sv_keys sv) name"
proof -
  have "\<exists>w. list_all harmless w \<and> sv_out (log_on nd s key name sv) = w @ Logon (key_user sv name) key # sv_out sv"
    unfolding log_on_def sendStatus_def writing Let_def
    by (intro exI [of _ "rev (map _ _) @ [Wrote _ _, Wrote _ _, Wrote _ _]"] conjI)
      (simp_all add: list_all_Wrote del: json_text.simps)
  moreover have "sv_keys (log_on nd s key name sv) = remove_prop (sv_keys sv) name"
    by (simp add: log_on_def sendStatus_def writing Let_def del: json_text.simps)
  ultimately show ?thesis
    using that by blast
qed

lemma kill_effect:
  obtains w where "list_all harmless w" and "sv_out (kill s m sv) = w @ Destroyed s # sv_out sv"
    and "\<forall>k u. map_of (sv_keys (kill s m sv)) k = Some u \<longrightarrow> map_of (sv_keys sv) k = Some u"
proof -
  have "\<exists>w. list_all harmless w \<and> sv_out (kill s m sv) = w @ Destroyed s # sv_out sv"
    unfolding kill_def writing Let_def removeSocket_def destroy_def delete_key_def
    by (cases "so_authenticated (sv_sockets sv s)")
      (auto simp: list_all_Wrote simp del: json_text.simps split: option.split
        intro!: exI [of _ "rev (map _ _)"] exI [of _ "[]"])
  moreover have "map_of (sv_keys (kill s m sv)) k = Some u \<Longrightarrow> map_of (sv_keys sv) k = Some u" for k u
    unfolding kill_def writing Let_def removeSocket_def destroy_def delete_key_def
    by (auto simp: map_of_remove_prop simp del: json_text.simps split: option.splits if_splits)
  ultimately show ?thesis
    using that by blast
qed

subsection \<open>Events are small steps\<close>

lemma state_fields [simp]:
  "sv_connections (upd_socket s f sv) = sv_connections sv"
  "so_authenticated (sv_sockets (upd_socket s (so_state_update g) sv) t) = so_authenticated (sv_sockets sv t)"
  by simp_all

text \<open>A message that asks for a login, as the handlers read it.\<close>

definition message_asks :: "asked \<Rightarrow> nat \<Rightarrow> js \<Rightarrow> bool" where
  "message_asks asked s msg \<longleftrightarrow>
     (as_text (get_prop msg ''type'') = Some (Some ''auth'') \<longrightarrow>
        (\<forall>i. asked s (get_prop msg ''username'', i) (get_prop msg ''password'')))"

definition event_asks :: "asked \<Rightarrow> bbs_event \<Rightarrow> bool" where
  "event_asks asked ev \<longleftrightarrow>
     (\<forall>s data line msg. ev = Data s data \<and> line \<in> set (split_lines data) \<and> json_parse line = Some msg \<longrightarrow>
        message_asks asked s msg)"

definition pending_asked :: "asked \<Rightarrow> server \<Rightarrow> bool" where
  "pending_asked asked sv \<longleftrightarrow> (\<forall>s u pw. Auth_get s u pw \<in> set (sv_pending sv) \<longrightarrow> asked s u pw)"

lemma handleNew_atoms:
  assumes s: "s < sv_connections sv" and new: "\<not> so_authenticated (sv_sockets sv s)" and m: "message_asks asked s msg"
  shows "bbs_atoms nd asked sv (fst (handleNew nd s msg i sv))"
proof -
  define sv1 where "sv1 = upd_socket s (so_state_update (\<lambda>_. ''NO-AUTH'')) sv"
  define dbg where "dbg = sv1\<lparr>sv_keys := put (sv_keys sv1) ''debug'' (JStr ''DEBUG-OPER'', 0)\<rparr>"
  have 1: "bbs_atoms nd asked sv sv1"
    unfolding sv1_def by (rule one_atom [OF State])
  then have 2: "bbs_atoms nd asked sv dbg"
    unfolding dbg_def by (rule then_atom [OF _ Debug])
  have login: "bbs_atoms nd asked sv (log_on nd s key name sv')"
    if "sv' = sv1 \<or> sv' = dbg" "to_str key = Some name" "key_known sv' name" for sv' key name
    using that 1 2 s new by (intro then_atom [OF _ Log_on]) (auto simp: sv1_def dbg_def)
  have lost: "bbs_atoms nd asked sv (destroy s sv')" if "sv' = sv1 \<or> sv' = dbg" for sv'
    using that 1 2 by (auto intro: then_atom Destroy)
  have asked: "bbs_atoms nd asked sv (auth nd s u p sv1)" if "asked s u p" for u p
  proof -
    have "bbs_atom nd asked sv1
        (emit (Db_get k) (sv1\<lparr>sv_lock := True, sv_pending := sv_pending sv1 @ [Auth_get s u p]\<rparr>))" for k
      using that by (rule Ask)
    then show ?thesis
      using then_atom [OF 1 Destroy] then_atom [OF 1] by (auto simp: auth_def Let_def)
  qed
  show ?thesis
    unfolding handleNew_def Let_def sv1_def [symmetric] dbg_def [symmetric]
    using 1 login lost asked m by (auto simp: message_asks_def split: option.split)
qed

lemma handleMessage_atoms:
  assumes s: "s < sv_connections sv" and m: "message_asks asked s msg"
  shows "bbs_atoms nd asked sv (fst (handleMessage nd s msg i sv))"
proof (cases "so_authenticated (sv_sockets sv s)")
  case True
  have "quiet sv (fst (handleMessage nd s msg i sv)) \<or> fst (handleMessage nd s msg i sv) = kill s ''Quit'' sv"
    using True by (simp add: handleMessage_def quiet_handlers quiet_rules split: option.split)
  then show ?thesis
    using one_atom [OF Kill [OF s]] one_atom [OF Quiet] by metis
next
  case False
  then show ?thesis
    using handleNew_atoms [OF s _ m] by (simp add: handleMessage_def)
qed

lemma handle_line_atoms:
  assumes s: "s < sv_connections sv" and m: "\<And>msg. json_parse line = Some msg \<Longrightarrow> message_asks asked s msg"
  shows "bbs_atoms nd asked sv (handle_line nd s line sv)"
proof -
  let ?sv = "sv\<lparr>sv_messages := sv_messages sv + 1\<rparr>"
  have handled: "bbs_atoms nd asked sv (fst (handleMessage nd s msg i ?sv))" if "json_parse line = Some msg" for msg i
    by (rule rtranclp_trans [OF one_atom [OF Quiet] handleMessage_atoms]) (auto intro: quiet_rules s m [OF that])
  have killed: "bbs_atoms nd asked sv (kill s m sv')" if "bbs_atoms nd asked sv sv'" for m sv'
    using that s connections_atoms [OF that] by (intro then_atom [OF that Kill]) simp
  show ?thesis
  proof (cases "json_parse line")
    case (Some msg)
    then show ?thesis
      using handled [OF Some, of "sv_messages sv"] killed
      by (auto simp: handle_line_def split: prod.split completion.split)
  qed (auto simp: handle_line_def intro!: killed)
qed

lemma on_data_atoms:
  assumes "s < sv_connections sv" and "event_asks asked (Data s data)"
  shows "bbs_atoms nd asked sv (on_data nd s data sv)"
proof -
  have "bbs_atoms nd asked sv (fold (handle_line nd s) ls sv)"
    if "s < sv_connections sv" "\<forall>l \<in> set ls. \<forall>msg. json_parse l = Some msg \<longrightarrow> message_asks asked s msg" for ls sv
    using that
  proof (induction ls arbitrary: sv)
    case (Cons l ls)
    have 1: "bbs_atoms nd asked sv (handle_line nd s l sv)"
      using Cons.prems by (intro handle_line_atoms) simp_all
    then have "s < sv_connections (handle_line nd s l sv)"
      using Cons.prems connections_atoms by (meson less_le_trans)
    then show ?case
      using Cons.IH Cons.prems(2) rtranclp_trans [OF 1] by simp
  qed simp
  then show ?thesis
    using assms by (simp add: on_data_def event_asks_def)
qed

lemma on_answer_atoms:
  assumes "\<And>s u pw. p = Auth_get s u pw \<Longrightarrow> asked s u pw"
  shows "bbs_atoms nd asked sv (on_answer nd p sv)"
proof (cases p)
  case (Auth_get s u pw)
  let ?sv = "sv\<lparr>sv_lock := False\<rparr>"
  have 1: "bbs_atoms nd asked sv ?sv"
    by (intro one_atom Quiet quiet_rules)
  have "bbs_atoms nd asked sv (auth_granted nd s u ?sv)"
    if "nd_db_get nd (sv_out sv) (nd_db_key nd (fst u)) = Some hash" "nd_compare nd pw hash = Some True" for hash
    using that assms [OF Auth_get] by (intro then_atom [OF 1 Grant]) auto
  then show ?thesis
    using Auth_get then_atom [OF 1 Destroy] then_quiet [OF 1]
    by (auto simp: on_answer_def auth_answered_def Let_def split: option.split intro!: then_quiet [OF 1] quiet_rules)
next
  case (Change_get s k cur pw)
  then show ?thesis
    by (auto simp: on_answer_def change_answered_def Let_def split: option.split bool.split intro!: one_atom Quiet quiet_rules)
next
  case (Change_put s k h)
  then show ?thesis
    by (auto simp: on_answer_def change_stored_def Let_def intro!: one_atom Quiet quiet_rules)
qed

definition sockets_known :: "server \<Rightarrow> bool" where
  "sockets_known sv \<longleftrightarrow> (\<forall>s. so_open (sv_sockets sv s) \<longrightarrow> s < sv_connections sv)"

lemmas atom_defs = quiet_def destroy_def on_connect_def log_on_def sendStatus_def writing kill_def removeSocket_def
  delete_key_def auth_granted_def

lemma sockets_known_atom: "bbs_atom nd asked a b \<Longrightarrow> sockets_known a \<Longrightarrow> sockets_known b"
  by (induction rule: bbs_atom.induct) (auto simp: sockets_known_def atom_defs Let_def less_Suc_eq split: option.split if_splits)

lemma sockets_known_atoms: "bbs_atoms nd asked a b \<Longrightarrow> sockets_known a \<Longrightarrow> sockets_known b"
  by (induction rule: rtranclp_induct) (auto dest: sockets_known_atom)

lemma pending_asked_atom: "bbs_atom nd asked a b \<Longrightarrow> pending_asked asked a \<Longrightarrow> pending_asked asked b"
  by (induction rule: bbs_atom.induct) (auto simp: pending_asked_def atom_defs Let_def split: option.split)

lemma pending_asked_atoms: "bbs_atoms nd asked a b \<Longrightarrow> pending_asked asked a \<Longrightarrow> pending_asked asked b"
  by (induction rule: rtranclp_induct) (auto dest: pending_asked_atom)

lemma bbs_step_atoms:
  assumes "sockets_known sv" and "pending_asked asked sv" and "event_asks asked ev"
  shows "bbs_atoms nd asked sv (bbs_step nd ev sv)"
proof (cases ev)
  case (Timer n)
  have "bbs_atoms nd asked sv (key_timeout s k u (sv\<lparr>sv_timers := ts\<rparr>))" for s k u ts
  proof -
    have 1: "bbs_atoms nd asked sv (upd_socket s (so_state_update (\<lambda>_. ''KEY-TIMEOUT'')) (sv\<lparr>sv_timers := ts\<rparr>))"
      by (intro then_atom [OF one_atom [OF Quiet] State] quiet_rules)
    show ?thesis
      using 1 then_atom [OF 1 Expire] by (simp add: key_timeout_def Let_def)
  qed
  then show ?thesis
    using Timer by (auto simp: bbs_step_def split: prod.split)
next
  case (Db_answer n)
  have "bbs_atoms nd asked sv (on_answer nd p (sv\<lparr>sv_pending := delete_nth n (sv_pending sv)\<rparr>))"
    if "p \<in> set (sv_pending sv)" for p
    using assms(2) that
    by (intro rtranclp_trans [OF one_atom [OF Quiet] on_answer_atoms]) (auto simp: pending_asked_def intro!: quiet_rules dest: set_delete_nth)
  then show ?thesis
    using Db_answer by (auto simp: bbs_step_def)
qed (use assms on_data_atoms in \<open>auto simp: bbs_step_def sockets_known_def intro!: one_atom Kill Connect\<close>)

lemma bbs_run_atoms:
  "sockets_known sv \<Longrightarrow> pending_asked asked sv \<Longrightarrow> \<forall>ev \<in> set evs. event_asks asked ev \<Longrightarrow>
    bbs_atoms nd asked sv (bbs_run nd evs sv)"
proof (induction evs arbitrary: sv)
  case (Cons ev evs)
  have 1: "bbs_atoms nd asked sv (bbs_step nd ev sv)"
    using Cons.prems by (intro bbs_step_atoms) simp_all
  then have "bbs_atoms nd asked (bbs_step nd ev sv) (bbs_run nd evs (bbs_step nd ev sv))"
    using Cons sockets_known_atoms [OF 1] pending_asked_atoms [OF 1] by simp
  then show ?case
    using rtranclp_trans [OF 1] by (simp add: bbs_run_def)
qed (simp add: bbs_run_def)

lemma sockets_known_init: "sockets_known (server_init t b)"
  by (simp add: sockets_known_def server_init_def closed_socket_def)

text \<open>Some message of the events asked for the login.\<close>

definition asked_in :: "bbs_event list \<Rightarrow> asked" where
  "asked_in evs s u pw \<longleftrightarrow>
     (\<exists>data line msg. Data s data \<in> set evs \<and> line \<in> set (split_lines data) \<and> json_parse line = Some msg \<and>
        as_text (get_prop msg ''type'') = Some (Some ''auth'') \<and>
        get_prop msg ''username'' = fst u \<and> get_prop msg ''password'' = pw)"

lemma events_ask: "ev \<in> set evs \<Longrightarrow> event_asks (asked_in evs) ev"
  by (fastforce simp: event_asks_def message_asks_def asked_in_def)

text \<open>The rule by which an invariant of the small steps holds in every state the server reaches.\<close>

theorem bbs_run_induct [case_names init atom]:
  assumes "P (server_init t b)" and "\<And>x y. bbs_atom nd (asked_in evs) x y \<Longrightarrow> P x \<Longrightarrow> P y"
  shows "P (bbs_run nd evs (server_init t b))"
proof -
  have "bbs_atoms nd (asked_in evs) (server_init t b) (bbs_run nd evs (server_init t b))"
    by (intro bbs_run_atoms sockets_known_init) (auto simp: pending_asked_def server_init_def intro: events_ask)
  then show ?thesis
    by (induction rule: rtranclp_induct) (use assms in auto)
qed

subsection \<open>Invariants of the server\<close>

text \<open>
  A property of the states that every small step keeps, given the passwords the
  clients ask about, and one that every event keeps: each holds in every state the
  server reaches.
\<close>

locale atom_invariant =
  fixes inv :: "node \<Rightarrow> asked \<Rightarrow> server \<Rightarrow> bool"
  assumes start: "inv nd asked (server_init t b)"
    and atom: "bbs_atom nd asked x y \<Longrightarrow> inv nd asked x \<Longrightarrow> inv nd asked y"
begin

lemma reached: "inv nd (asked_in evs) (bbs_run nd evs (server_init t b))"
proof (induction rule: bbs_run_induct)
  case init
  show ?case
    by (rule start)
qed (rule atom)

end

locale event_invariant =
  fixes lock :: bool and inv :: "server \<Rightarrow> bool"
  assumes start: "inv (server_init t lock)"
    and event: "inv sv \<Longrightarrow> inv (bbs_step nd ev sv)"
begin

lemma reached: "inv (bbs_run nd evs (server_init t lock))"
  unfolding bbs_run_def by (induction evs rule: rev_induct) (simp_all add: start event)

end

end
