(* ===== verification/Bbs_Sample.thy ===== *)
theory Bbs_Sample
  imports Bbs_Client
begin

text \<open>
  A concrete environment for the BBS server, for the witnesses: a database with one
  user, \<open>bob\<close>, in which a password is its own hash, and a \<open>bcrypt\<close> that throws on
  everything but strings.
\<close>

fun sample_entry :: "effect list \<Rightarrow> string \<Rightarrow> string option" where
  "sample_entry [] k = (if k = ''bob'' then Some ''secret'' else None)"
| "sample_entry (x # h) k =
     (case x of Db_put l v \<Rightarrow> if k = l then Some v else sample_entry h k | _ \<Rightarrow> sample_entry h k)"

definition sample_node :: node where
  "sample_node = \<lparr>
     nd_random = (\<lambda>n. 1 / 2), nd_now = (\<lambda>n. 1000 * int n),
     nd_db_key = (\<lambda>v. case to_str v of Some s \<Rightarrow> s | None \<Rightarrow> []),
     nd_db_get = sample_entry, nd_db_put_error = (\<lambda>_ _ _. False),
     nd_compare = (\<lambda>v h. case v of JStr p \<Rightarrow> Some (p = h) | _ \<Rightarrow> None),
     nd_hash = (\<lambda>n v. case v of JStr p \<Rightarrow> Some p | _ \<Rightarrow> None)\<rparr>"

lemma sample_node_simps [simp]:
  "nd_random sample_node n = 1 / 2" "nd_now sample_node n = 1000 * int n"
  "nd_db_key sample_node v = (case to_str v of Some s \<Rightarrow> s | None \<Rightarrow> [])"
  "nd_db_get sample_node = sample_entry" "nd_db_put_error sample_node h k x = False"
  "nd_compare sample_node v x = (case v of JStr p \<Rightarrow> Some (p = x) | _ \<Rightarrow> None)"
  "nd_hash sample_node n v = (case v of JStr p \<Rightarrow> Some p | _ \<Rightarrow> None)"
  by (simp_all add: sample_node_def)

text \<open>A server with one client, \<open>bob\<close>.\<close>

definition bob_online :: server where
  "bob_online = (server_init 0 False)
     \<lparr>sv_clients := [0], sv_connections := 1,
      sv_sockets := (\<lambda>_. closed_socket)(0 := \<lparr>so_open = True, so_authenticated = True, so_username = (JStr ''bob'', 0),
        so_key = JStr (replicate 64 CHR ''k''), so_state = ''AUTHED''\<rparr>)\<rparr>"

lemma bob_online_simps [simp]:
  "sv_clients bob_online = [0]" "sv_connections bob_online = 1" "sv_lock bob_online = False"
  "sv_pending bob_online = []" "sv_down bob_online = False" "sv_out bob_online = []"
  "so_open (sv_sockets bob_online 0)" "so_authenticated (sv_sockets bob_online 0)"
  "so_username (sv_sockets bob_online 0) = (JStr ''bob'', 0)" "sv_threads bob_online = []"
  by (simp_all add: bob_online_def server_init_def)

text \<open>A run in which the operator logs in and opens a thread.\<close>

definition operator_run :: "bbs_event list" where
  "operator_run = [Connected, Data 0 (client_hello ''debug''),
     Data 0 (client_send (JObj [(''type'', JStr ''new''), (''title'', JStr ''news''), (''body'', JStr ''text''), (''ttl'', js_int 60)]))]"

definition operator_thread :: thread where
  "operator_thread = \<lparr>th_id = 1, th_username = (JStr ''DEBUG-OPER'', 0), th_title = ''news'', th_body = JStr ''text'',
     th_ttl = Dec 6 1, th_created = 1000, th_messages = []\<rparr>"

lemma operator_run_thread:
  "map_of (sv_threads (bbs_run sample_node operator_run (server_init 0 False))) ''1'' = Some operator_thread"
  by code_simp

lemma operator_run_logon:
  "sv_out (bbs_run sample_node (take 2 operator_run) (server_init 0 False)) =
     take 3 (sv_out (bbs_run sample_node (take 2 operator_run) (server_init 0 False))) @
     Logon (JStr ''DEBUG-OPER'', 0) (JStr ''debug'') # []"
  by code_simp

end
