(* ===== verification/Bbs_Properties.thy ===== *)
theory Bbs_Properties
  imports Bbs_Steps Bbs_Sample
begin

text \<open>
  What the BBS server guarantees, and where it does not: who can log in, what
  the list of clients holds, what a password change writes, and how messages
  travel.
\<close>

subsection \<open>The list of clients\<close>

definition clients_ok :: "server \<Rightarrow> bool" where
  "clients_ok sv \<longleftrightarrow> distinct (sv_clients sv) \<and>
     (\<forall>s. s \<in> set (sv_clients sv) \<longleftrightarrow> so_authenticated (sv_sockets sv s)) \<and>
     (\<forall>s \<in> set (sv_clients sv). s < sv_connections sv)"

lemma clients_ok_atom: "bbs_atom nd asked a b \<Longrightarrow> clients_ok a \<Longrightarrow> clients_ok b"
proof (induction rule: bbs_atom.induct)
  case (Log_on sv s key name)
  then show ?case
    by (auto simp: clients_ok_def atom_defs Let_def)
next
  case (Kill s sv m)
  then show ?case
    by (auto simp: clients_ok_def atom_defs Let_def split: option.split)
next
  case (Connect sv)
  then show ?case
    by (force simp: clients_ok_def atom_defs)
qed (auto simp: clients_ok_def atom_defs Let_def split: if_splits)

interpretation clients: atom_invariant "\<lambda>_ _. clients_ok"
  by unfold_locales (simp add: clients_ok_def server_init_def closed_socket_def, rule clients_ok_atom)

lemmas clients_ok_run = clients.reached

text \<open>
  C10: The list of clients holds exactly the sockets that are logged in, each once,
  whatever happens.
\<close>

theorem clients_are_logged_in:
  "distinct (sv_clients (bbs_run nd evs (server_init t b))) \<and>
   (\<forall>s. s \<in> set (sv_clients (bbs_run nd evs (server_init t b))) \<longleftrightarrow>
      so_authenticated (sv_sockets (bbs_run nd evs (server_init t b)) s))"
  using clients_ok_run by (simp add: clients_ok_def)

subsection \<open>Keys\<close>

text \<open>
  A grant: the database's entry for the user matched the password of a login that
  the socket had asked for, and the key was written to this socket.
\<close>

definition granted :: "node \<Rightarrow> asked \<Rightarrow> string \<Rightarrow> js_value \<Rightarrow> effect list \<Rightarrow> bool" where
  "granted nd asked k u h \<longleftrightarrow>
     (\<exists>h1 s h2 hash pw. h = h1 @ [Set_timeout k u, Destroyed s, Wrote s k] @ h2 \<and>
        nd_db_get nd h2 (nd_db_key nd (fst u)) = Some hash \<and> nd_compare nd pw hash = Some True \<and> asked s u pw)"

lemma granted_later: "granted nd asked k u h \<Longrightarrow> granted nd asked k u (w @ h)"
  unfolding granted_def by (metis append.assoc)

lemma granted_Cons: "granted nd asked k u h \<Longrightarrow> granted nd asked k u (x # h)"
  using granted_later [of nd asked k u h "[x]"] by simp

text \<open>Where the user name of a login may come from.\<close>

definition login_origin :: "node \<Rightarrow> asked \<Rightarrow> js_value \<Rightarrow> js \<Rightarrow> effect list \<Rightarrow> bool" where
  "login_origin nd asked u key h \<longleftrightarrow>
     (\<exists>k. to_str key = Some k \<and>
        (k = ''debug'' \<and> u = (JStr ''DEBUG-OPER'', 0) \<or> in_prototype k \<and> u = (prototype_get k, 0) \<or> granted nd asked k u h))"

fun logons_ok :: "node \<Rightarrow> asked \<Rightarrow> effect list \<Rightarrow> bool" where
  "logons_ok nd asked [] \<longleftrightarrow> True"
| "logons_ok nd asked (Logon u key # h) \<longleftrightarrow> login_origin nd asked u key h \<and> logons_ok nd asked h"
| "logons_ok nd asked (_ # h) \<longleftrightarrow> logons_ok nd asked h"

lemma logons_ok_harmless: "list_all harmless w \<Longrightarrow> logons_ok nd asked (w @ h) \<longleftrightarrow> logons_ok nd asked h"
proof (induction w)
  case (Cons x w)
  then show ?case
    by (cases x) auto
qed simp

lemma logons_ok_at: "logons_ok nd asked (xs @ Logon u key # h) \<Longrightarrow> login_origin nd asked u key h"
proof (induction xs)
  case (Cons x xs)
  then show ?case
    by (cases x) auto
qed simp

definition keys_ok :: "node \<Rightarrow> asked \<Rightarrow> server \<Rightarrow> bool" where
  "keys_ok nd asked sv \<longleftrightarrow> logons_ok nd asked (sv_out sv) \<and>
     (\<forall>k u. map_of (sv_keys sv) k = Some u \<longrightarrow>
        k = ''debug'' \<and> u = (JStr ''DEBUG-OPER'', 0) \<or> granted nd asked k u (sv_out sv))"

lemma keys_ok_atom: "bbs_atom nd asked a b \<Longrightarrow> keys_ok nd asked a \<Longrightarrow> keys_ok nd asked b"
proof (induction rule: bbs_atom.induct)
  case (Quiet sv sv')
  then obtain w where w: "sv_out sv' = w @ sv_out sv" "list_all harmless w" "sv_keys sv' = sv_keys sv"
    by (auto simp: quiet_def)
  then show ?case
    using Quiet(2) granted_later by (fastforce simp: keys_ok_def logons_ok_harmless)
next
  case (Log_on s sv key name)
  have origin: "login_origin nd asked (key_user sv name) key (sv_out sv)"
    using Log_on by (auto simp: keys_ok_def login_origin_def key_user_def key_known_def has_own_iff split: option.split)
  obtain w where w: "list_all harmless w"
      "sv_out (log_on nd s key name sv) = w @ Logon (key_user sv name) key # sv_out sv"
      "sv_keys (log_on nd s key name sv) = remove_prop (sv_keys sv) name"
    by (rule log_on_effect)
  show ?case
    using Log_on(5) origin unfolding keys_ok_def w
    by (auto simp: map_of_remove_prop logons_ok_harmless [OF w(1)] intro!: granted_later granted_Cons)
next
  case (Kill s sv m)
  obtain w where w: "list_all harmless w" "sv_out (kill s m sv) = w @ Destroyed s # sv_out sv"
      "\<forall>k u. map_of (sv_keys (kill s m sv)) k = Some u \<longrightarrow> map_of (sv_keys sv) k = Some u"
    by (rule kill_effect [of s m sv])
  show ?case
    using Kill(2) w(3) unfolding keys_ok_def w(2)
    by (fastforce simp: logons_ok_harmless [OF w(1)] intro: granted_later granted_Cons)
next
  case (Grant sv u hash pw s)
  have "granted nd asked k u (Set_timeout k u # Destroyed s # Wrote s k # sv_out sv)" for k
    unfolding granted_def using Grant(1,2,3) by (intro exI [of _ "[]"]) auto
  moreover have "granted nd asked k v (x # y # z # h)" if "granted nd asked k v h" for k v x y z h
    using that by (intro granted_Cons)
  ultimately show ?case
    using Grant(4) unfolding keys_ok_def auth_granted_def destroy_def Let_def
    by (simp add: map_of_put) (metis surj_pair)
qed (auto simp: keys_ok_def atom_defs Let_def map_of_put map_of_remove_prop intro: granted_Cons)

interpretation keys: atom_invariant keys_ok
  by unfold_locales (simp add: keys_ok_def server_init_def, rule keys_ok_atom)

text \<open>
  C4: Nobody logs in but with a key that was issued to that user after a password
  check, with \<open>debug\<close>, or with a name every object inherits.
\<close>

theorem logon_needs_grant:
  assumes "sv_out (bbs_run nd evs (server_init t b)) = later @ Logon u key # earlier"
  shows "\<exists>k. to_str key = Some k \<and>
    (k = ''debug'' \<and> u = (JStr ''DEBUG-OPER'', 0) \<or> in_prototype k \<and> u = (prototype_get k, 0) \<or> granted nd (asked_in evs) k u earlier)"
  using keys.reached [of nd evs t b] logons_ok_at assms by (metis keys_ok_def login_origin_def)

theorem logon_needs_grant_witness:
  "\<exists>k. to_str (JStr ''debug'') = Some k \<and>
    (k = ''debug'' \<and> (JStr ''DEBUG-OPER'', 0) = (JStr ''DEBUG-OPER'', 0 :: nat) \<or>
     in_prototype k \<and> (JStr ''DEBUG-OPER'', 0) = (prototype_get k, 0 :: nat) \<or>
     granted sample_node (asked_in (take 2 operator_run)) k (JStr ''DEBUG-OPER'', 0) [])"
  by (rule logon_needs_grant [OF operator_run_logon])

subsection \<open>A key works once\<close>

fun logons :: "string \<Rightarrow> js_value \<Rightarrow> effect list \<Rightarrow> nat" where
  "logons k u [] = 0"
| "logons k u (Logon v key # h) = (if to_str key = Some k \<and> v = u then 1 else 0) + logons k u h"
| "logons k u (_ # h) = logons k u h"

fun issues :: "string \<Rightarrow> js_value \<Rightarrow> effect list \<Rightarrow> nat" where
  "issues k u [] = 0"
| "issues k u (Set_timeout l v # h) = (if l = k \<and> v = u then 1 else 0) + issues k u h"
| "issues k u (_ # h) = issues k u h"

lemma counts_harmless:
  "list_all harmless w \<Longrightarrow> logons k u (w @ h) = logons k u h \<and> issues k u (w @ h) = issues k u h"
proof (induction w)
  case (Cons x w)
  then show ?case
    by (cases x) auto
qed simp

definition uses_ok :: "string \<Rightarrow> js_value \<Rightarrow> server \<Rightarrow> bool" where
  "uses_ok k u sv \<longleftrightarrow>
     logons k u (sv_out sv) + (if map_of (sv_keys sv) k = Some u then 1 else 0) \<le> issues k u (sv_out sv)"

lemma uses_ok_atom:
  assumes "k \<noteq> ''debug''" and "\<not> in_prototype k"
  shows "bbs_atom nd asked a b \<Longrightarrow> uses_ok k u a \<Longrightarrow> uses_ok k u b"
proof (induction rule: bbs_atom.induct)
  case (Quiet sv sv')
  then obtain w where "sv_out sv' = w @ sv_out sv" "list_all harmless w" "sv_keys sv' = sv_keys sv"
    by (auto simp: quiet_def)
  then show ?case
    using Quiet(2) by (simp add: uses_ok_def counts_harmless)
next
  case (Log_on s sv key name)
  obtain w where w: "list_all harmless w"
      "sv_out (log_on nd s key name sv) = w @ Logon (key_user sv name) key # sv_out sv"
      "sv_keys (log_on nd s key name sv) = remove_prop (sv_keys sv) name"
    by (rule log_on_effect)
  show ?case
    using Log_on(3-5) assms unfolding uses_ok_def w
    by (auto simp: map_of_remove_prop counts_harmless [OF w(1)] key_user_def key_known_def has_own_iff)
next
  case (Kill s sv m)
  obtain w where w: "list_all harmless w" "sv_out (kill s m sv) = w @ Destroyed s # sv_out sv"
      "\<forall>k u. map_of (sv_keys (kill s m sv)) k = Some u \<longrightarrow> map_of (sv_keys sv) k = Some u"
    by (rule kill_effect [of s m sv])
  show ?case
    using Kill(2) w(3) [rule_format, of k u] unfolding uses_ok_def w(2)
    by (auto simp: counts_harmless [OF w(1)] split: if_splits)
qed (use assms(1) in \<open>auto simp: uses_ok_def atom_defs Let_def map_of_put map_of_remove_prop split: if_splits\<close>)

interpretation uses: atom_invariant "\<lambda>_ _ sv. \<forall>k u. k \<noteq> ''debug'' \<and> \<not> in_prototype k \<longrightarrow> uses_ok k u sv"
  by unfold_locales (simp add: uses_ok_def server_init_def, blast intro: uses_ok_atom)



subsection \<open>The form of a key\<close>

definition random_ok :: "node \<Rightarrow> bool" where
  "random_ok nd \<longleftrightarrow> (\<forall>n. 0 \<le> nd_random nd n \<and> nd_random nd n \<le> 1)"

lemma to_base_step: "2 \<le> b \<Longrightarrow> b \<le> n \<Longrightarrow> to_base b n = to_base b (n div b) @ [digit_char (n mod b)]"
  by (subst to_base.simps) simp

lemma to_base_digit: "n < b \<Longrightarrow> to_base b n = [digit_char n]"
  by (subst to_base.simps) simp

lemma four_digits:
  assumes "65536 \<le> n" and "n \<le> 131072"
  shows "to_base 36 n = map digit_char [n div 36 div 36 div 36, n div 36 div 36 mod 36, n div 36 mod 36, n mod 36]"
proof -
  have "36 \<le> n" "36 \<le> n div 36" "36 \<le> n div 36 div 36" "n div 36 div 36 div 36 < 36"
    using assms by simp_all
  then show ?thesis
    by (simp add: to_base_step to_base_digit)
qed

lemma key_part:
  assumes "0 \<le> r" and "r \<le> (1 :: rat)"
  shows "length (to_base 36 (nat \<lfloor>(1 + r) * 65536\<rfloor>)) = 4 \<and>
    set (to_base 36 (nat \<lfloor>(1 + r) * 65536\<rfloor>)) \<subseteq> digit_char ` {..<36}"
proof -
  have "65536 \<le> \<lfloor>(1 + r) * 65536\<rfloor>" "\<lfloor>(1 + r) * 65536\<rfloor> \<le> 131072"
    using assms by (simp_all add: le_floor_iff floor_le_iff)
  then have n: "65536 \<le> nat \<lfloor>(1 + r) * 65536\<rfloor>" "nat \<lfloor>(1 + r) * 65536\<rfloor> \<le> 131072"
    by linarith+
  then have "nat \<lfloor>(1 + r) * 65536\<rfloor> div 36 div 36 div 36 < 36"
    by simp
  then show ?thesis
    using four_digits [OF n] by simp
qed

lemma generated_key:
  assumes "random_ok nd"
  shows "length (generateKey nd d) = 64 \<and> set (generateKey nd d) \<subseteq> digit_char ` {..<36} \<and>
    bbs_key [''node'', ''bbs.js'', generateKey nd d] = Some (generateKey nd d)"
proof -
  have part: "length (to_base 36 (nat \<lfloor>(1 + nd_random nd n) * 65536\<rfloor>)) = 4 \<and>
      set (to_base 36 (nat \<lfloor>(1 + nd_random nd n) * 65536\<rfloor>)) \<subseteq> digit_char ` {..<36}" for n
    using assms by (intro key_part) (auto simp: random_ok_def)
  have "length (concat (map f xs)) = 4 * length xs" if "\<And>x. length (f x) = 4" for f :: "nat \<Rightarrow> string" and xs
    by (induction xs) (simp_all add: that)
  from this [of "\<lambda>i. to_base 36 (nat \<lfloor>(1 + nd_random nd (d + i)) * 65536\<rfloor>)" "[0..<16]"]
  have "length (generateKey nd d) = 64"
    using part by (simp add: generateKey_def)
  moreover have "set (generateKey nd d) \<subseteq> digit_char ` {..<36}"
    using part by (fastforce simp: generateKey_def)
  ultimately show ?thesis
    by (simp add: bbs_key_def)
qed

text \<open>
  C29: An issued key has the 64 characters that gateway and client insist on, all of
  them digits and small letters.
\<close>

theorem issued_key_form:
  assumes "random_ok nd"
  shows "length (generateKey nd d) = 64 \<and> set (generateKey nd d) \<subseteq> digit_char ` {..<36} \<and>
    bbs_key [''node'', ''bbs.js'', generateKey nd d] = Some (generateKey nd d)"
  by (rule generated_key [OF assms])

lemma sample_random: "random_ok sample_node"
  by (simp add: random_ok_def)

theorem issued_key_form_witness:
  "length (generateKey sample_node 0) = 64 \<and> bbs_key [''node'', ''bbs.js'', generateKey sample_node 0] = Some (generateKey sample_node 0)"
  using issued_key_form [OF sample_random] by blast

subsection \<open>Keys nobody issued\<close>

lemma log_on_authenticates: "so_authenticated (sv_sockets (log_on nd s key name sv) s) \<and>
    so_username (sv_sockets (log_on nd s key name sv) s) = key_user sv name"
  by (simp add: log_on_def sendStatus_def writing Let_def)

text \<open>
  C25: Any connection becomes a user without a password: with the key \<open>debug\<close>, or with
  the name of something every JavaScript object inherits.
\<close>

theorem logon_without_password:
  assumes "k = ''debug'' \<or> in_prototype k"
    and "\<not> sv_down sv" and "so_open (sv_sockets sv s)" and "\<not> so_authenticated (sv_sockets sv s)"
  shows "so_authenticated (sv_sockets (bbs_step nd (Data s (client_hello k)) sv) s) \<and>
    (k = ''debug'' \<longrightarrow> so_username (sv_sockets (bbs_step nd (Data s (client_hello k)) sv) s) = (JStr ''DEBUG-OPER'', 0))"
proof -
  have k: "k \<noteq> []"
    using assms(1) by (auto simp: in_prototype_def prototype_functions_def)
  define sv1 where "sv1 = upd_socket s (so_state_update (\<lambda>_. ''NO-AUTH'')) (sv\<lparr>sv_messages := sv_messages sv + 1\<rparr>)"
  define sv2 where "sv2 = (if k = ''debug'' then sv1\<lparr>sv_keys := put (sv_keys sv1) ''debug'' (JStr ''DEBUG-OPER'', 0)\<rparr> else sv1)"
  have known: "key_known sv2 k" and user: "k = ''debug'' \<Longrightarrow> key_user sv2 k = (JStr ''DEBUG-OPER'', 0)"
    using assms(1) by (auto simp: sv2_def key_known_def key_user_def has_own_iff map_of_put)
  have "on_data nd s (client_hello k) sv = (if key_known sv2 k then log_on nd s (JStr k) k sv2 else destroy s sv2)"
    unfolding sv2_def sv1_def by (rule present_key [OF assms(4) k, unfolded Let_def])
  then have "bbs_step nd (Data s (client_hello k)) sv = log_on nd s (JStr k) k sv2"
    using assms(2,3) known by (simp add: bbs_step_def)
  then show ?thesis
    using log_on_authenticates user by metis
qed

theorem logon_without_password_witness:
  "so_authenticated (sv_sockets (bbs_step sample_node (Data 0 (client_hello ''toString'')) (on_connect (server_init 0 False))) 0)"
  using logon_without_password [of "''toString''" "on_connect (server_init 0 False)" 0 sample_node]
  by (simp add: in_prototype_def prototype_functions_def on_connect_def server_init_def)

end
