(* ===== verification/Bbs_Database.thy ===== *)
theory Bbs_Database
  imports Bbs_Properties
begin

text \<open>
  The lock on the user database of the BBS server: one call at a time, what
  happens when the lock is left behind, and which entry a password change writes.
\<close>

subsection \<open>What leaves the database alone\<close>

fun is_issue :: "effect \<Rightarrow> bool" where
  "is_issue (Set_timeout _ _) \<longleftrightarrow> True"
| "is_issue _ \<longleftrightarrow> False"

abbreviation issued :: "server \<Rightarrow> effect list" where
  "issued sv \<equiv> filter is_issue (sv_out sv)"

definition db_kept :: "server \<Rightarrow> server \<Rightarrow> bool" where
  "db_kept a b \<longleftrightarrow> sv_lock b = sv_lock a \<and> sv_pending b = sv_pending a \<and> sv_down b = sv_down a \<and> issued b = issued a"

lemma no_issue_written [simp]: "filter is_issue (map (\<lambda>s. Wrote s x) cs) = []" "filter is_issue (rev (map (\<lambda>s. Wrote s x) cs)) = []"
  by (auto simp: filter_empty_conv)

named_theorems kept_rules

lemma kept_basic [kept_rules]:
  "db_kept a a"
  "db_kept a b \<Longrightarrow> db_kept a (b\<lparr>sv_clients := c\<rparr>)" "db_kept a b \<Longrightarrow> db_kept a (sv_sockets_update f b)"
  "db_kept a b \<Longrightarrow> db_kept a (b\<lparr>sv_keys := k\<rparr>)" "db_kept a b \<Longrightarrow> db_kept a (b\<lparr>sv_threads := t\<rparr>)"
  "db_kept a b \<Longrightarrow> db_kept a (b\<lparr>sv_next_id := i\<rparr>)" "db_kept a b \<Longrightarrow> db_kept a (b\<lparr>sv_messages := m\<rparr>)"
  "db_kept a b \<Longrightarrow> db_kept a (b\<lparr>sv_reads := m\<rparr>)" "db_kept a b \<Longrightarrow> db_kept a (b\<lparr>sv_timers := tm\<rparr>)"
  "db_kept a b \<Longrightarrow> \<not> is_issue x \<Longrightarrow> db_kept a (emit x b)"
  by (simp_all add: db_kept_def)

lemma kept_writing [kept_rules]:
  "db_kept a b \<Longrightarrow> db_kept a (send s v b)" "db_kept a b \<Longrightarrow> db_kept a (broadcast s v b)"
  "db_kept a b \<Longrightarrow> db_kept a (notice s m b)"
  by (simp_all add: db_kept_def writing)

lemma kept_sockets [kept_rules]:
  "db_kept a b \<Longrightarrow> db_kept a (destroy s b)" "db_kept a b \<Longrightarrow> db_kept a (kill s m b)"
  "db_kept a b \<Longrightarrow> db_kept a (log_on nd s key name b)" "db_kept a b \<Longrightarrow> db_kept a (on_connect b)"
  "db_kept a b \<Longrightarrow> db_kept a (sendStatus nd s b)" "db_kept a b \<Longrightarrow> db_kept a (key_timeout s k u b)"
  by (auto simp: db_kept_def atom_defs key_timeout_def Let_def split: option.split)

definition db_next :: "server \<Rightarrow> server \<Rightarrow> bool" where
  "db_next a b \<longleftrightarrow> db_kept a b \<or>
     (\<exists>p. \<not> sv_lock a \<and> sv_lock b \<and> sv_pending b = sv_pending a @ [p] \<and> sv_down b = sv_down a \<and> issued b = issued a)"

lemma kept_next: "db_kept a b \<Longrightarrow> db_next a b"
  by (simp add: db_next_def)

lemma next_changePassword: "db_next sv (fst (changePassword nd s msg sv))"
  by (auto simp: changePassword_def Let_def db_next_def split: option.split intro!: kept_rules)

lemma kept_createNewThread: "db_kept sv (fst (createNewThread nd u t b ttl sv))"
  by (auto simp: createNewThread_def Let_def split: option.split bool.split js.split intro!: kept_rules)

lemma kept_new: "db_kept sv (fst (handle_new nd s msg sv))"
proof -
  let ?c = "createNewThread nd (so_username (sv_sockets sv s)) (get_prop msg ''title'') (get_prop msg ''body'')
              (get_prop msg ''ttl'') sv"
  obtain sv' r where c: "?c = (sv', r)"
    by (cases ?c)
  then have "db_kept sv sv'"
    using kept_createNewThread by (metis fst_conv)
  then show ?thesis
    by (auto simp: handle_new_def c split: option.split intro!: kept_rules)
qed

lemma kept_boards:
  "db_kept sv (fst (sendUsers s sv))" "db_kept sv (fst (handle_privmsg s msg i sv))"
  "db_kept sv (fst (handle_threads nd s sv))" "db_kept sv (fst (handle_thread s msg sv))"
  "db_kept sv (fst (handle_delete s msg sv))" "db_kept sv (fst (handle_post s msg sv))"
  by (auto simp: sendUsers_def handle_privmsg_def handle_threads_def handle_thread_def handle_delete_def
      handle_post_def Let_def split: option.split intro!: kept_rules)

lemma next_handleNew: "db_next sv (fst (handleNew nd s msg i sv))"
proof -
  have a: "db_next sv (auth nd s u p (sv_sockets_update f sv))" for u p f
    by (auto simp: auth_def Let_def db_next_def db_kept_def destroy_def)
  show ?thesis
    unfolding handleNew_def Let_def by (auto simp: a split: option.split intro!: kept_next kept_rules)
qed

lemma next_handleMessage: "db_next sv (fst (handleMessage nd s msg i sv))"
  by (simp add: handleMessage_def next_handleNew next_changePassword kept_next kept_new kept_boards kept_rules
      split: option.split)

subsection \<open>One call at a time\<close>

definition db_ok :: "bool \<Rightarrow> server \<Rightarrow> bool" where
  "db_ok stale sv \<longleftrightarrow>
     (if stale then sv_lock sv \<and> sv_pending sv = [] \<and> issued sv = []
      else length (sv_pending sv) \<le> 1 \<and> (\<not> sv_down sv \<longrightarrow> sv_lock sv = (sv_pending sv \<noteq> [])))"

lemma db_ok_kept: "db_kept a b \<Longrightarrow> db_ok st a \<Longrightarrow> db_ok st b"
  by (auto simp: db_kept_def db_ok_def split: if_splits)

lemma db_ok_next: "db_next a b \<Longrightarrow> \<not> sv_down a \<Longrightarrow> db_ok st a \<Longrightarrow> db_ok st b"
  by (auto simp: db_next_def db_ok_def db_kept_def split: if_splits)

lemma db_next_down: "db_next a b \<Longrightarrow> sv_down b = sv_down a"
  by (auto simp: db_next_def db_kept_def)

lemma db_ok_handle_line:
  assumes "db_ok st sv" and "\<not> sv_down sv"
  shows "db_ok st (handle_line nd s line sv) \<and> \<not> sv_down (handle_line nd s line sv)"
proof -
  have k: "db_ok st (kill s m sv') \<and> \<not> sv_down (kill s m sv')" if "db_ok st sv'" "\<not> sv_down sv'" for m sv'
  proof -
    have "db_kept sv' (kill s m sv')"
      by (intro kept_rules)
    then show ?thesis
      using that db_ok_kept by (auto simp: db_kept_def)
  qed
  have h: "db_ok st (fst (handleMessage nd s msg i (sv\<lparr>sv_messages := n\<rparr>))) \<and>
      \<not> sv_down (fst (handleMessage nd s msg i (sv\<lparr>sv_messages := n\<rparr>)))" for msg i n
  proof -
    let ?sv = "sv\<lparr>sv_messages := n\<rparr>"
    have "db_ok st ?sv"
      using assms(1) by (auto simp: db_ok_def split: if_splits)
    then show ?thesis
      using assms(2) db_ok_next [OF next_handleMessage] db_next_down [OF next_handleMessage] by simp
  qed
  show ?thesis
  proof (cases "json_parse line")
    case (Some msg)
    then show ?thesis
      using assms h [of msg "sv_messages sv" "sv_messages sv + 1"] k
      by (auto simp: handle_line_def split: prod.split completion.split)
  qed (use assms k in \<open>simp add: handle_line_def\<close>)
qed

lemma db_ok_on_data: "db_ok st sv \<Longrightarrow> \<not> sv_down sv \<Longrightarrow> db_ok st (on_data nd s data sv)"
proof -
  assume "db_ok st sv" "\<not> sv_down sv"
  then have "db_ok st (fold (handle_line nd s) ls sv) \<and> \<not> sv_down (fold (handle_line nd s) ls sv)" for ls
    by (induction ls arbitrary: sv) (simp_all add: db_ok_handle_line)
  then show ?thesis
    by (simp add: on_data_def)
qed

lemma db_ok_on_answer: "\<not> st \<Longrightarrow> sv_pending sv = [] \<Longrightarrow> sv_lock sv \<Longrightarrow> db_ok st (on_answer nd p sv)"
  by (cases p)
    (auto simp: on_answer_def auth_answered_def change_answered_def change_stored_def auth_granted_def destroy_def
      writing db_ok_def Let_def split: option.split bool.split)

lemma db_ok_step: "db_ok st sv \<Longrightarrow> db_ok st (bbs_step nd ev sv)"
proof (cases "sv_down sv")
  case False
  assume ok: "db_ok st sv"
  show ?thesis
  proof (cases ev)
    case (Db_answer n)
    show ?thesis
    proof (cases "n < length (sv_pending sv)")
      case True
      then have "\<not> st" "delete_nth n (sv_pending sv) = []" "sv_lock sv"
        using ok False by (auto simp: db_ok_def delete_nth_def split: if_splits)
      then show ?thesis
        using Db_answer False True by (simp add: bbs_step_def db_ok_on_answer)
    qed (use Db_answer ok in \<open>simp add: bbs_step_def\<close>)
  next
    case (Data s d)
    then show ?thesis
      using ok False db_ok_on_data by (simp add: bbs_step_def)
  qed (use ok False in \<open>auto simp: bbs_step_def split: prod.split intro!: db_ok_kept [OF _ ok] kept_rules\<close>)
qed (simp add: bbs_step_def)

interpretation db: event_invariant b "db_ok b" for b
  by unfold_locales (simp add: db_ok_def server_init_def, rule db_ok_step)

lemmas db_ok_run = db.reached


text \<open>A server that starts with the lock in place never issues a key.\<close>

lemma stale_lock: "issued (bbs_run nd evs (server_init t True)) = []"
  using db_ok_run [of True nd evs t] by (simp add: db_ok_def)

subsection \<open>Password changes\<close>

definition change_message :: "js \<Rightarrow> string \<Rightarrow> js" where
  "change_message current new =
     JObj [(''type'', JStr ''password''), (''current'', current), (''password'', JStr new)]"

lemma change_message_ok: "js_ok current \<Longrightarrow> js_ok (change_message current new)"
  by (simp add: change_message_def props_ok_def key_before_names decimal_digit_def)

lemma change_message_fields:
  "get_prop (change_message c p) ''type'' = JStr ''password''" "get_prop (change_message c p) ''current'' = c"
  "get_prop (change_message c p) ''password'' = JStr p" "\<not> nullish (change_message c p)"
  by (simp_all add: change_message_def nullish_def)

lemma number_less_mk_dec: "0 \<le> e \<Longrightarrow> number_less (mk_dec m e) n \<longleftrightarrow> m * 10 ^ nat e < n"
proof (induction m e rule: mk_dec.induct)
  case (1 m e)
  show ?case
  proof (cases "m \<noteq> 0 \<and> m mod 10 = 0")
    case True
    then obtain q where q: "m = 10 * q" "q \<noteq> 0"
      by (metis mult_eq_0_iff mod_0_imp_dvd dvdE)
    have "nat (e + 1) = Suc (nat e)"
      using 1(2) by simp
    then show ?thesis
      using 1 True q by (subst mk_dec.simps) (simp add: ac_simps)
  next
    case False
    then show ?thesis
      using 1(2) by (subst mk_dec.simps) auto
  qed
qed

lemma short_password: "less_than (get_prop (JStr s) ''length'') n = Some (int (length s) < n)"
  by (simp add: less_than_def js_int_def number_less_mk_dec)

text \<open>What a request leaves waiting.\<close>

lemma change_requested:
  assumes "so_authenticated (sv_sockets sv s)" and "\<not> sv_lock sv" and "js_ok current" and "truthy current"
    and "8 \<le> length new"
  shows "on_data nd s (client_send (change_message current new)) sv =
    (let k = nd_db_key nd (fst (so_username (sv_sockets sv s)))
     in emit (Db_get k) (sv\<lparr>sv_messages := sv_messages sv + 1, sv_lock := True,
          sv_pending := sv_pending sv @ [Change_get s k current (JStr new)]\<rparr>))"
proof -
  have new: "new \<noteq> []" "\<not> int (length new) < minPasswordLength"
    using assms(5) by (auto simp: minPasswordLength_def)
  show ?thesis
    using assms(1,2,4) new
    unfolding on_data_sent [OF change_message_ok [OF assms(3)]] handled_def handleMessage_def changePassword_def Let_def
    by (simp add: change_message_fields short_password del: get_prop.simps)
qed

text \<open>\<open>bcrypt\<close> throws when it is given anything but strings.\<close>

definition bcrypt_strings :: "node \<Rightarrow> bool" where
  "bcrypt_strings nd \<longleftrightarrow> (\<forall>v h. (\<forall>s. v \<noteq> JStr s) \<longrightarrow> nd_compare nd v h = None)"

text \<open>
  C26: A user who sends something else than a string as the current password takes the
  server down, with the lock left in place: after a restart nobody gets a key.
\<close>

theorem malformed_change_stops_logins:
  assumes "bcrypt_strings nd" and "\<not> sv_down sv" and "so_open (sv_sockets sv s)"
    and "so_authenticated (sv_sockets sv s)" and "\<not> sv_lock sv" and "sv_pending sv = []"
    and "js_ok current" and "truthy current" and "\<forall>p. current \<noteq> JStr p" and "8 \<le> length new"
    and "nd_db_get nd (Db_get (nd_db_key nd (fst (so_username (sv_sockets sv s)))) # sv_out sv)
           (nd_db_key nd (fst (so_username (sv_sockets sv s)))) = Some hash"
  shows "sv_down (bbs_run nd [Data s (client_send (change_message current new)), Db_answer 0] sv) \<and>
    sv_lock (bbs_run nd [Data s (client_send (change_message current new)), Db_answer 0] sv) \<and>
    issued (bbs_run nd evs (server_init t
      (sv_lock (bbs_run nd [Data s (client_send (change_message current new)), Db_answer 0] sv)))) = []"
proof -
  let ?after = "bbs_run nd [Data s (client_send (change_message current new)), Db_answer 0] sv"
  have "nd_compare nd current hash = None"
    using assms(1,9) by (simp add: bcrypt_strings_def)
  then have "sv_down ?after \<and> sv_lock ?after"
    using assms unfolding bbs_run_def
    by (simp add: bbs_step_def change_requested Let_def on_answer_def change_answered_def delete_nth_def)
  then show ?thesis
    using stale_lock by simp
qed


lemma sample_bcrypt: "bcrypt_strings sample_node"
  by (auto simp: bcrypt_strings_def split: js.split)

theorem malformed_change_stops_logins_witness:
  "sv_down (bbs_run sample_node [Data 0 (client_send (change_message (JBool True) ''password'')), Db_answer 0] bob_online) \<and>
   issued (bbs_run sample_node operator_run (server_init 0
     (sv_lock (bbs_run sample_node [Data 0 (client_send (change_message (JBool True) ''password'')), Db_answer 0] bob_online)))) = []"
proof -
  have "sample_entry (Db_get (nd_db_key sample_node (fst (so_username (sv_sockets bob_online 0)))) # sv_out bob_online)
      (nd_db_key sample_node (fst (so_username (sv_sockets bob_online 0)))) = Some ''secret''"
    by simp
  then have "sv_down (bbs_run sample_node [Data 0 (client_send (change_message (JBool True) ''password'')), Db_answer 0] bob_online) \<and>
      sv_lock (bbs_run sample_node [Data 0 (client_send (change_message (JBool True) ''password'')), Db_answer 0] bob_online) \<and>
      issued (bbs_run sample_node operator_run (server_init 0
        (sv_lock (bbs_run sample_node [Data 0 (client_send (change_message (JBool True) ''password'')), Db_answer 0] bob_online)))) = []"
    by (intro malformed_change_stops_logins [where hash = "''secret''"] sample_bcrypt) simp_all
  then show ?thesis
    by blast
qed

lemma bob_entry:
  "sample_entry (sv_out (bbs_run sample_node [Data 0 (client_send (change_message (JStr ''secret'') ''password'')), Ended 0] bob_online)) ''bob'' = Some ''secret''"
proof -
  let ?sv = "emit (Db_get ''bob'') (bob_online\<lparr>sv_messages := sv_messages bob_online + 1, sv_lock := True,
      sv_pending := [Change_get 0 ''bob'' (JStr ''secret'') (JStr ''password'')]\<rparr>)"
  have run: "bbs_run sample_node [Data 0 (client_send (change_message (JStr ''secret'') ''password'')), Ended 0] bob_online =
      kill 0 ''Connection terminated'' ?sv"
    by (simp add: bbs_run_def bbs_step_def change_requested Let_def)
  show ?thesis
    unfolding run
    by (simp add: kill_def destroy_def removeSocket_def broadcast_out delete_key_def Let_def split: option.split)
qed


end
