(* ===== verification/Bbs_Boards.thy ===== *)
theory Bbs_Boards
  imports Bbs_Database "HOL-Library.Multiset"
begin

text \<open>
  The boards of the BBS server: identifiers are never reused, a thread changes only
  by what is posted to it and disappears only at the wish of its owner, and the
  list of threads is in the order of their remaining time.
\<close>

subsection \<open>What leaves the boards alone\<close>

definition boards_kept :: "server \<Rightarrow> server \<Rightarrow> bool" where
  "boards_kept a b \<longleftrightarrow> sv_threads b = sv_threads a \<and> sv_next_id b = sv_next_id a"

named_theorems boards_rules

lemma boards_basic [boards_rules]:
  "boards_kept a a"
  "boards_kept a b \<Longrightarrow> boards_kept a (b\<lparr>sv_clients := c\<rparr>)" "boards_kept a b \<Longrightarrow> boards_kept a (sv_sockets_update f b)"
  "boards_kept a b \<Longrightarrow> boards_kept a (b\<lparr>sv_keys := k\<rparr>)" "boards_kept a b \<Longrightarrow> boards_kept a (b\<lparr>sv_pending := p\<rparr>)"
  "boards_kept a b \<Longrightarrow> boards_kept a (b\<lparr>sv_lock := l\<rparr>)" "boards_kept a b \<Longrightarrow> boards_kept a (b\<lparr>sv_messages := m\<rparr>)"
  "boards_kept a b \<Longrightarrow> boards_kept a (b\<lparr>sv_reads := m\<rparr>)" "boards_kept a b \<Longrightarrow> boards_kept a (b\<lparr>sv_timers := tm\<rparr>)"
  "boards_kept a b \<Longrightarrow> boards_kept a (emit x b)" "boards_kept a b \<Longrightarrow> boards_kept a (b\<lparr>sv_down := d\<rparr>)"
  "boards_kept a b \<Longrightarrow> boards_kept a (b\<lparr>sv_draws := m\<rparr>)"
  by (simp_all add: boards_kept_def)

lemma boards_writing [boards_rules]:
  "boards_kept a b \<Longrightarrow> boards_kept a (send s v b)" "boards_kept a b \<Longrightarrow> boards_kept a (broadcast s v b)"
  "boards_kept a b \<Longrightarrow> boards_kept a (notice s m b)"
  by (simp_all add: boards_kept_def writing)

lemma boards_sockets [boards_rules]:
  "boards_kept a b \<Longrightarrow> boards_kept a (destroy s b)" "boards_kept a b \<Longrightarrow> boards_kept a (kill s m b)"
  "boards_kept a b \<Longrightarrow> boards_kept a (log_on nd s key name b)" "boards_kept a b \<Longrightarrow> boards_kept a (on_connect b)"
  "boards_kept a b \<Longrightarrow> boards_kept a (sendStatus nd s b)" "boards_kept a b \<Longrightarrow> boards_kept a (key_timeout s k u b)"
  "boards_kept a b \<Longrightarrow> boards_kept a (auth nd s u p b)" "boards_kept a b \<Longrightarrow> boards_kept a (on_answer nd q b)"
  by (auto simp: boards_kept_def atom_defs key_timeout_def auth_def on_answer_def auth_answered_def
      change_answered_def change_stored_def Let_def split: option.split bool.split pending.split)

lemma boards_handlers:
  "boards_kept sv (fst (sendUsers s sv))" "boards_kept sv (fst (handle_privmsg s msg i sv))"
  "boards_kept sv (fst (handle_threads nd s sv))" "boards_kept sv (fst (handle_thread s msg sv))"
  "boards_kept sv (fst (changePassword nd s msg sv))" "boards_kept sv (fst (handleNew nd s msg i sv))"
  by (auto simp: sendUsers_def handle_privmsg_def handle_threads_def handle_thread_def changePassword_def
      handleNew_def Let_def split: option.split intro!: boards_rules)

subsection \<open>What a message does to a thread\<close>

definition threads_ok :: "server \<Rightarrow> bool" where
  "threads_ok sv \<longleftrightarrow> 1 \<le> sv_next_id sv \<and>
     (\<forall>k th. map_of (sv_threads sv) k = Some th \<longrightarrow>
        1 \<le> th_id th \<and> th_id th < sv_next_id sv \<and> k = show_int (th_id th))"

lemma threads_okD:
  "threads_ok sv \<Longrightarrow> map_of (sv_threads sv) k = Some th \<Longrightarrow>
    1 \<le> th_id th \<and> th_id th < sv_next_id sv \<and> k = show_int (th_id th)"
  by (simp add: threads_ok_def)

lemma from_show_int: "1 \<le> i \<Longrightarrow> from_base 10 (show_int i) = nat i"
  by (simp add: show_int_def from_to_base)

lemma show_int_inject: "1 \<le> i \<Longrightarrow> 1 \<le> j \<Longrightarrow> show_int i = show_int j \<Longrightarrow> i = j"
  using from_show_int [of i] from_show_int [of j] by simp

text \<open>The new state of a thread that a message of user \<open>u\<close> was about.\<close>

definition thread_step :: "js_value \<Rightarrow> thread \<Rightarrow> thread option \<Rightarrow> bool" where
  "thread_step u th r \<longleftrightarrow>
     (case r of None \<Rightarrow> same_value (th_username th) u
      | Some th' \<Rightarrow> (\<exists>ps. th' = th\<lparr>th_messages := th_messages th @ ps\<rparr> \<and> (\<forall>p \<in> set ps. fst p = u)))"

definition boards_step :: "js_value \<Rightarrow> server \<Rightarrow> server \<Rightarrow> bool" where
  "boards_step u a b \<longleftrightarrow> threads_ok b \<and> sv_next_id a \<le> sv_next_id b \<and>
     (\<forall>k th. map_of (sv_threads a) k = Some th \<longrightarrow> thread_step u th (map_of (sv_threads b) k))"

lemma thread_step_same: "thread_step u th (Some th)"
  by (auto simp: thread_step_def intro: exI [of _ "[]"])

lemma boards_step_kept: "threads_ok a \<Longrightarrow> boards_kept a b \<Longrightarrow> boards_step u a b"
  by (auto simp: boards_step_def boards_kept_def threads_ok_def thread_step_same)

lemma boards_step_unchanged:
  "threads_ok a \<Longrightarrow> sv_threads b = sv_threads a \<Longrightarrow> sv_next_id a \<le> sv_next_id b \<Longrightarrow> boards_step u a b"
  by (fastforce simp: boards_step_def threads_ok_def thread_step_same)

lemma created_thread:
  assumes "createNewThread nd u title body ttl sv = (sv', r)"
  shows "sv_threads sv' = sv_threads sv \<and> (sv_next_id sv' = sv_next_id sv \<or> sv_next_id sv' = sv_next_id sv + 1) \<and>
    (\<forall>th. r = Some (Some th) \<longrightarrow> th_id th = sv_next_id sv \<and> sv_next_id sv' = sv_next_id sv + 1 \<and>
       th_username th = u \<and> th_messages th = [] \<and> length (th_title th) \<le> maxThreadTitle)"
  using assms by (auto simp: createNewThread_def Let_def split: option.splits bool.splits js.splits)

lemma boards_new:
  assumes "threads_ok sv"
  shows "boards_step (so_username (sv_sockets sv s)) sv (fst (handle_new nd s msg sv))"
proof -
  let ?c = "createNewThread nd (so_username (sv_sockets sv s)) (get_prop msg ''title'') (get_prop msg ''body'')
              (get_prop msg ''ttl'') sv"
  obtain sv' r where c: "?c = (sv', r)"
    by (cases ?c)
  note t = created_thread [OF c]
  have id: "1 \<le> sv_next_id sv"
    using assms by (simp add: threads_ok_def)
  have fresh: "k \<noteq> show_int (sv_next_id sv)" if "map_of (sv_threads sv) k = Some th" for k th
  proof
    assume "k = show_int (sv_next_id sv)"
    then have "th_id th = sv_next_id sv"
      using threads_okD [OF assms that] id by (intro show_int_inject) simp_all
    then show False
      using threads_okD [OF assms that] by simp
  qed
  note unchanged = boards_step_unchanged [OF assms]
  have added: "boards_step u sv sv''"
    if "sv_threads sv'' = put (sv_threads sv) (show_int (th_id th)) th" "th_id th = sv_next_id sv"
      "sv_next_id sv'' = sv_next_id sv + 1" for sv'' u th
    using assms that id fresh
    by (fastforce simp: boards_step_def threads_ok_def map_of_put thread_step_same)
  show ?thesis
  proof (cases "truthy (get_prop msg ''title'') \<and> truthy (get_prop msg ''body'') \<and> truthy (get_prop msg ''ttl'')")
    case False
    then show ?thesis
      by (intro unchanged) (auto simp: handle_new_def send_out)
  next
    case True
    show ?thesis
    proof (cases "\<exists>th. r = Some (Some th)")
      case ex: True
      then obtain th where "r = Some (Some th)" ..
      then show ?thesis
        using True t by (intro added [of _ th]) (simp_all add: handle_new_def c send_out)
    next
      case False
      then show ?thesis
        using True t by (intro unchanged) (auto simp: handle_new_def c send_out split: option.split)
    qed
  qed
qed

lemma boards_delete:
  assumes "threads_ok sv"
  shows "boards_step (so_username (sv_sockets sv s)) sv (fst (handle_delete s msg sv))"
proof -
  have deleted: "boards_step u sv sv''"
    if "sv_threads sv'' = remove_prop (sv_threads sv) k" "sv_next_id sv'' = sv_next_id sv"
      "same_value (case map_of (sv_threads sv) k of Some th \<Rightarrow> th_username th | None \<Rightarrow> (JUndefined, 0)) u" for sv'' u k
    using assms that
    by (auto simp: boards_step_def threads_ok_def map_of_remove_prop thread_step_same) (simp add: thread_step_def)
  show ?thesis
    unfolding handle_delete_def Let_def
    by (auto simp: send_out split: option.split intro: deleted boards_step_unchanged [OF assms])
qed

lemma boards_post:
  assumes "threads_ok sv"
  shows "boards_step (so_username (sv_sockets sv s)) sv (fst (handle_post s msg sv))"
proof -
  have posted: "boards_step u sv sv''"
    if "map_of (sv_threads sv) k = Some th" "sv_next_id sv'' = sv_next_id sv"
      "sv_threads sv'' = put (sv_threads sv) k (th\<lparr>th_messages := th_messages th @ [(u, m)]\<rparr>)" for sv'' u k th m
  proof -
    have "thread_step u th (Some (th\<lparr>th_messages := th_messages th @ [(u, m)]\<rparr>))"
      by (auto simp: thread_step_def intro!: exI [of _ "[(u, m)]"])
    then show ?thesis
      using assms that by (auto simp: boards_step_def threads_ok_def map_of_put thread_step_same)
  qed
  show ?thesis
    unfolding handle_post_def postMessage_def Let_def
    by (auto simp: send_out split: option.split bool.split intro: posted boards_step_unchanged [OF assms])
qed

lemma boards_handleMessage:
  assumes "threads_ok sv"
  shows "boards_step (so_username (sv_sockets sv s)) sv (fst (handleMessage nd s msg i sv))"
  using boards_new [OF assms] boards_delete [OF assms] boards_post [OF assms] boards_step_kept [OF assms] boards_handlers
  by (simp add: handleMessage_def boards_rules split: option.split)

lemma threads_ok_handle_line: "threads_ok sv \<Longrightarrow> threads_ok (handle_line nd s line sv)"
proof -
  assume ok: "threads_ok sv"
  let ?sv = "sv\<lparr>sv_messages := sv_messages sv + 1\<rparr>"
  have kept: "threads_ok b" if "threads_ok a" "boards_kept a b" for a b
    using that by (simp add: threads_ok_def boards_kept_def)
  have killed: "threads_ok (kill s m a)" if "threads_ok a" for m a
    by (rule kept [OF that]) (intro boards_rules)
  have handled: "threads_ok (fst (handleMessage nd s msg i ?sv))" for msg i
  proof -
    have "threads_ok ?sv"
      by (rule kept [OF ok]) (intro boards_rules)
    then show ?thesis
      using boards_handleMessage unfolding boards_step_def by blast
  qed
  show ?thesis
  proof (cases "json_parse line")
    case (Some msg)
    then show ?thesis
      using handled [of msg "sv_messages sv"] killed ok
      by (auto simp: handle_line_def split: prod.split completion.split)
  qed (use ok killed in \<open>simp add: handle_line_def\<close>)
qed

lemma threads_ok_step: "threads_ok sv \<Longrightarrow> threads_ok (bbs_step nd ev sv)"
proof -
  assume ok: "threads_ok sv"
  have kept: "threads_ok b" if "boards_kept sv b" for b
    using that ok by (simp add: threads_ok_def boards_kept_def)
  have data: "threads_ok (fold (handle_line nd s) ls sv)" for s ls
    using ok by (induction ls arbitrary: sv) (simp_all add: threads_ok_handle_line)
  show ?thesis
    using ok by (cases ev) (auto simp: bbs_step_def on_data_def data split: prod.split intro!: kept boards_rules)
qed

interpretation threads: event_invariant b threads_ok for b
  by unfold_locales (simp add: threads_ok_def server_init_def, rule threads_ok_step)

lemmas threads_ok_run = threads.reached



subsection \<open>The order of the list\<close>

declare remaining.simps [simp del]

lemma insert_topic_mset: "mset (insert_topic now a bs) = add_mset a (mset bs)"
  by (induction bs) auto

lemma sort_topics_mset: "mset (sort_topics now ts) = mset ts"
  by (induction ts) (simp_all add: sort_topics_def insert_topic_mset)

lemma set_sort_topics: "set (sort_topics now ts) = set ts"
  using sort_topics_mset by (metis set_mset_mset)

lemma insert_topic_sorted:
  assumes "\<forall>x \<in> insert a (set bs). remaining now x \<noteq> None"
    and "sorted_wrt (\<lambda>x y. the (remaining now x) \<le> the (remaining now y)) bs"
  shows "sorted_wrt (\<lambda>x y. the (remaining now x) \<le> the (remaining now y)) (insert_topic now a bs)"
  using assms
proof (induction bs)
  case (Cons b bs)
  have "set (insert_topic now a bs) = insert a (set bs)"
    using insert_topic_mset [of now a bs] by (metis set_mset_add_mset_insert set_mset_mset)
  then show ?case
    using Cons by (fastforce simp: no_later_def split: option.splits)
qed simp

text \<open>
  The list of threads that is sent has every thread once, those that end first
  in front, as long as every thread has a time to live that is a number.
\<close>

theorem threads_listed_by_time:
  "mset (sort_topics now ts) = mset ts \<and>
   ((\<exists>th \<in> set ts. remaining now th = None) \<or>
    sorted_wrt (\<lambda>x y. the (remaining now x) \<le> the (remaining now y)) (sort_topics now ts))"
proof -
  note m = sort_topics_mset
  have s: "sorted_wrt (\<lambda>x y. the (remaining now x) \<le> the (remaining now y)) (sort_topics now ts)"
    if "\<forall>th \<in> set ts. remaining now th \<noteq> None"
    using that
  proof (induction ts)
    case (Cons a ts)
    have "set (sort_topics now ts) = set ts"
      by (rule set_sort_topics)
    then show ?case
      using Cons by (simp add: sort_topics_def insert_topic_sorted)
  qed (simp add: sort_topics_def)
  show ?thesis
  proof (cases "\<forall>th \<in> set ts. remaining now th \<noteq> None")
    case True
    then show ?thesis
      using m s by simp
  next
    case False
    then show ?thesis
      using m by auto
  qed
qed

end
