(* ===== verification/Bbs_Chat.thy ===== *)
theory Bbs_Chat
  imports Bbs_Screen Bbs_Boards
begin

text \<open>
  Clients and server of the BBS together: what one user types is what the others
  see, a client learns its own name, and a topic that is picked is the one that opens.
\<close>

subsection \<open>From client to server and back\<close>

text \<open>What a client has sent, and what a connection got, from one state to the next.\<close>

definition sent_text :: "ui \<Rightarrow> ui \<Rightarrow> string" where
  "sent_text a b = concat (map client_send (drop (length (ui_sent a)) (ui_sent b)))"

fun text_for :: "nat \<Rightarrow> effect \<Rightarrow> string" where
  "text_for s (Wrote t x) = (if s = t then x else [])"
| "text_for s _ = []"

definition written_to :: "nat \<Rightarrow> server \<Rightarrow> server \<Rightarrow> string" where
  "written_to s a b = concat (map (text_for s) (rev (take (length (sv_out b) - length (sv_out a)) (sv_out b))))"

lemma written_to_eq: "sv_out b = w @ sv_out a \<Longrightarrow> written_to s a b = concat (map (text_for s) (rev w))"
  by (simp add: written_to_def)

text \<open>A client handles what a server sends, one message after the other.\<close>

lemma ui_line_text: "js_ok v \<Longrightarrow> ui_line clock (json_text v) ui = fst (show_message clock v ui)"
  by (simp add: ui_line_def json_roundtrip json_text_not_Nil)

lemma ui_data_nothing [simp]: "ui_data clock [] ui = ui"
  by (simp add: ui_data_def ui_line_def)

lemma ui_data_next:
  "js_ok v \<Longrightarrow> ui_data clock (client_send v @ rest) ui = ui_data clock rest (fst (show_message clock v ui))"
  using split_on_append [OF json_text_no_newline, of v rest]
  by (simp add: ui_data_def client_send_def ui_line_text)

lemma ui_data_one: "js_ok v \<Longrightarrow> ui_data clock (client_send v) ui = fst (show_message clock v ui)"
  using ui_data_next [of v clock "[]"] by simp

lemma wrote_send: "sv_out (send s v sv) = Wrote s (client_send v) # sv_out sv"
  by (simp add: send_out client_send_def)

lemma broadcast_to:
  assumes "distinct (sv_clients sv)"
  shows "\<exists>w. sv_out (broadcast a v sv) = w @ sv_out sv \<and>
    concat (map (text_for b) (rev w)) = (if b \<in> set (sv_clients sv) \<and> b \<noteq> a then client_send v else [])"
proof -
  have "concat (map (text_for b) (map (\<lambda>s. Wrote s (client_send v)) cs)) = (if b \<in> set cs then client_send v else [])"
    if "distinct cs" for cs
    using that by (induction cs) auto
  then show ?thesis
    using assms
    by (intro exI [of _ "rev (map (\<lambda>s. Wrote s (client_send v)) (filter (\<lambda>s. s \<noteq> a) (sv_clients sv)))"])
      (simp add: broadcast_out client_send_def)
qed

text \<open>A message with plain names and well-formed contents is well formed.\<close>

lemma string_message_ok:
  "list_all (\<lambda>(k, _). \<not> decimal_digit (hd k)) ps \<Longrightarrow> distinct (map fst ps) \<Longrightarrow>
   list_all (\<lambda>(_, v). js_ok v) ps \<Longrightarrow> js_ok (JObj ps)"
  by (induction ps) (auto simp: props_ok_def list_all_iff key_before_names split: prod.splits)

lemma find_user_text: "getSocketByUsername (JStr u, i) sv = getSocketByUsername (JStr u, j) sv"
proof -
  have "same_value v (JStr u, i) = same_value v (JStr u, j)" for v
    by (cases "(v, (JStr u, i))" rule: same_value.cases) auto
  then show ?thesis
    by (simp add: getSocketByUsername_def)
qed

subsection \<open>Private messages\<close>

lemma words_of_message:
  assumes "CHR '' '' \<notin> set nick"
  shows "split_on CHR '' '' (''/msg '' @ nick @ '' '' @ text) = ''/msg'' # nick # split_on CHR '' '' text"
  using split_on_append [of "CHR '' ''" "''/msg''" "nick @ CHR '' '' # text"] split_on_append [OF assms, of "text"] by simp

lemma typed_private_message:
  assumes "ui_command ua = ''/msg '' @ nick @ '' '' @ text" and "CHR '' '' \<notin> set nick"
  shows "ui_sent (fst (on_enter ua)) = ui_sent ua @ [private_message nick text]"
proof -
  have "length (nick # split_on CHR '' '' text) \<ge> 2"
    by (cases "split_on CHR '' '' text") simp_all
  then show ?thesis
    unfolding on_enter_def handleCommand_def assms(1) words_of_message [OF assms(2)] Let_def
    by (simp add: commands_def call_command_def onMsg_def ui_send_def addLine_def join_split_on)
qed

lemma private_message_ok: "js_ok (private_message nick text)"
  unfolding private_message_def by (rule string_message_ok) (simp_all add: decimal_digit_def)

lemma private_message_fields:
  "get_prop (private_message n t) ''type'' = JStr ''privmsg''" "get_prop (private_message n t) ''target'' = JStr n"
  "get_prop (private_message n t) ''body'' = JStr t" "\<not> nullish (private_message n t)"
  by (simp_all add: private_message_def nullish_def)

definition chat_js :: "string \<Rightarrow> string \<Rightarrow> string \<Rightarrow> js" where
  "chat_js t me text = JObj [(''type'', JStr t), (''nick'', JStr me), (''body'', JStr text)]"

lemma chat_js_ok: "js_ok (chat_js t me text)"
  unfolding chat_js_def by (rule string_message_ok) (simp_all add: decimal_digit_def)

lemma chat_js_fields:
  "get_prop (chat_js t n x) ''type'' = JStr t" "get_prop (chat_js t n x) ''nick'' = JStr n"
  "get_prop (chat_js t n x) ''body'' = JStr x" "\<not> nullish (chat_js t n x)"
  by (simp_all add: chat_js_def nullish_def)

text \<open>What a private message does at the server.\<close>

lemma private_message_handled:
  assumes "so_authenticated (sv_sockets sv a)" and "so_username (sv_sockets sv a) = (JStr me, m)"
    and "getSocketByUsername (JStr nick, 0) sv = Some b" and "nick \<noteq> []"
  shows "sv_out (on_data nd a (client_send (private_message nick text)) sv) =
    Wrote b (client_send (chat_js ''privmsg'' me text)) # sv_out sv"
proof -
  have "getSocketByUsername (JStr nick, sv_messages sv) (sv\<lparr>sv_messages := sv_messages sv + 1\<rparr>) = Some b"
    using assms(3) find_user_text [of nick "sv_messages sv" sv 0] by (simp add: getSocketByUsername_def)
  then show ?thesis
    using assms
    unfolding on_data_sent [OF private_message_ok] handled_def handleMessage_def handle_privmsg_def private_message_fields
    by (simp add: wrote_send chat_js_def private_message_fields del: get_prop.simps)
qed

text \<open>
  C16: A private message that a user types to a name somebody online has is shown to
  this other user, with the sender's name, as it was typed.
\<close>

theorem private_message_shown:
  assumes "\<not> sv_down sv" and "so_open (sv_sockets sv a)" and "so_authenticated (sv_sockets sv a)"
    and "so_username (sv_sockets sv a) = (JStr me, m)" and "me \<noteq> []"
    and "getSocketByUsername (JStr nick, 0) sv = Some b" and "nick \<noteq> []" and "CHR '' '' \<notin> set nick"
    and "ui_command ua = ''/msg '' @ nick @ '' '' @ text" and "text \<noteq> []"
  shows "ui_lines (ui_data clock (written_to b sv (bbs_step nd (Data a (sent_text ua (fst (on_enter ua)))) sv)) ub) =
    ui_lines ub @ [''{red-fg}{bold}*'' @ me @ ''*{/bold} {/red-fg}'' @ text]"
proof -
  have sent: "sent_text ua (fst (on_enter ua)) = client_send (private_message nick text)"
    by (simp add: sent_text_def typed_private_message [OF assms(9,8)])
  have "sv_out (bbs_step nd (Data a (client_send (private_message nick text))) sv) =
      [Wrote b (client_send (chat_js ''privmsg'' me text))] @ sv_out sv"
    using private_message_handled [OF assms(3,4,6,7)] assms(1,2) by (simp add: bbs_step_def)
  then show ?thesis
    using assms(5,10)
    by (simp add: sent written_to_eq ui_data_one chat_js_ok show_message_def chat_js_fields with_texts_def addLine_def
        del: get_prop.simps)
qed

theorem private_message_shown_witness:
  "ui_lines (ui_data (\<lambda>_. 0) (written_to 0 bob_online (bbs_step sample_node
      (Data 0 (sent_text (ui_init\<lparr>ui_command := ''/msg bob see you''\<rparr>) (fst (on_enter (ui_init\<lparr>ui_command := ''/msg bob see you''\<rparr>)))))
      bob_online)) ui_init) =
   ui_lines ui_init @ [''{red-fg}{bold}*bob*{/bold} {/red-fg}see you'']"
  using private_message_shown [of bob_online 0 "''bob''" 0 "''bob''" 0 "ui_init\<lparr>ui_command := ''/msg bob see you''\<rparr>" "''see you''"
      "\<lambda>_. 0" sample_node ui_init]
  by (simp add: getSocketByUsername_def)

subsection \<open>The lobby\<close>

definition lobby_message :: "string \<Rightarrow> js" where
  "lobby_message text = JObj [(''type'', JStr ''pubmsg''), (''body'', JStr text)]"

lemma lobby_message_ok: "js_ok (lobby_message text)"
  unfolding lobby_message_def by (rule string_message_ok) (simp_all add: decimal_digit_def)

lemma lobby_message_fields:
  "get_prop (lobby_message t) ''type'' = JStr ''pubmsg''" "get_prop (lobby_message t) ''body'' = JStr t"
  "\<not> nullish (lobby_message t)"
  by (simp_all add: lobby_message_def nullish_def)

lemma typed_lobby_message:
  assumes "ui_command ua \<noteq> []" and "hd (ui_command ua) \<noteq> CHR ''/''" and "to_str (ui_username ua) = Some own"
  shows "sent_text ua (fst (on_enter ua)) = client_send (lobby_message (ui_command ua))"
  using assms
  by (simp add: on_enter_def chat_text_def with_texts_def sent_text_def ui_send_def addLine_def lobby_message_def Let_def)

lemma clients_distinct: "distinct (sv_clients (bbs_run nd evs (server_init t lk)))"
  using clients_ok_run clients_ok_def by blast

text \<open>
  C15: What a user types in the chat is shown to every other user who is online, once,
  with the name of the sender, and to nobody else.
\<close>

theorem lobby_message_shown:
  assumes "sv = bbs_run nd evs (server_init t lk)" and "\<not> sv_down sv" and "so_open (sv_sockets sv a)"
    and "so_authenticated (sv_sockets sv a)" and "so_username (sv_sockets sv a) = (JStr me, m)" and "me \<noteq> []"
    and "ui_command ua \<noteq> []" and "hd (ui_command ua) \<noteq> CHR ''/''" and "to_str (ui_username ua) = Some own"
  shows "ui_lines (ui_data clock (written_to b sv (bbs_step nd (Data a (sent_text ua (fst (on_enter ua)))) sv)) ub) =
    ui_lines ub @ (if b \<in> set (sv_clients sv) \<and> b \<noteq> a then [''{bold}<'' @ me @ ''>{/bold} '' @ ui_command ua] else [])"
proof -
  let ?sv = "sv\<lparr>sv_messages := sv_messages sv + 1\<rparr>"
  have "distinct (sv_clients ?sv)"
    using clients_distinct assms(1) by simp
  then obtain w where w: "sv_out (broadcast a (chat_js ''pubmsg'' me (ui_command ua)) ?sv) = w @ sv_out ?sv"
      "concat (map (text_for b) (rev w)) =
        (if b \<in> set (sv_clients sv) \<and> b \<noteq> a then client_send (chat_js ''pubmsg'' me (ui_command ua)) else [])"
    using broadcast_to [of ?sv a "chat_js ''pubmsg'' me (ui_command ua)" b] by auto
  have "bbs_step nd (Data a (client_send (lobby_message (ui_command ua)))) sv =
      broadcast a (chat_js ''pubmsg'' me (ui_command ua)) ?sv"
    using assms(2-5) unfolding bbs_step_def
    by (simp add: on_data_sent lobby_message_ok handled_def handleMessage_def lobby_message_fields chat_js_def
        del: get_prop.simps)
  then have "written_to b sv (bbs_step nd (Data a (client_send (lobby_message (ui_command ua)))) sv) =
      (if b \<in> set (sv_clients sv) \<and> b \<noteq> a then client_send (chat_js ''pubmsg'' me (ui_command ua)) else [])"
    using w by (simp add: written_to_eq)
  then show ?thesis
    using assms(6,7)
    by (simp add: typed_lobby_message [OF assms(7-9)] ui_data_one chat_js_ok show_message_def chat_js_fields
        with_texts_def addLine_def del: get_prop.simps)
qed

text \<open>Two operators online.\<close>

definition two_online :: "bbs_event list" where
  "two_online = [Connected, Data 0 (client_hello ''debug''), Connected, Data 1 (client_hello ''debug'')]"

lemma two_online_state:
  "(let sv = bbs_run sample_node two_online (server_init 0 False)
    in \<not> sv_down sv \<and> so_open (sv_sockets sv 0) \<and> so_authenticated (sv_sockets sv 0) \<and>
       so_username (sv_sockets sv 0) = (JStr ''DEBUG-OPER'', 0) \<and> sv_clients sv = [0, 1])"
  by code_simp

theorem lobby_message_shown_witness:
  "ui_lines (ui_data (\<lambda>_. 0) (written_to 1 (bbs_run sample_node two_online (server_init 0 False))
      (bbs_step sample_node (Data 0 (sent_text (ui_init\<lparr>ui_command := ''hello''\<rparr>) (fst (on_enter (ui_init\<lparr>ui_command := ''hello''\<rparr>)))))
        (bbs_run sample_node two_online (server_init 0 False)))) ui_init) =
   ui_lines ui_init @ [''{bold}<DEBUG-OPER>{/bold} hello'']"
  using two_online_state
    lobby_message_shown [OF refl, of sample_node two_online 0 False 0 "''DEBUG-OPER''" 0 "ui_init\<lparr>ui_command := ''hello''\<rparr>"
      "''--Disconnected--''" "\<lambda>_. 0" 1 ui_init]
  by (simp add: Let_def ui_init_def activate_chat_def set_status_def)

subsection \<open>The name of a client\<close>

lemma broadcast_self: "\<exists>w. sv_out (broadcast a v sv) = w @ sv_out sv \<and> concat (map (text_for a) (rev w)) = []"
  by (intro exI [of _ "rev (map (\<lambda>s. Wrote s (client_send v)) (filter (\<lambda>s. s \<noteq> a) (sv_clients sv)))"])
    (simp add: broadcast_out client_send_def)

definition name_js :: "string \<Rightarrow> string \<Rightarrow> string \<Rightarrow> js" where
  "name_js t k u = JObj [(''type'', JStr t), (k, JStr u)]"

definition status_js :: "int \<Rightarrow> int \<Rightarrow> js" where
  "status_js uptime users = JObj [(''type'', JStr ''status''), (''uptime'', js_int uptime), (''users'', js_int users)]"

lemma name_js_ok: "k \<in> {''username'', ''nick''} \<Longrightarrow> js_ok (name_js t k u)"
  unfolding name_js_def by (rule string_message_ok) (auto simp: decimal_digit_def)

lemma status_js_ok: "js_ok (status_js x y)"
  unfolding status_js_def by (rule string_message_ok) (simp_all add: decimal_digit_def js_int_def number_ok_mk_dec)

text \<open>What a login writes to the client's own connection.\<close>

lemma log_on_written:
  assumes "key_user sv name = (JStr u, i)"
  shows "\<exists>uptime users w. sv_out (log_on nd s key name sv) = w @ sv_out sv \<and>
    concat (map (text_for s) (rev w)) =
      client_send (name_js ''user'' ''username'' u) @ client_send (name_js ''join'' ''nick'' u) @
      client_send (status_js uptime users)"
proof -
  define sv1 where "sv1 = sendStatus nd s (send s (name_js ''join'' ''nick'' u) (send s (name_js ''user'' ''username'' u)
    (emit (Logon (JStr u, i) key) ((upd_socket s (\<lambda>so. so\<lparr>so_state := ''AUTHED'', so_authenticated := True,
       so_username := (JStr u, i), so_key := key\<rparr>) sv)
       \<lparr>sv_keys := remove_prop (sv_keys sv) name, sv_clients := sv_clients sv @ [s]\<rparr>))))"
  have "log_on nd s key name sv = broadcast s (name_js ''join'' ''nick'' u) sv1"
    by (simp add: log_on_def sv1_def assms name_js_def Let_def)
  moreover obtain w where "sv_out (broadcast s (name_js ''join'' ''nick'' u) sv1) = w @ sv_out sv1"
      "concat (map (text_for s) (rev w)) = []"
    using broadcast_self by blast
  moreover obtain x y where "sv_out sv1 = [Wrote s (client_send (status_js x y)), Wrote s (client_send (name_js ''join'' ''nick'' u)),
      Wrote s (client_send (name_js ''user'' ''username'' u)), Logon (JStr u, i) key] @ sv_out sv"
    by (simp add: sv1_def sendStatus_def wrote_send status_js_def)
  ultimately show ?thesis
    by (intro exI [of _ x] exI [of _ y] exI [of _ "w @ [Wrote s (client_send (status_js x y)),
      Wrote s (client_send (name_js ''join'' ''nick'' u)), Wrote s (client_send (name_js ''user'' ''username'' u)),
      Logon (JStr u, i) key]"]) simp
qed

text \<open>
  C18: A client that presents a key it was given learns the name of its user, shows the
  login, and asks for the users who are online.
\<close>

theorem client_learns_name:
  assumes "\<not> sv_down sv" and "so_open (sv_sockets sv s)" and "\<not> so_authenticated (sv_sockets sv s)"
    and "map_of (sv_keys sv) k = Some (JStr u, i)" and "k \<noteq> []" and "k \<noteq> ''debug''" and "u \<noteq> []"
  shows "\<exists>ui' status. ui' = ui_data clock (written_to s sv (bbs_step nd (Data s (client_hello k)) sv)) ui \<and>
    ui_username ui' = JStr u \<and> ui_sent ui' = ui_sent ui @ [request ''users''] \<and>
    ui_lines ui' = ui_lines ui @ [''{magenta-fg}Logon:{/magenta-fg} {bold}{cyan-fg}'' @ u @ ''{/}'',
      ''Join {bold}{cyan-fg}'' @ u @ ''{/}'', status]"
proof -
  define sv1 where "sv1 = upd_socket s (so_state_update (\<lambda>_. ''NO-AUTH'')) (sv\<lparr>sv_messages := sv_messages sv + 1\<rparr>)"
  have known: "key_known sv1 k" and user: "key_user sv1 k = (JStr u, i)"
    using assms(4) by (simp_all add: sv1_def key_known_def key_user_def has_own_iff)
  have "on_data nd s (client_hello k) sv = log_on nd s (JStr k) k sv1"
    using present_key [OF assms(3,5)] known assms(6) by (simp add: sv1_def Let_def)
  then have step: "bbs_step nd (Data s (client_hello k)) sv = log_on nd s (JStr k) k sv1"
    using assms(1,2) by (simp add: bbs_step_def)
  have "sv_out sv1 = sv_out sv"
    by (simp add: sv1_def)
  moreover obtain x y w where w: "sv_out (log_on nd s (JStr k) k sv1) = w @ sv_out sv1"
      "concat (map (text_for s) (rev w)) = client_send (name_js ''user'' ''username'' u) @
         client_send (name_js ''join'' ''nick'' u) @ client_send (status_js x y)"
    using log_on_written [OF user, of nd s "JStr k"] by blast
  ultimately have written: "written_to s sv (log_on nd s (JStr k) k sv1) = client_send (name_js ''user'' ''username'' u) @
      client_send (name_js ''join'' ''nick'' u) @ client_send (status_js x y)"
    using written_to_eq [of "log_on nd s (JStr k) k sv1" w sv s] by simp
  have shown: "show_message clock (name_js ''user'' ''username'' u) ui =
      ((addLine (''{magenta-fg}Logon:{/magenta-fg} {bold}{cyan-fg}'' @ u @ ''{/}'') ui)\<lparr>ui_username := JStr u\<rparr>, Normal)"
    "show_message clock (name_js ''join'' ''nick'' u) ui =
      (ui_send (request ''users'') (addLine (''Join {bold}{cyan-fg}'' @ u @ ''{/}'') ui), Normal)"
    "show_message clock (status_js x y) ui =
      (addLine (''{magenta-fg}STATUS:{/magenta-fg} '' @ json_text (status_js x y)) ui, Normal)" for ui
    using assms(7) by (simp_all add: show_message_def with_texts_def nullish_def field_def name_js_def status_js_def
        del: json_text.simps)
  show ?thesis
    unfolding step written
    by (simp add: ui_data_next ui_data_one name_js_ok status_js_ok shown addLine_def ui_send_def del: json_text.simps)
qed

theorem client_learns_name_witness:
  "ui_username (ui_data (\<lambda>_. 0) (written_to 0 (on_connect (server_init 0 False\<lparr>sv_keys := [(''k'', JStr ''bob'', 0)]\<rparr>))
     (bbs_step sample_node (Data 0 (client_hello ''k'')) (on_connect (server_init 0 False\<lparr>sv_keys := [(''k'', JStr ''bob'', 0)]\<rparr>))))
     ui_init) = JStr ''bob''"
  using client_learns_name [of "on_connect (server_init 0 False\<lparr>sv_keys := [(''k'', JStr ''bob'', 0)]\<rparr>)" 0 "''k''" "''bob''" 0
      "\<lambda>_. 0" sample_node ui_init]
  by (auto simp: on_connect_def server_init_def)

end
