(* ===== verification/Bbs_Topics.thy ===== *)
theory Bbs_Topics
  imports Bbs_Chat
begin

text \<open>
  The boards between client and server of the BBS: the topics a client lists, the
  one a user picks, and the time that is left of a thread.
\<close>

subsection \<open>Numbers as they are shown\<close>

lemma show_nat_times10: "0 < m \<Longrightarrow> show_nat (m * 10 ^ k) = show_nat m @ replicate k CHR ''0''"
proof (induction k)
  case (Suc k)
  have "show_nat (m * 10 ^ k * 10) = show_nat (m * 10 ^ k) @ [digit_char 0]"
    using Suc.prems by (subst to_base_step) simp_all
  moreover have "digit_char 0 = CHR ''0''"
    by code_simp
  ultimately show ?case
    using Suc by (simp add: ac_simps replicate_append_same)
qed simp

lemma length_show_nat_le: "n < 10 ^ k \<Longrightarrow> 0 < k \<Longrightarrow> length (show_nat n) \<le> k"
proof (induction k arbitrary: n)
  case (Suc k)
  show ?case
  proof (cases "n < 10")
    case False
    then have "n div 10 < 10 ^ k" "0 < k"
      using Suc.prems by (auto intro: gr0I)
    then show ?thesis
      using False Suc.IH [of "n div 10"] by (subst to_base_step) simp_all
  qed (simp add: to_base_digit)
qed simp

lemma show_number_mk_dec:
  "0 < m \<Longrightarrow> 0 \<le> e \<Longrightarrow> m * 10 ^ nat e < 10 ^ 21 \<Longrightarrow> show_number (mk_dec m e) = show_int (m * 10 ^ nat e)"
proof (induction m e rule: mk_dec.induct)
  case (1 m e)
  show ?case
  proof (cases "m mod 10 = 0")
    case True
    then obtain q where q: "m = 10 * q"
      by auto
    have "nat (e + 1) = Suc (nat e)"
      using 1(3) by simp
    then show ?thesis
      using 1 True q by (subst mk_dec.simps) (simp add: ac_simps)
  next
    case False
    have n: "nat (m * 10 ^ nat e) = nat m * 10 ^ nat e"
      using 1(2) by (simp add: nat_mult_distrib nat_power_eq)
    then have "nat m * 10 ^ nat e < 10 ^ 21"
      using 1(2,4) by (simp flip: n add: nat_less_iff)
    then have "length (show_nat (nat m) @ replicate (nat e) CHR ''0'') \<le> 21"
      using length_show_nat_le [of "nat m * 10 ^ nat e" 21] 1(2) by (simp add: show_nat_times10)
    then show ?thesis
      using False 1(2,3) show_nat_times10 [of "nat m" "nat e"]
      by (subst mk_dec.simps) (simp add: show_decimal_def show_int_def n Let_def mult_less_0_iff not_less)
  qed
qed

lemma show_identifier: "1 \<le> i \<Longrightarrow> i < 10 ^ 21 \<Longrightarrow> show_number (mk_dec i 0) = show_int i"
  using show_number_mk_dec [of i 0] by simp

subsection \<open>The list of topics\<close>

definition topic_text :: "int \<Rightarrow> thread \<Rightarrow> string" where
  "topic_text now th = the (topic_line now (thread_js th))"

lemma topic_line_thread: "topic_line now (thread_js th) = Some (topic_text now th)"
  by (simp add: topic_text_def topic_line_def thread_js_def js_int_def)

lemma thread_js_some: "\<not> nullish (thread_js th)"
  by (simp add: thread_js_def nullish_def)

fun topic_texts :: "(nat \<Rightarrow> int) \<Rightarrow> nat \<Rightarrow> thread list \<Rightarrow> string list" where
  "topic_texts clock n [] = []"
| "topic_texts clock n (th # ths) = topic_text (clock n) th # topic_texts clock (n + 1) ths"

lemma topics_listed:
  "\<exists>ui'. list_topics clock (map thread_js ts) ui = (ui', Some (topic_texts clock (ui_reads ui) ts)) \<and> ui_sent ui' = ui_sent ui"
proof (induction ts arbitrary: ui)
  case (Cons th ts)
  let ?ui = "ui\<lparr>ui_reads := ui_reads ui + 1\<rparr>"
  obtain ui' where "list_topics clock (map thread_js ts) ?ui = (ui', Some (topic_texts clock (ui_reads ?ui) ts))"
      "ui_sent ui' = ui_sent ui"
    using Cons [of ?ui] by auto
  then show ?case
    by (simp add: topic_line_thread thread_js_some)
qed simp

lemma topic_texts_member: "th \<in> set ts \<Longrightarrow> \<exists>i. topic_text (clock i) th \<in> set (topic_texts clock n ts)"
  by (induction ts arbitrary: n) auto

lemma picked_number:
  assumes "1 \<le> th_id th" and "th_id th < 10 ^ 21"
  shows "topic_number (topic_text now th) = Some (show_nat (nat (th_id th)))"
proof -
  have "show_int (th_id th) = show_nat (nat (th_id th))"
    using assms(1) by (simp add: show_int_def)
  then have "\<exists>r. topic_text now th = CHR ''#'' # show_nat (nat (th_id th)) @ CHR 0x09 # r"
    using show_identifier [OF assms] by (simp add: topic_text_def topic_line_def thread_js_def js_int_def)
  then obtain r where r: "topic_text now th = CHR ''#'' # show_nat (nat (th_id th)) @ CHR 0x09 # r"
    by blast
  then show ?thesis
    using takeWhile_digits [OF show_nat_digits, of "CHR 0x09 # r" "nat (th_id th)"]
    by (simp add: topic_number_def decimal_digit_def Let_def)
qed

subsection \<open>From the list to the thread\<close>

definition body_js :: "string \<Rightarrow> js \<Rightarrow> js" where
  "body_js t v = JObj [(''type'', JStr t), (''body'', v)]"

lemma body_js_ok: "js_ok v \<Longrightarrow> js_ok (body_js t v)"
  unfolding body_js_def by (rule string_message_ok) (simp_all add: decimal_digit_def)

definition open_js :: "int \<Rightarrow> js" where
  "open_js i = JObj [(''type'', JStr ''thread''), (''thread'', js_int i)]"

lemma open_js_ok: "js_ok (open_js i)"
  unfolding open_js_def by (rule string_message_ok) (simp_all add: decimal_digit_def js_int_def number_ok_mk_dec)

lemma request_ok: "js_ok (request t)"
  unfolding request_def by (rule string_message_ok) (simp_all add: decimal_digit_def)

lemma parse_show_nat: "parse_int (show_nat n) = mk_dec (int n) 0"
proof -
  let ?s = "show_nat n"
  have d: "list_all decimal_digit ?s"
    by (rule show_nat_digits)
  obtain c t where c: "?s = c # t"
    by (cases ?s) simp_all
  then have dc: "decimal_digit c"
    using d by simp
  have dig: "is_digit_of 10 x \<longleftrightarrow> decimal_digit x" if "decimal_digit x" for x
    using that by (simp add: is_digit_of_def decimal_digit_def char_digit_def Let_def) linarith
  have start: "dropWhile js_space ?s = ?s" "split_sign ?s = (False, ?s)"
    using dc by (auto simp: c js_space_def decimal_digit_def)
  have radix: "radix_prefix ?s \<noteq> Some 16"
    using d by (cases t) (auto simp: c decimal_digit_def)
  have digits: "takeWhile (is_digit_of 10) ?s = ?s"
    using d dig by (simp add: takeWhile_eq_all_conv list_all_iff)
  show ?thesis
    by (simp add: parse_int_def start radix digits with_sign_def from_to_base)
qed

lemma picked_request:
  assumes "1 \<le> th_id th" and "th_id th < 10 ^ 21"
  shows "sent_text ui (on_pick (Some (topic_text now th)) ui) = client_send (open_js (th_id th))"
  using assms(1) by (simp add: on_pick_def picked_number [OF assms] sent_text_def ui_send_def open_js_def js_int_def parse_show_nat)

lemma body_fields:
  "get_prop (body_js t v) ''type'' = JStr t" "get_prop (body_js t v) ''body'' = v" "\<not> nullish (body_js t v)"
  by (simp_all add: body_js_def nullish_def)

lemma open_fields:
  "get_prop (open_js i) ''type'' = JStr ''thread''" "get_prop (open_js i) ''thread'' = js_int i" "\<not> nullish (open_js i)"
  by (simp_all add: open_js_def nullish_def)

lemma request_fields: "get_prop (request t) ''type'' = JStr t" "\<not> nullish (request t)"
  by (simp_all add: request_def nullish_def)

lemma identifier_text:
  assumes "1 \<le> i" and "i < 10 ^ 21"
  shows "truthy (js_int i)" and "to_str (js_int i) = Some (show_int i)"
proof -
  have "mk_dec i 0 \<noteq> Dec 0 0"
  proof
    assume "mk_dec i 0 = Dec 0 0"
    then have "show_int i = ''0''"
      using show_identifier [OF assms] by simp
    then show False
      using show_nat_head [of "nat i"] assms(1) by (simp add: show_int_def)
  qed
  moreover have "mk_dec i 0 \<noteq> NaN"
    using mk_dec_Dec [of i 0] by auto
  ultimately show "truthy (js_int i)"
    by (simp add: js_int_def)
  show "to_str (js_int i) = Some (show_int i)"
    by (simp add: js_int_def show_identifier [OF assms])
qed

text \<open>The server's answers to the two requests.\<close>

lemma threads_answered:
  assumes "\<not> sv_down sv" and "so_open (sv_sockets sv a)" and "so_authenticated (sv_sockets sv a)"
  shows "\<exists>now. bbs_step nd (Data a (client_send (request ''threads''))) sv =
    send a (body_js ''threads'' (JArr (map thread_js (sort_topics now (map snd (sv_threads sv))))))
      (sv\<lparr>sv_messages := sv_messages sv + 1, sv_reads := sv_reads sv + 1\<rparr>)"
  using assms
  by (simp add: bbs_step_def on_data_sent request_ok handled_def handleMessage_def request_fields handle_threads_def
      body_js_def) (metis)

lemma thread_answered:
  assumes "\<not> sv_down sv" and "so_open (sv_sockets sv a)" and "so_authenticated (sv_sockets sv a)"
    and "1 \<le> i" and "i < 10 ^ 21" and "map_of (sv_threads sv) (show_int i) = Some th"
  shows "sv_out (bbs_step nd (Data a (client_send (open_js i))) sv) =
    Wrote a (client_send (body_js ''thread'' (thread_js th))) # sv_out sv"
  using assms(1-3,6) identifier_text [OF assms(4,5)]
  by (simp add: bbs_step_def on_data_sent open_js_ok handled_def handleMessage_def open_fields handle_thread_def
      in_threads_def has_own_iff wrote_send body_js_def del: get_prop.simps)


lemma operator_state:
  "(let sv = bbs_run sample_node operator_run (server_init 0 False)
    in \<not> sv_down sv \<and> so_open (sv_sockets sv 0) \<and> so_authenticated (sv_sockets sv 0) \<and>
       sv_threads sv = [(''1'', operator_thread)])"
  by code_simp

lemma operator_thread_ok: "js_ok (thread_js operator_thread)"
  by code_simp


subsection \<open>The time that is left\<close>

text \<open>
  The colours are not those of the comment in \<open>boards.js\<close>: a thread with more than a
  day left is shown in the colour for up to one day, one with more than four in the
  colour for up to four.
\<close>

lemma colours_differ:
  "take 9 (formatRemainingTime (mk_dec (86400000 + 3600000) 0)) = ''{cyan-fg}'' \<and>
   take 9 (formatRemainingTime (mk_dec (4 * 86400000 + 3600000) 0)) = ''{blue-fg}'' \<and>
   take 10 (formatRemainingTime (mk_dec (5 * 86400000) 0)) = ''{green-fg}''"
  by code_simp

end
