(* ===== verification/Bbs_Gateway.thy ===== *)
theory Bbs_Gateway
  imports Session_Serves Bbs_Boards
begin

text \<open>
  Gateway and BBS server together: the request that \<open>getkey\<close> prints is the JSON the
  server expects, the server's answer decides the login, and the key it issues
  lets the BBS client in as the user who logged in.
\<close>

subsection \<open>The request\<close>

text \<open>Text that \<open>JSON.stringify\<close> would not escape.\<close>

definition plain :: "string \<Rightarrow> bool" where
  "plain s \<longleftrightarrow> (\<forall>c \<in> set s. 32 \<le> (of_char c :: nat) \<and> c \<noteq> DQUOTE \<and> c \<noteq> BACKSLASH)"

definition auth_message :: "string \<Rightarrow> string \<Rightarrow> js" where
  "auth_message u p = JObj [(''type'', JStr ''auth''), (''username'', JStr u), (''password'', JStr p)]"

lemma plain_quote: "plain s \<Longrightarrow> concat (map quote_char s) = s"
  by (induction s) (auto simp: plain_def quote_char_def Let_def)

lemma plain_cstr: "plain s \<Longrightarrow> cstr s = s"
proof -
  have "c \<noteq> NUL" if "32 \<le> (of_char c :: nat)" for c
    using that by (intro notI) simp
  then show "plain s \<Longrightarrow> cstr s = s"
    by (simp add: cstr_def takeWhile_eq_all_conv plain_def)
qed

text \<open>\<open>snprintf\<close> in \<open>getkey\<close> and \<open>JSON.stringify\<close> agree on plain text.\<close>

lemma request_is_json_eq: "plain u \<Longrightarrow> plain p \<Longrightarrow> auth_request u p = json_text (auth_message u p)"
  by (simp add: auth_request_eq request_parts auth_message_def json_quote_def plain_quote plain_cstr quote_char_def)

lemma auth_message_fields:
  "get_prop (auth_message u p) ''type'' = JStr ''auth''" "get_prop (auth_message u p) ''username'' = JStr u"
  "get_prop (auth_message u p) ''password'' = JStr p" "\<not> nullish (auth_message u p)"
  by (simp_all add: auth_message_def nullish_def)

lemma auth_message_ok: "js_ok (auth_message u p)"
  by (simp add: auth_message_def props_ok_def key_before_names decimal_digit_def)

subsection \<open>The answer\<close>

definition idle :: "server \<Rightarrow> bool" where
  "idle sv \<longleftrightarrow> \<not> sv_down sv \<and> \<not> sv_lock sv \<and> sv_pending sv = []"

text \<open>The events of one request on a connection of its own.\<close>

definition asks_key :: "server \<Rightarrow> string \<Rightarrow> bbs_event list" where
  "asks_key sv request = [Connected, Data (sv_connections sv) request, Db_answer 0]"

text \<open>
  What \<open>recvfrom\<close> returns to the gateway: the text written to the connection, cut
  at 128 bytes, or 0 once the connection is closed without any.
\<close>

definition bbs_reply :: "node \<Rightarrow> server \<Rightarrow> string \<Rightarrow> int \<times> string" where
  "bbs_reply nd sv request =
     (let h = sv_out (bbs_run nd (asks_key sv request) sv);
          new = rev (take (length h - length (sv_out sv)) h);
          t = take 128 (concat (map (\<lambda>x. case x of Wrote s t \<Rightarrow> if s = sv_connections sv then t else [] | _ \<Rightarrow> []) new))
      in (int (length t), t))"

definition password_right :: "node \<Rightarrow> server \<Rightarrow> string \<Rightarrow> string \<Rightarrow> bool" where
  "password_right nd sv u p \<longleftrightarrow>
     (case nd_db_get nd (Db_get (nd_db_key nd (JStr u)) # sv_out sv) (nd_db_key nd (JStr u)) of
        None \<Rightarrow> False
      | Some hash \<Rightarrow> nd_compare nd (JStr p) hash = Some True)"

lemma requested:
  assumes "idle sv" and "u \<noteq> []" and "p \<noteq> []"
  shows "bbs_run nd [Connected, Data (sv_connections sv) (json_text (auth_message u p))] sv =
    (let s = sv_connections sv; k = nd_db_key nd (JStr u);
         sv1 = upd_socket s (so_state_update (\<lambda>_. ''NO-AUTH'')) ((on_connect sv)\<lparr>sv_messages := sv_messages sv + 1\<rparr>)
     in emit (Db_get k) (sv1\<lparr>sv_lock := True, sv_pending := [Auth_get s (JStr u, sv_messages sv) (JStr p)]\<rparr>))"
  using assms
  by (simp add: bbs_run_def bbs_step_def idle_def on_connect_def on_data_text auth_message_ok handled_def
      handleMessage_def handleNew_def auth_message_fields auth_def Let_def del: get_prop.simps json_text.simps)

text \<open>The server after the request, and after its answer.\<close>

definition asked_state :: "node \<Rightarrow> server \<Rightarrow> string \<Rightarrow> string \<Rightarrow> server" where
  "asked_state nd sv u p =
     (let s = sv_connections sv in
      (emit (Db_get (nd_db_key nd (JStr u)))
        ((upd_socket s (so_state_update (\<lambda>_. ''NO-AUTH'')) ((on_connect sv)\<lparr>sv_messages := sv_messages sv + 1\<rparr>))
           \<lparr>sv_lock := True\<rparr>))\<lparr>sv_pending := []\<rparr>)"

lemma asked_state_fields [simp]:
  "sv_out (asked_state nd sv u p) = Db_get (nd_db_key nd (JStr u)) # sv_out sv"
  "sv_draws (asked_state nd sv u p) = sv_draws sv" "sv_keys (asked_state nd sv u p) = sv_keys sv"
  "sv_connections (asked_state nd sv u p) = sv_connections sv + 1" "sv_down (asked_state nd sv u p) = sv_down sv"
  by (simp_all add: asked_state_def on_connect_def Let_def)

lemma answered:
  assumes "idle sv" and "u \<noteq> []" and "p \<noteq> []"
  shows "bbs_run nd (asks_key sv (json_text (auth_message u p))) sv =
    auth_answered nd (sv_connections sv) (JStr u, sv_messages sv) (JStr p)
      (nd_db_get nd (Db_get (nd_db_key nd (JStr u)) # sv_out sv) (nd_db_key nd (JStr u))) (asked_state nd sv u p)"
proof -
  have "bbs_run nd (asks_key sv (json_text (auth_message u p))) sv =
      bbs_step nd (Db_answer 0) (bbs_run nd [Connected, Data (sv_connections sv) (json_text (auth_message u p))] sv)"
    by (simp add: bbs_run_def asks_key_def)
  then show ?thesis
    using assms(1) unfolding requested [OF assms] asked_state_def
    by (simp add: bbs_step_def on_answer_def delete_nth_def idle_def on_connect_def Let_def)
qed

lemma answered_right:
  assumes "idle sv" and "u \<noteq> []" and "p \<noteq> []" and "password_right nd sv u p"
  shows "bbs_run nd (asks_key sv (json_text (auth_message u p))) sv =
    auth_granted nd (sv_connections sv) (JStr u, sv_messages sv) ((asked_state nd sv u p)\<lparr>sv_lock := False\<rparr>)"
  using assms(4) unfolding answered [OF assms(1-3)]
  by (auto simp: password_right_def auth_answered_def Let_def split: option.splits)

lemma reply_right:
  assumes "idle sv" and "u \<noteq> []" and "p \<noteq> []" and "random_ok nd" and "password_right nd sv u p"
  shows "bbs_reply nd sv (json_text (auth_message u p)) = (64, generateKey nd (sv_draws sv))"
proof -
  have "length (generateKey nd (sv_draws sv)) = 64"
    using generated_key [OF assms(4)] by blast
  then show ?thesis
    unfolding bbs_reply_def answered_right [OF assms(1-3,5)]
    by (simp add: auth_granted_def destroy_def Let_def)
qed

lemma reply_wrong:
  assumes "idle sv" and "u \<noteq> []" and "p \<noteq> []" and "\<not> password_right nd sv u p"
  shows "bbs_reply nd sv (json_text (auth_message u p)) = (0, [])"
  using assms(4) unfolding bbs_reply_def answered [OF assms(1-3)]
  by (auto simp: password_right_def auth_answered_def destroy_def Let_def split: option.splits)

subsection \<open>The login\<close>

lemma lengths_not_Nil: "lengths_ok u p \<Longrightarrow> u \<noteq> [] \<and> p \<noteq> []"
  by (auto simp: lengths_ok_def strlen_def cstr_def)


subsection \<open>From the password to the chat\<close>

lemma key_not_inherited: "length k = 64 \<Longrightarrow> k \<noteq> ''debug'' \<and> \<not> in_prototype k"
  by (auto simp: in_prototype_def prototype_functions_def)

text \<open>The state once the key has been issued.\<close>

lemma granted_state:
  assumes "key = generateKey nd (sv_draws sv)"
  shows "map_of (sv_keys (auth_granted nd s u sv)) key = Some u \<and>
    sv_connections (auth_granted nd s u sv) = sv_connections sv \<and> sv_down (auth_granted nd s u sv) = sv_down sv"
  using assms by (simp add: auth_granted_def destroy_def Let_def map_of_put)

lemma key_lets_in:
  assumes "\<not> sv_down sv" and "map_of (sv_keys sv) key = Some u" and "length key = 64"
  shows "so_authenticated (sv_sockets (bbs_run nd [Connected, Data (sv_connections sv) (client_hello key)] sv) (sv_connections sv)) \<and>
    so_username (sv_sockets (bbs_run nd [Connected, Data (sv_connections sv) (client_hello key)] sv) (sv_connections sv)) = u"
proof -
  let ?s = "sv_connections sv"
  let ?sv = "upd_socket ?s (so_state_update (\<lambda>_. ''NO-AUTH'')) ((on_connect sv)\<lparr>sv_messages := sv_messages (on_connect sv) + 1\<rparr>)"
  have key: "key \<noteq> []" "key \<noteq> ''debug''"
    using assms(3) key_not_inherited by auto
  have fresh: "\<not> so_authenticated (sv_sockets (on_connect sv) ?s)" "so_open (sv_sockets (on_connect sv) ?s)" "\<not> sv_down (on_connect sv)"
    using assms(1) by (simp_all add: on_connect_def)
  have known: "key_known ?sv key" "key_user ?sv key = u"
    using assms(2) by (simp_all add: key_known_def has_own_iff key_user_def on_connect_def)
  have "on_data nd ?s (client_hello key) (on_connect sv) = log_on nd ?s (JStr key) key ?sv"
    using known key by (simp add: present_key [OF fresh(1) key(1)] Let_def)
  then have "bbs_run nd [Connected, Data ?s (client_hello key)] sv = log_on nd ?s (JStr key) key ?sv"
    using fresh assms(1) by (simp add: bbs_run_def bbs_step_def)
  then show ?thesis
    using log_on_authenticates [of nd ?s "JStr key" key ?sv] known(2) by simp
qed


subsection \<open>Instances\<close>

lemma sample_idle: "idle (server_init 0 False)"
  by (simp add: idle_def server_init_def)

lemma bob_right: "password_right sample_node (server_init 0 False) ''bob'' ''secret''"
  by (simp add: password_right_def server_init_def)

lemma bob_plain: "plain ''bob''" "plain ''secret''"
  by (simp_all add: plain_def)

text \<open>The sample environments of the gateway, with the BBS server as the backend.\<close>

definition bbs_backed :: "env \<Rightarrow> env" where
  "bbs_backed e = e\<lparr>e_recvfrom := \<lambda>h fd n. if n < 64 then (- 1, []) else (64, generateKey sample_node 0)\<rparr>"

lemma bob_reply: "bbs_reply sample_node (server_init 0 False) (auth_request ''bob'' ''secret'') = (64, generateKey sample_node 0)"
  using reply_right [OF sample_idle _ _ sample_random bob_right] request_is_json_eq [OF bob_plain]
  by (simp add: server_init_def)

lemma bbs_backed_lawful: "recv_lawful (bbs_backed e)"
  using generated_key [OF sample_random, of 0] by (simp add: recv_lawful_def transfer_ok_def bbs_backed_def)


lemma key_no_NUL: "NUL \<notin> set (generateKey sample_node 0)"
proof -
  have "digit_char d \<noteq> NUL" if "d < 36" for d
  proof
    assume "digit_char d = NUL"
    then have "(of_char NUL :: nat) = (if d < 10 then 48 + d else 87 + d)"
      using digit_char_code [OF that] by metis
    then show False
      by (simp split: if_splits)
  qed
  then show ?thesis
    using generated_key [OF sample_random, of 0] by fastforce
qed


end
