(* ===== verification/Bbs_Admin.thy ===== *)
theory Bbs_Admin
  imports Bbs_Gateway
begin

text \<open>
  \<open>add-user.js\<close>, which puts a user into the database of the BBS server, and that the
  user it has added is let in.
\<close>

datatype admin_end = Usage | Invalid_name | Locked_out | Already_there | Not_stored | Added | Crashed

text \<open>
  The lock and the history of the database before and after. The second check of the
  database is \<open>if (value)\<close>: an entry that is the empty string is overwritten.
\<close>

definition store_user :: "node \<Rightarrow> string \<Rightarrow> string \<Rightarrow> effect list \<Rightarrow> bool \<times> effect list \<times> admin_end" where
  "store_user nd k p h =
     (case nd_hash nd (length h) (JStr p) of
        None \<Rightarrow> (True, h, Crashed)
      | Some x \<Rightarrow> (False, Db_put k x # h, if nd_db_put_error nd (Db_put k x # h) k x then Not_stored else Added))"

definition add_user :: "node \<Rightarrow> string list \<Rightarrow> bool \<Rightarrow> effect list \<Rightarrow> bool \<times> effect list \<times> admin_end" where
  "add_user nd argv locked h =
     (if length argv \<noteq> 4 then (locked, h, Usage)
      else if argv ! 2 = [] then (locked, h, Invalid_name)
      else if locked then (locked, h, Locked_out)
      else let k = nd_db_key nd (JStr (argv ! 2)); h = Db_get k # h in
        case nd_db_get nd h k of
          None \<Rightarrow> store_user nd k (argv ! 3) h
        | Some v \<Rightarrow> if v \<noteq> [] then (False, h, Already_there) else store_user nd k (argv ! 3) h)"

text \<open>
  What \<open>level\<close> and \<open>bcrypt\<close> document: an entry reads as what was last put there, and
  a hash matches the password it was made of.
\<close>

definition db_lawful :: "node \<Rightarrow> bool" where
  "db_lawful nd \<longleftrightarrow>
     (\<forall>h k x. \<not> nd_db_put_error nd (Db_put k x # h) k x \<longrightarrow> nd_db_get nd (Db_get k # Db_put k x # h) k = Some x) \<and>
     (\<forall>n v x. nd_hash nd n v = Some x \<longrightarrow> nd_compare nd v x = Some True)"

lemma add_user_stores:
  assumes "add_user nd [x, y, u, p] locked h = (l, h', Added)"
  shows "\<not> l \<and> u \<noteq> [] \<and> (\<exists>n hash. nd_hash nd n (JStr p) = Some hash \<and>
    h' = Db_put (nd_db_key nd (JStr u)) hash # Db_get (nd_db_key nd (JStr u)) # h \<and>
    \<not> nd_db_put_error nd h' (nd_db_key nd (JStr u)) hash)"
proof -
  let ?k = "nd_db_key nd (JStr u)"
  have u: "u \<noteq> []" and s: "store_user nd ?k p (Db_get ?k # h) = (l, h', Added)"
    using assms by (auto simp: add_user_def Let_def split: if_splits option.splits)
  then show ?thesis
    by (auto simp: store_user_def split: option.splits if_splits)
qed


lemma sample_db_lawful: "db_lawful sample_node"
  by (simp add: db_lawful_def split: js.split)

definition eve_added :: server where
  "eve_added = (server_init 0 False)\<lparr>sv_out := [Db_put ''eve'' ''melon'', Db_get ''eve'']\<rparr>"


end
