(* ===== verification/C_Layout.thy ===== *)
theory C_Layout
  imports Main
begin

text \<open>
  The types of the C headers under \<open>include/libssh\<close> and how their values lie in
  memory on x86-64 (the System V ABI, which the configured build is for): sizes,
  alignments, the offsets of fields, and that no two fields of a structure overlap.
  A pointer is a type of its own with the name of what it points to.
\<close>

named_theorems layout_simps

subsection \<open>Types\<close>

datatype c_scalar =
    CChar | CUchar | CShort | CUshort | CInt | CUint | CLong | CUlong | CUllong
  | CUint8 | CUint16 | CUint32 | CUint64 | CSize | CSsize

text \<open>A structure says whether it is packed.\<close>

datatype c_ty =
    CScalar c_scalar
  | CEnum string
  | CPtr string
  | CArr nat c_ty
  | CStruct bool "(string \<times> c_ty) list"

type_synonym c_fields = "(string \<times> c_ty) list"

fun scalar_size :: "c_scalar \<Rightarrow> nat" where
  "scalar_size CChar = 1"
| "scalar_size CUchar = 1"
| "scalar_size CUint8 = 1"
| "scalar_size CShort = 2"
| "scalar_size CUshort = 2"
| "scalar_size CUint16 = 2"
| "scalar_size CInt = 4"
| "scalar_size CUint = 4"
| "scalar_size CUint32 = 4"
| "scalar_size _ = 8"

fun signed_scalar :: "c_scalar \<Rightarrow> bool" where
  "signed_scalar CChar = True"
| "signed_scalar CShort = True"
| "signed_scalar CInt = True"
| "signed_scalar CLong = True"
| "signed_scalar CSsize = True"
| "signed_scalar _ = False"

subsection \<open>Layout\<close>

definition round_up :: "nat \<Rightarrow> nat \<Rightarrow> nat" where
  "round_up a n = (n + a - 1) div a * a"

fun align_of :: "c_ty \<Rightarrow> nat" and fields_align :: "c_fields \<Rightarrow> nat" where
  "align_of (CScalar s) = scalar_size s"
| "align_of (CEnum _) = 4"
| "align_of (CPtr _) = 8"
| "align_of (CArr _ t) = align_of t"
| "align_of (CStruct packed fs) = (if packed then 1 else fields_align fs)"
| "fields_align [] = 1"
| "fields_align ((_, t) # fs) = max (align_of t) (fields_align fs)"

text \<open>Where a field begins that comes after \<open>n\<close> bytes.\<close>

definition start :: "bool \<Rightarrow> nat \<Rightarrow> c_ty \<Rightarrow> nat" where
  "start packed n t = (if packed then n else round_up (align_of t) n)"

fun size_of :: "c_ty \<Rightarrow> nat" and fields_end :: "bool \<Rightarrow> nat \<Rightarrow> c_fields \<Rightarrow> nat" where
  "size_of (CScalar s) = scalar_size s"
| "size_of (CEnum _) = 4"
| "size_of (CPtr _) = 8"
| "size_of (CArr n t) = n * size_of t"
| "size_of (CStruct packed fs) = round_up (if packed then 1 else fields_align fs) (fields_end packed 0 fs)"
| "fields_end packed n [] = n"
| "fields_end packed n ((_, t) # fs) = fields_end packed (start packed n t + size_of t) fs"

fun placed :: "bool \<Rightarrow> nat \<Rightarrow> c_fields \<Rightarrow> (string \<times> nat \<times> c_ty) list" where
  "placed packed n [] = []"
| "placed packed n ((f, t) # fs) = (f, start packed n t, t) # placed packed (start packed n t + size_of t) fs"

text \<open>The fields of a structure with their offsets, and the field at the end of a path.\<close>

fun fields_of :: "c_ty \<Rightarrow> (string \<times> nat \<times> c_ty) list" where
  "fields_of (CStruct packed fs) = placed packed 0 fs"
| "fields_of _ = []"

fun at_path :: "c_ty \<Rightarrow> string list \<Rightarrow> (nat \<times> c_ty) option" where
  "at_path t [] = Some (0, t)"
| "at_path t (f # fs) =
     (case map_of (fields_of t) f of None \<Rightarrow> None
      | Some (n, u) \<Rightarrow> (case at_path u fs of None \<Rightarrow> None | Some (m, v) \<Rightarrow> Some (n + m, v)))"

definition offset_of :: "c_ty \<Rightarrow> string list \<Rightarrow> nat option" where
  "offset_of t fs = map_option fst (at_path t fs)"

subsection \<open>Alignment\<close>

lemma round_up_ge: "0 < a \<Longrightarrow> n \<le> round_up a n"
proof -
  assume a: "0 < a"
  then have "n + a - 1 < (n + a - 1) div a * a + a"
    using div_mult_mod_eq [of "n + a - 1" a] mod_less_divisor [OF a, of "n + a - 1"] by linarith
  then show ?thesis
    unfolding round_up_def by linarith
qed

lemma round_up_dvd: "a dvd round_up a n"
  by (simp add: round_up_def)

lemma round_up_same: "0 < a \<Longrightarrow> a dvd n \<Longrightarrow> round_up a n = n"
proof (elim dvdE)
  fix k
  assume a: "0 < a" and n: "n = a * k"
  have "(a * k + a - 1) div a = k"
    using a by (intro div_nat_eqI) (auto simp: algebra_simps)
  then show "round_up a n = n"
    by (simp add: round_up_def n mult.commute)
qed

lemma scalar_size_cases: "scalar_size s \<in> {1, 2, 4, 8}"
  by (cases s) simp_all

lemma align_cases: "align_of t \<in> {1, 2, 4, 8}" "fields_align fs \<in> {1, 2, 4, 8}"
proof (induction t and fs rule: align_of_fields_align.induct)
  case (1 s)
  then show ?case
    using scalar_size_cases [of s] by simp
qed (auto simp: max_def)

lemma align_pos: "0 < align_of t" "0 < fields_align fs"
  using align_cases(1) [of t] align_cases(2) [of fs] by auto

lemma dvd_max_align:
  assumes "a \<in> {1, 2, 4, 8 :: nat}" and "b \<in> {1, 2, 4, 8}"
  shows "a dvd max a b" and "b dvd max a b"
  using assms by (auto simp: max_def)

lemma fields_align_dvd: "(f, t) \<in> set fs \<Longrightarrow> align_of t dvd fields_align fs"
proof (induction fs)
  case (Cons x fs)
  obtain g u where x: "x = (g, u)"
    by (cases x)
  show ?case
  proof (cases "(f, t) = x")
    case True
    then show ?thesis
      using dvd_max_align(1) [OF align_cases(1) [of u] align_cases(2) [of fs]] x by simp
  next
    case False
    then have "align_of t dvd fields_align fs"
      using Cons by simp
    then show ?thesis
      using dvd_max_align(2) [OF align_cases(1) [of u] align_cases(2) [of fs]] x dvd_trans by fastforce
  qed
qed simp

subsection \<open>Sizes\<close>

lemma start_ge: "n \<le> start packed n t"
  using round_up_ge [OF align_pos(1)] by (simp add: start_def)

lemma fields_end_ge: "n \<le> fields_end packed n fs"
proof (induction fs arbitrary: n)
  case (Cons x fs)
  obtain f t where "x = (f, t)"
    by (cases x)
  then show ?case
    using Cons [of "start packed n t + size_of t"] start_ge [of n packed t] by simp
qed simp

lemma placed_inside: "(f, m, t) \<in> set (placed packed n fs) \<Longrightarrow> n \<le> m \<and> m + size_of t \<le> fields_end packed n fs"
proof (induction fs arbitrary: n)
  case (Cons x fs)
  obtain g u where x: "x = (g, u)"
    by (cases x)
  let ?n = "start packed n u + size_of u"
  show ?case
  proof (cases "(f, m, t) = (g, start packed n u, u)")
    case True
    then show ?thesis
      using x start_ge [of n packed u] fields_end_ge [of ?n packed fs] by simp
  next
    case False
    then have "(f, m, t) \<in> set (placed packed ?n fs)"
      using Cons.prems x by auto
    then show ?thesis
      using Cons.IH [of ?n] x start_ge [of n packed u] by auto
  qed
qed simp

lemma placed_aligned: "(f, m, t) \<in> set (placed False n fs) \<Longrightarrow> align_of t dvd m \<and> (f, t) \<in> set fs"
  by (induction fs arbitrary: n) (fastforce simp: start_def round_up_dvd)+

lemma placed_apart: "sorted_wrt (\<lambda>(_, m, t) (_, n, _). m + size_of t \<le> n) (placed packed n fs)"
proof (induction fs arbitrary: n)
  case (Cons x fs)
  obtain f t where "x = (f, t)"
    by (cases x)
  then show ?case
    using Cons placed_inside by fastforce
qed simp

lemma align_dvd_size: "align_of t dvd size_of t"
proof (induction t)
  case (CArr n t)
  then show ?case
    by simp
qed (simp_all add: round_up_dvd)

text \<open>
  The fields of a structure follow each other without overlap, none leaves the
  structure, and an address that is aligned for the structure is aligned for each.
\<close>

lemma struct_fields_apart: "sorted_wrt (\<lambda>(_, m, t) (_, n, _). m + size_of t \<le> n) (fields_of t)"
  by (cases t) (simp_all add: placed_apart)

lemma fields_inside: "(f, m, u) \<in> set (fields_of t) \<Longrightarrow> m + size_of u \<le> size_of t"
proof (cases t)
  case (CStruct packed fs)
  assume "(f, m, u) \<in> set (fields_of t)"
  then have "m + size_of u \<le> fields_end packed 0 fs"
    using CStruct placed_inside by auto
  also have "\<dots> \<le> size_of t"
    unfolding CStruct using round_up_ge align_pos(2) by simp
  finally show ?thesis .
qed simp_all

lemma fields_aligned:
  "t = CStruct False fs \<Longrightarrow> (f, m, u) \<in> set (fields_of t) \<Longrightarrow> align_of u dvd m \<and> align_of u dvd align_of t"
  using placed_aligned fields_align_dvd by fastforce

end
