(* ===== verification/Build_Config.thy ===== *)
theory Build_Config
  imports Main
begin

text \<open>
  The configuration the headers of libssh are read with: \<open>src/config.h\<close>, and the
  switches that \<open>ecdh.h\<close>, \<open>curve25519.h\<close> and \<open>libcrypto.h\<close> derive from it. A switch is a
  name; \<open>config_h\<close> is the list of those that are defined. The structures and tables of
  functions take a configuration as an argument, so what is shown of them for every
  configuration does not depend on how libssh was built.
\<close>

type_synonym config = "string list"

text \<open>A line of \<open>config.h\<close>: a name with the value it is defined as, or \<open>#undef\<close>.\<close>

datatype config_line = Defined string string | Undefined string

definition config_headers :: "config_line list" where
  "config_headers =
    [Defined ''PACKAGE'' ''libssh'', Defined ''VERSION'' ''0.7.0'', Undefined ''LOCALEDIR'',
     Defined ''HAVE_ARGP_H'' ''1'', Defined ''HAVE_PTY_H'' ''1'', Defined ''HAVE_UTMP_H'' ''1'',
     Undefined ''HAVE_UTIL_H'', Undefined ''HAVE_LIBUTIL_H'', Defined ''HAVE_SYS_TIME_H'' ''1'',
     Defined ''HAVE_TERMIOS_H'' ''1'', Defined ''HAVE_UNISTD_H'' ''1'',
     Defined ''HAVE_OPENSSL_AES_H'' ''1'', Undefined ''HAVE_WSPIAPI_H'',
     Defined ''HAVE_OPENSSL_BLOWFISH_H'' ''1'', Defined ''HAVE_OPENSSL_DES_H'' ''1'',
     Defined ''HAVE_OPENSSL_ECDH_H'' ''1'', Defined ''HAVE_OPENSSL_EC_H'' ''1'',
     Defined ''HAVE_OPENSSL_ECDSA_H'' ''1'', Defined ''HAVE_PTHREAD_H'' ''1'',
     Defined ''HAVE_OPENSSL_ECC'' ''1'', Undefined ''HAVE_GCRYPT_ECC'', Defined ''HAVE_ECC'' ''1'']"

definition config_functions :: "config_line list" where
  "config_functions =
    [Defined ''HAVE_SNPRINTF'' ''1'', Undefined ''HAVE__SNPRINTF'', Undefined ''HAVE__SNPRINTF_S'',
     Defined ''HAVE_VSNPRINTF'' ''1'', Undefined ''HAVE__VSNPRINTF'',
     Undefined ''HAVE__VSNPRINTF_S'', Defined ''HAVE_ISBLANK'' ''1'',
     Defined ''HAVE_STRNCPY'' ''1'', Defined ''HAVE_CFMAKERAW'' ''1'',
     Defined ''HAVE_GETADDRINFO'' ''1'', Defined ''HAVE_POLL'' ''1'',
     Defined ''HAVE_SELECT'' ''1'', Defined ''HAVE_CLOCK_GETTIME'' ''1'',
     Undefined ''HAVE_NTOHLL'', Undefined ''HAVE_HTONLL'', Defined ''HAVE_STRTOULL'' ''1'',
     Undefined ''HAVE___STRTOULL'', Undefined ''HAVE__STRTOUI64'']"

definition config_libraries :: "config_line list" where
  "config_libraries =
    [Defined ''HAVE_LIBCRYPTO'' ''1'', Undefined ''HAVE_LIBGCRYPT'',
     Defined ''HAVE_PTHREAD'' ''1'', Defined ''HAVE_GCC_THREAD_LOCAL_STORAGE'' ''1'',
     Undefined ''HAVE_MSC_THREAD_LOCAL_STORAGE'',
     Defined ''HAVE_GCC_VOLATILE_MEMORY_PROTECTION'' ''1'', Defined ''WITH_GSSAPI'' ''1'',
     Defined ''WITH_ZLIB'' ''1'', Defined ''WITH_SFTP'' ''1'', Undefined ''WITH_SSH1'',
     Defined ''WITH_SERVER'' ''1'', Undefined ''DEBUG_CRYPTO'', Defined ''WITH_PCAP'' ''1'',
     Defined ''DEBUG_CALLTRACE'' ''1'', Undefined ''WITH_NACL'', Undefined ''WORDS_BIGENDIAN'']"

fun defined_names :: "config_line list \<Rightarrow> config" where
  "defined_names [] = []"
| "defined_names (Defined x _ # ls) = x # defined_names ls"
| "defined_names (Undefined x # ls) = filter (\<lambda>y. y \<noteq> x) (defined_names ls)"

definition config_h :: config where
  "config_h = defined_names (config_headers @ config_functions @ config_libraries)"

definition has :: "config \<Rightarrow> string \<Rightarrow> bool" where
  "has cfg x \<longleftrightarrow> x \<in> set cfg"

text \<open>The switches that headers define.\<close>

definition HAVE_ECDH :: "config \<Rightarrow> bool" where
  "HAVE_ECDH cfg \<longleftrightarrow> has cfg ''HAVE_LIBCRYPTO'' \<and> has cfg ''HAVE_OPENSSL_ECDH_H'' \<and> has cfg ''HAVE_ECC''"

definition HAVE_CURVE25519 :: "config \<Rightarrow> bool" where
  "HAVE_CURVE25519 cfg \<longleftrightarrow> has cfg ''HAVE_ECC''"

definition given :: "bool \<Rightarrow> 'a list \<Rightarrow> 'a list" where
  "given b xs = (if b then xs else [])"

text \<open>No name is both defined and undefined, and one of the two crypto libraries is chosen.\<close>

lemma config_consistent:
  "(\<forall>l \<in> set (config_headers @ config_functions @ config_libraries). \<forall>x. l = Undefined x \<longrightarrow> \<not> has config_h x) \<and>
   has config_h ''HAVE_LIBCRYPTO'' \<and> \<not> has config_h ''HAVE_LIBGCRYPT'' \<and> HAVE_ECDH config_h \<and> HAVE_CURVE25519 config_h"
  by (simp add: config_headers_def config_functions_def config_libraries_def config_h_def has_def HAVE_ECDH_def
      HAVE_CURVE25519_def)

end
