(* ===== verification/Libssh_Structs.thy ===== *)
theory Libssh_Structs
  imports C_Layout Build_Config Libssh_Callbacks Libssh_Macros
begin

text \<open>
  The structures of libssh's headers under \<open>include/libssh\<close>, field by field, for any
  configuration: \<open>X_ty cfg\<close> is \<open>struct X\<close> compiled with the switches \<open>cfg\<close>. A
  field whose type is a pointer has the name of what it points to, \<open>function\<close> for a
  function type written out. \<open>bignum\<close> and the handles of libgcrypt are the pointers that
  OpenSSL and libgcrypt document.
\<close>

subsection \<open>Lengths\<close>

definition CURVE25519_PRIVKEY_SIZE :: nat where "CURVE25519_PRIVKEY_SIZE = 32"
definition CURVE25519_PUBKEY_SIZE :: nat where "CURVE25519_PUBKEY_SIZE = 32"
definition DIGEST_MAX_LEN :: nat where "DIGEST_MAX_LEN = 64"
definition SSH_KEX_METHODS :: nat where "SSH_KEX_METHODS = 10"

subsection \<open>Errors, lists, buffers and strings\<close>

definition ssh_counter_struct_ty :: "config \<Rightarrow> c_ty" where
  "ssh_counter_struct_ty cfg = CStruct False
    ([(''in_bytes'', CScalar CUint64), (''out_bytes'', CScalar CUint64),
     (''in_packets'', CScalar CUint64), (''out_packets'', CScalar CUint64)])"

definition error_struct_ty :: "config \<Rightarrow> c_ty" where
  "error_struct_ty cfg = CStruct False
    ([(''error_code'', CScalar CInt), (''error_buffer'', CArr (nat ERROR_BUFFERLEN) (CScalar CChar))])"

definition ssh_list_ty :: "config \<Rightarrow> c_ty" where
  "ssh_list_ty cfg = CStruct False
    ([(''root'', CPtr ''ssh_iterator''), (''e'' @ ''nd'', CPtr ''ssh_iterator'')])"

definition ssh_iterator_ty :: "config \<Rightarrow> c_ty" where
  "ssh_iterator_ty cfg = CStruct False
    ([(''next'', CPtr ''ssh_iterator''), (''data'', CPtr ''void'')])"

definition ssh_timestamp_ty :: "config \<Rightarrow> c_ty" where
  "ssh_timestamp_ty cfg = CStruct False
    ([(''seconds'', CScalar CLong), (''useconds'', CScalar CLong)])"

definition ssh_buffer_struct_ty :: "config \<Rightarrow> c_ty" where
  "ssh_buffer_struct_ty cfg = CStruct False
    ([(''data'', CPtr ''char''), (''used'', CScalar CUint32), (''allocated'', CScalar CUint32),
     (''pos'', CScalar CUint32), (''secure'', CScalar CInt)])"

definition ssh_string_struct_ty :: "config \<Rightarrow> c_ty" where
  "ssh_string_struct_ty cfg = CStruct True
    ([(''size'', CScalar CUint32), (''data'', CArr 1 (CScalar CUchar))])"

subsection \<open>Callbacks\<close>

definition ssh_bind_callbacks_struct_ty :: "config \<Rightarrow> c_ty" where
  "ssh_bind_callbacks_struct_ty cfg = CStruct False
    ([(''size'', CScalar CSize),
     (''incoming_connection'', CPtr ''ssh_bind_incoming_connection_callback'')])"

definition ssh_callbacks_struct_ty :: "config \<Rightarrow> c_ty" where
  "ssh_callbacks_struct_ty cfg = CStruct False
    ([(''size'', CScalar CSize), (''userdata'', CPtr ''void''),
     (''auth_function'', CPtr ''ssh_auth_callback''),
     (''log_function'', CPtr ''ssh_log_callback''),
     (''connect_status_function'', CPtr ''function''),
     (''global_request_function'', CPtr ''ssh_global_request_callback''),
     (''channel_open_request_x11_function'', CPtr ''ssh_channel_open_request_x11_callback'')])"

definition ssh_server_callbacks_struct_ty :: "config \<Rightarrow> c_ty" where
  "ssh_server_callbacks_struct_ty cfg = CStruct False
    ([(''size'', CScalar CSize), (''userdata'', CPtr ''void''),
     (''auth_password_function'', CPtr ''ssh_auth_password_callback''),
     (''auth_none_function'', CPtr ''ssh_auth_none_callback''),
     (''auth_gssapi_mic_function'', CPtr ''ssh_auth_gssapi_mic_callback''),
     (''auth_pubkey_function'', CPtr ''ssh_auth_pubkey_callback''),
     (''service_request_function'', CPtr ''ssh_service_request_callback''),
     (''channel_open_request_session_function'', CPtr ''ssh_channel_open_request_session_callback''),
     (''gssapi_select_oid_function'', CPtr ''ssh_gssapi_select_oid_callback''),
     (''gssapi_accept_sec_ctx_function'', CPtr ''ssh_gssapi_accept_sec_ctx_callback''),
     (''gssapi_verify_mic_function'', CPtr ''ssh_gssapi_verify_mic_callback'')])"

definition ssh_socket_callbacks_struct_ty :: "config \<Rightarrow> c_ty" where
  "ssh_socket_callbacks_struct_ty cfg = CStruct False
    ([(''userdata'', CPtr ''void''), (''data'', CPtr ''ssh_callback_data''),
     (''controlflow'', CPtr ''ssh_callback_int''), (''exception'', CPtr ''ssh_callback_int_int''),
     (''connected'', CPtr ''ssh_callback_int_int'')])"

definition ssh_packet_callbacks_struct_ty :: "config \<Rightarrow> c_ty" where
  "ssh_packet_callbacks_struct_ty cfg = CStruct False
    ([(''start'', CScalar CUint8), (''n_callbacks'', CScalar CUint8),
     (''callbacks'', CPtr ''ssh_packet_callback*''), (''user'', CPtr ''void'')])"

definition ssh_channel_callbacks_struct_ty :: "config \<Rightarrow> c_ty" where
  "ssh_channel_callbacks_struct_ty cfg = CStruct False
    ([(''size'', CScalar CSize), (''userdata'', CPtr ''void''),
     (''channel_data_function'', CPtr ''ssh_channel_data_callback''),
     (''channel_eof_function'', CPtr ''ssh_channel_eof_callback''),
     (''channel_close_function'', CPtr ''ssh_channel_close_callback''),
     (''channel_signal_function'', CPtr ''ssh_channel_signal_callback''),
     (''channel_exit_status_function'', CPtr ''ssh_channel_exit_status_callback''),
     (''channel_exit_signal_function'', CPtr ''ssh_channel_exit_signal_callback''),
     (''channel_pty_request_function'', CPtr ''ssh_channel_pty_request_callback''),
     (''channel_shell_request_function'', CPtr ''ssh_channel_shell_request_callback''),
     (''channel_auth_agent_req_function'', CPtr ''ssh_channel_auth_agent_req_callback''),
     (''channel_x11_req_function'', CPtr ''ssh_channel_x11_req_callback''),
     (''channel_pty_window_change_function'', CPtr ''ssh_channel_pty_window_change_callback''),
     (''channel_exec_request_function'', CPtr ''ssh_channel_exec_request_callback''),
     (''channel_env_request_function'', CPtr ''ssh_channel_env_request_callback''),
     (''channel_subsystem_request_function'', CPtr ''ssh_channel_subsystem_request_callback'')])"

definition ssh_threads_callbacks_struct_ty :: "config \<Rightarrow> c_ty" where
  "ssh_threads_callbacks_struct_ty cfg = CStruct False
    ([(''type'', CPtr ''char''), (''mutex_init'', CPtr ''ssh_thread_callback''),
     (''mutex_destroy'', CPtr ''ssh_thread_callback''),
     (''mutex_lock'', CPtr ''ssh_thread_callback''),
     (''mutex_unlock'', CPtr ''ssh_thread_callback''),
     (''thread_id'', CPtr ''ssh_thread_id_callback'')])"

subsection \<open>Packets, keys and algorithms\<close>

definition packet_struct_ty :: "config \<Rightarrow> c_ty" where
  "packet_struct_ty cfg = CStruct False
    ([(''valid'', CScalar CInt), (''len'', CScalar CUint32), (''type'', CScalar CUint8)])"

definition ssh_kex_struct_ty :: "config \<Rightarrow> c_ty" where
  "ssh_kex_struct_ty cfg = CStruct False
    ([(''cookie'', CArr 16 (CScalar CUchar)), (''methods'', CArr SSH_KEX_METHODS (CPtr ''char''))])"

definition ssh_crypto_struct_ty :: "config \<Rightarrow> c_ty" where
  "ssh_crypto_struct_ty cfg = CStruct False
    ([(''e'', CPtr ''BIGNUM''), (''f'', CPtr ''BIGNUM''), (''x'', CPtr ''BIGNUM''),
     (''k'', CPtr ''BIGNUM''), (''y'', CPtr ''BIGNUM'')] @
    given (HAVE_ECDH cfg)
      [(''ecdh_privkey'', CPtr ''EC_KEY''), (''ecdh_client_pubkey'', CPtr ''ssh_string_struct''),
       (''ecdh_server_pubkey'', CPtr ''ssh_string_struct'')] @
    given (HAVE_CURVE25519 cfg)
      [(''curve25519_privkey'', CArr CURVE25519_PRIVKEY_SIZE (CScalar CUchar)),
       (''curve25519_client_pubkey'', CArr CURVE25519_PUBKEY_SIZE (CScalar CUchar)),
       (''curve25519_server_pubkey'', CArr CURVE25519_PUBKEY_SIZE (CScalar CUchar))] @
    [(''dh_server_signature'', CPtr ''ssh_string_struct''), (''digest_len'', CScalar CSize),
     (''session_id'', CPtr ''unsigned char''), (''secret_hash'', CPtr ''unsigned char''),
     (''encryptIV'', CPtr ''unsigned char''), (''decryptIV'', CPtr ''unsigned char''),
     (''decryptkey'', CPtr ''unsigned char''), (''encryptkey'', CPtr ''unsigned char''),
     (''encryptMAC'', CPtr ''unsigned char''), (''decryptMAC'', CPtr ''unsigned char''),
     (''hmacbuf'', CArr DIGEST_MAX_LEN (CScalar CUchar)),
     (''in_cipher'', CPtr ''ssh_cipher_struct''), (''out_cipher'', CPtr ''ssh_cipher_struct''),
     (''in_hmac'', CEnum ''ssh_hmac_e''), (''out_hmac'', CEnum ''ssh_hmac_e''),
     (''server_pubkey'', CPtr ''ssh_string_struct''), (''server_pubkey_type'', CPtr ''char''),
     (''do_compress_out'', CScalar CInt), (''do_compress_in'', CScalar CInt),
     (''delayed_compress_in'', CScalar CInt), (''delayed_compress_out'', CScalar CInt),
     (''compress_out_ctx'', CPtr ''void''), (''compress_in_ctx'', CPtr ''void''),
     (''server_kex'', ssh_kex_struct_ty cfg), (''client_kex'', ssh_kex_struct_ty cfg),
     (''kex_methods'', CArr SSH_KEX_METHODS (CPtr ''char'')),
     (''kex_type'', CEnum ''ssh_key_exchange_e''), (''mac_type'', CEnum ''ssh_mac_e'')])"

definition ssh_cipher_struct_ty :: "config \<Rightarrow> c_ty" where
  "ssh_cipher_struct_ty cfg = CStruct False
    ([(''name'', CPtr ''char''), (''blocksize'', CScalar CUint), (''keylen'', CScalar CUint)] @
    given (has cfg ''HAVE_LIBGCRYPT'')
      [(''key'', CPtr ''gcry_cipher_handle*'')] @
    given (\<not> has cfg ''HAVE_LIBGCRYPT'' \<and> has cfg ''HAVE_LIBCRYPTO'')
      [(''key'', CPtr ''void''), (''IV'', CPtr ''void'')] @
    [(''keysize'', CScalar CUint), (''set_encrypt_key'', CPtr ''function''),
     (''set_decrypt_key'', CPtr ''function''), (''encrypt'', CPtr ''function''),
     (''decrypt'', CPtr ''function'')])"

definition ssh_hmac_struct_ty :: "config \<Rightarrow> c_ty" where
  "ssh_hmac_struct_ty cfg = CStruct False
    ([(''name'', CPtr ''char''), (''hmac_type'', CEnum ''ssh_hmac_e'')])"

definition ssh_public_key_struct_ty :: "config \<Rightarrow> c_ty" where
  "ssh_public_key_struct_ty cfg = CStruct False
    ([(''type'', CScalar CInt), (''type_c'', CPtr ''char'')] @
    given (has cfg ''HAVE_LIBGCRYPT'')
      [(''dsa_pub'', CPtr ''gcry_sexp''), (''rsa_pub'', CPtr ''gcry_sexp'')] @
    given (\<not> has cfg ''HAVE_LIBGCRYPT'' \<and> has cfg ''HAVE_LIBCRYPTO'')
      [(''dsa_pub'', CPtr ''DSA''), (''rsa_pub'', CPtr ''RSA'')])"

definition ssh_private_key_struct_ty :: "config \<Rightarrow> c_ty" where
  "ssh_private_key_struct_ty cfg = CStruct False
    ([(''type'', CScalar CInt)] @
    given (has cfg ''HAVE_LIBGCRYPT'')
      [(''dsa_priv'', CPtr ''gcry_sexp''), (''rsa_priv'', CPtr ''gcry_sexp'')] @
    given (\<not> has cfg ''HAVE_LIBGCRYPT'' \<and> has cfg ''HAVE_LIBCRYPTO'')
      [(''dsa_priv'', CPtr ''DSA''), (''rsa_priv'', CPtr ''RSA'')])"

definition ssh_key_struct_ty :: "config \<Rightarrow> c_ty" where
  "ssh_key_struct_ty cfg = CStruct False
    ([(''type'', CEnum ''ssh_keytypes_e''), (''flags'', CScalar CInt), (''type_c'', CPtr ''char''),
     (''ecdsa_nid'', CScalar CInt)] @
    given (has cfg ''HAVE_LIBGCRYPT'')
      [(''dsa'', CPtr ''gcry_sexp''), (''rsa'', CPtr ''gcry_sexp''), (''ecdsa'', CPtr ''void'')] @
    given (\<not> has cfg ''HAVE_LIBGCRYPT'' \<and> has cfg ''HAVE_LIBCRYPTO'')
      [(''dsa'', CPtr ''DSA''), (''rsa'', CPtr ''RSA'')] @
    given (\<not> has cfg ''HAVE_LIBGCRYPT'' \<and> has cfg ''HAVE_LIBCRYPTO'' \<and> has cfg ''HAVE_OPENSSL_ECC'')
      [(''ecdsa'', CPtr ''EC_KEY'')] @
    given (\<not> has cfg ''HAVE_LIBGCRYPT'' \<and> has cfg ''HAVE_LIBCRYPTO'' \<and> \<not> has cfg ''HAVE_OPENSSL_ECC'')
      [(''ecdsa'', CPtr ''void'')] @
    [(''ed25519_pubkey'', CPtr ''ed25519_pubkey''), (''ed25519_privkey'', CPtr ''ed25519_privkey''),
     (''cert'', CPtr ''void'')])"

definition ssh_signature_struct_ty :: "config \<Rightarrow> c_ty" where
  "ssh_signature_struct_ty cfg = CStruct False
    ([(''type'', CEnum ''ssh_keytypes_e''), (''type_c'', CPtr ''char'')] @
    given (has cfg ''HAVE_LIBGCRYPT'')
      [(''dsa_sig'', CPtr ''gcry_sexp''), (''rsa_sig'', CPtr ''gcry_sexp''),
       (''ecdsa_sig'', CPtr ''void'')] @
    given (\<not> has cfg ''HAVE_LIBGCRYPT'' \<and> has cfg ''HAVE_LIBCRYPTO'')
      [(''dsa_sig'', CPtr ''DSA_SIG''), (''rsa_sig'', CPtr ''ssh_string_struct'')] @
    given (\<not> has cfg ''HAVE_LIBGCRYPT'' \<and> has cfg ''HAVE_LIBCRYPTO'' \<and> has cfg ''HAVE_OPENSSL_ECC'')
      [(''ecdsa_sig'', CPtr ''ECDSA_SIG'')] @
    given (\<not> has cfg ''HAVE_LIBGCRYPT'' \<and> has cfg ''HAVE_LIBCRYPTO'' \<and> \<not> has cfg ''HAVE_OPENSSL_ECC'')
      [(''ecdsa_sig'', CPtr ''void'')] @
    [(''ed25519_sig'', CPtr ''ed25519_signature'')])"

definition fe25519_ty :: "config \<Rightarrow> c_ty" where
  "fe25519_ty cfg = CStruct False
    ([(''v'', CArr 32 (CScalar CUint32))])"

definition ge25519_ty :: "config \<Rightarrow> c_ty" where
  "ge25519_ty cfg = CStruct False
    ([(''x'', fe25519_ty cfg), (''y'', fe25519_ty cfg), (''z'', fe25519_ty cfg),
     (''t'', fe25519_ty cfg)])"

definition sc25519_ty :: "config \<Rightarrow> c_ty" where
  "sc25519_ty cfg = CStruct False
    ([(''v'', CArr 32 (CScalar CUint32))])"

definition shortsc25519_ty :: "config \<Rightarrow> c_ty" where
  "shortsc25519_ty cfg = CStruct False
    ([(''v'', CArr 16 (CScalar CUint32))])"

subsection \<open>Sessions, channels, listeners and messages\<close>

definition ssh_common_struct_ty :: "config \<Rightarrow> c_ty" where
  "ssh_common_struct_ty cfg = CStruct False
    ([(''error'', error_struct_ty cfg), (''callbacks'', CPtr ''ssh_callbacks_struct''),
     (''log_verbosity'', CScalar CInt)])"

definition ssh_session_struct_ty :: "config \<Rightarrow> c_ty" where
  "ssh_session_struct_ty cfg = CStruct False
    ([(''common'', ssh_common_struct_ty cfg), (''socket'', CPtr ''ssh_socket_struct''),
     (''serverbanner'', CPtr ''char''), (''clientbanner'', CPtr ''char''),
     (''protoversion'', CScalar CInt), (''server'', CScalar CInt), (''client'', CScalar CInt),
     (''openssh'', CScalar CInt), (''send_seq'', CScalar CUint32), (''recv_seq'', CScalar CUint32),
     (''connected'', CScalar CInt), (''alive'', CScalar CInt), (''flags'', CScalar CInt),
     (''banner'', CPtr ''ssh_string_struct''), (''discon_msg'', CPtr ''char''),
     (''in_buffer'', CPtr ''ssh_buffer_struct''), (''in_packet'', packet_struct_ty cfg),
     (''out_buffer'', CPtr ''ssh_buffer_struct''),
     (''pending_call_state'', CEnum ''ssh_pending_call_e''),
     (''session_state'', CEnum ''ssh_session_state_e''), (''packet_state'', CScalar CInt),
     (''dh_handshake_state'', CEnum ''ssh_dh_state_e''),
     (''auth_service_state'', CEnum ''ssh_auth_service_state_e''),
     (''auth_state'', CEnum ''ssh_auth_state_e''),
     (''global_req_state'', CEnum ''ssh_channel_request_state_e''),
     (''agent_state'', CPtr ''ssh_agent_state_struct''),
     (''auth_auto_state'', CPtr ''ssh_auth_auto_state_struct''),
     (''first_kex_follows_guess_wrong'', CScalar CInt),
     (''in_hashbuf'', CPtr ''ssh_buffer_struct''), (''out_hashbuf'', CPtr ''ssh_buffer_struct''),
     (''current_crypto'', CPtr ''ssh_crypto_struct''),
     (''next_crypto'', CPtr ''ssh_crypto_struct''), (''channels'', CPtr ''ssh_list''),
     (''maxchannel'', CScalar CInt), (''exec_channel_opened'', CScalar CInt),
     (''agent'', CPtr ''ssh_agent_struct''), (''kbdint'', CPtr ''ssh_kbdint_struct''),
     (''gssapi'', CPtr ''ssh_gssapi_struct''), (''version'', CScalar CInt),
     (''srv'', CStruct False ([(''rsa_key'', CPtr ''ssh_key_struct''), (''dsa_key'', CPtr ''ssh_key_struct''),
        (''ecdsa_key'', CPtr ''ssh_key_struct''), (''hostkey'', CEnum ''ssh_keytypes_e'')])),
     (''auth_methods'', CScalar CInt), (''ssh_message_list'', CPtr ''ssh_list''),
     (''ssh_message_callback'', CPtr ''function''), (''ssh_message_callback_data'', CPtr ''void''),
     (''server_callbacks'', CPtr ''ssh_server_callbacks_struct''),
     (''ssh_connection_callback'', CPtr ''function''),
     (''default_packet_callbacks'', ssh_packet_callbacks_struct_ty cfg),
     (''packet_callbacks'', CPtr ''ssh_list''),
     (''socket_callbacks'', ssh_socket_callbacks_struct_ty cfg),
     (''default_poll_ctx'', CPtr ''ssh_poll_ctx_struct'')] @
    given (has cfg ''WITH_PCAP'')
      [(''pcap_ctx'', CPtr ''ssh_pcap_context_struct'')] @
    [(''opts'', CStruct False ([(''identity'', CPtr ''ssh_list''), (''username'', CPtr ''char''),
        (''host'', CPtr ''char''), (''bindaddr'', CPtr ''char''), (''sshdir'', CPtr ''char''),
        (''knownhosts'', CPtr ''char''), (''wanted_methods'', CArr 10 (CPtr ''char'')),
        (''ProxyCommand'', CPtr ''char''), (''custombanner'', CPtr ''char''),
        (''timeout'', CScalar CUlong), (''timeout_usec'', CScalar CUlong),
        (''port'', CScalar CUint), (''fd'', CScalar CInt),
        (''StrictHostKeyChecking'', CScalar CInt), (''ssh2'', CScalar CInt),
        (''ssh1'', CScalar CInt), (''compressionlevel'', CScalar CChar),
        (''gss_server_identity'', CPtr ''char''), (''gss_client_identity'', CPtr ''char''),
        (''gss_delegate_creds'', CScalar CInt)])),
     (''socket_counter'', CPtr ''ssh_counter_struct''),
     (''raw_counter'', CPtr ''ssh_counter_struct'')])"

definition ssh_channel_struct_ty :: "config \<Rightarrow> c_ty" where
  "ssh_channel_struct_ty cfg = CStruct False
    ([(''session'', CPtr ''ssh_session_struct''), (''local_channel'', CScalar CUint32),
     (''local_window'', CScalar CUint32), (''local_eof'', CScalar CInt),
     (''local_maxpacket'', CScalar CUint32), (''remote_channel'', CScalar CUint32),
     (''remote_window'', CScalar CUint32), (''remote_eof'', CScalar CInt),
     (''remote_maxpacket'', CScalar CUint32), (''state'', CEnum ''ssh_channel_state_e''),
     (''delayed_close'', CScalar CInt), (''flags'', CScalar CInt),
     (''stdout_buffer'', CPtr ''ssh_buffer_struct''),
     (''stderr_buffer'', CPtr ''ssh_buffer_struct''), (''userarg'', CPtr ''void''),
     (''version'', CScalar CInt), (''exit_status'', CScalar CInt),
     (''request_state'', CEnum ''ssh_channel_request_state_e''),
     (''callbacks'', CPtr ''ssh_channel_callbacks_struct''),
     (''counter'', CPtr ''ssh_counter_struct'')])"

definition ssh_kbdint_struct_ty :: "config \<Rightarrow> c_ty" where
  "ssh_kbdint_struct_ty cfg = CStruct False
    ([(''nprompts'', CScalar CUint32), (''nanswers'', CScalar CUint32), (''name'', CPtr ''char''),
     (''instruction'', CPtr ''char''), (''prompts'', CPtr ''char*''),
     (''echo'', CPtr ''unsigned char''), (''answers'', CPtr ''char*'')])"

definition ssh_agent_struct_ty :: "config \<Rightarrow> c_ty" where
  "ssh_agent_struct_ty cfg = CStruct False
    ([(''sock'', CPtr ''ssh_socket_struct''), (''ident'', CPtr ''ssh_buffer_struct''),
     (''count'', CScalar CUint), (''channel'', CPtr ''ssh_channel_struct'')])"

definition ssh_auth_request_ty :: "config \<Rightarrow> c_ty" where
  "ssh_auth_request_ty cfg = CStruct False
    ([(''username'', CPtr ''char''), (''method'', CScalar CInt), (''password'', CPtr ''char''),
     (''pubkey'', CPtr ''ssh_key_struct''), (''signature_state'', CScalar CChar),
     (''kbdint_response'', CScalar CChar)])"

definition ssh_channel_request_open_ty :: "config \<Rightarrow> c_ty" where
  "ssh_channel_request_open_ty cfg = CStruct False
    ([(''type'', CScalar CInt), (''sender'', CScalar CUint32), (''window'', CScalar CUint32),
     (''packet_size'', CScalar CUint32), (''originator'', CPtr ''char''),
     (''originator_port'', CScalar CUint16), (''destination'', CPtr ''char''),
     (''destination_port'', CScalar CUint16)])"

definition ssh_service_request_ty :: "config \<Rightarrow> c_ty" where
  "ssh_service_request_ty cfg = CStruct False
    ([(''service'', CPtr ''char'')])"

definition ssh_global_request_ty :: "config \<Rightarrow> c_ty" where
  "ssh_global_request_ty cfg = CStruct False
    ([(''type'', CScalar CInt), (''want_reply'', CScalar CUint8), (''bind_address'', CPtr ''char''),
     (''bind_port'', CScalar CUint16)])"

definition ssh_channel_request_ty :: "config \<Rightarrow> c_ty" where
  "ssh_channel_request_ty cfg = CStruct False
    ([(''type'', CScalar CInt), (''channel'', CPtr ''ssh_channel_struct''),
     (''want_reply'', CScalar CUint8), (''TERM'', CPtr ''char''), (''width'', CScalar CUint32),
     (''height'', CScalar CUint32), (''pxwidth'', CScalar CUint32),
     (''pxheight'', CScalar CUint32), (''modes'', CPtr ''ssh_string_struct''),
     (''var_name'', CPtr ''char''), (''var_value'', CPtr ''char''), (''command'', CPtr ''char''),
     (''subsystem'', CPtr ''char''), (''x11_single_connection'', CScalar CUint8),
     (''x11_auth_protocol'', CPtr ''char''), (''x11_auth_cookie'', CPtr ''char''),
     (''x11_screen_number'', CScalar CUint32)])"

definition ssh_message_struct_ty :: "config \<Rightarrow> c_ty" where
  "ssh_message_struct_ty cfg = CStruct False
    ([(''session'', CPtr ''ssh_session_struct''), (''type'', CScalar CInt),
     (''auth_request'', ssh_auth_request_ty cfg),
     (''channel_request_open'', ssh_channel_request_open_ty cfg),
     (''channel_request'', ssh_channel_request_ty cfg),
     (''service_request'', ssh_service_request_ty cfg),
     (''global_request'', ssh_global_request_ty cfg)])"

definition ssh_bind_struct_ty :: "config \<Rightarrow> c_ty" where
  "ssh_bind_struct_ty cfg = CStruct False
    ([(''common'', ssh_common_struct_ty cfg),
     (''bind_callbacks'', CPtr ''ssh_bind_callbacks_struct''),
     (''bind_callbacks_userdata'', CPtr ''void''), (''poll'', CPtr ''ssh_poll_handle_struct''),
     (''wanted_methods'', CArr 10 (CPtr ''char'')), (''banner'', CPtr ''char''),
     (''ecdsakey'', CPtr ''char''), (''dsakey'', CPtr ''char''), (''rsakey'', CPtr ''char''),
     (''ecdsa'', CPtr ''ssh_key_struct''), (''dsa'', CPtr ''ssh_key_struct''),
     (''rsa'', CPtr ''ssh_key_struct''), (''bindaddr'', CPtr ''char''), (''bindfd'', CScalar CInt),
     (''bindport'', CScalar CUint), (''blocking'', CScalar CInt), (''toaccept'', CScalar CInt)])"

definition ssh_pollfd_struct_ty :: "config \<Rightarrow> c_ty" where
  "ssh_pollfd_struct_ty cfg = CStruct False
    ([(''fd'', CScalar CInt), (''events'', CScalar CShort), (''revents'', CScalar CShort)])"

definition ssh_scp_struct_ty :: "config \<Rightarrow> c_ty" where
  "ssh_scp_struct_ty cfg = CStruct False
    ([(''session'', CPtr ''ssh_session_struct''), (''mode'', CScalar CInt),
     (''recursive'', CScalar CInt), (''channel'', CPtr ''ssh_channel_struct''),
     (''location'', CPtr ''char''), (''state'', CEnum ''ssh_scp_states''),
     (''filelen'', CScalar CUint64), (''processed'', CScalar CUint64),
     (''request_type'', CEnum ''ssh_scp_request_types''), (''request_name'', CPtr ''char''),
     (''warning'', CPtr ''char''), (''request_mode'', CScalar CInt)])"

subsection \<open>SFTP\<close>

definition sftp_session_struct_ty :: "config \<Rightarrow> c_ty" where
  "sftp_session_struct_ty cfg = CStruct False
    ([(''session'', CPtr ''ssh_session_struct''), (''channel'', CPtr ''ssh_channel_struct''),
     (''server_version'', CScalar CInt), (''client_version'', CScalar CInt),
     (''version'', CScalar CInt), (''queue'', CPtr ''sftp_request_queue_struct''),
     (''id_counter'', CScalar CUint32), (''errnum'', CScalar CInt), (''handles'', CPtr ''void*''),
     (''ext'', CPtr ''sftp_ext_struct'')])"

definition sftp_packet_struct_ty :: "config \<Rightarrow> c_ty" where
  "sftp_packet_struct_ty cfg = CStruct False
    ([(''sftp'', CPtr ''sftp_session_struct''), (''type'', CScalar CUint8),
     (''payload'', CPtr ''ssh_buffer_struct'')])"

definition sftp_file_struct_ty :: "config \<Rightarrow> c_ty" where
  "sftp_file_struct_ty cfg = CStruct False
    ([(''sftp'', CPtr ''sftp_session_struct''), (''name'', CPtr ''char''),
     (''offset'', CScalar CUint64), (''handle'', CPtr ''ssh_string_struct''),
     (''eof'', CScalar CInt), (''nonblocking'', CScalar CInt)])"

definition sftp_dir_struct_ty :: "config \<Rightarrow> c_ty" where
  "sftp_dir_struct_ty cfg = CStruct False
    ([(''sftp'', CPtr ''sftp_session_struct''), (''name'', CPtr ''char''),
     (''handle'', CPtr ''ssh_string_struct''), (''buffer'', CPtr ''ssh_buffer_struct''),
     (''count'', CScalar CUint32), (''eof'', CScalar CInt)])"

definition sftp_message_struct_ty :: "config \<Rightarrow> c_ty" where
  "sftp_message_struct_ty cfg = CStruct False
    ([(''sftp'', CPtr ''sftp_session_struct''), (''packet_type'', CScalar CUint8),
     (''payload'', CPtr ''ssh_buffer_struct''), (''id'', CScalar CUint32)])"

definition sftp_client_message_struct_ty :: "config \<Rightarrow> c_ty" where
  "sftp_client_message_struct_ty cfg = CStruct False
    ([(''sftp'', CPtr ''sftp_session_struct''), (''type'', CScalar CUint8),
     (''id'', CScalar CUint32), (''filename'', CPtr ''char''), (''flags'', CScalar CUint32),
     (''attr'', CPtr ''sftp_attributes_struct''), (''handle'', CPtr ''ssh_string_struct''),
     (''offset'', CScalar CUint64), (''len'', CScalar CUint32), (''attr_num'', CScalar CInt),
     (''attrbuf'', CPtr ''ssh_buffer_struct''), (''data'', CPtr ''ssh_string_struct''),
     (''complete_message'', CPtr ''ssh_buffer_struct''), (''str_data'', CPtr ''char'')])"

definition sftp_request_queue_struct_ty :: "config \<Rightarrow> c_ty" where
  "sftp_request_queue_struct_ty cfg = CStruct False
    ([(''next'', CPtr ''sftp_request_queue_struct''), (''message'', CPtr ''sftp_message_struct'')])"

definition sftp_status_message_struct_ty :: "config \<Rightarrow> c_ty" where
  "sftp_status_message_struct_ty cfg = CStruct False
    ([(''id'', CScalar CUint32), (''status'', CScalar CUint32),
     (''error_unused'', CPtr ''ssh_string_struct''), (''lang_unused'', CPtr ''ssh_string_struct''),
     (''errormsg'', CPtr ''char''), (''langmsg'', CPtr ''char'')])"

definition sftp_attributes_struct_ty :: "config \<Rightarrow> c_ty" where
  "sftp_attributes_struct_ty cfg = CStruct False
    ([(''name'', CPtr ''char''), (''longname'', CPtr ''char''), (''flags'', CScalar CUint32),
     (''type'', CScalar CUint8), (''size'', CScalar CUint64), (''uid'', CScalar CUint32),
     (''gid'', CScalar CUint32), (''owner'', CPtr ''char''), (''group'', CPtr ''char''),
     (''permissions'', CScalar CUint32), (''atime64'', CScalar CUint64),
     (''atime'', CScalar CUint32), (''atime_nseconds'', CScalar CUint32),
     (''createtime'', CScalar CUint64), (''createtime_nseconds'', CScalar CUint32),
     (''mtime64'', CScalar CUint64), (''mtime'', CScalar CUint32),
     (''mtime_nseconds'', CScalar CUint32), (''acl'', CPtr ''ssh_string_struct''),
     (''extended_count'', CScalar CUint32), (''extended_type'', CPtr ''ssh_string_struct''),
     (''extended_data'', CPtr ''ssh_string_struct'')])"

definition sftp_statvfs_struct_ty :: "config \<Rightarrow> c_ty" where
  "sftp_statvfs_struct_ty cfg = CStruct False
    ([(''f_bsize'', CScalar CUint64), (''f_frsize'', CScalar CUint64),
     (''f_blocks'', CScalar CUint64), (''f_bfree'', CScalar CUint64),
     (''f_bavail'', CScalar CUint64), (''f_files'', CScalar CUint64),
     (''f_ffree'', CScalar CUint64), (''f_favail'', CScalar CUint64),
     (''f_fsid'', CScalar CUint64), (''f_flag'', CScalar CUint64), (''f_namemax'', CScalar CUint64)])"

end
