(* ===== verification/Struct_Properties.thy ===== *)
theory Struct_Properties
  imports Libssh_Structs
begin

text \<open>
  What holds of the structures of libssh for every configuration: where
  \<open>ssh_get_error\<close> finds the error of a session or a listener, and that the structures of
  callbacks lie in memory as \<open>Libssh_Callbacks\<close> computes.
\<close>

lemma at_path_first:
  "at_path (CStruct packed ((f, t) # fs)) (f # rest) =
     (case at_path t rest of None \<Rightarrow> None | Some (m, v) \<Rightarrow> Some (start packed 0 t + m, v))"
  by simp

lemma start_zero: "start packed 0 t = 0"
  by (simp add: start_def round_up_same align_pos)

text \<open>
  C39: \<open>ssh_get_error\<close> takes a \<open>void *\<close>, and \<open>gateway.c\<close> gives it sessions and listeners:
  however libssh is configured, both begin with the \<open>error_struct\<close> that it reads, so
  does their common part, and the text in it ends within both.
\<close>

theorem error_first:
  "at_path (ssh_session_struct_ty cfg) [''common'', ''error''] = Some (0, error_struct_ty cfg) \<and>
   at_path (ssh_bind_struct_ty cfg) [''common'', ''error''] = Some (0, error_struct_ty cfg) \<and>
   offset_of (error_struct_ty cfg) [''error_buffer''] = Some 4 \<and>
   4 + nat ERROR_BUFFERLEN \<le> size_of (ssh_session_struct_ty cfg) \<and> 4 + nat ERROR_BUFFERLEN \<le> size_of (ssh_bind_struct_ty cfg)"
proof -
  have common: "at_path (ssh_common_struct_ty cfg) [''error''] = Some (0, error_struct_ty cfg)"
    by (simp add: ssh_common_struct_ty_def start_zero)
  have buffer: "offset_of (error_struct_ty cfg) [''error_buffer''] = Some 4"
    "size_of (error_struct_ty cfg) = 4 + nat ERROR_BUFFERLEN"
    by (simp_all add: offset_of_def error_struct_ty_def start_def round_up_def ERROR_BUFFERLEN_def)
  have size: "size_of (error_struct_ty cfg) \<le> size_of (ssh_common_struct_ty cfg)"
    using fields_inside [of "''error''" 0 "error_struct_ty cfg" "ssh_common_struct_ty cfg"]
    by (simp add: ssh_common_struct_ty_def start_zero)
  have first: "at_path (CStruct False ((''common'', ssh_common_struct_ty cfg) # fs)) [''common'', ''error''] = Some (0, error_struct_ty cfg)" for fs
    unfolding at_path_first common by (simp add: start_zero)
  have inside: "size_of (ssh_common_struct_ty cfg) \<le> size_of (CStruct False ((''common'', ssh_common_struct_ty cfg) # fs))" for fs
    using fields_inside [of "''common''" 0 "ssh_common_struct_ty cfg" "CStruct False ((''common'', ssh_common_struct_ty cfg) # fs)"]
    by (simp add: start_zero)
  have enough: "4 + nat ERROR_BUFFERLEN \<le> size_of (ssh_common_struct_ty cfg)"
    using buffer size by simp
  show ?thesis
    unfolding ssh_session_struct_ty_def ssh_bind_struct_ty_def append_Cons
    by (intro conjI first buffer order_trans [OF enough inside])
qed

text \<open>The structures of callbacks.\<close>

definition offsets :: "c_ty \<Rightarrow> nat list" where
  "offsets t = map (\<lambda>(_, n, _). n) (fields_of t)"

text \<open>
  The offsets that \<open>ssh_callbacks_exists\<close> compares with the size a structure states
  are the offsets of the ABI, and \<open>ssh_callbacks_init\<close> states the size of the ABI.
\<close>

lemma channel_callbacks_laid_out:
  "offsets (ssh_channel_callbacks_struct_ty cfg) = [0, 8] @ map (field_offset channel_cb_layout) (ly_fields channel_cb_layout) \<and>
   size_of (ssh_channel_callbacks_struct_ty cfg) = struct_sizeof channel_cb_layout"
  by (simp add: offsets_def ssh_channel_callbacks_struct_ty_def start_def round_up_def field_offset_def struct_sizeof_def
      channel_cb_layout_def POINTER_SIZE_def)

lemma server_callbacks_laid_out:
  "offsets (ssh_server_callbacks_struct_ty cfg) = [0, 8] @ map (field_offset server_cb_layout) (ly_fields server_cb_layout) \<and>
   size_of (ssh_server_callbacks_struct_ty cfg) = struct_sizeof server_cb_layout"
  by (simp add: offsets_def ssh_server_callbacks_struct_ty_def start_def round_up_def field_offset_def struct_sizeof_def
      server_cb_layout_def POINTER_SIZE_def)

lemma session_callbacks_laid_out:
  "offsets (ssh_callbacks_struct_ty cfg) = [0, 8] @ map (field_offset session_cb_layout) (ly_fields session_cb_layout) \<and>
   size_of (ssh_callbacks_struct_ty cfg) = struct_sizeof session_cb_layout"
  by (simp add: offsets_def ssh_callbacks_struct_ty_def start_def round_up_def field_offset_def struct_sizeof_def
      session_cb_layout_def POINTER_SIZE_def)

lemma bind_callbacks_laid_out:
  "offsets (ssh_bind_callbacks_struct_ty cfg) = [0] @ map (field_offset bind_cb_layout) (ly_fields bind_cb_layout) \<and>
   size_of (ssh_bind_callbacks_struct_ty cfg) = struct_sizeof bind_cb_layout"
  by (simp add: offsets_def ssh_bind_callbacks_struct_ty_def start_def round_up_def field_offset_def struct_sizeof_def
      bind_cb_layout_def POINTER_SIZE_def)

text \<open>An SSH string is packed: its bytes follow the four bytes of its length at once.\<close>

lemma string_packed:
  "offset_of (ssh_string_struct_ty cfg) [''data''] = Some 4 \<and> size_of (ssh_string_struct_ty cfg) = 5"
  by (simp add: offset_of_def ssh_string_struct_ty_def start_def round_up_def)

end
