(* ===== verification/Libssh_Functions.thy ===== *)
theory Libssh_Functions
  imports C_Layout Build_Config
begin

text \<open>
  The functions that libssh's internal headers under \<open>include/libssh\<close> declare, for any
  configuration: one entry per prototype, in the order of the header, with the type of
  its result and of its parameters. A name that a macro renames (\<open>fe25519.h\<close>,
  \<open>sc25519.h\<close>) is the one that is written. The functions of \<open>libssh.h\<close> and \<open>server.h\<close>
  are in \<open>Libssh_Api\<close>, those of \<open>sftp.h\<close> in \<open>Sftp_Functions\<close>.
\<close>

datatype c_result = Void | Gives c_ty

text \<open>\<open>Variadic\<close> is a function whose parameters end with \<open>...\<close>.\<close>

datatype c_fun = Fn string c_result "c_ty list" | Variadic string c_result "c_ty list"

fun fun_name :: "c_fun \<Rightarrow> string" where
  "fun_name (Fn n _ _) = n"
| "fun_name (Variadic n _ _) = n"

fun fun_result :: "c_fun \<Rightarrow> c_result" where
  "fun_result (Fn _ r _) = r"
| "fun_result (Variadic _ r _) = r"

fun fun_params :: "c_fun \<Rightarrow> c_ty list" where
  "fun_params (Fn _ _ ps) = ps"
| "fun_params (Variadic _ _ ps) = ps"

text \<open>The macro that declares a handler of packets.\<close>

definition SSH_PACKET_CALLBACK :: "string \<Rightarrow> c_fun" where
  "SSH_PACKET_CALLBACK name = Fn name (Gives (CScalar CInt))
     [CPtr ''ssh_session_struct'', CScalar CUint8, CPtr ''ssh_buffer_struct'', CPtr ''void'']"

subsection \<open>Session, channels and messages\<close>

definition session_functions :: "config \<Rightarrow> c_fun list" where
  "session_functions cfg =
    [
      Fn ''ssh_handle_packets'' (Gives (CScalar CInt)) [CPtr ''ssh_session_struct'', CScalar CInt],
      Fn ''ssh_handle_packets_termination'' (Gives (CScalar CInt)) [CPtr ''ssh_session_struct'',
          CScalar CInt, CPtr ''ssh_termination_function'', CPtr ''void''],
      Fn ''ssh_socket_exception_callback'' Void [CScalar CInt, CScalar CInt, CPtr ''void'']]"

definition channels_functions :: "config \<Rightarrow> c_fun list" where
  "channels_functions cfg =
    [
      SSH_PACKET_CALLBACK ''ssh_packet_channel_open_conf'',
      SSH_PACKET_CALLBACK ''ssh_packet_channel_open_fail'',
      SSH_PACKET_CALLBACK ''ssh_packet_channel_success'',
      SSH_PACKET_CALLBACK ''ssh_packet_channel_failure'',
      SSH_PACKET_CALLBACK ''ssh_request_success'',
      SSH_PACKET_CALLBACK ''ssh_request_denied'',
      SSH_PACKET_CALLBACK ''channel_rcv_change_window'',
      SSH_PACKET_CALLBACK ''channel_rcv_eof'',
      SSH_PACKET_CALLBACK ''channel_rcv_close'',
      SSH_PACKET_CALLBACK ''channel_rcv_request'',
      SSH_PACKET_CALLBACK ''channel_rcv_data'',
      Fn ''ssh_channel_new'' (Gives (CPtr ''ssh_channel_struct'')) [CPtr ''ssh_session_struct''],
      Fn ''channel_default_bufferize'' (Gives (CScalar CInt)) [CPtr ''ssh_channel_struct'',
          CPtr ''void'', CScalar CInt, CScalar CInt],
      Fn ''ssh_channel_flush'' (Gives (CScalar CInt)) [CPtr ''ssh_channel_struct''],
      Fn ''ssh_channel_new_id'' (Gives (CScalar CUint32)) [CPtr ''ssh_session_struct''],
      Fn ''ssh_channel_from_local'' (Gives (CPtr ''ssh_channel_struct'')) [CPtr ''ssh_session_struct'',
          CScalar CUint32],
      Fn ''ssh_channel_do_free'' Void [CPtr ''ssh_channel_struct'']] @
    given (has cfg ''WITH_SSH1'') [
      SSH_PACKET_CALLBACK ''ssh_packet_data1'',
      SSH_PACKET_CALLBACK ''ssh_packet_close1'',
      SSH_PACKET_CALLBACK ''ssh_packet_exist_status1'',
      Fn ''channel_open_session1'' (Gives (CScalar CInt)) [CPtr ''ssh_channel_struct''],
      Fn ''channel_request_pty_size1'' (Gives (CScalar CInt)) [CPtr ''ssh_channel_struct'',
          CPtr ''char'', CScalar CInt, CScalar CInt],
      Fn ''channel_change_pty_size1'' (Gives (CScalar CInt)) [CPtr ''ssh_channel_struct'',
          CScalar CInt, CScalar CInt],
      Fn ''channel_request_shell1'' (Gives (CScalar CInt)) [CPtr ''ssh_channel_struct''],
      Fn ''channel_request_exec1'' (Gives (CScalar CInt)) [CPtr ''ssh_channel_struct'', CPtr ''char''],
      Fn ''channel_write1'' (Gives (CScalar CInt)) [CPtr ''ssh_channel_struct'', CPtr ''void'',
          CScalar CInt],
      Fn ''ssh_get_channel1'' (Gives (CPtr ''ssh_channel_struct'')) [CPtr ''ssh_session_struct'']]"

definition auth_functions :: "config \<Rightarrow> c_fun list" where
  "auth_functions cfg =
    [
      SSH_PACKET_CALLBACK ''ssh_packet_userauth_banner'',
      SSH_PACKET_CALLBACK ''ssh_packet_userauth_failure'',
      SSH_PACKET_CALLBACK ''ssh_packet_userauth_success'',
      SSH_PACKET_CALLBACK ''ssh_packet_userauth_pk_ok'',
      SSH_PACKET_CALLBACK ''ssh_packet_userauth_info_request'',
      SSH_PACKET_CALLBACK ''ssh_packet_userauth_info_response'']"

definition auth_kbdint_functions :: "config \<Rightarrow> c_fun list" where
  "auth_kbdint_functions cfg =
    [
      Fn ''ssh_kbdint_new'' (Gives (CPtr ''ssh_kbdint_struct'')) [],
      Fn ''ssh_kbdint_clean'' Void [CPtr ''ssh_kbdint_struct''],
      Fn ''ssh_kbdint_free'' Void [CPtr ''ssh_kbdint_struct'']] @
    given (has cfg ''WITH_SSH1'') [
      Fn ''ssh_auth1_handler'' Void [CPtr ''ssh_session_struct'', CScalar CUint8],
      Fn ''ssh_userauth1_none'' (Gives (CScalar CInt)) [CPtr ''ssh_session_struct'', CPtr ''char''],
      Fn ''ssh_userauth1_offer_pubkey'' (Gives (CScalar CInt)) [CPtr ''ssh_session_struct'',
          CPtr ''char'', CScalar CInt, CPtr ''ssh_string_struct''],
      Fn ''ssh_userauth1_password'' (Gives (CScalar CInt)) [CPtr ''ssh_session_struct'', CPtr ''char'',
          CPtr ''char'']]"

definition packet_functions :: "config \<Rightarrow> c_fun list" where
  "packet_functions cfg =
    [
      Fn ''packet_send'' (Gives (CScalar CInt)) [CPtr ''ssh_session_struct'']] @
    given (has cfg ''WITH_SSH1'') [
      Fn ''packet_send1'' (Gives (CScalar CInt)) [CPtr ''ssh_session_struct''],
      Fn ''ssh_packet_set_default_callbacks1'' Void [CPtr ''ssh_session_struct''],
      SSH_PACKET_CALLBACK ''ssh_packet_disconnect1'',
      SSH_PACKET_CALLBACK ''ssh_packet_smsg_success1'',
      SSH_PACKET_CALLBACK ''ssh_packet_smsg_failure1'',
      Fn ''ssh_packet_socket_callback1'' (Gives (CScalar CInt)) [CPtr ''void'', CScalar CSize,
          CPtr ''void'']] @
    [
      SSH_PACKET_CALLBACK ''ssh_packet_unimplemented'',
      SSH_PACKET_CALLBACK ''ssh_packet_disconnect_callback'',
      SSH_PACKET_CALLBACK ''ssh_packet_ignore_callback'',
      SSH_PACKET_CALLBACK ''ssh_packet_dh_reply'',
      SSH_PACKET_CALLBACK ''ssh_packet_newkeys'',
      SSH_PACKET_CALLBACK ''ssh_packet_service_accept''] @
    given (has cfg ''WITH_SERVER'') [
      SSH_PACKET_CALLBACK ''ssh_packet_kexdh_init''] @
    [
      Fn ''ssh_packet_send_unimplemented'' (Gives (CScalar CInt)) [CPtr ''ssh_session_struct'',
          CScalar CUint32],
      Fn ''ssh_packet_parse_type'' (Gives (CScalar CInt)) [CPtr ''ssh_session_struct''],
      Fn ''ssh_packet_socket_callback'' (Gives (CScalar CInt)) [CPtr ''void'', CScalar CSize,
          CPtr ''void''],
      Fn ''ssh_packet_register_socket_callback'' Void [CPtr ''ssh_session_struct'',
          CPtr ''ssh_socket_struct''],
      Fn ''ssh_packet_set_callbacks'' Void [CPtr ''ssh_session_struct'',
          CPtr ''ssh_packet_callbacks_struct''],
      Fn ''ssh_packet_set_default_callbacks'' Void [CPtr ''ssh_session_struct''],
      Fn ''ssh_packet_process'' Void [CPtr ''ssh_session_struct'', CScalar CUint8],
      Fn ''packet_decrypt_len'' (Gives (CScalar CUint32)) [CPtr ''ssh_session_struct'', CPtr ''char''],
      Fn ''packet_decrypt'' (Gives (CScalar CInt)) [CPtr ''ssh_session_struct'', CPtr ''void'',
          CScalar CUint],
      Fn ''packet_encrypt'' (Gives (CPtr ''unsigned char'')) [CPtr ''ssh_session_struct'',
          CPtr ''void'', CScalar CUint],
      Fn ''packet_hmac_verify'' (Gives (CScalar CInt)) [CPtr ''ssh_session_struct'',
          CPtr ''ssh_buffer_struct'', CPtr ''unsigned char'', CEnum ''ssh_hmac_e'']]"

definition kex_functions :: "config \<Rightarrow> c_fun list" where
  "kex_functions cfg =
    [
      SSH_PACKET_CALLBACK ''ssh_packet_kexinit''] @
    given (has cfg ''WITH_SSH1'') [
      SSH_PACKET_CALLBACK ''ssh_packet_publickey1''] @
    [
      Fn ''ssh_send_kex'' (Gives (CScalar CInt)) [CPtr ''ssh_session_struct'', CScalar CInt],
      Fn ''ssh_list_kex'' Void [CPtr ''ssh_kex_struct''],
      Fn ''set_client_kex'' (Gives (CScalar CInt)) [CPtr ''ssh_session_struct''],
      Fn ''ssh_kex_select_methods'' (Gives (CScalar CInt)) [CPtr ''ssh_session_struct''],
      Fn ''verify_existing_algo'' (Gives (CScalar CInt)) [CScalar CInt, CPtr ''char''],
      Fn ''space_tokenize'' (Gives (CPtr ''char*'')) [CPtr ''char''],
      Fn ''ssh_get_kex1'' (Gives (CScalar CInt)) [CPtr ''ssh_session_struct''],
      Fn ''ssh_find_matching'' (Gives (CPtr ''char'')) [CPtr ''char'', CPtr ''char''],
      Fn ''ssh_kex_get_supported_method'' (Gives (CPtr ''char'')) [CScalar CUint32],
      Fn ''ssh_kex_get_description'' (Gives (CPtr ''char'')) [CScalar CUint32]]"

definition messages_functions :: "config \<Rightarrow> c_fun list" where
  "messages_functions cfg =
    [
      SSH_PACKET_CALLBACK ''ssh_packet_channel_open'',
      SSH_PACKET_CALLBACK ''ssh_packet_global_request''] @
    given (has cfg ''WITH_SERVER'') [
      SSH_PACKET_CALLBACK ''ssh_packet_service_request'',
      SSH_PACKET_CALLBACK ''ssh_packet_userauth_request''] @
    [
      Fn ''ssh_message_handle_channel_request'' (Gives (CScalar CInt)) [CPtr ''ssh_session_struct'',
          CPtr ''ssh_channel_struct'', CPtr ''ssh_buffer_struct'', CPtr ''char'', CScalar CUint8],
      Fn ''ssh_message_queue'' Void [CPtr ''ssh_session_struct'', CPtr ''ssh_message_struct''],
      Fn ''ssh_message_pop_head'' (Gives (CPtr ''ssh_message_struct'')) [CPtr ''ssh_session_struct''],
      Fn ''ssh_message_channel_request_open_reply_accept_channel'' (Gives (CScalar CInt)) [CPtr ''ssh_message_struct'', CPtr ''ssh_channel_struct'']]"

definition agent_functions :: "config \<Rightarrow> c_fun list" where
  "agent_functions cfg =
    given (\<not> has cfg ''_WIN32'') [
      Fn ''agent_new'' (Gives (CPtr ''ssh_agent_struct'')) [CPtr ''ssh_session_struct''],
      Fn ''agent_close'' Void [CPtr ''ssh_agent_struct''],
      Fn ''agent_free'' Void [CPtr ''ssh_agent_struct''],
      Fn ''agent_is_running'' (Gives (CScalar CInt)) [CPtr ''ssh_session_struct''],
      Fn ''ssh_agent_get_ident_count'' (Gives (CScalar CInt)) [CPtr ''ssh_session_struct''],
      Fn ''ssh_agent_get_next_ident'' (Gives (CPtr ''ssh_key_struct'')) [CPtr ''ssh_session_struct'',
          CPtr ''char*''],
      Fn ''ssh_agent_get_first_ident'' (Gives (CPtr ''ssh_key_struct'')) [CPtr ''ssh_session_struct'',
          CPtr ''char*''],
      Fn ''ssh_agent_sign_data'' (Gives (CPtr ''ssh_string_struct'')) [CPtr ''ssh_session_struct'',
          CPtr ''ssh_key_struct'', CPtr ''ssh_buffer_struct'']]"

definition bind_functions :: "config \<Rightarrow> c_fun list" where
  "bind_functions cfg =
    [
      Fn ''ssh_bind_get_poll'' (Gives (CPtr ''ssh_poll_handle_struct'')) [CPtr ''ssh_bind_struct'']]"

definition options_functions :: "config \<Rightarrow> c_fun list" where
  "options_functions cfg =
    [
      Fn ''ssh_config_parse_file'' (Gives (CScalar CInt)) [CPtr ''ssh_session_struct'', CPtr ''char''],
      Fn ''ssh_options_set_algo'' (Gives (CScalar CInt)) [CPtr ''ssh_session_struct'', CScalar CInt,
          CPtr ''char''],
      Fn ''ssh_options_apply'' (Gives (CScalar CInt)) [CPtr ''ssh_session_struct'']]"

definition knownhosts_functions :: "config \<Rightarrow> c_fun list" where
  "knownhosts_functions cfg =
    [
      Fn ''ssh_knownhosts_algorithms'' (Gives (CPtr ''char*'')) [CPtr ''ssh_session_struct'']]"

definition gssapi_functions :: "config \<Rightarrow> c_fun list" where
  "gssapi_functions cfg =
    given (has cfg ''WITH_SERVER'') [
      Fn ''ssh_gssapi_handle_userauth'' (Gives (CScalar CInt)) [CPtr ''ssh_session_struct'',
          CPtr ''char'', CScalar CUint32, CPtr ''ssh_string_struct*''],
      SSH_PACKET_CALLBACK ''ssh_packet_userauth_gssapi_token_server'',
      SSH_PACKET_CALLBACK ''ssh_packet_userauth_gssapi_mic''] @
    [
      SSH_PACKET_CALLBACK ''ssh_packet_userauth_gssapi_token'',
      SSH_PACKET_CALLBACK ''ssh_packet_userauth_gssapi_token_client'',
      SSH_PACKET_CALLBACK ''ssh_packet_userauth_gssapi_response'',
      Fn ''ssh_gssapi_auth_mic'' (Gives (CScalar CInt)) [CPtr ''ssh_session_struct'']]"

definition scp_functions :: "config \<Rightarrow> c_fun list" where
  "scp_functions cfg =
    [
      Fn ''ssh_scp_read_string'' (Gives (CScalar CInt)) [CPtr ''ssh_scp_struct'', CPtr ''char'',
          CScalar CSize],
      Fn ''ssh_scp_integer_mode'' (Gives (CScalar CInt)) [CPtr ''char''],
      Fn ''ssh_scp_string_mode'' (Gives (CPtr ''char'')) [CScalar CInt],
      Fn ''ssh_scp_response'' (Gives (CScalar CInt)) [CPtr ''ssh_scp_struct'', CPtr ''char*'']]"

definition pcap_functions :: "config \<Rightarrow> c_fun list" where
  "pcap_functions cfg =
    given (has cfg ''WITH_PCAP'') [
      Fn ''ssh_pcap_file_write_packet'' (Gives (CScalar CInt)) [CPtr ''ssh_pcap_file_struct'',
          CPtr ''ssh_buffer_struct'', CScalar CUint32],
      Fn ''ssh_pcap_context_new'' (Gives (CPtr ''ssh_pcap_context_struct'')) [CPtr ''ssh_session_struct''],
      Fn ''ssh_pcap_context_free'' Void [CPtr ''ssh_pcap_context_struct''],
      Fn ''ssh_pcap_context_set_file'' Void [CPtr ''ssh_pcap_context_struct'',
          CPtr ''ssh_pcap_file_struct''],
      Fn ''ssh_pcap_context_write'' (Gives (CScalar CInt)) [CPtr ''ssh_pcap_context_struct'',
          CEnum ''ssh_pcap_direction'', CPtr ''void'', CScalar CUint32, CScalar CUint32]]"

subsection \<open>Buffers, sockets and polling\<close>

definition misc_functions :: "config \<Rightarrow> c_fun list" where
  "misc_functions cfg =
    [
      Fn ''ssh_get_user_home_dir'' (Gives (CPtr ''char'')) [],
      Fn ''ssh_get_local_username'' (Gives (CPtr ''char'')) [],
      Fn ''ssh_file_readaccess_ok'' (Gives (CScalar CInt)) [CPtr ''char''],
      Fn ''ssh_path_expand_tilde'' (Gives (CPtr ''char'')) [CPtr ''char''],
      Fn ''ssh_path_expand_escape'' (Gives (CPtr ''char'')) [CPtr ''ssh_session_struct'', CPtr ''char''],
      Fn ''ssh_analyze_banner'' (Gives (CScalar CInt)) [CPtr ''ssh_session_struct'', CScalar CInt,
          CPtr ''int'', CPtr ''int''],
      Fn ''ssh_is_ipaddr_v4'' (Gives (CScalar CInt)) [CPtr ''char''],
      Fn ''ssh_is_ipaddr'' (Gives (CScalar CInt)) [CPtr ''char'']] @
    given (\<not> has cfg ''HAVE_NTOHLL'') [
      Fn ''ntohll'' (Gives (CScalar CUint64)) [CScalar CUint64]]"

definition misc_list_functions :: "config \<Rightarrow> c_fun list" where
  "misc_list_functions cfg =
    [
      Fn ''ssh_list_new'' (Gives (CPtr ''ssh_list'')) [],
      Fn ''ssh_list_free'' Void [CPtr ''ssh_list''],
      Fn ''ssh_list_get_iterator'' (Gives (CPtr ''ssh_iterator'')) [CPtr ''ssh_list''],
      Fn ''ssh_list_find'' (Gives (CPtr ''ssh_iterator'')) [CPtr ''ssh_list'', CPtr ''void''],
      Fn ''ssh_list_append'' (Gives (CScalar CInt)) [CPtr ''ssh_list'', CPtr ''void''],
      Fn ''ssh_list_prepend'' (Gives (CScalar CInt)) [CPtr ''ssh_list'', CPtr ''void''],
      Fn ''ssh_list_remove'' Void [CPtr ''ssh_list'', CPtr ''ssh_iterator''],
      Fn ''ssh_lowercase'' (Gives (CPtr ''char'')) [CPtr ''char''],
      Fn ''ssh_hostport'' (Gives (CPtr ''char'')) [CPtr ''char'', CScalar CInt],
      Fn ''_ssh_list_pop_head'' (Gives (CPtr ''void'')) [CPtr ''ssh_list''],
      Fn ''ssh_make_milliseconds'' (Gives (CScalar CInt)) [CScalar CLong, CScalar CLong],
      Fn ''ssh_timestamp_init'' Void [CPtr ''ssh_timestamp''],
      Fn ''ssh_timeout_elapsed'' (Gives (CScalar CInt)) [CPtr ''ssh_timestamp'', CScalar CInt],
      Fn ''ssh_timeout_update'' (Gives (CScalar CInt)) [CPtr ''ssh_timestamp'', CScalar CInt],
      Fn ''ssh_match_group'' (Gives (CScalar CInt)) [CPtr ''char'', CPtr ''char'']]"

definition buffer_functions :: "config \<Rightarrow> c_fun list" where
  "buffer_functions cfg =
    [
      Fn ''ssh_buffer_free'' Void [CPtr ''ssh_buffer_struct''],
      Fn ''ssh_buffer_get_begin'' (Gives (CPtr ''void'')) [CPtr ''ssh_buffer_struct''],
      Fn ''ssh_buffer_get_len'' (Gives (CScalar CUint32)) [CPtr ''ssh_buffer_struct''],
      Fn ''ssh_buffer_new'' (Gives (CPtr ''ssh_buffer_struct'')) [],
      Fn ''ssh_buffer_set_secure'' Void [CPtr ''ssh_buffer_struct''],
      Fn ''buffer_add_ssh_string'' (Gives (CScalar CInt)) [CPtr ''ssh_buffer_struct'',
          CPtr ''ssh_string_struct''],
      Fn ''buffer_add_u8'' (Gives (CScalar CInt)) [CPtr ''ssh_buffer_struct'', CScalar CUint8],
      Fn ''buffer_add_u16'' (Gives (CScalar CInt)) [CPtr ''ssh_buffer_struct'', CScalar CUint16],
      Fn ''buffer_add_u32'' (Gives (CScalar CInt)) [CPtr ''ssh_buffer_struct'', CScalar CUint32],
      Fn ''buffer_add_u64'' (Gives (CScalar CInt)) [CPtr ''ssh_buffer_struct'', CScalar CUint64],
      Fn ''ssh_buffer_add_data'' (Gives (CScalar CInt)) [CPtr ''ssh_buffer_struct'', CPtr ''void'',
          CScalar CUint32],
      Fn ''ssh_buffer_pack_va'' (Gives (CScalar CInt)) [CPtr ''ssh_buffer_struct'', CPtr ''char'',
          CPtr ''__va_list_tag''],
      Variadic ''_ssh_buffer_pack'' (Gives (CScalar CInt)) [CPtr ''ssh_buffer_struct'', CPtr ''char''],
      Fn ''ssh_buffer_unpack_va'' (Gives (CScalar CInt)) [CPtr ''ssh_buffer_struct'', CPtr ''char'',
          CPtr ''__va_list_tag''],
      Variadic ''_ssh_buffer_unpack'' (Gives (CScalar CInt)) [CPtr ''ssh_buffer_struct'', CPtr ''char''],
      Fn ''buffer_prepend_data'' (Gives (CScalar CInt)) [CPtr ''ssh_buffer_struct'', CPtr ''void'',
          CScalar CUint32],
      Fn ''buffer_add_buffer'' (Gives (CScalar CInt)) [CPtr ''ssh_buffer_struct'',
          CPtr ''ssh_buffer_struct''],
      Fn ''ssh_buffer_reinit'' (Gives (CScalar CInt)) [CPtr ''ssh_buffer_struct''],
      Fn ''buffer_get_rest'' (Gives (CPtr ''void'')) [CPtr ''ssh_buffer_struct''],
      Fn ''buffer_get_rest_len'' (Gives (CScalar CUint32)) [CPtr ''ssh_buffer_struct''],
      Fn ''buffer_get_u8'' (Gives (CScalar CInt)) [CPtr ''ssh_buffer_struct'', CPtr ''uint8_t''],
      Fn ''buffer_get_u32'' (Gives (CScalar CInt)) [CPtr ''ssh_buffer_struct'', CPtr ''uint32_t''],
      Fn ''buffer_get_u64'' (Gives (CScalar CInt)) [CPtr ''ssh_buffer_struct'', CPtr ''uint64_t''],
      Fn ''buffer_get_data'' (Gives (CScalar CUint32)) [CPtr ''ssh_buffer_struct'', CPtr ''void'',
          CScalar CUint32],
      Fn ''buffer_get_ssh_string'' (Gives (CPtr ''ssh_string_struct'')) [CPtr ''ssh_buffer_struct''],
      Fn ''buffer_get_mpint'' (Gives (CPtr ''ssh_string_struct'')) [CPtr ''ssh_buffer_struct''],
      Fn ''buffer_pass_bytes_end'' (Gives (CScalar CUint32)) [CPtr ''ssh_buffer_struct'',
          CScalar CUint32],
      Fn ''buffer_pass_bytes'' (Gives (CScalar CUint32)) [CPtr ''ssh_buffer_struct'', CScalar CUint32]]"

definition socket_functions :: "config \<Rightarrow> c_fun list" where
  "socket_functions cfg =
    [
      Fn ''ssh_socket_init'' (Gives (CScalar CInt)) [],
      Fn ''ssh_socket_cleanup'' Void [],
      Fn ''ssh_socket_new'' (Gives (CPtr ''ssh_socket_struct'')) [CPtr ''ssh_session_struct''],
      Fn ''ssh_socket_reset'' Void [CPtr ''ssh_socket_struct''],
      Fn ''ssh_socket_free'' Void [CPtr ''ssh_socket_struct''],
      Fn ''ssh_socket_set_fd'' Void [CPtr ''ssh_socket_struct'', CScalar CInt],
      Fn ''ssh_socket_get_fd_in'' (Gives (CScalar CInt)) [CPtr ''ssh_socket_struct'']] @
    given (\<not> has cfg ''_WIN32'') [
      Fn ''ssh_socket_unix'' (Gives (CScalar CInt)) [CPtr ''ssh_socket_struct'', CPtr ''char''],
      Fn ''ssh_execute_command'' Void [CPtr ''char'', CScalar CInt, CScalar CInt],
      Fn ''ssh_socket_connect_proxycommand'' (Gives (CScalar CInt)) [CPtr ''ssh_socket_struct'',
          CPtr ''char'']] @
    [
      Fn ''ssh_socket_close'' Void [CPtr ''ssh_socket_struct''],
      Fn ''ssh_socket_write'' (Gives (CScalar CInt)) [CPtr ''ssh_socket_struct'', CPtr ''void'',
          CScalar CInt],
      Fn ''ssh_socket_is_open'' (Gives (CScalar CInt)) [CPtr ''ssh_socket_struct''],
      Fn ''ssh_socket_fd_isset'' (Gives (CScalar CInt)) [CPtr ''ssh_socket_struct'', CPtr ''fd_set''],
      Fn ''ssh_socket_fd_set'' Void [CPtr ''ssh_socket_struct'', CPtr ''fd_set'', CPtr ''int''],
      Fn ''ssh_socket_set_fd_in'' Void [CPtr ''ssh_socket_struct'', CScalar CInt],
      Fn ''ssh_socket_set_fd_out'' Void [CPtr ''ssh_socket_struct'', CScalar CInt],
      Fn ''ssh_socket_nonblocking_flush'' (Gives (CScalar CInt)) [CPtr ''ssh_socket_struct''],
      Fn ''ssh_socket_set_write_wontblock'' Void [CPtr ''ssh_socket_struct''],
      Fn ''ssh_socket_set_read_wontblock'' Void [CPtr ''ssh_socket_struct''],
      Fn ''ssh_socket_set_except'' Void [CPtr ''ssh_socket_struct''],
      Fn ''ssh_socket_get_status'' (Gives (CScalar CInt)) [CPtr ''ssh_socket_struct''],
      Fn ''ssh_socket_get_poll_flags'' (Gives (CScalar CInt)) [CPtr ''ssh_socket_struct''],
      Fn ''ssh_socket_buffered_write_bytes'' (Gives (CScalar CInt)) [CPtr ''ssh_socket_struct''],
      Fn ''ssh_socket_data_available'' (Gives (CScalar CInt)) [CPtr ''ssh_socket_struct''],
      Fn ''ssh_socket_data_writable'' (Gives (CScalar CInt)) [CPtr ''ssh_socket_struct''],
      Fn ''ssh_socket_set_nonblocking'' (Gives (CScalar CInt)) [CScalar CInt],
      Fn ''ssh_socket_set_blocking'' (Gives (CScalar CInt)) [CScalar CInt],
      Fn ''ssh_socket_set_callbacks'' Void [CPtr ''ssh_socket_struct'',
          CPtr ''ssh_socket_callbacks_struct''],
      Fn ''ssh_socket_pollcallback'' (Gives (CScalar CInt)) [CPtr ''ssh_poll_handle_struct'',
          CScalar CInt, CScalar CInt, CPtr ''void''],
      Fn ''ssh_socket_get_poll_handle_in'' (Gives (CPtr ''ssh_poll_handle_struct'')) [CPtr ''ssh_socket_struct''],
      Fn ''ssh_socket_get_poll_handle_out'' (Gives (CPtr ''ssh_poll_handle_struct'')) [CPtr ''ssh_socket_struct''],
      Fn ''ssh_socket_connect'' (Gives (CScalar CInt)) [CPtr ''ssh_socket_struct'', CPtr ''char'',
          CScalar CInt, CPtr ''char'']]"

definition poll_functions :: "config \<Rightarrow> c_fun list" where
  "poll_functions cfg =
    [
      Fn ''ssh_poll_init'' Void [],
      Fn ''ssh_poll_cleanup'' Void [],
      Fn ''ssh_poll'' (Gives (CScalar CInt)) [CPtr ''ssh_pollfd_struct'', CScalar CUlong, CScalar CInt]]"

definition poll_handle_functions :: "config \<Rightarrow> c_fun list" where
  "poll_handle_functions cfg =
    [
      Fn ''ssh_poll_new'' (Gives (CPtr ''ssh_poll_handle_struct'')) [CScalar CInt, CScalar CShort,
          CPtr ''ssh_poll_callback'', CPtr ''void''],
      Fn ''ssh_poll_free'' Void [CPtr ''ssh_poll_handle_struct''],
      Fn ''ssh_poll_get_ctx'' (Gives (CPtr ''ssh_poll_ctx_struct'')) [CPtr ''ssh_poll_handle_struct''],
      Fn ''ssh_poll_get_events'' (Gives (CScalar CShort)) [CPtr ''ssh_poll_handle_struct''],
      Fn ''ssh_poll_set_events'' Void [CPtr ''ssh_poll_handle_struct'', CScalar CShort],
      Fn ''ssh_poll_add_events'' Void [CPtr ''ssh_poll_handle_struct'', CScalar CShort],
      Fn ''ssh_poll_remove_events'' Void [CPtr ''ssh_poll_handle_struct'', CScalar CShort],
      Fn ''ssh_poll_get_fd'' (Gives (CScalar CInt)) [CPtr ''ssh_poll_handle_struct''],
      Fn ''ssh_poll_set_fd'' Void [CPtr ''ssh_poll_handle_struct'', CScalar CInt],
      Fn ''ssh_poll_set_callback'' Void [CPtr ''ssh_poll_handle_struct'', CPtr ''ssh_poll_callback'',
          CPtr ''void''],
      Fn ''ssh_poll_ctx_new'' (Gives (CPtr ''ssh_poll_ctx_struct'')) [CScalar CSize],
      Fn ''ssh_poll_ctx_free'' Void [CPtr ''ssh_poll_ctx_struct''],
      Fn ''ssh_poll_ctx_add'' (Gives (CScalar CInt)) [CPtr ''ssh_poll_ctx_struct'',
          CPtr ''ssh_poll_handle_struct''],
      Fn ''ssh_poll_ctx_add_socket'' (Gives (CScalar CInt)) [CPtr ''ssh_poll_ctx_struct'',
          CPtr ''ssh_socket_struct''],
      Fn ''ssh_poll_ctx_remove'' Void [CPtr ''ssh_poll_ctx_struct'', CPtr ''ssh_poll_handle_struct''],
      Fn ''ssh_poll_ctx_dopoll'' (Gives (CScalar CInt)) [CPtr ''ssh_poll_ctx_struct'', CScalar CInt],
      Fn ''ssh_poll_get_default_ctx'' (Gives (CPtr ''ssh_poll_ctx_struct'')) [CPtr ''ssh_session_struct'']]"

definition priv_time_functions :: "config \<Rightarrow> c_fun list" where
  "priv_time_functions cfg =
    given (has cfg ''_WIN32'') [
      Fn ''gettimeofday'' (Gives (CScalar CInt)) [CPtr ''timeval'', CPtr ''void'']]"

definition priv_functions :: "config \<Rightarrow> c_fun list" where
  "priv_functions cfg =
    [
      Fn ''ssh_get_key_params'' (Gives (CScalar CInt)) [CPtr ''ssh_session_struct'',
          CPtr ''ssh_key_struct*''],
      Fn ''ssh_log_function'' Void [CScalar CInt, CPtr ''char'', CPtr ''char''],
      Variadic ''ssh_log_common'' Void [CPtr ''ssh_common_struct'', CScalar CInt, CPtr ''char'',
          CPtr ''char''],
      Variadic ''_ssh_set_error'' Void [CPtr ''void'', CScalar CInt, CPtr ''char'', CPtr ''char''],
      Fn ''_ssh_set_error_oom'' Void [CPtr ''void'', CPtr ''char''],
      Fn ''_ssh_set_error_invalid'' Void [CPtr ''void'', CPtr ''char'']] @
    given (has cfg ''WITH_SERVER'') [
      Fn ''ssh_auth_reply_default'' (Gives (CScalar CInt)) [CPtr ''ssh_session_struct'', CScalar CInt],
      Fn ''ssh_auth_reply_success'' (Gives (CScalar CInt)) [CPtr ''ssh_session_struct'', CScalar CInt]] @
    [
      Fn ''ssh_send_banner'' (Gives (CScalar CInt)) [CPtr ''ssh_session_struct'', CScalar CInt],
      Fn ''ssh_connect_host'' (Gives (CScalar CInt)) [CPtr ''ssh_session_struct'', CPtr ''char'',
          CPtr ''char'', CScalar CInt, CScalar CLong, CScalar CLong],
      Fn ''ssh_connect_host_nonblocking'' (Gives (CScalar CInt)) [CPtr ''ssh_session_struct'',
          CPtr ''char'', CPtr ''char'', CScalar CInt],
      Fn ''base64_to_bin'' (Gives (CPtr ''ssh_buffer_struct'')) [CPtr ''char''],
      Fn ''bin_to_base64'' (Gives (CPtr ''unsigned char'')) [CPtr ''unsigned char'', CScalar CInt],
      Fn ''compress_buffer'' (Gives (CScalar CInt)) [CPtr ''ssh_session_struct'',
          CPtr ''ssh_buffer_struct''],
      Fn ''decompress_buffer'' (Gives (CScalar CInt)) [CPtr ''ssh_session_struct'',
          CPtr ''ssh_buffer_struct'', CScalar CSize],
      Fn ''match_hostname'' (Gives (CScalar CInt)) [CPtr ''char'', CPtr ''char'', CScalar CUint]]"

definition threads_functions :: "config \<Rightarrow> c_fun list" where
  "threads_functions cfg =
    [
      Fn ''ssh_threads_init'' (Gives (CScalar CInt)) [],
      Fn ''ssh_threads_finalize'' Void [],
      Fn ''ssh_threads_get_type'' (Gives (CPtr ''char'')) []]"

subsection \<open>Keys and arithmetic\<close>

definition keys_functions :: "config \<Rightarrow> c_fun list" where
  "keys_functions cfg =
    [
      Fn ''ssh_type_to_char'' (Gives (CPtr ''char'')) [CScalar CInt],
      Fn ''ssh_type_from_name'' (Gives (CScalar CInt)) [CPtr ''char''],
      Fn ''publickey_from_string'' (Gives (CPtr ''ssh_public_key_struct'')) [CPtr ''ssh_session_struct'', CPtr ''ssh_string_struct'']]"

definition pki_functions :: "config \<Rightarrow> c_fun list" where
  "pki_functions cfg =
    [
      Fn ''ssh_key_dup'' (Gives (CPtr ''ssh_key_struct'')) [CPtr ''ssh_key_struct''],
      Fn ''ssh_key_clean'' Void [CPtr ''ssh_key_struct''],
      Fn ''ssh_signature_new'' (Gives (CPtr ''ssh_signature_struct'')) [],
      Fn ''ssh_signature_free'' Void [CPtr ''ssh_signature_struct''],
      Fn ''ssh_pki_export_signature_blob'' (Gives (CScalar CInt)) [CPtr ''ssh_signature_struct'',
          CPtr ''ssh_string_struct*''],
      Fn ''ssh_pki_import_signature_blob'' (Gives (CScalar CInt)) [CPtr ''ssh_string_struct'',
          CPtr ''ssh_key_struct'', CPtr ''ssh_signature_struct*''],
      Fn ''ssh_pki_signature_verify_blob'' (Gives (CScalar CInt)) [CPtr ''ssh_session_struct'',
          CPtr ''ssh_string_struct'', CPtr ''ssh_key_struct'', CPtr ''unsigned char'', CScalar CSize],
      Fn ''ssh_pki_export_pubkey_blob'' (Gives (CScalar CInt)) [CPtr ''ssh_key_struct'',
          CPtr ''ssh_string_struct*''],
      Fn ''ssh_pki_import_pubkey_blob'' (Gives (CScalar CInt)) [CPtr ''ssh_string_struct'',
          CPtr ''ssh_key_struct*''],
      Fn ''ssh_pki_export_pubkey_rsa1'' (Gives (CScalar CInt)) [CPtr ''ssh_key_struct'', CPtr ''char'',
          CPtr ''char'', CScalar CSize],
      Fn ''ssh_pki_do_sign'' (Gives (CPtr ''ssh_string_struct'')) [CPtr ''ssh_session_struct'',
          CPtr ''ssh_buffer_struct'', CPtr ''ssh_key_struct''],
      Fn ''ssh_pki_do_sign_agent'' (Gives (CPtr ''ssh_string_struct'')) [CPtr ''ssh_session_struct'',
          CPtr ''ssh_buffer_struct'', CPtr ''ssh_key_struct''],
      Fn ''ssh_srv_pki_do_sign_sessionid'' (Gives (CPtr ''ssh_string_struct'')) [CPtr ''ssh_session_struct'', CPtr ''ssh_key_struct''],
      Fn ''ssh_pki_convert_key_to_publickey'' (Gives (CPtr ''ssh_public_key_struct'')) [CPtr ''ssh_key_struct''],
      Fn ''ssh_pki_convert_key_to_privatekey'' (Gives (CPtr ''ssh_private_key_struct'')) [CPtr ''ssh_key_struct'']]"

definition pki_priv_functions :: "config \<Rightarrow> c_fun list" where
  "pki_priv_functions cfg =
    [
      Variadic ''_ssh_pki_log'' Void [CPtr ''char'', CPtr ''char''],
      Fn ''pki_key_ecdsa_nid_from_name'' (Gives (CScalar CInt)) [CPtr ''char''],
      Fn ''pki_key_ecdsa_nid_to_name'' (Gives (CPtr ''char'')) [CScalar CInt],
      Fn ''pki_key_dup'' (Gives (CPtr ''ssh_key_struct'')) [CPtr ''ssh_key_struct'', CScalar CInt],
      Fn ''pki_key_generate_rsa'' (Gives (CScalar CInt)) [CPtr ''ssh_key_struct'', CScalar CInt],
      Fn ''pki_key_generate_dss'' (Gives (CScalar CInt)) [CPtr ''ssh_key_struct'', CScalar CInt],
      Fn ''pki_key_generate_ecdsa'' (Gives (CScalar CInt)) [CPtr ''ssh_key_struct'', CScalar CInt],
      Fn ''pki_key_generate_ed25519'' (Gives (CScalar CInt)) [CPtr ''ssh_key_struct''],
      Fn ''pki_key_compare'' (Gives (CScalar CInt)) [CPtr ''ssh_key_struct'', CPtr ''ssh_key_struct'',
          CEnum ''ssh_keycmp_e''],
      Fn ''pki_privatekey_type_from_string'' (Gives (CEnum ''ssh_keytypes_e'')) [CPtr ''char''],
      Fn ''pki_private_key_from_base64'' (Gives (CPtr ''ssh_key_struct'')) [CPtr ''char'',
          CPtr ''char'', CPtr ''ssh_auth_callback'', CPtr ''void''],
      Fn ''pki_private_key_to_pem'' (Gives (CPtr ''ssh_string_struct'')) [CPtr ''ssh_key_struct'',
          CPtr ''char'', CPtr ''ssh_auth_callback'', CPtr ''void''],
      Fn ''pki_pubkey_build_dss'' (Gives (CScalar CInt)) [CPtr ''ssh_key_struct'',
          CPtr ''ssh_string_struct'', CPtr ''ssh_string_struct'', CPtr ''ssh_string_struct'',
          CPtr ''ssh_string_struct''],
      Fn ''pki_pubkey_build_rsa'' (Gives (CScalar CInt)) [CPtr ''ssh_key_struct'',
          CPtr ''ssh_string_struct'', CPtr ''ssh_string_struct''],
      Fn ''pki_pubkey_build_ecdsa'' (Gives (CScalar CInt)) [CPtr ''ssh_key_struct'', CScalar CInt,
          CPtr ''ssh_string_struct''],
      Fn ''pki_publickey_to_blob'' (Gives (CPtr ''ssh_string_struct'')) [CPtr ''ssh_key_struct''],
      Fn ''pki_export_pubkey_rsa1'' (Gives (CScalar CInt)) [CPtr ''ssh_key_struct'', CPtr ''char'',
          CPtr ''char'', CScalar CSize],
      Fn ''pki_signature_to_blob'' (Gives (CPtr ''ssh_string_struct'')) [CPtr ''ssh_signature_struct''],
      Fn ''pki_signature_from_blob'' (Gives (CPtr ''ssh_signature_struct'')) [CPtr ''ssh_key_struct'',
          CPtr ''ssh_string_struct'', CEnum ''ssh_keytypes_e''],
      Fn ''pki_signature_verify'' (Gives (CScalar CInt)) [CPtr ''ssh_session_struct'',
          CPtr ''ssh_signature_struct'', CPtr ''ssh_key_struct'', CPtr ''unsigned char'', CScalar CSize],
      Fn ''pki_do_sign'' (Gives (CPtr ''ssh_signature_struct'')) [CPtr ''ssh_key_struct'',
          CPtr ''unsigned char'', CScalar CSize],
      Fn ''pki_do_sign_sessionid'' (Gives (CPtr ''ssh_signature_struct'')) [CPtr ''ssh_key_struct'',
          CPtr ''unsigned char'', CScalar CSize],
      Fn ''pki_ed25519_sign'' (Gives (CScalar CInt)) [CPtr ''ssh_key_struct'',
          CPtr ''ssh_signature_struct'', CPtr ''unsigned char'', CScalar CSize],
      Fn ''pki_ed25519_verify'' (Gives (CScalar CInt)) [CPtr ''ssh_key_struct'',
          CPtr ''ssh_signature_struct'', CPtr ''unsigned char'', CScalar CSize],
      Fn ''pki_ed25519_key_cmp'' (Gives (CScalar CInt)) [CPtr ''ssh_key_struct'',
          CPtr ''ssh_key_struct'', CEnum ''ssh_keycmp_e''],
      Fn ''pki_ed25519_key_dup'' (Gives (CScalar CInt)) [CPtr ''ssh_key_struct'',
          CPtr ''ssh_key_struct''],
      Fn ''pki_ed25519_public_key_to_blob'' (Gives (CScalar CInt)) [CPtr ''ssh_buffer_struct'',
          CPtr ''ssh_key_struct''],
      Fn ''pki_ed25519_sig_to_blob'' (Gives (CPtr ''ssh_string_struct'')) [CPtr ''ssh_signature_struct''],
      Fn ''pki_ed25519_sig_from_blob'' (Gives (CScalar CInt)) [CPtr ''ssh_signature_struct'',
          CPtr ''ssh_string_struct'']]"

definition dh_functions :: "config \<Rightarrow> c_fun list" where
  "dh_functions cfg =
    [
      Fn ''dh_generate_e'' (Gives (CScalar CInt)) [CPtr ''ssh_session_struct''],
      Fn ''dh_generate_f'' (Gives (CScalar CInt)) [CPtr ''ssh_session_struct''],
      Fn ''dh_generate_x'' (Gives (CScalar CInt)) [CPtr ''ssh_session_struct''],
      Fn ''dh_generate_y'' (Gives (CScalar CInt)) [CPtr ''ssh_session_struct''],
      Fn ''ssh_crypto_init'' (Gives (CScalar CInt)) [],
      Fn ''ssh_crypto_finalize'' Void [],
      Fn ''dh_get_e'' (Gives (CPtr ''ssh_string_struct'')) [CPtr ''ssh_session_struct''],
      Fn ''dh_get_f'' (Gives (CPtr ''ssh_string_struct'')) [CPtr ''ssh_session_struct''],
      Fn ''dh_import_f'' (Gives (CScalar CInt)) [CPtr ''ssh_session_struct'', CPtr ''ssh_string_struct''],
      Fn ''dh_import_e'' (Gives (CScalar CInt)) [CPtr ''ssh_session_struct'', CPtr ''ssh_string_struct''],
      Fn ''dh_import_pubkey'' Void [CPtr ''ssh_session_struct'', CPtr ''ssh_string_struct''],
      Fn ''dh_build_k'' (Gives (CScalar CInt)) [CPtr ''ssh_session_struct''],
      Fn ''ssh_client_dh_init'' (Gives (CScalar CInt)) [CPtr ''ssh_session_struct''],
      Fn ''ssh_client_dh_reply'' (Gives (CScalar CInt)) [CPtr ''ssh_session_struct'',
          CPtr ''ssh_buffer_struct''],
      Fn ''make_sessionid'' (Gives (CScalar CInt)) [CPtr ''ssh_session_struct''],
      Fn ''hashbufin_add_cookie'' (Gives (CScalar CInt)) [CPtr ''ssh_session_struct'',
          CPtr ''unsigned char''],
      Fn ''hashbufout_add_cookie'' (Gives (CScalar CInt)) [CPtr ''ssh_session_struct''],
      Fn ''generate_session_keys'' (Gives (CScalar CInt)) [CPtr ''ssh_session_struct'']]"

definition ecdh_functions :: "config \<Rightarrow> c_fun list" where
  "ecdh_functions cfg =
    [
      Fn ''ssh_client_ecdh_init'' (Gives (CScalar CInt)) [CPtr ''ssh_session_struct''],
      Fn ''ssh_client_ecdh_reply'' (Gives (CScalar CInt)) [CPtr ''ssh_session_struct'',
          CPtr ''ssh_buffer_struct'']] @
    given (has cfg ''WITH_SERVER'') [
      Fn ''ssh_server_ecdh_init'' (Gives (CScalar CInt)) [CPtr ''ssh_session_struct'',
          CPtr ''ssh_buffer_struct'']]"

definition ed25519_functions :: "config \<Rightarrow> c_fun list" where
  "ed25519_functions cfg =
    [
      Fn ''crypto_sign_ed25519_keypair'' (Gives (CScalar CInt)) [CPtr ''uint8_t'', CPtr ''uint8_t''],
      Fn ''crypto_sign_ed25519'' (Gives (CScalar CInt)) [CPtr ''unsigned char'',
          CPtr ''unsigned long long'', CPtr ''unsigned char'', CScalar CUllong, CPtr ''uint8_t''],
      Fn ''crypto_sign_ed25519_open'' (Gives (CScalar CInt)) [CPtr ''unsigned char'',
          CPtr ''unsigned long long'', CPtr ''unsigned char'', CScalar CUllong, CPtr ''uint8_t'']]"

definition curve25519_functions :: "config \<Rightarrow> c_fun list" where
  "curve25519_functions cfg =
    given (\<not> has cfg ''WITH_NACL'') [
      Fn ''crypto_scalarmult_base'' (Gives (CScalar CInt)) [CPtr ''unsigned char'',
          CPtr ''unsigned char''],
      Fn ''crypto_scalarmult'' (Gives (CScalar CInt)) [CPtr ''unsigned char'', CPtr ''unsigned char'',
          CPtr ''unsigned char'']] @
    [
      Fn ''ssh_client_curve25519_init'' (Gives (CScalar CInt)) [CPtr ''ssh_session_struct''],
      Fn ''ssh_client_curve25519_reply'' (Gives (CScalar CInt)) [CPtr ''ssh_session_struct'',
          CPtr ''ssh_buffer_struct'']] @
    given (has cfg ''WITH_SERVER'') [
      Fn ''ssh_server_curve25519_init'' (Gives (CScalar CInt)) [CPtr ''ssh_session_struct'',
          CPtr ''ssh_buffer_struct'']]"

definition ge25519_functions :: "config \<Rightarrow> c_fun list" where
  "ge25519_functions cfg =
    [
      Fn ''ge25519_unpackneg_vartime'' (Gives (CScalar CInt)) [CPtr ''ge25519'', CPtr ''unsigned char''],
      Fn ''ge25519_pack'' Void [CPtr ''unsigned char'', CPtr ''ge25519''],
      Fn ''ge25519_isneutral_vartime'' (Gives (CScalar CInt)) [CPtr ''ge25519''],
      Fn ''ge25519_double_scalarmult_vartime'' Void [CPtr ''ge25519'', CPtr ''ge25519'',
          CPtr ''sc25519'', CPtr ''ge25519'', CPtr ''sc25519''],
      Fn ''ge25519_scalarmult_base'' Void [CPtr ''ge25519'', CPtr ''sc25519'']]"

definition fe25519_functions :: "config \<Rightarrow> c_fun list" where
  "fe25519_functions cfg =
    [
      Fn ''fe25519_freeze'' Void [CPtr ''fe25519''],
      Fn ''fe25519_unpack'' Void [CPtr ''fe25519'', CPtr ''unsigned char''],
      Fn ''fe25519_pack'' Void [CPtr ''unsigned char'', CPtr ''fe25519''],
      Fn ''fe25519_iszero'' (Gives (CScalar CInt)) [CPtr ''fe25519''],
      Fn ''fe25519_iseq_vartime'' (Gives (CScalar CInt)) [CPtr ''fe25519'', CPtr ''fe25519''],
      Fn ''fe25519_cmov'' Void [CPtr ''fe25519'', CPtr ''fe25519'', CScalar CUchar],
      Fn ''fe25519_setone'' Void [CPtr ''fe25519''],
      Fn ''fe25519_setzero'' Void [CPtr ''fe25519''],
      Fn ''fe25519_neg'' Void [CPtr ''fe25519'', CPtr ''fe25519''],
      Fn ''fe25519_getparity'' (Gives (CScalar CUchar)) [CPtr ''fe25519''],
      Fn ''fe25519_add'' Void [CPtr ''fe25519'', CPtr ''fe25519'', CPtr ''fe25519''],
      Fn ''fe25519_sub'' Void [CPtr ''fe25519'', CPtr ''fe25519'', CPtr ''fe25519''],
      Fn ''fe25519_mul'' Void [CPtr ''fe25519'', CPtr ''fe25519'', CPtr ''fe25519''],
      Fn ''fe25519_square'' Void [CPtr ''fe25519'', CPtr ''fe25519''],
      Fn ''fe25519_invert'' Void [CPtr ''fe25519'', CPtr ''fe25519''],
      Fn ''fe25519_pow2523'' Void [CPtr ''fe25519'', CPtr ''fe25519'']]"

definition sc25519_functions :: "config \<Rightarrow> c_fun list" where
  "sc25519_functions cfg =
    [
      Fn ''sc25519_from32bytes'' Void [CPtr ''sc25519'', CPtr ''unsigned char''],
      Fn ''shortsc25519_from16bytes'' Void [CPtr ''shortsc25519'', CPtr ''unsigned char''],
      Fn ''sc25519_from64bytes'' Void [CPtr ''sc25519'', CPtr ''unsigned char''],
      Fn ''sc25519_from_shortsc'' Void [CPtr ''sc25519'', CPtr ''shortsc25519''],
      Fn ''sc25519_to32bytes'' Void [CPtr ''unsigned char'', CPtr ''sc25519''],
      Fn ''sc25519_iszero_vartime'' (Gives (CScalar CInt)) [CPtr ''sc25519''],
      Fn ''sc25519_isshort_vartime'' (Gives (CScalar CInt)) [CPtr ''sc25519''],
      Fn ''sc25519_lt_vartime'' (Gives (CScalar CInt)) [CPtr ''sc25519'', CPtr ''sc25519''],
      Fn ''sc25519_add'' Void [CPtr ''sc25519'', CPtr ''sc25519'', CPtr ''sc25519''],
      Fn ''sc25519_sub_nored'' Void [CPtr ''sc25519'', CPtr ''sc25519'', CPtr ''sc25519''],
      Fn ''sc25519_mul'' Void [CPtr ''sc25519'', CPtr ''sc25519'', CPtr ''sc25519''],
      Fn ''sc25519_mul_shortsc'' Void [CPtr ''sc25519'', CPtr ''sc25519'', CPtr ''shortsc25519''],
      Fn ''sc25519_window3'' Void [CPtr ''signed char'', CPtr ''sc25519''],
      Fn ''sc25519_window5'' Void [CPtr ''signed char'', CPtr ''sc25519''],
      Fn ''sc25519_2interleave2'' Void [CPtr ''unsigned char'', CPtr ''sc25519'', CPtr ''sc25519'']]"

definition bignum_functions :: "config \<Rightarrow> c_fun list" where
  "bignum_functions cfg =
    [
      Fn ''make_string_bn'' (Gives (CPtr ''BIGNUM'')) [CPtr ''ssh_string_struct''],
      Fn ''make_string_bn_inplace'' Void [CPtr ''ssh_string_struct'', CPtr ''BIGNUM''],
      Fn ''make_bignum_string'' (Gives (CPtr ''ssh_string_struct'')) [CPtr ''BIGNUM''],
      Fn ''ssh_print_bignum'' Void [CPtr ''char'', CPtr ''BIGNUM'']]"

definition crc32_functions :: "config \<Rightarrow> c_fun list" where
  "crc32_functions cfg =
    [
      Fn ''ssh_crc32'' (Gives (CScalar CUint32)) [CPtr ''char'', CScalar CUint32]]"

definition wrapper_functions :: "config \<Rightarrow> c_fun list" where
  "wrapper_functions cfg =
    [
      Fn ''md5_init'' (Gives (CPtr ''MD5_CTX'')) [],
      Fn ''md5_update'' Void [CPtr ''MD5_CTX'', CPtr ''void'', CScalar CUlong],
      Fn ''md5_final'' Void [CPtr ''unsigned char'', CPtr ''MD5_CTX''],
      Fn ''sha1_init'' (Gives (CPtr ''SHA_CTX'')) [],
      Fn ''sha1_update'' Void [CPtr ''SHA_CTX'', CPtr ''void'', CScalar CUlong],
      Fn ''sha1_final'' Void [CPtr ''unsigned char'', CPtr ''SHA_CTX''],
      Fn ''sha1'' Void [CPtr ''unsigned char'', CScalar CInt, CPtr ''unsigned char''],
      Fn ''sha256_init'' (Gives (CPtr ''SHA256_CTX'')) [],
      Fn ''sha256_update'' Void [CPtr ''SHA256_CTX'', CPtr ''void'', CScalar CUlong],
      Fn ''sha256_final'' Void [CPtr ''unsigned char'', CPtr ''SHA256_CTX''],
      Fn ''sha256'' Void [CPtr ''unsigned char'', CScalar CInt, CPtr ''unsigned char''],
      Fn ''sha384_init'' (Gives (CPtr ''SHA512_CTX'')) [],
      Fn ''sha384_update'' Void [CPtr ''SHA512_CTX'', CPtr ''void'', CScalar CUlong],
      Fn ''sha384_final'' Void [CPtr ''unsigned char'', CPtr ''SHA512_CTX''],
      Fn ''sha384'' Void [CPtr ''unsigned char'', CScalar CInt, CPtr ''unsigned char''],
      Fn ''sha512_init'' (Gives (CPtr ''SHA512_CTX'')) [],
      Fn ''sha512_update'' Void [CPtr ''SHA512_CTX'', CPtr ''void'', CScalar CUlong],
      Fn ''sha512_final'' Void [CPtr ''unsigned char'', CPtr ''SHA512_CTX''],
      Fn ''sha512'' Void [CPtr ''unsigned char'', CScalar CInt, CPtr ''unsigned char''],
      Fn ''evp'' Void [CScalar CInt, CPtr ''unsigned char'', CScalar CInt, CPtr ''unsigned char'',
          CPtr ''unsigned int''],
      Fn ''evp_init'' (Gives (CPtr ''void'')) [CScalar CInt],
      Fn ''evp_update'' Void [CPtr ''void'', CPtr ''void'', CScalar CUlong],
      Fn ''evp_final'' Void [CPtr ''void'', CPtr ''unsigned char'', CPtr ''unsigned int''],
      Fn ''ssh_mac_ctx_init'' (Gives (CPtr ''ssh_mac_ctx_struct'')) [CEnum ''ssh_mac_e''],
      Fn ''ssh_mac_update'' Void [CPtr ''ssh_mac_ctx_struct'', CPtr ''void'', CScalar CUlong],
      Fn ''ssh_mac_final'' Void [CPtr ''unsigned char'', CPtr ''ssh_mac_ctx_struct''],
      Fn ''hmac_init'' (Gives (CPtr ''HMAC_CTX'')) [CPtr ''void'', CScalar CInt, CEnum ''ssh_hmac_e''],
      Fn ''hmac_update'' Void [CPtr ''HMAC_CTX'', CPtr ''void'', CScalar CUlong],
      Fn ''hmac_final'' Void [CPtr ''HMAC_CTX'', CPtr ''unsigned char'', CPtr ''unsigned int''],
      Fn ''hmac_digest_len'' (Gives (CScalar CSize)) [CEnum ''ssh_hmac_e''],
      Fn ''crypt_set_algorithms'' (Gives (CScalar CInt)) [CPtr ''ssh_session_struct'',
          CEnum ''ssh_des_e''],
      Fn ''crypt_set_algorithms_server'' (Gives (CScalar CInt)) [CPtr ''ssh_session_struct''],
      Fn ''crypto_new'' (Gives (CPtr ''ssh_crypto_struct'')) [],
      Fn ''crypto_free'' Void [CPtr ''ssh_crypto_struct''],
      Fn ''ssh_reseed'' Void [],
      Fn ''ssh_get_hmactab'' (Gives (CPtr ''ssh_hmac_struct'')) [],
      Fn ''ssh_hmac_type_to_string'' (Gives (CPtr ''char'')) [CEnum ''ssh_hmac_e'']]"

definition libcrypto_functions :: "config \<Rightarrow> c_fun list" where
  "libcrypto_functions cfg =
    given (has cfg ''HAVE_LIBCRYPTO'') [
      Fn ''sha256_init'' (Gives (CPtr ''SHA256_CTX'')) [],
      Fn ''sha256_update'' Void [CPtr ''SHA256_CTX'', CPtr ''void'', CScalar CUlong],
      Fn ''sha256_final'' Void [CPtr ''unsigned char'', CPtr ''SHA256_CTX''],
      Fn ''sha384_init'' (Gives (CPtr ''SHA512_CTX'')) [],
      Fn ''sha384_update'' Void [CPtr ''SHA512_CTX'', CPtr ''void'', CScalar CUlong],
      Fn ''sha384_final'' Void [CPtr ''unsigned char'', CPtr ''SHA512_CTX''],
      Fn ''sha512_init'' (Gives (CPtr ''SHA512_CTX'')) [],
      Fn ''sha512_update'' Void [CPtr ''SHA512_CTX'', CPtr ''void'', CScalar CUlong],
      Fn ''sha512_final'' Void [CPtr ''unsigned char'', CPtr ''SHA512_CTX''],
      Fn ''ssh_get_ciphertab'' (Gives (CPtr ''ssh_cipher_struct'')) []]"

subsection \<open>The old names\<close>

definition legacy_functions :: "config \<Rightarrow> c_fun list" where
  "legacy_functions cfg =
    [
      Fn ''ssh_auth_list'' (Gives (CScalar CInt)) [CPtr ''ssh_session_struct''],
      Fn ''ssh_userauth_offer_pubkey'' (Gives (CScalar CInt)) [CPtr ''ssh_session_struct'',
          CPtr ''char'', CScalar CInt, CPtr ''ssh_string_struct''],
      Fn ''ssh_userauth_pubkey'' (Gives (CScalar CInt)) [CPtr ''ssh_session_struct'', CPtr ''char'',
          CPtr ''ssh_string_struct'', CPtr ''ssh_private_key_struct'']] @
    given (\<not> has cfg ''_WIN32'') [
      Fn ''ssh_userauth_agent_pubkey'' (Gives (CScalar CInt)) [CPtr ''ssh_session_struct'',
          CPtr ''char'', CPtr ''ssh_public_key_struct'']] @
    [
      Fn ''ssh_userauth_autopubkey'' (Gives (CScalar CInt)) [CPtr ''ssh_session_struct'', CPtr ''char''],
      Fn ''ssh_userauth_privatekey_file'' (Gives (CScalar CInt)) [CPtr ''ssh_session_struct'',
          CPtr ''char'', CPtr ''char'', CPtr ''char''],
      Fn ''buffer_free'' Void [CPtr ''ssh_buffer_struct''],
      Fn ''buffer_get'' (Gives (CPtr ''void'')) [CPtr ''ssh_buffer_struct''],
      Fn ''buffer_get_len'' (Gives (CScalar CUint32)) [CPtr ''ssh_buffer_struct''],
      Fn ''buffer_new'' (Gives (CPtr ''ssh_buffer_struct'')) [],
      Fn ''channel_accept_x11'' (Gives (CPtr ''ssh_channel_struct'')) [CPtr ''ssh_channel_struct'',
          CScalar CInt],
      Fn ''channel_change_pty_size'' (Gives (CScalar CInt)) [CPtr ''ssh_channel_struct'', CScalar CInt,
          CScalar CInt],
      Fn ''channel_forward_accept'' (Gives (CPtr ''ssh_channel_struct'')) [CPtr ''ssh_session_struct'',
          CScalar CInt],
      Fn ''channel_close'' (Gives (CScalar CInt)) [CPtr ''ssh_channel_struct''],
      Fn ''channel_forward_cancel'' (Gives (CScalar CInt)) [CPtr ''ssh_session_struct'', CPtr ''char'',
          CScalar CInt],
      Fn ''channel_forward_listen'' (Gives (CScalar CInt)) [CPtr ''ssh_session_struct'', CPtr ''char'',
          CScalar CInt, CPtr ''int''],
      Fn ''channel_free'' Void [CPtr ''ssh_channel_struct''],
      Fn ''channel_get_exit_status'' (Gives (CScalar CInt)) [CPtr ''ssh_channel_struct''],
      Fn ''channel_get_session'' (Gives (CPtr ''ssh_session_struct'')) [CPtr ''ssh_channel_struct''],
      Fn ''channel_is_closed'' (Gives (CScalar CInt)) [CPtr ''ssh_channel_struct''],
      Fn ''channel_is_eof'' (Gives (CScalar CInt)) [CPtr ''ssh_channel_struct''],
      Fn ''channel_is_open'' (Gives (CScalar CInt)) [CPtr ''ssh_channel_struct''],
      Fn ''channel_new'' (Gives (CPtr ''ssh_channel_struct'')) [CPtr ''ssh_session_struct''],
      Fn ''channel_open_forward'' (Gives (CScalar CInt)) [CPtr ''ssh_channel_struct'', CPtr ''char'',
          CScalar CInt, CPtr ''char'', CScalar CInt],
      Fn ''channel_open_session'' (Gives (CScalar CInt)) [CPtr ''ssh_channel_struct''],
      Fn ''channel_poll'' (Gives (CScalar CInt)) [CPtr ''ssh_channel_struct'', CScalar CInt],
      Fn ''channel_read'' (Gives (CScalar CInt)) [CPtr ''ssh_channel_struct'', CPtr ''void'',
          CScalar CUint32, CScalar CInt],
      Fn ''channel_read_buffer'' (Gives (CScalar CInt)) [CPtr ''ssh_channel_struct'',
          CPtr ''ssh_buffer_struct'', CScalar CUint32, CScalar CInt],
      Fn ''channel_read_nonblocking'' (Gives (CScalar CInt)) [CPtr ''ssh_channel_struct'',
          CPtr ''void'', CScalar CUint32, CScalar CInt],
      Fn ''channel_request_env'' (Gives (CScalar CInt)) [CPtr ''ssh_channel_struct'', CPtr ''char'',
          CPtr ''char''],
      Fn ''channel_request_exec'' (Gives (CScalar CInt)) [CPtr ''ssh_channel_struct'', CPtr ''char''],
      Fn ''channel_request_pty'' (Gives (CScalar CInt)) [CPtr ''ssh_channel_struct''],
      Fn ''channel_request_pty_size'' (Gives (CScalar CInt)) [CPtr ''ssh_channel_struct'',
          CPtr ''char'', CScalar CInt, CScalar CInt],
      Fn ''channel_request_shell'' (Gives (CScalar CInt)) [CPtr ''ssh_channel_struct''],
      Fn ''channel_request_send_signal'' (Gives (CScalar CInt)) [CPtr ''ssh_channel_struct'',
          CPtr ''char''],
      Fn ''channel_request_sftp'' (Gives (CScalar CInt)) [CPtr ''ssh_channel_struct''],
      Fn ''channel_request_subsystem'' (Gives (CScalar CInt)) [CPtr ''ssh_channel_struct'',
          CPtr ''char''],
      Fn ''channel_request_x11'' (Gives (CScalar CInt)) [CPtr ''ssh_channel_struct'', CScalar CInt,
          CPtr ''char'', CPtr ''char'', CScalar CInt],
      Fn ''channel_send_eof'' (Gives (CScalar CInt)) [CPtr ''ssh_channel_struct''],
      Fn ''channel_select'' (Gives (CScalar CInt)) [CPtr ''ssh_channel_struct*'',
          CPtr ''ssh_channel_struct*'', CPtr ''ssh_channel_struct*'', CPtr ''timeval''],
      Fn ''channel_set_blocking'' Void [CPtr ''ssh_channel_struct'', CScalar CInt],
      Fn ''channel_write'' (Gives (CScalar CInt)) [CPtr ''ssh_channel_struct'', CPtr ''void'',
          CScalar CUint32],
      Fn ''privatekey_free'' Void [CPtr ''ssh_private_key_struct''],
      Fn ''privatekey_from_file'' (Gives (CPtr ''ssh_private_key_struct'')) [CPtr ''ssh_session_struct'', CPtr ''char'', CScalar CInt, CPtr ''char''],
      Fn ''publickey_free'' Void [CPtr ''ssh_public_key_struct''],
      Fn ''ssh_publickey_to_file'' (Gives (CScalar CInt)) [CPtr ''ssh_session_struct'', CPtr ''char'',
          CPtr ''ssh_string_struct'', CScalar CInt],
      Fn ''publickey_from_file'' (Gives (CPtr ''ssh_string_struct'')) [CPtr ''ssh_session_struct'',
          CPtr ''char'', CPtr ''int''],
      Fn ''publickey_from_privatekey'' (Gives (CPtr ''ssh_public_key_struct'')) [CPtr ''ssh_private_key_struct''],
      Fn ''publickey_to_string'' (Gives (CPtr ''ssh_string_struct'')) [CPtr ''ssh_public_key_struct''],
      Fn ''ssh_try_publickey_from_file'' (Gives (CScalar CInt)) [CPtr ''ssh_session_struct'',
          CPtr ''char'', CPtr ''ssh_string_struct*'', CPtr ''int''],
      Fn ''ssh_privatekey_type'' (Gives (CEnum ''ssh_keytypes_e'')) [CPtr ''ssh_private_key_struct''],
      Fn ''ssh_get_pubkey'' (Gives (CPtr ''ssh_string_struct'')) [CPtr ''ssh_session_struct''],
      Fn ''ssh_message_retrieve'' (Gives (CPtr ''ssh_message_struct'')) [CPtr ''ssh_session_struct'',
          CScalar CUint32],
      Fn ''ssh_message_auth_publickey'' (Gives (CPtr ''ssh_public_key_struct'')) [CPtr ''ssh_message_struct''],
      Fn ''string_burn'' Void [CPtr ''ssh_string_struct''],
      Fn ''string_copy'' (Gives (CPtr ''ssh_string_struct'')) [CPtr ''ssh_string_struct''],
      Fn ''string_data'' (Gives (CPtr ''void'')) [CPtr ''ssh_string_struct''],
      Fn ''string_fill'' (Gives (CScalar CInt)) [CPtr ''ssh_string_struct'', CPtr ''void'',
          CScalar CSize],
      Fn ''string_free'' Void [CPtr ''ssh_string_struct''],
      Fn ''string_from_char'' (Gives (CPtr ''ssh_string_struct'')) [CPtr ''char''],
      Fn ''string_len'' (Gives (CScalar CSize)) [CPtr ''ssh_string_struct''],
      Fn ''string_new'' (Gives (CPtr ''ssh_string_struct'')) [CScalar CSize],
      Fn ''string_to_char'' (Gives (CPtr ''char'')) [CPtr ''ssh_string_struct'']]"

end
