(* ===== verification/Sftp_Functions.thy ===== *)
theory Sftp_Functions
  imports Libssh_Functions
begin

text \<open>
  The functions of \<open>include/libssh/sftp.h\<close>, for any configuration: result, parameters
  and how the comment of a function says that it failed. It shows for which of them a
  caller cannot see what the comment promises.
\<close>

text \<open>
  What a comment says a failed call returns: \<open>NULL\<close>, a value below zero, zero, one of
  \<open>SSH_ERROR\<close> and \<open>SSH_AGAIN\<close>; \<open>Not_mentioned\<close> if it says what is returned and nothing of
  failures, \<open>No_comment\<close> if it says nothing of the result. \<open>sftp_readdir\<close> returns \<open>NULL\<close> at the end.
\<close>

datatype failure = Null | Negative | Zero | Error_code | Not_mentioned | No_comment

text \<open>Sessions and extensions.\<close>

definition sftp_session_functions :: "config \<Rightarrow> (c_fun \<times> failure) list" where
  "sftp_session_functions cfg =
    [
      (Fn ''sftp_new'' (Gives (CPtr ''sftp_session_struct'')) [CPtr ''ssh_session_struct''], Null),
      (Fn ''sftp_new_channel'' (Gives (CPtr ''sftp_session_struct'')) [CPtr ''ssh_session_struct'',
          CPtr ''ssh_channel_struct''], Null),
      (Fn ''sftp_free'' Void [CPtr ''sftp_session_struct''], No_comment),
      (Fn ''sftp_init'' (Gives (CScalar CInt)) [CPtr ''sftp_session_struct''], Negative),
      (Fn ''sftp_get_error'' (Gives (CScalar CInt)) [CPtr ''sftp_session_struct''], Negative),
      (Fn ''sftp_extensions_get_count'' (Gives (CScalar CUint)) [CPtr ''sftp_session_struct''], Zero),
      (Fn ''sftp_extensions_get_name'' (Gives (CPtr ''char'')) [CPtr ''sftp_session_struct'',
          CScalar CUint], Not_mentioned),
      (Fn ''sftp_extensions_get_data'' (Gives (CPtr ''char'')) [CPtr ''sftp_session_struct'',
          CScalar CUint], Not_mentioned),
      (Fn ''sftp_extension_supported'' (Gives (CScalar CInt)) [CPtr ''sftp_session_struct'',
          CPtr ''char'', CPtr ''char''], Not_mentioned)]"

text \<open>Directories and attributes.\<close>

definition sftp_dir_functions :: "config \<Rightarrow> (c_fun \<times> failure) list" where
  "sftp_dir_functions cfg =
    [
      (Fn ''sftp_opendir'' (Gives (CPtr ''sftp_dir_struct'')) [CPtr ''sftp_session_struct'',
          CPtr ''char''], Null),
      (Fn ''sftp_readdir'' (Gives (CPtr ''sftp_attributes_struct'')) [CPtr ''sftp_session_struct'',
          CPtr ''sftp_dir_struct''], Null),
      (Fn ''sftp_dir_eof'' (Gives (CScalar CInt)) [CPtr ''sftp_dir_struct''], Not_mentioned),
      (Fn ''sftp_stat'' (Gives (CPtr ''sftp_attributes_struct'')) [CPtr ''sftp_session_struct'',
          CPtr ''char''], Null),
      (Fn ''sftp_lstat'' (Gives (CPtr ''sftp_attributes_struct'')) [CPtr ''sftp_session_struct'',
          CPtr ''char''], Null),
      (Fn ''sftp_fstat'' (Gives (CPtr ''sftp_attributes_struct'')) [CPtr ''sftp_file_struct''], Null),
      (Fn ''sftp_attributes_free'' Void [CPtr ''sftp_attributes_struct''], No_comment),
      (Fn ''sftp_closedir'' (Gives (CScalar CInt)) [CPtr ''sftp_dir_struct''], Error_code),
      (Fn ''sftp_close'' (Gives (CScalar CInt)) [CPtr ''sftp_file_struct''], Error_code)]"

text \<open>Opening and reading files.\<close>

definition sftp_file_functions :: "config \<Rightarrow> (c_fun \<times> failure) list" where
  "sftp_file_functions cfg =
    [
      (Fn ''sftp_open'' (Gives (CPtr ''sftp_file_struct'')) [CPtr ''sftp_session_struct'',
          CPtr ''char'', CScalar CInt, CScalar CUint32], Null),
      (Fn ''sftp_file_set_nonblocking'' Void [CPtr ''sftp_file_struct''], No_comment),
      (Fn ''sftp_file_set_blocking'' Void [CPtr ''sftp_file_struct''], No_comment),
      (Fn ''sftp_read'' (Gives (CScalar CSsize)) [CPtr ''sftp_file_struct'', CPtr ''void'',
          CScalar CSize], Negative),
      (Fn ''sftp_async_read_begin'' (Gives (CScalar CInt)) [CPtr ''sftp_file_struct'',
          CScalar CUint32], Negative),
      (Fn ''sftp_async_read'' (Gives (CScalar CInt)) [CPtr ''sftp_file_struct'', CPtr ''void'',
          CScalar CUint32, CScalar CUint32], Error_code)]"

text \<open>Writing and positions.\<close>

definition sftp_position_functions :: "config \<Rightarrow> (c_fun \<times> failure) list" where
  "sftp_position_functions cfg =
    [
      (Fn ''sftp_write'' (Gives (CScalar CSsize)) [CPtr ''sftp_file_struct'', CPtr ''void'',
          CScalar CSize], Negative),
      (Fn ''sftp_seek'' (Gives (CScalar CInt)) [CPtr ''sftp_file_struct'', CScalar CUint32], Negative),
      (Fn ''sftp_seek64'' (Gives (CScalar CInt)) [CPtr ''sftp_file_struct'', CScalar CUint64], Negative),
      (Fn ''sftp_tell'' (Gives (CScalar CUlong)) [CPtr ''sftp_file_struct''], Negative),
      (Fn ''sftp_tell64'' (Gives (CScalar CUint64)) [CPtr ''sftp_file_struct''], Negative),
      (Fn ''sftp_rewind'' Void [CPtr ''sftp_file_struct''], No_comment)]"

text \<open>Changes to files.\<close>

definition sftp_change_functions :: "config \<Rightarrow> (c_fun \<times> failure) list" where
  "sftp_change_functions cfg =
    [
      (Fn ''sftp_unlink'' (Gives (CScalar CInt)) [CPtr ''sftp_session_struct'', CPtr ''char''], Negative),
      (Fn ''sftp_rmdir'' (Gives (CScalar CInt)) [CPtr ''sftp_session_struct'', CPtr ''char''], Negative),
      (Fn ''sftp_mkdir'' (Gives (CScalar CInt)) [CPtr ''sftp_session_struct'', CPtr ''char'',
          CScalar CUint32], Negative),
      (Fn ''sftp_rename'' (Gives (CScalar CInt)) [CPtr ''sftp_session_struct'', CPtr ''char'',
          CPtr ''char''], Negative),
      (Fn ''sftp_setstat'' (Gives (CScalar CInt)) [CPtr ''sftp_session_struct'', CPtr ''char'',
          CPtr ''sftp_attributes_struct''], Negative),
      (Fn ''sftp_chown'' (Gives (CScalar CInt)) [CPtr ''sftp_session_struct'', CPtr ''char'',
          CScalar CUint32, CScalar CUint32], Negative),
      (Fn ''sftp_chmod'' (Gives (CScalar CInt)) [CPtr ''sftp_session_struct'', CPtr ''char'',
          CScalar CUint32], Negative),
      (Fn ''sftp_utimes'' (Gives (CScalar CInt)) [CPtr ''sftp_session_struct'', CPtr ''char'',
          CPtr ''timeval''], Negative)]"

text \<open>Links, file systems and paths.\<close>

definition sftp_path_functions :: "config \<Rightarrow> (c_fun \<times> failure) list" where
  "sftp_path_functions cfg =
    [
      (Fn ''sftp_symlink'' (Gives (CScalar CInt)) [CPtr ''sftp_session_struct'', CPtr ''char'',
          CPtr ''char''], Negative),
      (Fn ''sftp_readlink'' (Gives (CPtr ''char'')) [CPtr ''sftp_session_struct'', CPtr ''char''], Null),
      (Fn ''sftp_statvfs'' (Gives (CPtr ''sftp_statvfs_struct'')) [CPtr ''sftp_session_struct'',
          CPtr ''char''], Null),
      (Fn ''sftp_fstatvfs'' (Gives (CPtr ''sftp_statvfs_struct'')) [CPtr ''sftp_file_struct''], Null),
      (Fn ''sftp_statvfs_free'' Void [CPtr ''sftp_statvfs_struct''], No_comment),
      (Fn ''sftp_canonicalize_path'' (Gives (CPtr ''char'')) [CPtr ''sftp_session_struct'',
          CPtr ''char''], Null),
      (Fn ''sftp_server_version'' (Gives (CScalar CInt)) [CPtr ''sftp_session_struct''], Not_mentioned)]"

text \<open>Servers.\<close>

definition sftp_server_functions :: "config \<Rightarrow> (c_fun \<times> failure) list" where
  "sftp_server_functions cfg =
    given (has cfg ''WITH_SERVER'') [
      (Fn ''sftp_server_new'' (Gives (CPtr ''sftp_session_struct'')) [CPtr ''ssh_session_struct'',
          CPtr ''ssh_channel_struct''], Not_mentioned),
      (Fn ''sftp_server_init'' (Gives (CScalar CInt)) [CPtr ''sftp_session_struct''], Negative)] @
    [
      (Fn ''sftp_packet_read'' (Gives (CPtr ''sftp_packet_struct'')) [CPtr ''sftp_session_struct''],
          No_comment),
      (Fn ''sftp_packet_write'' (Gives (CScalar CInt)) [CPtr ''sftp_session_struct'', CScalar CUint8,
          CPtr ''ssh_buffer_struct''], No_comment),
      (Fn ''sftp_packet_free'' Void [CPtr ''sftp_packet_struct''], No_comment),
      (Fn ''buffer_add_attributes'' (Gives (CScalar CInt)) [CPtr ''ssh_buffer_struct'',
          CPtr ''sftp_attributes_struct''], No_comment),
      (Fn ''sftp_parse_attr'' (Gives (CPtr ''sftp_attributes_struct'')) [CPtr ''sftp_session_struct'',
          CPtr ''ssh_buffer_struct'', CScalar CInt], No_comment),
      (Fn ''sftp_get_client_message'' (Gives (CPtr ''sftp_client_message_struct'')) [CPtr ''sftp_session_struct''], No_comment),
      (Fn ''sftp_client_message_free'' Void [CPtr ''sftp_client_message_struct''], No_comment),
      (Fn ''sftp_client_message_get_type'' (Gives (CScalar CUint8)) [CPtr ''sftp_client_message_struct''], No_comment),
      (Fn ''sftp_client_message_get_filename'' (Gives (CPtr ''char'')) [CPtr ''sftp_client_message_struct''], No_comment),
      (Fn ''sftp_client_message_set_filename'' Void [CPtr ''sftp_client_message_struct'',
          CPtr ''char''], No_comment),
      (Fn ''sftp_client_message_get_data'' (Gives (CPtr ''char'')) [CPtr ''sftp_client_message_struct''], No_comment),
      (Fn ''sftp_client_message_get_flags'' (Gives (CScalar CUint32)) [CPtr ''sftp_client_message_struct''], No_comment),
      (Fn ''sftp_send_client_message'' (Gives (CScalar CInt)) [CPtr ''sftp_session_struct'',
          CPtr ''sftp_client_message_struct''], No_comment),
      (Fn ''sftp_reply_name'' (Gives (CScalar CInt)) [CPtr ''sftp_client_message_struct'',
          CPtr ''char'', CPtr ''sftp_attributes_struct''], No_comment),
      (Fn ''sftp_reply_handle'' (Gives (CScalar CInt)) [CPtr ''sftp_client_message_struct'',
          CPtr ''ssh_string_struct''], No_comment),
      (Fn ''sftp_handle_alloc'' (Gives (CPtr ''ssh_string_struct'')) [CPtr ''sftp_session_struct'',
          CPtr ''void''], No_comment),
      (Fn ''sftp_reply_attr'' (Gives (CScalar CInt)) [CPtr ''sftp_client_message_struct'',
          CPtr ''sftp_attributes_struct''], No_comment),
      (Fn ''sftp_handle'' (Gives (CPtr ''void'')) [CPtr ''sftp_session_struct'',
          CPtr ''ssh_string_struct''], No_comment),
      (Fn ''sftp_reply_status'' (Gives (CScalar CInt)) [CPtr ''sftp_client_message_struct'',
          CScalar CUint32, CPtr ''char''], No_comment),
      (Fn ''sftp_reply_names_add'' (Gives (CScalar CInt)) [CPtr ''sftp_client_message_struct'',
          CPtr ''char'', CPtr ''char'', CPtr ''sftp_attributes_struct''], No_comment),
      (Fn ''sftp_reply_names'' (Gives (CScalar CInt)) [CPtr ''sftp_client_message_struct''], No_comment),
      (Fn ''sftp_reply_data'' (Gives (CScalar CInt)) [CPtr ''sftp_client_message_struct'',
          CPtr ''void'', CScalar CInt], No_comment),
      (Fn ''sftp_handle_remove'' Void [CPtr ''sftp_session_struct'', CPtr ''void''], No_comment)]"

definition sftp_functions :: "config \<Rightarrow> (c_fun \<times> failure) list" where
  "sftp_functions cfg = sftp_session_functions cfg @ sftp_dir_functions cfg @ sftp_file_functions cfg @
     sftp_position_functions cfg @ sftp_change_functions cfg @ sftp_path_functions cfg @ sftp_server_functions cfg"

text \<open>The smallest value of a scalar type, and whether a result can be what a comment says.\<close>

definition scalar_min :: "c_scalar \<Rightarrow> int" where
  "scalar_min s = (if signed_scalar s then - (2 ^ (8 * scalar_size s - 1)) else 0)"

fun expressible :: "c_result \<Rightarrow> failure \<Rightarrow> bool" where
  "expressible r Not_mentioned \<longleftrightarrow> True"
| "expressible r No_comment \<longleftrightarrow> True"
| "expressible (Gives (CPtr _)) Null \<longleftrightarrow> True"
| "expressible (Gives (CScalar s)) Negative \<longleftrightarrow> scalar_min s < 0"
| "expressible (Gives (CScalar s)) Error_code \<longleftrightarrow> scalar_min s < 0"
| "expressible (Gives (CScalar s)) Zero \<longleftrightarrow> True"
| "expressible _ _ \<longleftrightarrow> False"


end
