(* ===== verification/Poll_Flags.thy ===== *)
theory Poll_Flags
  imports Enum_Tables Libssh_Codes
begin

text \<open>
  The event flags of libssh's emulation of \<open>poll\<close> (\<open>include/libssh/poll.h\<close>), used where
  the system has no \<open>poll\<close>: on Unix each flag is a bit of its own; on Windows \<open>POLLIN\<close> and
  \<open>POLLOUT\<close> are made of the flags of \<open>WSAPoll\<close>.
\<close>

datatype (plugins only: code size) poll_flag =
    Poll_IN | Poll_PRI | Poll_OUT | Poll_ERR | Poll_HUP | Poll_NVAL | Poll_RDNORM | Poll_RDBAND | Poll_WRNORM | Poll_WRBAND

definition poll_flags :: "poll_flag enum_table" where
  [enum_tables]: "poll_flags =
    [(Poll_IN, Some 0x001), (Poll_PRI, Some 0x002), (Poll_OUT, Some 0x004), (Poll_ERR, Some 0x008),
     (Poll_HUP, Some 0x010), (Poll_NVAL, Some 0x020), (Poll_RDNORM, Some 0x040), (Poll_RDBAND, Some 0x080),
     (Poll_WRNORM, Some 0x100), (Poll_WRBAND, Some 0x200)]"

interpretation poll_bits: bit_flags poll_flags
  by (rule bit_flagsI, rename_tac a, case_tac a) (simp_all add: enum_tables)

text \<open>The flag the gateway waits for has the value the emulation gives it.\<close>

lemma POLLIN_emulated: "enum_code poll_flags Poll_IN = POLLIN"
  by (simp add: enum_tables enum_code_def POLLIN_def)

text \<open>On Windows: the flags of \<open>WSAPoll\<close> have bits of their own, the others are made of them.\<close>

datatype (plugins only: code size) wsa_flag = Wsa_RDNORM | Wsa_RDBAND | Wsa_PRI | Wsa_WRNORM | Wsa_WRBAND | Wsa_ERR | Wsa_HUP | Wsa_NVAL

definition wsa_flags :: "wsa_flag enum_table" where
  [enum_tables]: "wsa_flags =
    [(Wsa_RDNORM, Some 0x0100), (Wsa_RDBAND, Some 0x0200), (Wsa_PRI, Some 0x0400), (Wsa_WRNORM, Some 0x0010),
     (Wsa_WRBAND, Some 0x0020), (Wsa_ERR, Some 0x0001), (Wsa_HUP, Some 0x0002), (Wsa_NVAL, Some 0x0004)]"

interpretation wsa_bits: bit_flags wsa_flags
  by (rule bit_flagsI, rename_tac a, case_tac a) (simp_all add: enum_tables)

fun wsa_parts :: "poll_flag \<Rightarrow> wsa_flag list" where
  "wsa_parts Poll_IN = [Wsa_RDNORM, Wsa_RDBAND]"
| "wsa_parts Poll_PRI = [Wsa_PRI]"
| "wsa_parts Poll_OUT = [Wsa_WRNORM]"
| "wsa_parts Poll_ERR = [Wsa_ERR]"
| "wsa_parts Poll_HUP = [Wsa_HUP]"
| "wsa_parts Poll_NVAL = [Wsa_NVAL]"
| "wsa_parts Poll_RDNORM = [Wsa_RDNORM]"
| "wsa_parts Poll_RDBAND = [Wsa_RDBAND]"
| "wsa_parts Poll_WRNORM = [Wsa_WRNORM]"
| "wsa_parts Poll_WRBAND = [Wsa_WRBAND]"

definition wsa_code :: "poll_flag \<Rightarrow> int" where
  "wsa_code f = fold (\<lambda>g m. or m (enum_code wsa_flags g)) (wsa_parts f) 0"

text \<open>
  On Unix the answer to a wait for input is told apart from every other event; on
  Windows \<open>POLLIN\<close> also holds for normal and for urgent data, and for nothing else.
\<close>

lemma wsa_input: "and (wsa_code Poll_IN) (wsa_code f) \<noteq> 0 \<longleftrightarrow> f \<in> {Poll_IN, Poll_RDNORM, Poll_RDBAND}"
  by (cases f) (simp_all add: wsa_code_def enum_code_def enum_tables)

end
