(* ===== verification/Platform_Macros.thy ===== *)
theory Platform_Macros
  imports Build_Config
begin

text \<open>
  The part of \<open>include/libssh/priv.h\<close> that stands in for what a platform lacks: which
  function a name is renamed to, or that the header does not compile, for every
  configuration. The macros that a compiler defines (\<open>_WIN32\<close>, \<open>_MSC_VER\<close>) are switches
  of the configuration as well.
\<close>

text \<open>What the preprocessor does with a name.\<close>

datatype renaming =
  Left_alone
| Renamed string
| Truncating string
| Not_compiled string

definition strtoull :: "config \<Rightarrow> renaming" where
  "strtoull cfg =
     (if has cfg ''HAVE_STRTOULL'' then Left_alone
      else if has cfg ''HAVE___STRTOULL'' then Renamed ''__strtoull''
      else if has cfg ''HAVE__STRTOUI64'' then Renamed ''_strtoui64''
      else if has cfg ''__hpux'' \<and> has cfg ''__LP64__'' then Renamed ''strtoul''
      else Not_compiled ''no strtoull function found'')"

subsection \<open>Formats of integers\<close>

text \<open>The text of a format, \<open>None\<close> where the header leaves the name as it is.\<close>

definition PRIdS_win32 :: "config \<Rightarrow> string option" where
  "PRIdS_win32 cfg = (if has cfg ''PRIdS'' then None else Some ''Id'')"

definition PRIu64_win32 :: "config \<Rightarrow> nat \<Rightarrow> string option" where
  "PRIu64_win32 cfg wordsize =
     (if has cfg ''PRIu64'' then None else if wordsize = 64 then Some ''lu'' else Some ''llu'')"

definition PRIdS :: "config \<Rightarrow> string option" where
  "PRIdS cfg = (if has cfg ''_WIN32'' then PRIdS_win32 cfg else Some ''zd'')"

subsection \<open>Microsoft's compiler\<close>

definition msc :: "config \<Rightarrow> bool" where
  "msc cfg \<longleftrightarrow> has cfg ''_WIN32'' \<and> has cfg ''_MSC_VER''"

definition msc_names :: "(string \<times> string) list" where
  "msc_names = [(''inline'', ''__inline''), (''strcasecmp'', ''_stricmp''), (''strncasecmp'', ''_strnicmp''),
     (''strtok_r'', ''strtok_s'')]"

definition isblank_macro :: "char \<Rightarrow> bool" where
  "isblank_macro ch \<longleftrightarrow> ch = CHR '' '' \<or> ch = CHR 0x09 \<or> ch = CHR 0x0A \<or> ch = CHR 0x0D"

text \<open>The milliseconds that \<open>usleep(X)\<close> passes to \<open>Sleep\<close>.\<close>

definition usleep_macro :: "nat \<Rightarrow> nat" where
  "usleep_macro x = (x + 1000) div 1000"

definition snprintf_renamed :: "config \<Rightarrow> renaming" where
  "snprintf_renamed cfg =
     (if has cfg ''HAVE__SNPRINTF_S'' then Truncating ''_snprintf_s''
      else if has cfg ''HAVE__SNPRINTF'' then Renamed ''_snprintf''
      else if \<not> has cfg ''HAVE_SNPRINTF'' then Not_compiled ''no snprintf compatible function found''
      else Left_alone)"

definition vsnprintf_renamed :: "config \<Rightarrow> renaming" where
  "vsnprintf_renamed cfg =
     (if has cfg ''HAVE__VSNPRINTF_S'' then Truncating ''_vsnprintf_s''
      else if has cfg ''HAVE__VSNPRINTF'' then Renamed ''_vsnprintf''
      else if \<not> has cfg ''HAVE_VSNPRINTF'' then Not_compiled ''No vsnprintf compatible function found''
      else Left_alone)"

subsection \<open>The compiler's extensions\<close>

text \<open>The storage class of a variable of a thread, empty where the compiler has none.\<close>

definition LIBSSH_THREAD :: "config \<Rightarrow> string" where
  "LIBSSH_THREAD cfg =
     (if has cfg ''HAVE_GCC_THREAD_LOCAL_STORAGE'' then ''__thread''
      else if has cfg ''HAVE_MSC_THREAD_LOCAL_STORAGE'' then ''__declspec(thread)''
      else [])"

text \<open>The name that \<open>__FUNCTION__\<close> is replaced with.\<close>

definition FUNCTION_macro :: "config \<Rightarrow> renaming" where
  "FUNCTION_macro cfg =
     (if \<not> has cfg ''__FUNCTION__'' \<and> has cfg ''__SUNPRO_C'' then Renamed ''__func__'' else Left_alone)"

subsection \<open>What is shown\<close>

fun compiles :: "renaming \<Rightarrow> bool" where
  "compiles (Not_compiled _) \<longleftrightarrow> False"
| "compiles _ \<longleftrightarrow> True"

text \<open>The renamings a configuration reads, and when the header compiles with it.\<close>

definition platform_renamings :: "config \<Rightarrow> renaming list" where
  "platform_renamings cfg = strtoull cfg # given (msc cfg) [snprintf_renamed cfg, vsnprintf_renamed cfg]"

definition header_compiles :: "config \<Rightarrow> bool" where
  "header_compiles cfg \<longleftrightarrow> list_all compiles (platform_renamings cfg)"

lemma compiles_strtoull:
  "compiles (strtoull cfg) \<longleftrightarrow>
     has cfg ''HAVE_STRTOULL'' \<or> has cfg ''HAVE___STRTOULL'' \<or> has cfg ''HAVE__STRTOUI64'' \<or>
     has cfg ''__hpux'' \<and> has cfg ''__LP64__''"
  by (simp add: strtoull_def)

lemma compiles_snprintf:
  "compiles (snprintf_renamed cfg) \<longleftrightarrow>
     has cfg ''HAVE__SNPRINTF_S'' \<or> has cfg ''HAVE__SNPRINTF'' \<or> has cfg ''HAVE_SNPRINTF''"
  "compiles (vsnprintf_renamed cfg) \<longleftrightarrow>
     has cfg ''HAVE__VSNPRINTF_S'' \<or> has cfg ''HAVE__VSNPRINTF'' \<or> has cfg ''HAVE_VSNPRINTF''"
  by (simp_all add: snprintf_renamed_def vsnprintf_renamed_def)

lemma header_compiles_iff:
  "header_compiles cfg \<longleftrightarrow>
     (has cfg ''HAVE_STRTOULL'' \<or> has cfg ''HAVE___STRTOULL'' \<or> has cfg ''HAVE__STRTOUI64'' \<or>
        has cfg ''__hpux'' \<and> has cfg ''__LP64__'') \<and>
     (msc cfg \<longrightarrow>
        (has cfg ''HAVE__SNPRINTF_S'' \<or> has cfg ''HAVE__SNPRINTF'' \<or> has cfg ''HAVE_SNPRINTF'') \<and>
        (has cfg ''HAVE__VSNPRINTF_S'' \<or> has cfg ''HAVE__VSNPRINTF'' \<or> has cfg ''HAVE_VSNPRINTF''))"
proof -
  have "header_compiles cfg \<longleftrightarrow> compiles (strtoull cfg) \<and>
      (msc cfg \<longrightarrow> compiles (snprintf_renamed cfg) \<and> compiles (vsnprintf_renamed cfg))"
    by (simp add: header_compiles_def platform_renamings_def given_def)
  then show ?thesis
    unfolding compiles_strtoull compiles_snprintf .
qed

text \<open>The configuration of \<open>config.h\<close> renames nothing, and has threads' own variables.\<close>

lemma config_h_platform:
  "platform_renamings config_h = [Left_alone] \<and> LIBSSH_THREAD config_h = ''__thread'' \<and> PRIdS config_h = Some ''zd''"
  by (simp add: platform_renamings_def strtoull_def msc_def given_def LIBSSH_THREAD_def PRIdS_def has_def config_h_def
      config_headers_def config_functions_def config_libraries_def)

text \<open>
  \<open>usleep\<close> never sleeps less than it was asked to, and up to a millisecond more; it
  sleeps the longer millisecond exactly where rounding up would not have needed it.
\<close>

lemma usleep_rest: "1000 * usleep_macro x + x mod 1000 = x + 1000"
  using mult_div_mod_eq [of 1000 x] div_add_self2 [of 1000 x] by (simp add: usleep_macro_def)

lemma usleep_bounds: "x < 1000 * usleep_macro x \<and> 1000 * usleep_macro x \<le> x + 1000"
  using usleep_rest [of x] mod_less_divisor [of 1000 x] by linarith

lemma usleep_not_ceiling: "1000 * usleep_macro x = x + 1000 \<longleftrightarrow> 1000 dvd x"
  using usleep_rest [of x] by (auto simp: dvd_eq_mod_eq_0)

text \<open>
  C's \<open>isblank\<close> holds for the space and the tab only; the replacement takes the ends of
  lines for blanks too.
\<close>

definition isblank_c :: "char \<Rightarrow> bool" where
  "isblank_c ch \<longleftrightarrow> ch = CHR '' '' \<or> ch = CHR 0x09"

lemma isblank_differs: "isblank_macro ch \<noteq> isblank_c ch \<longleftrightarrow> ch = CHR 0x0A \<or> ch = CHR 0x0D"
  by (auto simp: isblank_macro_def isblank_c_def)

end
